(* ===== verification/Prelude.thy ===== *)
theory Prelude
  imports Main "HOL-Library.Word" "HOL-Library.Sublist" "HOL-Library.List_Lexorder"
    "HOL-Library.Char_ord"
begin

text \<open>
  Shared vocabulary of the development: the result type and its combinators (Rust's
  \<open>Result\<close>, \<open>?\<close>, \<open>ok_or\<close>, \<open>map_err\<close>, \<open>collect\<close>), the names for machine types, decimal and
  octal rendering and parsing, and the generic lemmas on lists and options that several
  components use. A fallible Rust function returns a value of a sum type, \<open>Inl\<close> for \<open>Err\<close>
  and \<open>Inr\<close> for \<open>Ok\<close>; a function that may panic returns an option, \<open>None\<close> for the panic.
\<close>

named_theorems result_simps \<open>how results are taken apart\<close>
named_theorems str_simps \<open>facts on string primitives\<close>

type_synonym u8 = "8 word"
type_synonym u16 = "16 word"
type_synonym u64 = "64 word"

section \<open>Results\<close>

text \<open>The \<open>?\<close> operator: go on with the value, or return the error.\<close>

fun and_then :: "'e + 'a \<Rightarrow> ('a \<Rightarrow> 'e + 'b) \<Rightarrow> 'e + 'b" where
  "and_then (Inl e) f = Inl e"
| "and_then (Inr a) f = f a"

fun map_err :: "('e \<Rightarrow> 'f) \<Rightarrow> 'e + 'a \<Rightarrow> 'f + 'a" where
  "map_err f (Inl e) = Inl (f e)"
| "map_err f (Inr a) = Inr a"

fun map_ok :: "('a \<Rightarrow> 'b) \<Rightarrow> 'e + 'a \<Rightarrow> 'e + 'b" where
  "map_ok f (Inl e) = Inl e"
| "map_ok f (Inr a) = Inr (f a)"

fun ok_or :: "'e \<Rightarrow> 'a option \<Rightarrow> 'e + 'a" where
  "ok_or e None = Inl e"
| "ok_or e (Some a) = Inr a"

fun ok :: "'e + 'a \<Rightarrow> 'a option" where
  "ok (Inl e) = None"
| "ok (Inr a) = Some a"

fun is_ok :: "'e + 'a \<Rightarrow> bool" where
  "is_ok (Inl e) = False"
| "is_ok (Inr a) = True"

text \<open>\<open>iter.map(f).collect::<Result<Vec<_>, _>>()\<close>: stops at the first error.\<close>

fun collect_results :: "('a \<Rightarrow> 'e + 'b) \<Rightarrow> 'a list \<Rightarrow> 'e + 'b list" where
  "collect_results f [] = Inr []"
| "collect_results f (x # xs) =
     and_then (f x) (\<lambda>y. and_then (collect_results f xs) (\<lambda>ys. Inr (y # ys)))"

definition unwrap_or :: "'a \<Rightarrow> 'a option \<Rightarrow> 'a" where
  "unwrap_or d x = (case x of None \<Rightarrow> d | Some a \<Rightarrow> a)"

definition filter_opt :: "('a \<Rightarrow> bool) \<Rightarrow> 'a option \<Rightarrow> 'a option" where
  "filter_opt p x = (case x of None \<Rightarrow> None | Some a \<Rightarrow> if p a then Some a else None)"

lemma unwrap_or_simps [simp]: "unwrap_or d None = d" "unwrap_or d (Some a) = a"
  by (simp_all add: unwrap_or_def)

lemma filter_opt_simps [simp]:
  "filter_opt p None = None"
  "filter_opt p (Some a) = (if p a then Some a else None)"
  by (simp_all add: filter_opt_def)

lemma filter_opt_eq_Some [result_simps]: "filter_opt p x = Some a \<longleftrightarrow> x = Some a \<and> p a"
  by (cases x) auto

lemma and_then_eq_Inr [result_simps]:
  "and_then r f = Inr b \<longleftrightarrow> (\<exists>a. r = Inr a \<and> f a = Inr b)"
  by (cases r) auto

lemma and_then_eq_Inl [result_simps]:
  "and_then r f = Inl e \<longleftrightarrow> r = Inl e \<or> (\<exists>a. r = Inr a \<and> f a = Inl e)"
  by (cases r) auto

lemma map_err_eq_Inr [result_simps]: "map_err f r = Inr a \<longleftrightarrow> r = Inr a"
  by (cases r) auto

lemma map_err_eq_Inl [result_simps]: "map_err f r = Inl e \<longleftrightarrow> (\<exists>d. r = Inl d \<and> e = f d)"
  by (cases r) auto

lemma map_ok_eq_Inr [result_simps]: "map_ok f r = Inr b \<longleftrightarrow> (\<exists>a. r = Inr a \<and> b = f a)"
  by (cases r) auto

lemma ok_or_eq_Inr [result_simps]: "ok_or e x = Inr a \<longleftrightarrow> x = Some a"
  by (cases x) auto

lemma ok_or_eq_Inl [result_simps]: "ok_or e x = Inl d \<longleftrightarrow> x = None \<and> d = e"
  by (cases x) auto

lemma ok_eq_Some [result_simps]: "ok r = Some a \<longleftrightarrow> r = Inr a"
  by (cases r) auto

lemma collect_results_length:
  "collect_results f xs = Inr ys \<Longrightarrow> length ys = length xs"
  by (induction xs arbitrary: ys) (auto simp: result_simps)

lemma collect_results_eq_Inr:
  "collect_results f xs = Inr ys \<longleftrightarrow> list_all2 (\<lambda>x y. f x = Inr y) xs ys"
  by (induction xs arbitrary: ys) (auto simp: result_simps list_all2_Cons1)

lemma collect_results_Inr_iff:
  "(\<exists>ys. collect_results f xs = Inr ys) \<longleftrightarrow> (\<forall>x\<in>set xs. \<exists>y. f x = Inr y)"
  by (induction xs) (auto simp: result_simps)

section \<open>Machine integers\<close>

definition u64_max :: nat where
  "u64_max = 2 ^ 64 - 1"

definition sat_add :: "nat \<Rightarrow> nat \<Rightarrow> nat" where
  \<comment> \<open>\<open>u64::saturating_add\<close> on values read as naturals\<close>
  "sat_add a b = min (a + b) u64_max"

lemma sat_add_le: "sat_add a b \<le> a + b" "sat_add a b \<le> u64_max"
  by (simp_all add: sat_add_def)

lemma sat_add_ge: "a \<le> u64_max \<Longrightarrow> a \<le> sat_add a b"
  by (simp add: sat_add_def)

definition clamp :: "int \<Rightarrow> int \<Rightarrow> int \<Rightarrow> int" where
  "clamp lo hi v = (if v < lo then lo else if v > hi then hi else v)"

lemma clamp_bounds: "lo \<le> hi \<Longrightarrow> lo \<le> clamp lo hi v \<and> clamp lo hi v \<le> hi"
  by (simp add: clamp_def)

section \<open>Digits\<close>

text \<open>Rendering and parsing of unsigned numbers, in decimal and in another radix.\<close>

definition digit_char :: "nat \<Rightarrow> char" where
  "digit_char d = (if d < 10 then char_of (48 + d) else char_of (87 + d))"

function radix_digits :: "nat \<Rightarrow> nat \<Rightarrow> string" where
  "radix_digits b n =
     (if b < 2 \<or> n < b then [digit_char n]
      else radix_digits b (n div b) @ [digit_char (n mod b)])"
  by pat_completeness auto
termination
  by (relation "measure (\<lambda>(b, n). n)") (auto intro: div_less_dividend)

declare radix_digits.simps [simp del]

definition show_nat :: "nat \<Rightarrow> string" where
  "show_nat n = radix_digits 10 n"

definition show_int :: "int \<Rightarrow> string" where
  "show_int i = (if i < 0 then CHR ''-'' # show_nat (nat (- i)) else show_nat (nat i))"

definition show_octal :: "nat \<Rightarrow> string" where
  "show_octal n = radix_digits 8 n"

text \<open>\<open>char::to_digit(radix)\<close>: digits, then letters of either case.\<close>

definition to_digit :: "nat \<Rightarrow> char \<Rightarrow> nat option" where
  "to_digit radix c =
     (let k = of_char c :: nat;
          d = (if 48 \<le> k \<and> k \<le> 57 then Some (k - 48)
               else if 97 \<le> k \<and> k \<le> 122 then Some (k - 87)
               else if 65 \<le> k \<and> k \<le> 90 then Some (k - 55)
               else None)
      in filter_opt (\<lambda>v. v < radix) d)"

fun digits_value :: "nat \<Rightarrow> nat \<Rightarrow> string \<Rightarrow> nat option" where
  "digits_value radix acc [] = Some acc"
| "digits_value radix acc (c # cs) =
     (case to_digit radix c of
        None \<Rightarrow> None
      | Some d \<Rightarrow> digits_value radix (acc * radix + d) cs)"

text \<open>
  \<open>from_str_radix\<close> of an unsigned type with largest value \<open>largest\<close>: an optional leading plus
  sign, then at least one digit, and a value that fits.
\<close>

definition unsigned_from_str_radix :: "nat \<Rightarrow> nat \<Rightarrow> string \<Rightarrow> nat option" where
  "unsigned_from_str_radix radix largest s =
     (let ds = (case s of [] \<Rightarrow> [] | c # cs \<Rightarrow> if c = CHR ''+'' then cs else s)
      in if ds = [] then None
         else filter_opt (\<lambda>v. v \<le> largest) (digits_value radix 0 ds))"

lemma digits_value_append:
  "digits_value r acc (xs @ ys) =
     (case digits_value r acc xs of None \<Rightarrow> None | Some v \<Rightarrow> digits_value r v ys)"
  by (induction xs arbitrary: acc) (auto split: option.splits)

lemma of_char_digit_char: "d < 16 \<Longrightarrow> of_char (digit_char d) = (if d < 10 then 48 + d else 87 + d)"
  by (auto simp: digit_char_def)

lemma to_digit_digit_char: "d < r \<Longrightarrow> r \<le> 16 \<Longrightarrow> to_digit r (digit_char d) = Some d"
  by (auto simp: to_digit_def of_char_digit_char)

lemma radix_digits_nonempty [simp]: "radix_digits b n \<noteq> []"
  by (subst radix_digits.simps) auto

lemma digits_value_radix_digits:
  assumes "2 \<le> r" "r \<le> 16"
  shows "digits_value r 0 (radix_digits r n) = Some n"
  using assms
proof (induction r n rule: radix_digits.induct)
  case (1 b n)
  show ?case
  proof (cases "n < b")
    case True
    with "1.prems" show ?thesis
      by (subst radix_digits.simps) (simp add: to_digit_digit_char)
  next
    case False
    with "1.prems" have "digits_value b 0 (radix_digits b (n div b)) = Some (n div b)"
      using "1.IH" by simp
    moreover have "n mod b < b" using "1.prems" by simp
    ultimately show ?thesis
      using False "1.prems"
      by (subst radix_digits.simps)
        (simp add: digits_value_append to_digit_digit_char)
  qed
qed

lemma digit_char_not_plus: "d < 16 \<Longrightarrow> digit_char d \<noteq> CHR ''+''"
proof
  assume "d < 16" and "digit_char d = CHR ''+''"
  then have "of_char (digit_char d) = (43 :: nat)" by simp
  with \<open>d < 16\<close> show False by (auto simp: of_char_digit_char split: if_splits)
qed

lemma hd_radix_digits_not_plus:
  assumes "2 \<le> r" "r \<le> 16"
  shows "hd (radix_digits r n) \<noteq> CHR ''+''"
  using assms
proof (induction r n rule: radix_digits.induct)
  case (1 b n)
  then show ?case
    by (subst radix_digits.simps)
      (auto simp: digit_char_not_plus hd_append)
qed

text \<open>Printing a number and reading it back: \<open>to_string\<close> then \<open>parse\<close>.\<close>

lemma unsigned_from_str_radix_digits:
  assumes "2 \<le> r" "r \<le> 16" "n \<le> m"
  shows "unsigned_from_str_radix r m (radix_digits r n) = Some n"
proof -
  obtain c cs where ds: "radix_digits r n = c # cs"
    by (cases "radix_digits r n") auto
  with hd_radix_digits_not_plus [OF assms(1,2), of n] have "c \<noteq> CHR ''+''" by simp
  with ds digits_value_radix_digits [OF assms(1,2), of n] assms(3) show ?thesis
    by (simp add: unsigned_from_str_radix_def)
qed

section \<open>Generic list facts\<close>

lemma prefix_map: "prefix xs ys \<Longrightarrow> prefix (map f xs) (map f ys)"
  by (auto simp: prefix_def)

lemma take_length_prefix: "prefix xs ys \<Longrightarrow> take (length xs) ys = xs"
  by (auto simp: prefix_def)

lemma find_Some_iff_filter: "find p xs = Some x \<Longrightarrow> x \<in> set xs \<and> p x"
  by (induction xs) (auto split: if_splits)

lemma find_None_iff_all: "find p xs = None \<longleftrightarrow> (\<forall>x\<in>set xs. \<not> p x)"
  by (induction xs) auto

text \<open>\<open>rev\<close>-style splitting: the element before the last is \<open>butlast\<close>, \<open>last\<close>.\<close>

fun unsnoc :: "'a list \<Rightarrow> ('a list \<times> 'a) option" where
  "unsnoc [] = None"
| "unsnoc (x # xs) = Some (butlast (x # xs), last (x # xs))"

lemma unsnoc_append [simp]: "unsnoc (xs @ [x]) = Some (xs, x)"
  by (cases xs) auto

lemma unsnoc_eq_Some: "unsnoc xs = Some (ys, y) \<longleftrightarrow> xs = ys @ [y]"
  by (cases xs rule: rev_cases) auto

lemma unsnoc_eq_None [simp]: "unsnoc xs = None \<longleftrightarrow> xs = []"
  by (cases xs) auto

end
