(* ===== verification/Rust_Str.thy ===== *)
theory Rust_Str
  imports Prelude
begin

text \<open>
  The operations of Rust's standard library on strings that the server uses. A Rust string
  is a sequence of bytes in UTF-8; it is a \<open>string\<close> here, a list of 8-bit characters, so
  \<open>length\<close> is \<open>str::len\<close> and a position is a byte offset. Byte vectors are lists of \<open>u8\<close>;
  \<open>as_bytes\<close> and \<open>of_bytes\<close> go between the two. Validity of UTF-8 is in \<open>Utf8\<close>.
\<close>

section \<open>Bytes\<close>

definition u8_of_char :: "char \<Rightarrow> u8" where
  "u8_of_char c = of_nat (of_char c)"

definition char_of_u8 :: "u8 \<Rightarrow> char" where
  "char_of_u8 b = char_of (unat b)"

definition as_bytes :: "string \<Rightarrow> u8 list" where
  "as_bytes s = map u8_of_char s"

definition of_bytes :: "u8 list \<Rightarrow> string" where
  "of_bytes bs = map char_of_u8 bs"

lemma of_char_less_256 [simp]: "(of_char c :: nat) < 256"
  by (metis char_of_mod_256 mod_less_divisor of_char_of zero_less_numeral of_char_mod_256)

lemma char_of_u8_of_char [simp]: "char_of_u8 (u8_of_char c) = c"
proof -
  have "unat (of_nat (of_char c) :: u8) = of_char c"
    by (simp add: unat_of_nat take_bit_eq_mod)
  then show ?thesis by (simp add: char_of_u8_def u8_of_char_def)
qed

lemma u8_of_char_of_u8 [simp]: "u8_of_char (char_of_u8 b) = b"
proof -
  have "unat b < 256" using unsigned_less [of b, where ?'a = nat] by simp
  then show ?thesis by (simp add: char_of_u8_def u8_of_char_def)
qed

lemma as_bytes_of_bytes [simp]: "as_bytes (of_bytes bs) = bs"
  by (simp add: as_bytes_def of_bytes_def comp_def)

lemma of_bytes_as_bytes [simp]: "of_bytes (as_bytes s) = s"
  by (simp add: as_bytes_def of_bytes_def comp_def)

lemma as_bytes_simps [simp]:
  "as_bytes [] = []"
  "as_bytes (c # s) = u8_of_char c # as_bytes s"
  "as_bytes (s @ t) = as_bytes s @ as_bytes t"
  "length (as_bytes s) = length s"
  "as_bytes s = [] \<longleftrightarrow> s = []"
  "as_bytes (take n s) = take n (as_bytes s)"
  "as_bytes (drop n s) = drop n (as_bytes s)"
  by (simp_all add: as_bytes_def take_map drop_map)

lemma of_bytes_simps [simp]:
  "of_bytes [] = []"
  "of_bytes (b # bs) = char_of_u8 b # of_bytes bs"
  "of_bytes (bs @ cs) = of_bytes bs @ of_bytes cs"
  "length (of_bytes bs) = length bs"
  by (simp_all add: of_bytes_def)

lemma as_bytes_inject [simp]: "as_bytes s = as_bytes t \<longleftrightarrow> s = t"
  by (metis of_bytes_as_bytes)

section \<open>Prefixes, suffixes, search and replacement\<close>

definition starts_with :: "string \<Rightarrow> string \<Rightarrow> bool" where
  "starts_with s p = prefix p s"

definition strip_prefix :: "string \<Rightarrow> string \<Rightarrow> string option" where
  "strip_prefix s p = (if prefix p s then Some (drop (length p) s) else None)"

definition strip_suffix :: "string \<Rightarrow> string \<Rightarrow> string option" where
  "strip_suffix s p = (if suffix p s then Some (take (length s - length p) s) else None)"

text \<open>\<open>str::find\<close>: the first position at which the pattern occurs.\<close>

fun str_find :: "string \<Rightarrow> string \<Rightarrow> nat option" where
  "str_find p [] = (if p = [] then Some 0 else None)"
| "str_find p (c # s) =
     (if prefix p (c # s) then Some 0 else map_option Suc (str_find p s))"

text \<open>\<open>str::replace\<close> with a pattern that is not empty: left to right, without overlap.\<close>

function str_replace :: "string \<Rightarrow> string \<Rightarrow> string \<Rightarrow> string" where
  "str_replace p q [] = []"
| "str_replace p q (c # s) =
     (if p \<noteq> [] \<and> prefix p (c # s) then q @ str_replace p q (drop (length p) (c # s))
      else c # str_replace p q s)"
  by pat_completeness auto
termination
  by (relation "measure (\<lambda>(p, q, s). length s)") auto

text \<open>\<open>str::split(char)\<close>: always at least one part.\<close>

fun str_split :: "char \<Rightarrow> string \<Rightarrow> string list" where
  "str_split d [] = [[]]"
| "str_split d (c # s) =
     (if c = d then [] # str_split d s
      else (case str_split d s of [] \<Rightarrow> [[c]] | w # ws \<Rightarrow> (c # w) # ws))"

definition str_split_once :: "string \<Rightarrow> string \<Rightarrow> (string \<times> string) option" where
  "str_split_once p s =
     (case str_find p s of None \<Rightarrow> None
      | Some i \<Rightarrow> Some (take i s, drop (i + length p) s))"

fun str_join :: "string \<Rightarrow> string list \<Rightarrow> string" where
  "str_join sep [] = []"
| "str_join sep [w] = w"
| "str_join sep (w # v # ws) = w @ sep @ str_join sep (v # ws)"

section \<open>Trimming\<close>

text \<open>
  \<open>str::trim\<close> removes the characters with the Unicode property White_Space: these are their
  UTF-8 encodings.
\<close>

definition white_space :: "string list" where
  "white_space =
     map (map char_of_u8)
       ([[9], [10], [11], [12], [13], [32], [0xC2, 0x85], [0xC2, 0xA0], [0xE1, 0x9A, 0x80]]
        @ map (\<lambda>b. [0xE2, 0x80, b])
            [0x80, 0x81, 0x82, 0x83, 0x84, 0x85, 0x86, 0x87, 0x88, 0x89, 0x8A, 0xA8, 0xA9, 0xAF]
        @ [[0xE2, 0x81, 0x9F], [0xE3, 0x80, 0x80]])"

function strip_any :: "string list \<Rightarrow> string \<Rightarrow> string" where
  "strip_any ws s =
     (case find (\<lambda>w. w \<noteq> [] \<and> prefix w s) ws of
        None \<Rightarrow> s
      | Some w \<Rightarrow> strip_any ws (drop (length w) s))"
  by pat_completeness auto
termination
proof (relation "measure (\<lambda>(ws, s). length s)", simp)
  fix ws s w
  assume "find (\<lambda>w. w \<noteq> [] \<and> prefix w s) ws = Some w"
  then have "w \<noteq> []" "prefix w s" by (auto dest: find_Some_iff_filter)
  then show "((ws, drop (length w) s), ws, s) \<in> measure (\<lambda>(ws, s). length s)"
    by (cases w; cases s) auto
qed

declare strip_any.simps [simp del]

definition trim_start :: "string \<Rightarrow> string" where
  "trim_start s = strip_any white_space s"

definition trim_end :: "string \<Rightarrow> string" where
  "trim_end s = rev (strip_any (map rev white_space) (rev s))"

definition trim :: "string \<Rightarrow> string" where
  "trim s = trim_end (trim_start s)"

text \<open>Text that begins and ends with printable ASCII is left alone, as no white space does.\<close>

definition printable :: "char \<Rightarrow> bool" where
  "printable c = (let k = of_char c :: nat in 32 < k \<and> k < 127)"

lemma strip_any_word:
  assumes "list_all (\<lambda>w. w = [] \<or> \<not> printable (hd w)) ws" "s = [] \<or> printable (hd s)"
  shows "strip_any ws s = s"
proof -
  have "\<not> prefix w s" if "w \<in> set ws" "w \<noteq> []" for w
    using assms that by (cases w; cases s) (auto simp: list_all_iff)
  then have "find (\<lambda>w. w \<noteq> [] \<and> prefix w s) ws = None"
    by (auto simp: find_None_iff)
  then show ?thesis by (simp add: strip_any.simps [of ws s])
qed

lemma white_space_unprintable:
  "list_all (\<lambda>w. w = [] \<or> \<not> printable (hd w)) white_space"
  "list_all (\<lambda>w. w = [] \<or> \<not> printable (hd w)) (map rev white_space)"
  by code_simp+

lemma trim_start_word: "s = [] \<or> printable (hd s) \<Longrightarrow> trim_start s = s"
  unfolding trim_start_def by (rule strip_any_word [OF white_space_unprintable(1)])

lemma trim_start_blank: "trim_start (CHR '' '' # s) = trim_start s"
proof -
  have "find (\<lambda>w. w \<noteq> [] \<and> prefix w (CHR '' '' # s)) white_space = Some '' ''"
    by code_simp
  then show ?thesis by (simp add: trim_start_def strip_any.simps [of white_space "CHR '' '' # s"])
qed

lemma trim_end_word: "s = [] \<or> printable (last s) \<Longrightarrow> trim_end s = s"
  unfolding trim_end_def
  by (subst strip_any_word [OF white_space_unprintable(2)]) (auto simp: hd_rev)

lemma trim_word: "s = [] \<or> printable (hd s) \<and> printable (last s) \<Longrightarrow> trim s = s"
  by (auto simp: trim_def trim_start_word trim_end_word)

lemma trim_blank: "trim (CHR '' '' # s) = trim s"
  by (simp add: trim_def trim_start_blank)

lemma trim_Nil [simp]: "trim [] = []"
  by (simp add: trim_word)
section \<open>Case\<close>

definition ascii_lower :: "char \<Rightarrow> char" where
  "ascii_lower c =
     (let k = of_char c :: nat in if 65 \<le> k \<and> k \<le> 90 then char_of (k + 32) else c)"

definition ascii_upper :: "char \<Rightarrow> char" where
  "ascii_upper c =
     (let k = of_char c :: nat in if 97 \<le> k \<and> k \<le> 122 then char_of (k - 32) else c)"

definition to_ascii_lowercase :: "string \<Rightarrow> string" where
  "to_ascii_lowercase s = map ascii_lower s"

definition eq_ignore_ascii_case :: "string \<Rightarrow> string \<Rightarrow> bool" where
  "eq_ignore_ascii_case s t = (to_ascii_lowercase s = to_ascii_lowercase t)"

section \<open>Lines\<close>

definition newline :: char where
  "newline = char_of (10 :: nat)"

definition carriage_return :: char where
  "carriage_return = char_of (13 :: nat)"

definition tab :: char where
  "tab = char_of (9 :: nat)"

definition strip_cr :: "string \<Rightarrow> string" where
  "strip_cr s = (case unsnoc s of
     None \<Rightarrow> s | Some (t, c) \<Rightarrow> if c = carriage_return then t else s)"

text \<open>
  \<open>str::lines\<close>: the parts ended by a newline, without it and without a carriage return
  before it, then the rest if it is not empty, as it is.
\<close>

fun lines_acc :: "string \<Rightarrow> string \<Rightarrow> string list" where
  "lines_acc acc [] = (if acc = [] then [] else [rev acc])"
| "lines_acc acc (c # s) =
     (if c = newline then strip_cr (rev acc) # lines_acc [] s
      else lines_acc (c # acc) s)"

definition str_lines :: "string \<Rightarrow> string list" where
  "str_lines s = lines_acc [] s"

section \<open>Facts\<close>

lemma strip_prefix_append [str_simps, simp]: "strip_prefix (p @ s) p = Some s"
  by (simp add: strip_prefix_def)

lemma strip_prefix_eq_Some [str_simps]: "strip_prefix s p = Some t \<longleftrightarrow> s = p @ t"
  by (auto simp: strip_prefix_def prefix_def)

lemma strip_suffix_append [simp]: "strip_suffix (s @ p) p = Some s"
  by (simp add: strip_suffix_def suffix_def)

lemma strip_suffix_eq_Some [str_simps]: "strip_suffix s p = Some t \<longleftrightarrow> s = t @ p"
  by (auto simp: strip_suffix_def suffix_def)

lemma starts_with_append [simp]: "starts_with (p @ s) p"
  by (simp add: starts_with_def)

lemma str_find_Some:
  "str_find p s = Some i \<Longrightarrow> i \<le> length s \<and> prefix p (drop i s)"
  by (induction p s arbitrary: i rule: str_find.induct) (auto split: if_splits)

lemma str_find_decomp:
  assumes "str_find p s = Some i"
  shows "s = take i s @ p @ drop (i + length p) s" "i + length p \<le> length s"
proof -
  from str_find_Some [OF assms] obtain t where i: "i \<le> length s" and t: "drop i s = p @ t"
    by (auto simp: prefix_def)
  have "drop (i + length p) s = drop (length p) (drop i s)" by (simp add: add.commute)
  with t have d: "drop (i + length p) s = t" by simp
  then show "s = take i s @ p @ drop (i + length p) s"
    using t append_take_drop_id [of i s] by simp
  from t have "length s - i = length p + length t" by (metis length_append length_drop)
  then show "i + length p \<le> length s" using i by linarith
qed

lemma str_find_None: "str_find p s = None \<Longrightarrow> i \<le> length s \<Longrightarrow> \<not> prefix p (drop i s)"
proof (induction p s arbitrary: i rule: str_find.induct)
  case (2 p c s)
  then show ?case by (cases i) (auto split: if_splits)
qed (auto split: if_splits)

lemma str_find_first: "str_find p s = Some i \<Longrightarrow> j < i \<Longrightarrow> \<not> prefix p (drop j s)"
proof (induction p s arbitrary: i j rule: str_find.induct)
  case (2 p c s)
  then show ?case by (cases j) (auto split: if_splits)
qed (auto split: if_splits)

lemma str_split_nonempty [simp]: "str_split d s \<noteq> []"
  by (induction s) (auto split: list.splits)

lemma str_join_Cons: "ws \<noteq> [] \<Longrightarrow> str_join sep (w # ws) = w @ sep @ str_join sep ws"
  by (cases ws) auto

lemma str_join_split: "str_join [d] (str_split d s) = s"
proof (induction s)
  case (Cons c s)
  show ?case
  proof (cases "str_split d s")
    case (Cons w ws)
    then show ?thesis using Cons.IH
      by (cases ws) (auto simp: str_join_Cons)
  qed simp
qed simp

lemma str_split_parts: "w \<in> set (str_split d s) \<Longrightarrow> d \<notin> set w"
proof (induction s arbitrary: w)
  case (Cons c s)
  then show ?case by (auto split: list.splits if_splits)
qed simp

lemma str_split_no_sep: "d \<notin> set w \<Longrightarrow> str_split d w = [w]"
  by (induction w) auto

lemma str_split_append: "d \<notin> set w \<Longrightarrow> str_split d (w @ d # s) = w # str_split d s"
  by (induction w) auto

lemma str_split_join:
  "ws \<noteq> [] \<Longrightarrow> (\<forall>w\<in>set ws. d \<notin> set w) \<Longrightarrow> str_split d (str_join [d] ws) = ws"
proof (induction ws)
  case (Cons w ws)
  then show ?case
    by (cases ws) (auto simp: str_split_no_sep str_split_append)
qed simp

lemma ascii_lower_idem [simp]: "ascii_lower (ascii_lower c) = ascii_lower c"
  by (auto simp: ascii_lower_def Let_def)

end
