(* ===== verification/Utf8.thy ===== *)
theory Utf8
  imports Rust_Str
begin

text \<open>
  UTF-8 as the standard library reads it: \<open>from_utf8\<close>, \<open>from_utf8_lossy\<close>, the iteration over
  characters, character boundaries and string slices. The lemmas show that validity splits
  at character boundaries, that the lossy conversion always yields valid UTF-8 and changes
  nothing that was valid.
\<close>

definition is_cont :: "nat \<Rightarrow> bool" where
  "is_cont k = (0x80 \<le> k \<and> k \<le> 0xBF)"

definition utf8_width :: "nat \<Rightarrow> nat" where
  "utf8_width k =
     (if k < 0x80 then 1
      else if 0xC2 \<le> k \<and> k \<le> 0xDF then 2
      else if 0xE0 \<le> k \<and> k \<le> 0xEF then 3
      else if 0xF0 \<le> k \<and> k \<le> 0xF4 then 4
      else 0)"

text \<open>The second byte of a sequence of three or four bytes: no overlong form, no surrogate.\<close>

definition second_ok :: "nat \<Rightarrow> nat \<Rightarrow> bool" where
  "second_ok k j =
     (if k = 0xE0 then 0xA0 \<le> j \<and> j \<le> 0xBF
      else if k = 0xED then 0x80 \<le> j \<and> j \<le> 0x9F
      else if k = 0xF0 then 0x90 \<le> j \<and> j \<le> 0xBF
      else if k = 0xF4 then 0x80 \<le> j \<and> j \<le> 0x8F
      else is_cont j)"

definition safe_get :: "u8 list \<Rightarrow> nat \<Rightarrow> nat" where
  "safe_get bs i = (if i < length bs then unat (bs ! i) else 0)"

text \<open>
  One step of the decoder at the start of the bytes: whether a whole character is there, and
  the number of bytes it has, or the number of bytes to skip.
\<close>

definition utf8_step :: "u8 list \<Rightarrow> bool \<times> nat" where
  "utf8_step bs =
     (let k = safe_get bs 0; w = utf8_width k in
      if w = 1 then (True, 1)
      else if w = 2 then (if is_cont (safe_get bs 1) then (True, 2) else (False, 1))
      else if w = 3 then
        (if \<not> second_ok k (safe_get bs 1) then (False, 1)
         else if \<not> is_cont (safe_get bs 2) then (False, 2)
         else (True, 3))
      else if w = 4 then
        (if \<not> second_ok k (safe_get bs 1) then (False, 1)
         else if \<not> is_cont (safe_get bs 2) then (False, 2)
         else if \<not> is_cont (safe_get bs 3) then (False, 3)
         else (True, 4))
      else (False, 1))"

lemma utf8_step_pos: "1 \<le> snd (utf8_step bs)"
  by (simp add: utf8_step_def Let_def)

lemma safe_get_cont: "is_cont (safe_get bs i) \<Longrightarrow> i < length bs"
  by (auto simp: safe_get_def is_cont_def split: if_splits)

lemma second_ok_cont: "second_ok k j \<Longrightarrow> is_cont j"
  by (auto simp: second_ok_def is_cont_def split: if_splits)

lemma utf8_step_good:
  assumes "utf8_step bs = (True, n)" "bs \<noteq> []"
  shows "n \<le> length bs" "\<And>i. 0 < i \<Longrightarrow> i < n \<Longrightarrow> is_cont (safe_get bs i)"
proof -
  have c: "\<forall>i. 0 < i \<longrightarrow> i < n \<longrightarrow> is_cont (safe_get bs i)"
  proof (intro allI impI)
    fix i assume i: "0 < i" "i < n"
    have "n \<le> 4" using assms(1) by (auto simp: utf8_step_def Let_def split: if_splits)
    with i have "i = 1 \<or> i = 2 \<or> i = 3" by linarith
    then show "is_cont (safe_get bs i)"
      using assms(1) i
      by (elim disjE; auto simp: utf8_step_def Let_def dest: second_ok_cont split: if_splits)
  qed
  then show "\<And>i. 0 < i \<Longrightarrow> i < n \<Longrightarrow> is_cont (safe_get bs i)" by blast
  show "n \<le> length bs"
  proof (cases "n \<le> 1")
    case True
    with assms(2) show ?thesis by (cases bs) auto
  next
    case False
    then have "is_cont (safe_get bs (n - 1))" using c by simp
    then have "n - 1 < length bs" by (rule safe_get_cont)
    then show ?thesis by simp
  qed
qed

lemma utf8_step_local:
  assumes "utf8_step bs = (True, n)"
    and "\<And>i. i < n \<Longrightarrow> safe_get cs i = safe_get bs i"
  shows "utf8_step cs = (True, n)"
proof -
  have "1 \<le> n" using assms(1) utf8_step_pos [of bs] by simp
  then have g0: "safe_get cs 0 = safe_get bs 0" using assms(2) by simp
  show ?thesis
  proof -
    consider "n = 1" | "n = 2" | "n = 3" | "n = 4"
      using assms(1) by (auto simp: utf8_step_def Let_def split: if_splits)
    then show ?thesis
    proof cases
      case 1
      then show ?thesis using assms(1) g0 by (auto simp: utf8_step_def Let_def split: if_splits)
    next
      case 2
      then have "safe_get cs 1 = safe_get bs 1" using assms(2) by simp
      then show ?thesis using assms(1) g0 2 by (auto simp: utf8_step_def Let_def split: if_splits)
    next
      case 3
      then have "safe_get cs 1 = safe_get bs 1" "safe_get cs 2 = safe_get bs 2"
        using assms(2) by simp_all
      then show ?thesis using assms(1) g0 3 by (auto simp: utf8_step_def Let_def split: if_splits)
    next
      case 4
      then have "safe_get cs 1 = safe_get bs 1" "safe_get cs 2 = safe_get bs 2"
        "safe_get cs 3 = safe_get bs 3" using assms(2) by simp_all
      then show ?thesis using assms(1) g0 4 by (auto simp: utf8_step_def Let_def split: if_splits)
    qed
  qed
qed

lemma utf8_step_append:
  assumes "utf8_step bs = (True, n)" "bs \<noteq> []"
  shows "utf8_step (bs @ cs) = (True, n)"
  using assms utf8_step_good(1) [OF assms]
  by (intro utf8_step_local [OF assms(1)]) (auto simp: safe_get_def nth_append)

lemma utf8_step_take:
  assumes "utf8_step bs = (True, n)" "bs \<noteq> []"
  shows "utf8_step (take n bs) = (True, n)"
  using utf8_step_good(1) [OF assms]
  by (intro utf8_step_local [OF assms(1)]) (auto simp: safe_get_def)

lemma utf8_step_hd:
  assumes "utf8_step bs = (True, n)"
  shows "\<not> is_cont (safe_get bs 0)"
  using assms by (auto simp: utf8_step_def Let_def is_cont_def utf8_width_def split: if_splits)

section \<open>Validity and the lossy conversion\<close>

function utf8_valid :: "u8 list \<Rightarrow> bool" where
  "utf8_valid bs =
     (if bs = [] then True
      else fst (utf8_step bs) \<and> utf8_valid (drop (snd (utf8_step bs)) bs))"
  by pat_completeness auto
termination
proof (relation "measure length", simp)
  fix bs :: "u8 list"
  assume "bs \<noteq> []"
  then show "(drop (snd (utf8_step bs)) bs, bs) \<in> measure length"
    using utf8_step_pos [of bs] by (cases bs) auto
qed

function utf8_lossy :: "u8 list \<Rightarrow> u8 list" where
  "utf8_lossy bs =
     (if bs = [] then []
      else (if fst (utf8_step bs) then take (snd (utf8_step bs)) bs else [0xEF, 0xBF, 0xBD])
           @ utf8_lossy (drop (snd (utf8_step bs)) bs))"
  by pat_completeness auto
termination
proof (relation "measure length", simp)
  fix bs :: "u8 list"
  assume "bs \<noteq> []"
  then show "(drop (snd (utf8_step bs)) bs, bs) \<in> measure length"
    using utf8_step_pos [of bs] by (cases bs) auto
qed

text \<open>The characters of a string, each as its bytes (\<open>str::chars\<close> on valid strings).\<close>

function utf8_chars :: "u8 list \<Rightarrow> u8 list list" where
  "utf8_chars bs =
     (if bs = [] then []
      else take (snd (utf8_step bs)) bs # utf8_chars (drop (snd (utf8_step bs)) bs))"
  by pat_completeness auto
termination
proof (relation "measure length", simp)
  fix bs :: "u8 list"
  assume "bs \<noteq> []"
  then show "(drop (snd (utf8_step bs)) bs, bs) \<in> measure length"
    using utf8_step_pos [of bs] by (cases bs) auto
qed

declare utf8_valid.simps [simp del] utf8_lossy.simps [simp del] utf8_chars.simps [simp del]

definition from_utf8 :: "u8 list \<Rightarrow> string option" where
  "from_utf8 bs = (if utf8_valid bs then Some (of_bytes bs) else None)"

definition from_utf8_lossy :: "u8 list \<Rightarrow> string" where
  "from_utf8_lossy bs = of_bytes (utf8_lossy bs)"

text \<open>A \<open>string\<close> that is a Rust \<open>str\<close>.\<close>

definition valid_str :: "string \<Rightarrow> bool" where
  "valid_str s = utf8_valid (as_bytes s)"

definition str_chars :: "string \<Rightarrow> string list" where
  "str_chars s = map of_bytes (utf8_chars (as_bytes s))"

text \<open>\<open>OsStr::to_string_lossy\<close> on a file name.\<close>

definition lossy :: "string \<Rightarrow> string" where
  "lossy s = from_utf8_lossy (as_bytes s)"

lemma utf8_valid_Nil [simp]: "utf8_valid []"
  by (simp add: utf8_valid.simps)

lemma utf8_validE:
  assumes "utf8_valid bs" "bs \<noteq> []"
  obtains n where "utf8_step bs = (True, n)" "utf8_valid (drop n bs)" "1 \<le> n" "n \<le> length bs"
proof -
  from assms have "fst (utf8_step bs)" "utf8_valid (drop (snd (utf8_step bs)) bs)"
    by (subst (asm) utf8_valid.simps; simp)+
  moreover from this have "utf8_step bs = (True, snd (utf8_step bs))" by (cases "utf8_step bs") auto
  ultimately show thesis
    using that utf8_step_pos utf8_step_good(1) assms(2) by metis
qed

lemma utf8_valid_step:
  "utf8_step bs = (True, n) \<Longrightarrow> utf8_valid (drop n bs) \<Longrightarrow> utf8_valid bs"
  by (subst utf8_valid.simps) auto

lemma utf8_valid_append: "utf8_valid xs \<Longrightarrow> utf8_valid (xs @ ys) \<longleftrightarrow> utf8_valid ys"
proof (induction xs rule: length_induct)
  case (1 xs)
  show ?case
  proof (cases "xs = []")
    case False
    then obtain n where n: "utf8_step xs = (True, n)" "utf8_valid (drop n xs)"
      "1 \<le> n" "n \<le> length xs" using utf8_validE [OF "1.prems"] by auto
    have step: "utf8_step (xs @ ys) = (True, n)" using utf8_step_append [OF n(1) False] .
    have "length (drop n xs) < length xs" using n(3,4) by simp
    then have IH: "utf8_valid (drop n xs @ ys) \<longleftrightarrow> utf8_valid ys" using "1.IH" n(2) by blast
    have "utf8_valid (xs @ ys) \<longleftrightarrow> utf8_valid (drop n (xs @ ys))"
      using False by (subst utf8_valid.simps) (simp add: step)
    with IH n(4) show ?thesis by simp
  qed simp
qed

lemma utf8_valid_hd: "utf8_valid (b # bs) \<Longrightarrow> \<not> is_cont (unat b)"
  by (metis list.distinct(1) safe_get_def utf8_step_hd utf8_validE length_greater_0_conv nth_Cons_0)

lemma utf8_valid_split:
  assumes "utf8_valid bs" "i \<le> length bs" "i < length bs \<Longrightarrow> \<not> is_cont (unat (bs ! i))"
  shows "utf8_valid (take i bs) \<and> utf8_valid (drop i bs)"
  using assms
proof (induction bs arbitrary: i rule: length_induct)
  case (1 bs)
  show ?case
  proof (cases "bs = [] \<or> i = 0")
    case True
    with "1.prems" show ?thesis by auto
  next
    case False
    then obtain n where n: "utf8_step bs = (True, n)" "utf8_valid (drop n bs)"
      "1 \<le> n" "n \<le> length bs" using utf8_validE [OF "1.prems"(1)] by auto
    have "n \<le> i"
    proof (rule ccontr)
      assume "\<not> n \<le> i"
      then have c: "is_cont (safe_get bs i)"
        using utf8_step_good(2) [OF n(1)] False by simp
      then have "i < length bs" by (rule safe_get_cont)
      with c "1.prems"(3) show False by (simp add: safe_get_def)
    qed
    have short: "length (drop n bs) < length bs" using n(3,4) by simp
    have len: "i - n \<le> length (drop n bs)" using "1.prems"(2) by simp
    have nc: "\<not> is_cont (unat (drop n bs ! (i - n)))" if "i - n < length (drop n bs)"
      using that "1.prems"(3) \<open>n \<le> i\<close> n(4) by simp
    have IH: "utf8_valid (take (i - n) (drop n bs)) \<and> utf8_valid (drop (i - n) (drop n bs))"
      using "1.IH" short n(2) len nc by blast
    have "utf8_step (take n bs) = (True, n)" using utf8_step_take [OF n(1)] False by simp
    then have "utf8_valid (take n bs)" by (rule utf8_valid_step) simp
    moreover have "take i bs = take n bs @ take (i - n) (drop n bs)"
      using \<open>n \<le> i\<close> by (metis le_add_diff_inverse take_add)
    ultimately have "utf8_valid (take i bs)" using IH by (simp add: utf8_valid_append)
    moreover have "drop (i - n) (drop n bs) = drop i bs" using \<open>n \<le> i\<close> by simp
    ultimately show ?thesis using IH by simp
  qed
qed

lemma utf8_valid_replacement: "utf8_valid [0xEF, 0xBF, 0xBD]"
  by (simp add: utf8_valid.simps utf8_step_def safe_get_def utf8_width_def second_ok_def
      is_cont_def)

lemma utf8_lossy_valid: "utf8_valid (utf8_lossy bs)"
proof (induction bs rule: utf8_lossy.induct)
  case (1 bs)
  show ?case
  proof (cases "bs = []")
    case True
    then show ?thesis by (simp add: utf8_lossy.simps)
  next
    case False
    let ?n = "snd (utf8_step bs)"
    have IH: "utf8_valid (utf8_lossy (drop ?n bs))" using "1" False by simp
    have "utf8_valid (take ?n bs)" if "fst (utf8_step bs)"
    proof -
      from that have "utf8_step bs = (True, ?n)" by (cases "utf8_step bs") auto
      from utf8_step_take [OF this False] show ?thesis
        by (rule utf8_valid_step [where n = ?n]) auto
    qed
    then have "utf8_valid (if fst (utf8_step bs) then take ?n bs else [0xEF, 0xBF, 0xBD])"
      using utf8_valid_replacement by simp
    from utf8_valid_append [OF this] IH show ?thesis
      using False by (subst utf8_lossy.simps) simp
  qed
qed

lemma utf8_lossy_id: "utf8_valid bs \<Longrightarrow> utf8_lossy bs = bs"
proof (induction bs rule: utf8_lossy.induct)
  case (1 bs)
  show ?case
  proof (cases "bs = []")
    case False
    then obtain n where "utf8_step bs = (True, n)" "utf8_valid (drop n bs)"
      using utf8_validE [OF "1.prems"] by auto
    with "1.IH" False show ?thesis by (subst utf8_lossy.simps) simp
  qed (simp add: utf8_lossy.simps)
qed

lemma valid_str_Nil [simp]: "valid_str []"
  by (simp add: valid_str_def)

lemma valid_str_append: "valid_str s \<Longrightarrow> valid_str (s @ t) \<longleftrightarrow> valid_str t"
  by (simp add: valid_str_def utf8_valid_append)

lemma lossy_valid [simp]: "valid_str (lossy s)"
  by (simp add: valid_str_def lossy_def from_utf8_lossy_def utf8_lossy_valid)

lemma lossy_id [simp]: "valid_str s \<Longrightarrow> lossy s = s"
  by (simp add: valid_str_def lossy_def from_utf8_lossy_def utf8_lossy_id)

lemma valid_str_from_utf8: "from_utf8 bs = Some s \<Longrightarrow> valid_str s \<and> as_bytes s = bs"
  by (auto simp: from_utf8_def valid_str_def split: if_splits)

text \<open>Every string of ASCII characters is valid.\<close>

lemma utf8_step_ascii: "unat b < 128 \<Longrightarrow> utf8_step (b # bs) = (True, 1)"
  by (simp add: utf8_step_def safe_get_def utf8_width_def)

lemma utf8_valid_ascii: "\<forall>b\<in>set bs. unat b < 128 \<Longrightarrow> utf8_valid bs"
proof (induction bs)
  case (Cons b bs)
  then show ?case
    by (intro utf8_valid_step [OF utf8_step_ascii]) simp_all
qed simp

lemma utf8_lossy_nonempty: "bs \<noteq> [] \<Longrightarrow> utf8_lossy bs \<noteq> []"
  using utf8_step_pos [of bs] by (subst utf8_lossy.simps) auto

lemma lossy_nonempty [simp]: "lossy s = [] \<longleftrightarrow> s = []"
proof
  assume "lossy s = []"
  then have "utf8_lossy (as_bytes s) = []"
    by (simp add: lossy_def from_utf8_lossy_def of_bytes_def)
  then show "s = []" using utf8_lossy_nonempty [of "as_bytes s"] by auto
qed simp

section \<open>Character boundaries and slices\<close>

definition is_char_boundary :: "string \<Rightarrow> nat \<Rightarrow> bool" where
  "is_char_boundary s i =
     (if i = 0 then True
      else if i \<ge> length s then i = length s
      else \<not> is_cont (of_char (s ! i)))"

text \<open>\<open>&s[a..b]\<close>; \<open>None\<close> is the panic.\<close>

definition str_slice :: "string \<Rightarrow> nat \<Rightarrow> nat \<Rightarrow> string option" where
  "str_slice s a b =
     (if a \<le> b \<and> is_char_boundary s a \<and> is_char_boundary s b
      then Some (take (b - a) (drop a s)) else None)"

text \<open>\<open>String::replace_range(a..b, t)\<close>; \<open>None\<close> is the panic.\<close>

definition replace_range :: "string \<Rightarrow> nat \<Rightarrow> nat \<Rightarrow> string \<Rightarrow> string option" where
  "replace_range s a b t =
     (if a \<le> b \<and> is_char_boundary s a \<and> is_char_boundary s b
      then Some (take a s @ t @ drop b s) else None)"

lemma unat_u8_of_char [simp]: "unat (u8_of_char c) = of_char c"
  by (simp add: u8_of_char_def unat_of_nat take_bit_eq_mod)

lemma boundary_split:
  assumes "valid_str s" "is_char_boundary s i"
  shows "valid_str (take i s)" "valid_str (drop i s)" "i \<le> length s"
proof -
  from assms(2) show i: "i \<le> length s"
    by (auto simp: is_char_boundary_def split: if_splits)
  have "utf8_valid (take i (as_bytes s)) \<and> utf8_valid (drop i (as_bytes s))"
  proof (cases "i = 0")
    case False
    have "\<not> is_cont (unat (as_bytes s ! i))" if "i < length (as_bytes s)"
      using that assms(2) False by (simp add: is_char_boundary_def as_bytes_def)
    with assms(1) i show ?thesis
      by (intro utf8_valid_split) (simp_all add: valid_str_def)
  qed (use assms in \<open>simp add: valid_str_def\<close>)
  then show "valid_str (take i s)" "valid_str (drop i s)"
    by (simp_all add: valid_str_def)
qed

lemma boundary_of_valid_drop:
  assumes "valid_str (drop i s)" "i \<le> length s"
  shows "is_char_boundary s i"
proof (cases "i = length s")
  case False
  with assms(2) have i: "i < length s" by simp
  then have "as_bytes (drop i s) = u8_of_char (s ! i) # as_bytes (drop (Suc i) s)"
    by (simp add: Cons_nth_drop_Suc [symmetric] del: as_bytes_simps(7))
  with assms(1) have "\<not> is_cont (unat (u8_of_char (s ! i)))"
    unfolding valid_str_def by (metis utf8_valid_hd)
  with i show ?thesis by (simp add: is_char_boundary_def)
qed (simp add: is_char_boundary_def)

text \<open>
  A valid, non-empty pattern found in a valid string starts and ends at character
  boundaries: UTF-8 synchronises itself.
\<close>

lemma str_find_boundaries:
  assumes "valid_str s" "valid_str p" "str_find p s = Some i"
  shows "is_char_boundary s i" "is_char_boundary s (i + length p)"
proof -
  note d = str_find_decomp [OF assms(3)]
  have di: "drop i s = p @ drop (i + length p) s"
    using d by (metis append_take_drop_id same_append_eq)
  show bi: "is_char_boundary s i"
  proof (cases p)
    case Nil
    then have "i = 0" using assms(3) by (cases s) auto
    then show ?thesis by (simp add: is_char_boundary_def)
  next
    case (Cons c q)
    with assms(2) have "\<not> is_cont (unat (u8_of_char c))"
      unfolding valid_str_def by (metis as_bytes_simps(2) utf8_valid_hd)
    moreover have "i < length s" "s ! i = c"
      using d(2) Cons di by (auto simp: nth_via_drop)
    ultimately show ?thesis by (simp add: is_char_boundary_def)
  qed
  from boundary_split(2) [OF assms(1) bi] have "valid_str (p @ drop (i + length p) s)"
    using di by simp
  with assms(2) have "valid_str (drop (i + length p) s)" by (simp add: valid_str_append)
  then show "is_char_boundary s (i + length p)"
    using d(2) by (rule boundary_of_valid_drop)
qed

lemma replace_range_valid:
  assumes "valid_str s" "valid_str t" "replace_range s a b t = Some r"
  shows "valid_str r"
  using assms boundary_split
  by (auto simp: replace_range_def valid_str_append split: if_splits)

end
