(* ===== verification/Paths.thy ===== *)
theory Paths
  imports Utf8
begin

text \<open>
  \<open>std::path\<close> on Unix as the server uses it, and \<open>normalize_path\<close> of \<open>src/validation.rs\<close>. A
  path is the list of its components, since the standard library compares, joins, strips and
  pops paths by components; \<open>path_of\<close> is \<open>Path::new(s)\<close> and \<open>path_text\<close> prints a path. The
  component \<open>Prefix\<close> exists on Windows only, and \<open>path_of\<close> never makes one.
\<close>

datatype component =
    Prefix string
  | RootDir
  | CurDir
  | ParentDir
  | Normal string

type_synonym path = "component list"

definition slash :: char where
  "slash = CHR ''/''"

definition part_components :: "string \<Rightarrow> path" where
  "part_components w =
     (if w = [] \<or> w = ''.'' then [] else if w = ''..'' then [ParentDir] else [Normal w])"

definition path_of :: "string \<Rightarrow> path" where
  "path_of s =
     (if starts_with s [slash] then [RootDir]
      else if hd (str_split slash s) = ''.'' then [CurDir] else [])
     @ concat (map part_components (str_split slash s))"

fun component_text :: "component \<Rightarrow> string" where
  "component_text (Prefix s) = s"
| "component_text RootDir = [slash]"
| "component_text CurDir = ''.''"
| "component_text ParentDir = ''..''"
| "component_text (Normal n) = n"

fun path_text :: "path \<Rightarrow> string" where
  "path_text (RootDir # cs) = slash # str_join [slash] (map component_text cs)"
| "path_text cs = str_join [slash] (map component_text cs)"

fun is_absolute :: "path \<Rightarrow> bool" where
  "is_absolute (RootDir # _) = True"
| "is_absolute _ = False"

text \<open>\<open>PathBuf::push\<close> and \<open>Path::join\<close>: an absolute argument replaces the path.\<close>

definition join :: "path \<Rightarrow> path \<Rightarrow> path" where
  "join p q = (if is_absolute q \<or> p = [] then q else p @ filter (\<lambda>c. c \<noteq> CurDir) q)"

definition parent :: "path \<Rightarrow> path option" where
  "parent p =
     (case unsnoc p of
        None \<Rightarrow> None
      | Some (q, c) \<Rightarrow>
          (case c of Prefix _ \<Rightarrow> None | RootDir \<Rightarrow> None | _ \<Rightarrow> Some q))"

definition pop :: "path \<Rightarrow> path" where
  "pop p = unwrap_or p (parent p)"

definition file_name :: "path \<Rightarrow> string option" where
  "file_name p =
     (case unsnoc p of
        None \<Rightarrow> None
      | Some (_, c) \<Rightarrow> (case c of Normal n \<Rightarrow> Some n | _ \<Rightarrow> None))"

definition path_starts_with :: "path \<Rightarrow> path \<Rightarrow> bool" where
  "path_starts_with p q = prefix q p"

definition path_strip_prefix :: "path \<Rightarrow> path \<Rightarrow> path option" where
  "path_strip_prefix p q = (if prefix q p then Some (drop (length q) p) else None)"

definition set_file_name :: "path \<Rightarrow> string \<Rightarrow> path" where
  "set_file_name p n =
     join (if file_name p = None then p else pop p) (path_of n)"

text \<open>\<open>file_stem\<close> and \<open>extension\<close>: the name is split at its last dot, if that is not its first byte.\<close>

definition split_at_dot :: "string \<Rightarrow> string \<times> string option" where
  "split_at_dot n =
     (let rest = takeWhile (\<lambda>c. c \<noteq> CHR ''.'') (rev n) in
      if length rest = length n \<or> Suc (length rest) = length n then (n, None)
      else (take (length n - Suc (length rest)) n, Some (rev rest)))"

definition extension :: "path \<Rightarrow> string option" where
  "extension p = Option.bind (file_name p) (\<lambda>n. snd (split_at_dot n))"

definition with_extension :: "path \<Rightarrow> string \<Rightarrow> path" where
  "with_extension p e =
     (case file_name p of
        None \<Rightarrow> p
      | Some n \<Rightarrow>
          pop p @ [Normal (fst (split_at_dot n) @ (if e = [] then [] else CHR ''.'' # e))])"

section \<open>Normalisation\<close>

definition norm_step :: "path \<Rightarrow> component \<Rightarrow> path" where
  "norm_step acc c =
     (case c of ParentDir \<Rightarrow> pop acc | CurDir \<Rightarrow> acc | _ \<Rightarrow> join acc [c])"

definition normalize_path :: "path \<Rightarrow> path" where
  "normalize_path p = foldl norm_step [] p"

text \<open>The absolute path of a list of names.\<close>

definition abs_path :: "string list \<Rightarrow> path" where
  "abs_path ns = RootDir # map Normal ns"

section \<open>Well-formed paths\<close>

text \<open>
  What \<open>Path::components\<close> can yield: the root or the current directory only at the start, no
  Windows prefix, and names that are no special name and hold no slash.
\<close>

definition plain_name :: "string \<Rightarrow> bool" where
  "plain_name n = (n \<noteq> [] \<and> n \<noteq> ''.'' \<and> n \<noteq> ''..'' \<and> slash \<notin> set n)"

fun inner_component :: "component \<Rightarrow> bool" where
  "inner_component (Normal n) = plain_name n"
| "inner_component ParentDir = True"
| "inner_component _ = False"

fun wf_path :: "path \<Rightarrow> bool" where
  "wf_path [] = True"
| "wf_path (c # cs) =
     ((c = RootDir \<or> c = CurDir \<or> inner_component c) \<and> list_all inner_component cs)"

lemma wf_path_inner: "list_all inner_component cs \<Longrightarrow> wf_path cs"
  by (cases cs) auto

lemma part_components_inner:
  "slash \<notin> set w \<Longrightarrow> list_all inner_component (part_components w)"
  by (auto simp: part_components_def plain_name_def)

lemma wf_path_of: "wf_path (path_of s)"
proof -
  have "list_all inner_component (concat (map part_components (str_split slash s)))"
    using str_split_parts [of _ slash s] part_components_inner
    by (fastforce simp: list_all_iff)
  then show ?thesis
    by (auto simp: path_of_def wf_path_inner)
qed

lemma is_absolute_iff: "is_absolute p \<longleftrightarrow> (\<exists>cs. p = RootDir # cs)"
  by (cases p rule: is_absolute.cases) auto

lemma is_absolute_path_of: "is_absolute (path_of s) \<longleftrightarrow> starts_with s [slash]"
proof -
  have "\<not> is_absolute (concat (map part_components ws))" for ws
    by (induction ws) (auto simp: part_components_def)
  then show ?thesis by (auto simp: path_of_def)
qed

text \<open>Printing a well-formed path and parsing the text gives the path back.\<close>

lemma component_text_no_slash: "inner_component c \<Longrightarrow> slash \<notin> set (component_text c)"
  by (cases c) (auto simp: plain_name_def slash_def)

lemma part_components_text: "inner_component c \<Longrightarrow> part_components (component_text c) = [c]"
  by (cases c) (auto simp: part_components_def plain_name_def)

lemma concat_parts_text:
  "list_all inner_component cs \<Longrightarrow> concat (map part_components (map component_text cs)) = cs"
  by (induction cs) (auto simp: part_components_text)

lemma split_inner_text:
  assumes "list_all inner_component cs" "cs \<noteq> []"
  shows "str_split slash (str_join [slash] (map component_text cs)) = map component_text cs"
  using assms component_text_no_slash by (intro str_split_join) (auto simp: list_all_iff)

lemma component_text_nonempty: "inner_component c \<Longrightarrow> component_text c \<noteq> []"
  by (cases c) (auto simp: plain_name_def)

lemma inner_text_start:
  assumes "list_all inner_component cs" "cs \<noteq> []"
  shows "\<not> starts_with (str_join [slash] (map component_text cs)) [slash]"
proof -
  obtain c ds where cs: "cs = c # ds" using assms(2) by (cases cs) auto
  with assms(1) have c: "component_text c \<noteq> []" "slash \<notin> set (component_text c)"
    by (simp_all add: component_text_nonempty component_text_no_slash)
  then obtain x xs where x: "component_text c = x # xs" "x \<noteq> slash"
    by (cases "component_text c") auto
  then show ?thesis using cs
    by (cases ds) (auto simp: starts_with_def)
qed

lemma inner_text_not_dot: "inner_component c \<Longrightarrow> component_text c \<noteq> ''.''"
  by (cases c) (auto simp: plain_name_def)

lemma str_split_slash_Cons: "str_split slash (slash # s) = [] # str_split slash s"
  by simp

lemma path_of_abs:
  assumes "list_all inner_component cs"
  shows "path_of (slash # str_join [slash] (map component_text cs)) = RootDir # cs"
proof (cases "cs = []")
  case True
  then show ?thesis
    by (simp add: path_of_def starts_with_def part_components_def)
next
  case False
  then show ?thesis
    using concat_parts_text [OF assms] split_inner_text [OF assms False]
    by (simp add: path_of_def starts_with_def part_components_def)
qed

lemma path_of_path_text:
  assumes "wf_path p"
  shows "path_of (path_text p) = p"
proof (cases p)
  case Nil
  then show ?thesis
    by (simp add: path_of_def starts_with_def part_components_def)
next
  case (Cons c cs)
  with assms have cs: "list_all inner_component cs"
    and c: "c = RootDir \<or> c = CurDir \<or> inner_component c" by auto
  from c consider (root) "c = RootDir" | (cur) "c = CurDir" | (inner) "inner_component c" by blast
  then show ?thesis
  proof cases
    case root
    then show ?thesis using Cons path_of_abs [OF cs] by simp
  next
    case cur
    show ?thesis
    proof (cases "cs = []")
      case True
      then show ?thesis using Cons cur
        by (simp add: path_of_def starts_with_def part_components_def slash_def)
    next
      case False
      then have t: "path_text p = ''.'' @ slash # str_join [slash] (map component_text cs)"
        using Cons cur by (cases cs) auto
      have "slash \<notin> set ''.''" by (simp add: slash_def)
      then have "str_split slash (path_text p) = ''.'' # map component_text cs"
        using t split_inner_text [OF cs False] str_split_append by metis
      moreover have "\<not> starts_with (path_text p) [slash]"
        using t by (simp add: starts_with_def slash_def)
      ultimately show ?thesis
        using Cons cur concat_parts_text [OF cs] by (simp add: path_of_def part_components_def)
    qed
  next
    case inner
    then have all: "list_all inner_component (c # cs)" using cs by simp
    have t: "path_text p = str_join [slash] (map component_text (c # cs))"
      using Cons inner by (cases c) auto
    show ?thesis
      using Cons t split_inner_text [OF all] concat_parts_text [OF all]
        inner_text_start [OF all] inner_text_not_dot [OF inner]
      by (simp add: path_of_def del: str_join.simps)
  qed
qed

section \<open>Normalised paths\<close>

lemma wf_abs_path: "list_all plain_name ns \<Longrightarrow> wf_path (abs_path ns)"
  by (simp add: abs_path_def list_all_iff)

lemma parent_snoc [simp]:
  "parent (p @ [Normal n]) = Some p"
  "parent [] = None"
  "parent [RootDir] = None"
  by (simp_all add: parent_def)

lemma file_name_snoc [simp]:
  "file_name (p @ [Normal n]) = Some n"
  "file_name [] = None"
  "file_name [RootDir] = None"
  by (simp_all add: file_name_def)

lemma abs_path_simps [simp]:
  "abs_path [] = [RootDir]"
  "abs_path (ns @ [n]) = abs_path ns @ [Normal n]"
  "abs_path ns \<noteq> []"
  "is_absolute (abs_path ns)"
  by (simp_all add: abs_path_def)

lemma abs_path_append: "abs_path (ns @ ms) = abs_path ns @ map Normal ms"
  by (simp add: abs_path_def)

lemma pop_abs_path [simp]: "pop (abs_path ns) = abs_path (butlast ns)"
  by (cases ns rule: rev_cases) (simp_all add: pop_def)

lemma map_Normal_inject [simp]: "map Normal ns = map Normal ms \<longleftrightarrow> ns = ms"
  by (simp add: inj_map_eq_map inj_def)

lemma abs_path_inject [simp]: "abs_path ns = abs_path ms \<longleftrightarrow> ns = ms"
  by (simp add: abs_path_def)

lemma prefix_abs_path [simp]: "prefix (abs_path ns) (abs_path ms) \<longleftrightarrow> prefix ns ms"
proof -
  have "prefix (map Normal ns) (map Normal ms) \<longleftrightarrow> prefix ns ms"
    by (metis prefix_map prefix_def map_Normal_inject map_append append_eq_map_conv)
  then show ?thesis by (simp add: abs_path_def)
qed

lemma norm_step_abs:
  "inner_component c \<Longrightarrow>
     norm_step (abs_path ns) c =
       abs_path (case c of Normal n \<Rightarrow> ns @ [n] | _ \<Rightarrow> butlast ns)"
  by (cases c) (simp_all add: norm_step_def join_def)

lemma list_all_butlast: "list_all p xs \<Longrightarrow> list_all p (butlast xs)"
  by (cases xs rule: rev_cases) auto

text \<open>The names that remain after normalisation, computed on the names alone.\<close>

fun norm_names :: "string list \<Rightarrow> path \<Rightarrow> string list" where
  "norm_names ns [] = ns"
| "norm_names ns (Normal n # cs) = norm_names (ns @ [n]) cs"
| "norm_names ns (c # cs) = norm_names (butlast ns) cs"

lemma foldl_norm_step:
  "list_all inner_component cs \<Longrightarrow> foldl norm_step (abs_path ns) cs = abs_path (norm_names ns cs)"
proof (induction cs arbitrary: ns)
  case (Cons c cs)
  then show ?case by (cases c) (simp_all add: norm_step_abs del: abs_path_simps(2))
qed simp

lemma normalize_path_abs:
  assumes "wf_path p" "is_absolute p"
  shows "normalize_path p = abs_path (norm_names [] (tl p))"
proof -
  obtain cs where p: "p = RootDir # cs" using assms(2) by (auto simp: is_absolute_iff)
  have "norm_step [] RootDir = abs_path []" by (simp add: norm_step_def join_def)
  with p assms(1) show ?thesis
    using foldl_norm_step [of cs "[]"] by (simp add: normalize_path_def)
qed

lemma norm_names_plain:
  "list_all plain_name ns \<Longrightarrow> list_all inner_component cs \<Longrightarrow> list_all plain_name (norm_names ns cs)"
proof (induction ns cs rule: norm_names.induct)
  case (2 ns n cs)
  then show ?case by simp
qed (simp_all add: list_all_butlast)

text \<open>A path of plain names is its own normal form.\<close>

lemma norm_names_Normal: "norm_names ns (map Normal ms) = ns @ ms"
  by (induction ms arbitrary: ns) auto

lemma normalize_abs_path:
  assumes "list_all plain_name ns"
  shows "normalize_path (abs_path ns) = abs_path ns"
  using normalize_path_abs [OF wf_abs_path [OF assms]]
  by (simp add: norm_names_Normal abs_path_def)

lemma path_strip_prefix_append [simp]: "path_strip_prefix (p @ q) p = Some q"
  by (simp add: path_strip_prefix_def)

lemma path_strip_prefix_eq_Some: "path_strip_prefix p q = Some r \<longleftrightarrow> p = q @ r"
  by (auto simp: path_strip_prefix_def prefix_def)

end
