(* ===== verification/Errors.thy ===== *)
theory Errors
  imports Prelude
begin

text \<open>
  \<open>src/errors.rs\<close>: the server's error type, its JSON-RPC codes and its texts, and the
  \<open>std::io::Error\<close> values that the file operations produce. \<open>blocking\<close> is the wrapper of
  \<open>src/actions/util.rs\<close> that turns the text of a blocking task's error into a
  \<open>FilesystemError\<close>.
\<close>

text \<open>
  The kinds of I/O error that the model of the file system raises, with the texts that Linux
  gives them; \<open>IoOther\<close> stands for every other error, with its text.
\<close>

datatype io_error =
    NotFound
  | AlreadyExists
  | NotADirectory
  | IsADirectory
  | DirectoryNotEmpty
  | FilesystemLoop
  | InvalidData
  | UnexpectedEof
  | CrossesDevices
  | IoOther string

fun io_text :: "io_error \<Rightarrow> string" where
  "io_text NotFound = ''No such file or directory (os error 2)''"
| "io_text AlreadyExists = ''File exists (os error 17)''"
| "io_text NotADirectory = ''Not a directory (os error 20)''"
| "io_text IsADirectory = ''Is a directory (os error 21)''"
| "io_text DirectoryNotEmpty = ''Directory not empty (os error 39)''"
| "io_text FilesystemLoop = ''Too many levels of symbolic links (os error 40)''"
| "io_text InvalidData = ''stream did not contain valid UTF-8''"
| "io_text UnexpectedEof = ''failed to fill whole buffer''"
| "io_text CrossesDevices = ''Invalid cross-device link (os error 18)''"
| "io_text (IoOther s) = s"

datatype mcs_error =
    ParseError string
  | MethodNotFound string
  | InvalidRequest string
  | InvalidParams string
  | FilesystemError string
  | IoError io_error
  | JsonError string
  | PathNotAllowed string
  | PathNotFound string

fun error_code :: "mcs_error \<Rightarrow> int" where
  "error_code (ParseError _) = -32700"
| "error_code (MethodNotFound _) = -32601"
| "error_code (InvalidRequest _) = -32600"
| "error_code (InvalidParams _) = -32602"
| "error_code (FilesystemError _) = -32000"
| "error_code (IoError _) = -32003"
| "error_code (JsonError _) = -32700"
| "error_code (PathNotAllowed _) = -32004"
| "error_code (PathNotFound _) = -32005"

fun error_text :: "mcs_error \<Rightarrow> string" where
  "error_text (ParseError s) = ''Parse error: '' @ s"
| "error_text (MethodNotFound s) = ''Method not found: '' @ s"
| "error_text (InvalidRequest s) = ''Invalid request: '' @ s"
| "error_text (InvalidParams s) = ''Invalid params: '' @ s"
| "error_text (FilesystemError s) = ''Filesystem error: '' @ s"
| "error_text (IoError e) = ''IO error: '' @ io_text e"
| "error_text (JsonError s) = ''JSON error: '' @ s"
| "error_text (PathNotAllowed s) = ''Path not allowed: '' @ s"
| "error_text (PathNotFound s) = ''Path not found: '' @ s"

text \<open>
  A blocking task returns the text of an error or a value; \<open>None\<close> is a task that panicked,
  whose join error tokio describes by a text of its own.
\<close>

definition blocking :: "string \<Rightarrow> string \<Rightarrow> (string + 'a) option \<Rightarrow> mcs_error + 'a" where
  "blocking join_text label r =
     (case r of
        None \<Rightarrow> Inl (FilesystemError (label @ '' task failed: '' @ join_text))
      | Some v \<Rightarrow> map_err FilesystemError v)"

lemma blocking_simps [simp]:
  "blocking j l (Some v) = map_err FilesystemError v"
  "blocking j l None = Inl (FilesystemError (l @ '' task failed: '' @ j))"
  by (simp_all add: blocking_def)

lemma blocking_eq_Inr [result_simps]: "blocking j l r = Inr v \<longleftrightarrow> r = Some (Inr v)"
  by (cases r) (auto simp: result_simps)

text \<open>Every code lies in the range that JSON-RPC reserves for predefined or server errors.\<close>

lemma error_code_reserved: "-32768 \<le> error_code e \<and> error_code e \<le> -32000"
  by (cases e) auto

end
