(* ===== verification/File_System.thy ===== *)
theory File_System
  imports Paths Errors
begin

text \<open>
  The operations of \<open>std::fs\<close> and \<open>std::env::current_dir\<close> that the server calls, on a model of
  a Unix file tree with symbolic links. A directory lists its entries in directory order; a
  location is the list of names from the root. A path is resolved component by component, a
  link restarts the resolution from the directory it stands in, and after 40 links the system
  gives up, as Linux does. Permission bits, owners, times, hard links and failures of the
  storage are not part of the state.
\<close>

datatype node =
    FileNode "u8 list"
  | DirNode "(string \<times> node) list"
  | LinkNode path

type_synonym loc = "string list"

text \<open>The state: the tree, the working directory (none if it was removed), and the length that
  the system reports for a directory.\<close>

record os =
  tree :: node
  cwd :: "loc option"
  dir_len :: nat

section \<open>The tree\<close>

fun lookup :: "node \<Rightarrow> loc \<Rightarrow> node option" where
  "lookup t [] = Some t"
| "lookup (DirNode es) (n # ns) = (case map_of es n of None \<Rightarrow> None | Some c \<Rightarrow> lookup c ns)"
| "lookup (FileNode bs) (n # ns) = None"
| "lookup (LinkNode p) (n # ns) = None"

text \<open>Sets, appends or removes the entry of a name.\<close>

fun put_entry :: "string \<Rightarrow> node option \<Rightarrow> (string \<times> node) list \<Rightarrow> (string \<times> node) list" where
  "put_entry n None [] = []"
| "put_entry n (Some v) [] = [(n, v)]"
| "put_entry n v ((k, c) # es) =
     (if k = n then (case v of None \<Rightarrow> put_entry n None es | Some u \<Rightarrow> (k, u) # es)
      else (k, c) # put_entry n v es)"

fun set_at :: "node \<Rightarrow> loc \<Rightarrow> node option \<Rightarrow> node" where
  "set_at t [] v = unwrap_or t v"
| "set_at t (n # ns) v =
     (case t of
        DirNode es \<Rightarrow>
          (if ns = [] then DirNode (put_entry n v es)
           else (case map_of es n of
                   None \<Rightarrow> t
                 | Some c \<Rightarrow> DirNode (put_entry n (Some (set_at c ns v)) es)))
      | _ \<Rightarrow> t)"

definition put_node :: "os \<Rightarrow> loc \<Rightarrow> node option \<Rightarrow> os" where
  "put_node s l v = s\<lparr>tree := set_at (tree s) l v\<rparr>"

section \<open>Resolution of paths\<close>

text \<open>
  \<open>walk t final create k loc cs\<close> resolves the components from a location. \<open>final\<close> says whether
  a link at the end is followed, \<open>create\<close> whether the last name may be missing.
\<close>

function walk :: "node \<Rightarrow> bool \<Rightarrow> bool \<Rightarrow> nat \<Rightarrow> loc \<Rightarrow> path \<Rightarrow> io_error + loc" where
  "walk t final create k l [] = Inr l"
| "walk t final create k l (RootDir # cs) = walk t final create k [] cs"
| "walk t final create k l (Prefix s # cs) = Inl NotFound"
| "walk t final create k l (CurDir # cs) =
     (case lookup t l of
        Some (DirNode es) \<Rightarrow> walk t final create k l cs
      | _ \<Rightarrow> Inl NotADirectory)"
| "walk t final create k l (ParentDir # cs) =
     (case lookup t l of
        Some (DirNode es) \<Rightarrow> walk t final create k (butlast l) cs
      | _ \<Rightarrow> Inl NotADirectory)"
| "walk t final create k l (Normal n # cs) =
     (case lookup t l of
        Some (DirNode es) \<Rightarrow>
          (case map_of es n of
             None \<Rightarrow> if create \<and> cs = [] then Inr (l @ [n]) else Inl NotFound
           | Some (LinkNode p) \<Rightarrow>
               if cs = [] \<and> \<not> final then Inr (l @ [n])
               else if k = 0 then Inl FilesystemLoop
               else walk t final create (k - 1) l (p @ cs)
           | Some (FileNode bs) \<Rightarrow> walk t final create k (l @ [n]) cs
           | Some (DirNode es') \<Rightarrow> walk t final create k (l @ [n]) cs)
      | _ \<Rightarrow> Inl NotADirectory)"
  by pat_completeness auto
termination
  by (relation "measures [\<lambda>(t, f, c, k, l, cs). k, \<lambda>(t, f, c, k, l, cs). length cs]") auto

definition max_links :: nat where
  "max_links = 40"

definition resolve_loc :: "os \<Rightarrow> bool \<Rightarrow> bool \<Rightarrow> path \<Rightarrow> io_error + loc" where
  "resolve_loc s final create p =
     (if p = [] then Inl NotFound
      else if is_absolute p then walk (tree s) final create max_links [] p
      else (case cwd s of
              None \<Rightarrow> Inl NotFound
            | Some l \<Rightarrow> walk (tree s) final create max_links l p))"

definition node_at :: "os \<Rightarrow> loc \<Rightarrow> io_error + node" where
  "node_at s l = ok_or NotFound (lookup (tree s) l)"

text \<open>\<open>metadata\<close> follows links, \<open>symlink_metadata\<close> does not.\<close>

definition fs_stat :: "os \<Rightarrow> path \<Rightarrow> io_error + node" where
  "fs_stat s p = and_then (resolve_loc s True False p) (node_at s)"

definition fs_lstat :: "os \<Rightarrow> path \<Rightarrow> io_error + node" where
  "fs_lstat s p = and_then (resolve_loc s False False p) (node_at s)"

fun node_is_dir :: "node \<Rightarrow> bool" where
  "node_is_dir (DirNode es) = True"
| "node_is_dir _ = False"

fun node_is_file :: "node \<Rightarrow> bool" where
  "node_is_file (FileNode bs) = True"
| "node_is_file _ = False"

fun node_is_link :: "node \<Rightarrow> bool" where
  "node_is_link (LinkNode p) = True"
| "node_is_link _ = False"

fun node_len :: "os \<Rightarrow> node \<Rightarrow> nat" where
  "node_len s (FileNode bs) = length bs"
| "node_len s (DirNode es) = dir_len s"
| "node_len s (LinkNode p) = length (path_text p)"

definition canonicalize :: "os \<Rightarrow> path \<Rightarrow> io_error + path" where
  "canonicalize s p = map_ok abs_path (resolve_loc s True False p)"

definition path_exists :: "os \<Rightarrow> path \<Rightarrow> bool" where
  "path_exists s p = is_ok (fs_stat s p)"

definition path_is_dir :: "os \<Rightarrow> path \<Rightarrow> bool" where
  "path_is_dir s p = (case fs_stat s p of Inl _ \<Rightarrow> False | Inr n \<Rightarrow> node_is_dir n)"

definition path_is_symlink :: "os \<Rightarrow> path \<Rightarrow> bool" where
  "path_is_symlink s p = (case fs_lstat s p of Inl _ \<Rightarrow> False | Inr n \<Rightarrow> node_is_link n)"

definition current_dir :: "os \<Rightarrow> io_error + path" where
  "current_dir s = map_ok abs_path (ok_or NotFound (cwd s))"

section \<open>Reading\<close>

text \<open>\<open>File::open\<close> for reading also opens a directory, whose reading then fails.\<close>

fun node_bytes :: "node \<Rightarrow> io_error + u8 list" where
  "node_bytes (FileNode bs) = Inr bs"
| "node_bytes _ = Inl IsADirectory"

definition fs_read :: "os \<Rightarrow> path \<Rightarrow> io_error + u8 list" where
  "fs_read s p = and_then (fs_stat s p) node_bytes"

definition fs_read_dir :: "os \<Rightarrow> path \<Rightarrow> io_error + (string \<times> node) list" where
  "fs_read_dir s p =
     and_then (fs_stat s p) (\<lambda>n. case n of DirNode es \<Rightarrow> Inr es | _ \<Rightarrow> Inl NotADirectory)"

section \<open>Writing\<close>

text \<open>\<open>File::create\<close>: makes the file or empties it, and yields where it is.\<close>

definition fs_create :: "os \<Rightarrow> path \<Rightarrow> (io_error + loc) \<times> os" where
  "fs_create s p =
     (case resolve_loc s True True p of
        Inl e \<Rightarrow> (Inl e, s)
      | Inr l \<Rightarrow>
          (case lookup (tree s) l of
             Some (DirNode es) \<Rightarrow> (Inl IsADirectory, s)
           | _ \<Rightarrow> (Inr l, put_node s l (Some (FileNode [])))))"

definition fs_write_loc :: "os \<Rightarrow> loc \<Rightarrow> u8 list \<Rightarrow> os" where
  "fs_write_loc s l bs = put_node s l (Some (FileNode bs))"

definition fs_write :: "os \<Rightarrow> path \<Rightarrow> u8 list \<Rightarrow> (io_error + unit) \<times> os" where
  "fs_write s p bs =
     (case fs_create s p of
        (Inl e, s') \<Rightarrow> (Inl e, s')
      | (Inr l, s') \<Rightarrow> (Inr (), fs_write_loc s' l bs))"

definition fs_mkdir :: "os \<Rightarrow> path \<Rightarrow> (io_error + unit) \<times> os" where
  "fs_mkdir s p =
     (case resolve_loc s False True p of
        Inl e \<Rightarrow> (Inl e, s)
      | Inr l \<Rightarrow>
          (case lookup (tree s) l of
             Some _ \<Rightarrow> (Inl AlreadyExists, s)
           | None \<Rightarrow> (Inr (), put_node s l (Some (DirNode [])))))"

function fs_create_dir_all :: "os \<Rightarrow> path \<Rightarrow> (io_error + unit) \<times> os" where
  "fs_create_dir_all s p =
     (if p = [] then (Inr (), s)
      else (case fs_mkdir s p of
              (Inr u, s') \<Rightarrow> (Inr (), s')
            | (Inl e, s') \<Rightarrow>
                if e = NotFound then
                  (case parent p of
                     None \<Rightarrow> (Inl (IoOther ''failed to create whole tree''), s)
                   | Some q \<Rightarrow>
                       (case fs_create_dir_all s q of
                          (Inl e', s1) \<Rightarrow> (Inl e', s1)
                        | (Inr u, s1) \<Rightarrow>
                            (case fs_mkdir s1 p of
                               (Inr u, s2) \<Rightarrow> (Inr (), s2)
                             | (Inl e', s2) \<Rightarrow>
                                 if path_is_dir s1 p then (Inr (), s1) else (Inl e', s1))))
                else if path_is_dir s p then (Inr (), s) else (Inl e, s)))"
  by pat_completeness auto
termination
proof (relation "measure (\<lambda>(s, p). length p)", simp)
  fix s :: os and p q :: path
  assume "parent p = Some q"
  then obtain c where "p = q @ [c]"
    by (auto simp: parent_def unsnoc_eq_Some split: option.splits component.splits)
  then show "((s, q), s, p) \<in> measure (\<lambda>(s, p). length p)" by simp
qed

declare fs_create_dir_all.simps [simp del]

text \<open>\<open>std::fs::rename\<close>: neither end follows a last link.\<close>

definition fs_rename :: "os \<Rightarrow> path \<Rightarrow> path \<Rightarrow> (io_error + unit) \<times> os" where
  "fs_rename s p q =
     (case resolve_loc s False False p of
        Inl e \<Rightarrow> (Inl e, s)
      | Inr l \<Rightarrow>
          (case resolve_loc s False True q of
             Inl e \<Rightarrow> (Inl e, s)
           | Inr m \<Rightarrow>
               (case lookup (tree s) l of
                  None \<Rightarrow> (Inl NotFound, s)
                | Some n \<Rightarrow>
                    if l = m then (Inr (), s)
                    else if prefix l m then (Inl (IoOther ''Invalid argument (os error 22)''), s)
                    else
                      (let move = (Inr (), put_node (put_node s l None) m (Some n)) in
                       case lookup (tree s) m of
                         None \<Rightarrow> move
                       | Some (DirNode es) \<Rightarrow>
                           if \<not> node_is_dir n then (Inl IsADirectory, s)
                           else if es \<noteq> [] then (Inl DirectoryNotEmpty, s)
                           else move
                       | Some _ \<Rightarrow> if node_is_dir n then (Inl NotADirectory, s) else move))))"

text \<open>
  \<open>std::fs::copy\<close> opens and checks the source, then creates the destination, which empties a
  file that is there, then copies what the source holds by then.
\<close>

definition fs_copy :: "os \<Rightarrow> path \<Rightarrow> path \<Rightarrow> (io_error + nat) \<times> os" where
  "fs_copy s p q =
     (case resolve_loc s True False p of
        Inl e \<Rightarrow> (Inl e, s)
      | Inr l \<Rightarrow>
          (case lookup (tree s) l of
             Some (FileNode bs) \<Rightarrow>
               (case fs_create s q of
                  (Inl e, s1) \<Rightarrow> (Inl e, s1)
                | (Inr m, s1) \<Rightarrow>
                    (case lookup (tree s1) l of
                       Some (FileNode cs) \<Rightarrow> (Inr (length cs), fs_write_loc s1 m cs)
                     | _ \<Rightarrow> (Inr 0, s1)))
           | _ \<Rightarrow>
               (Inl (IoOther ''the source path is neither a regular file nor a symlink to a regular file''),
                s)))"

definition fs_symlink :: "os \<Rightarrow> path \<Rightarrow> path \<Rightarrow> (io_error + unit) \<times> os" where
  "fs_symlink s target link =
     (case resolve_loc s False True link of
        Inl e \<Rightarrow> (Inl e, s)
      | Inr l \<Rightarrow>
          (case lookup (tree s) l of
             Some _ \<Rightarrow> (Inl AlreadyExists, s)
           | None \<Rightarrow> (Inr (), put_node s l (Some (LinkNode target)))))"

section \<open>Laws of the tree\<close>

lemma map_of_put_entry:
  "map_of (put_entry n v es) k = (if k = n then v else map_of es k)"
  by (induction n v es rule: put_entry.induct) (auto split: option.splits)

lemma lookup_append:
  "lookup t (l @ m) = (case lookup t l of None \<Rightarrow> None | Some c \<Rightarrow> lookup c m)"
proof (induction t l rule: lookup.induct)
  case (2 es n ns)
  then show ?case by (auto split: option.splits)
qed auto

lemma lookup_snoc:
  "lookup t (l @ [n]) =
     (case lookup t l of Some (DirNode es) \<Rightarrow> map_of es n | _ \<Rightarrow> None)"
  by (auto simp: lookup_append split: option.splits node.splits)

text \<open>An update changes nothing at a location parallel to its own.\<close>

lemma lookup_update_parallel: "l \<parallel> m \<Longrightarrow> lookup (set_at t l v) m = lookup t m"
proof (induction t l v arbitrary: m rule: set_at.induct)
  case (2 t n ns v)
  from "2.prems" obtain k ms where m: "m = k # ms" by (cases m) auto
  show ?case
  proof (cases t)
    case (DirNode es)
    show ?thesis
    proof (cases "k = n")
      case False
      then show ?thesis using DirNode m
        by (auto simp: map_of_put_entry split: option.splits)
    next
      case True
      with "2.prems" m have par: "ns \<parallel> ms" by (auto simp: parallel_def)
      then have "ns \<noteq> []" by auto
      show ?thesis
      proof (cases "map_of es n")
        case None
        then show ?thesis using DirNode \<open>ns \<noteq> []\<close> by simp
      next
        case (Some c)
        have "lookup (set_at c ns v) ms = lookup c ms"
          using "2.IH" [OF DirNode \<open>ns \<noteq> []\<close> Some par] .
        then show ?thesis
          using DirNode m True Some \<open>ns \<noteq> []\<close> by (simp add: map_of_put_entry)
      qed
    qed
  qed (use m in auto)
qed auto

text \<open>An update of an entry of a directory is seen at its location.\<close>

lemma lookup_update_same:
  "lookup t l = Some (DirNode es) \<Longrightarrow> lookup (set_at t (l @ [n]) v) (l @ [n]) = v"
proof (induction l arbitrary: t)
  case Nil
  then show ?case by (simp add: map_of_put_entry split: option.split)
next
  case (Cons k l)
  then obtain ds c where t: "t = DirNode ds" "map_of ds k = Some c" "lookup c l = Some (DirNode es)"
    by (cases t) (auto split: option.splits)
  from Cons.IH [OF t(3)] show ?case using t by (simp add: map_of_put_entry)
qed

lemma lookup_update_root: "lookup (set_at t [] (Some n)) [] = Some n"
  by simp

text \<open>Directories above the updated entry stay directories.\<close>

lemma lookup_update_above:
  "lookup t l = Some (DirNode es) \<Longrightarrow> l \<noteq> m \<Longrightarrow> prefix l m \<Longrightarrow>
     \<exists>es'. lookup (set_at t m v) l = Some (DirNode es')"
proof (induction t m v arbitrary: l es rule: set_at.induct)
  case (2 t n ns v)
  show ?case
  proof (cases l)
    case Nil
    then show ?thesis using "2.prems"(1) by (auto split: option.splits)
  next
    case (Cons k ls)
    then have k: "k = n" and p: "prefix ls ns" and ne: "ls \<noteq> ns" using "2.prems"(2,3) by auto
    obtain ds c where t: "t = DirNode ds" "map_of ds n = Some c" "lookup c ls = Some (DirNode es)"
      using "2.prems"(1) Cons k by (cases t) (auto split: option.splits)
    have "ns \<noteq> []" using p ne by auto
    from "2.IH" [OF t(1) this t(2,3) ne p] show ?thesis
      using t Cons k \<open>ns \<noteq> []\<close> by (auto simp: map_of_put_entry)
  qed
qed simp

section \<open>Link-free locations\<close>

text \<open>No prefix of the location, the location included, is a link; all exist.\<close>

definition link_free :: "node \<Rightarrow> loc \<Rightarrow> bool" where
  "link_free t l = (\<forall>m. prefix m l \<longrightarrow> (\<exists>n. lookup t m = Some n \<and> \<not> node_is_link n))"

lemma link_free_prefix: "link_free t l \<Longrightarrow> prefix m l \<Longrightarrow> link_free t m"
  by (auto simp: link_free_def intro: prefix_order.trans)

lemma link_free_snoc:
  "link_free t (l @ [n]) \<longleftrightarrow>
     link_free t l \<and> (\<exists>c. lookup t (l @ [n]) = Some c \<and> \<not> node_is_link c)"
  by (auto simp: link_free_def)

lemma link_free_Nil: "link_free t [] \<longleftrightarrow> \<not> node_is_link t"
  by (auto simp: link_free_def)

text \<open>Where a resolution ends: at a link-free location, when it follows the last link.\<close>

lemma walk_link_free:
  "walk t True False k l cs = Inr m \<Longrightarrow> link_free t l \<Longrightarrow> link_free t m"
proof (induction t True False k l cs rule: walk.induct)
  case (2 t k l cs)
  then have "link_free t []" by (auto intro: link_free_prefix)
  with 2 show ?case by simp
next
  case (5 t k l cs)
  then have "link_free t (butlast l)" by (auto intro: link_free_prefix prefixeq_butlast)
  with 5 show ?case by (auto split: option.splits node.splits)
next
  case (6 t k l n cs)
  then show ?case
    by (auto split: option.splits node.splits if_splits simp: link_free_snoc lookup_snoc)
qed (auto split: option.splits node.splits)

text \<open>On a link-free location the resolution follows the names.\<close>

lemma link_free_dir:
  assumes "link_free t (l @ n # ns)"
  obtains es c where "lookup t l = Some (DirNode es)" "map_of es n = Some c" "\<not> node_is_link c"
    "link_free t (l @ [n])"
proof -
  have lf: "link_free t (l @ [n])" using assms by (rule link_free_prefix) simp
  then obtain c where "lookup t (l @ [n]) = Some c" "\<not> node_is_link c"
    by (auto simp: link_free_snoc)
  with that lf show thesis by (auto simp: lookup_snoc split: option.splits node.splits)
qed

lemma walk_names:
  "link_free t (l @ ns) \<Longrightarrow> walk t final create k l (map Normal ns) = Inr (l @ ns)"
proof (induction ns arbitrary: l)
  case (Cons n ns)
  from Cons.prems obtain es c where c: "lookup t l = Some (DirNode es)" "map_of es n = Some c"
    "\<not> node_is_link c" by (rule link_free_dir)
  have "walk t final create k (l @ [n]) (map Normal ns) = Inr ((l @ [n]) @ ns)"
    using Cons.prems by (intro Cons.IH) simp
  with c show ?case by (auto split: node.splits)
qed simp

text \<open>No prefix of the location is a link; a prefix may be missing.\<close>

definition no_link :: "node \<Rightarrow> loc \<Rightarrow> bool" where
  "no_link t l = (\<forall>m c. prefix m l \<longrightarrow> lookup t m = Some c \<longrightarrow> \<not> node_is_link c)"

lemma link_free_no_link: "link_free t l \<Longrightarrow> no_link t l"
  by (auto simp: link_free_def no_link_def)

lemma no_link_prefix: "no_link t l \<Longrightarrow> prefix m l \<Longrightarrow> no_link t m"
  unfolding no_link_def by (meson prefix_order.trans)

lemma no_link_snoc:
  "no_link t (l @ [n]) \<longleftrightarrow> no_link t l \<and> (\<forall>c. lookup t (l @ [n]) = Some c \<longrightarrow> \<not> node_is_link c)"
  by (auto simp: no_link_def)

lemma walk_no_link:
  "no_link t (l @ ns) \<Longrightarrow> walk t final create k l (map Normal ns) = Inr m \<Longrightarrow> m = l @ ns"
proof (induction ns arbitrary: l)
  case (Cons n ns)
  have nl: "no_link t (l @ [n])" using Cons.prems(1) by (rule no_link_prefix) simp
  from Cons.prems(2) obtain es where es: "lookup t l = Some (DirNode es)"
    by (auto split: option.splits node.splits)
  show ?case
  proof (cases "map_of es n")
    case None
    then show ?thesis using Cons.prems(2) es by (auto split: if_splits)
  next
    case (Some c)
    then have "\<not> node_is_link c" using nl es by (auto simp: no_link_snoc lookup_snoc)
    then have "walk t final create k (l @ [n]) (map Normal ns) = Inr m"
      using Cons.prems(2) es Some by (auto split: node.splits)
    with Cons.IH [of "l @ [n]"] Cons.prems(1) show ?thesis by simp
  qed
qed simp

text \<open>Names that lead to a link-free location can be walked one part at a time.\<close>

lemma walk_names_append:
  "link_free t (l @ ns) \<Longrightarrow> walk t final create k l (map Normal ns @ cs) = walk t final create k (l @ ns) cs"
proof (induction ns arbitrary: l)
  case (Cons n ns)
  from Cons.prems obtain es c where c: "lookup t l = Some (DirNode es)" "map_of es n = Some c"
    "\<not> node_is_link c" by (rule link_free_dir)
  have "walk t final create k (l @ [n]) (map Normal ns @ cs) = walk t final create k ((l @ [n]) @ ns) cs"
    using Cons.prems by (intro Cons.IH) simp
  with c show ?case by (auto split: node.splits)
qed simp

text \<open>Everything above an existing location exists and is a directory.\<close>

lemma lookup_above: "lookup t (l @ n # ns) = Some c \<Longrightarrow> \<exists>es. lookup t l = Some (DirNode es)"
  by (auto simp: lookup_append split: option.splits) (metis lookup.simps(3,4) node.exhaust option.distinct(1))

lemma no_link_link_free: "no_link t l \<Longrightarrow> lookup t l = Some c \<Longrightarrow> link_free t l"
  unfolding no_link_def link_free_def
  by (metis lookup_above prefix_def append_Nil2 neq_Nil_conv prefix_order.refl)

text \<open>Well-formed states: the root is a directory, the working directory a location free of links.\<close>

definition os_wf :: "os \<Rightarrow> bool" where
  "os_wf s = (node_is_dir (tree s) \<and> (\<forall>l. cwd s = Some l \<longrightarrow> link_free (tree s) l))"

lemma os_wf_root: "os_wf s \<Longrightarrow> link_free (tree s) []"
  by (cases "tree s") (auto simp: os_wf_def link_free_Nil)

lemma resolve_loc_abs: "resolve_loc s f c (abs_path l) = walk (tree s) f c max_links [] (map Normal l)"
  by (simp add: resolve_loc_def abs_path_def)

lemma resolve_loc_names:
  "link_free (tree s) l \<Longrightarrow> resolve_loc s f c (abs_path l) = Inr l"
  using walk_names [of "tree s" "[]" l] by (simp add: resolve_loc_abs)

lemma resolve_loc_no_link:
  "no_link (tree s) l \<Longrightarrow> resolve_loc s f c (abs_path l) = Inr m \<Longrightarrow> m = l"
  using walk_no_link [of "tree s" "[]" l] by (simp add: resolve_loc_abs)

lemma resolve_loc_link_free:
  assumes "os_wf s" "resolve_loc s True False p = Inr l"
  shows "link_free (tree s) l"
proof -
  note root = os_wf_root [OF assms(1)]
  have cwd: "link_free (tree s) c" if "cwd s = Some c" for c
    using assms(1) that by (simp add: os_wf_def)
  show ?thesis
    using assms(2) walk_link_free [OF _ root] walk_link_free [OF _ cwd]
    by (auto simp: resolve_loc_def split: if_splits option.splits)
qed

lemma canonicalize_abs:
  assumes "os_wf s" "canonicalize s p = Inr q"
  obtains l where "q = abs_path l" "link_free (tree s) l"
  using assms resolve_loc_link_free by (auto simp: canonicalize_def result_simps)

text \<open>Canonicalisation is idempotent.\<close>

lemma canonicalize_names: "link_free (tree s) l \<Longrightarrow> canonicalize s (abs_path l) = Inr (abs_path l)"
  by (simp add: canonicalize_def resolve_loc_names)

lemma canonicalize_no_link:
  "no_link (tree s) l \<Longrightarrow> canonicalize s (abs_path l) = Inr q \<Longrightarrow> q = abs_path l"
  by (auto simp: canonicalize_def result_simps dest: resolve_loc_no_link)

section \<open>What the writing operations change\<close>

text \<open>
  \<open>changed_below l s s'\<close>: the operation that led from \<open>s\<close> to \<open>s'\<close> changed nothing at a
  location parallel to \<open>l\<close>, and not the working directory.
\<close>

definition changed_below :: "loc \<Rightarrow> os \<Rightarrow> os \<Rightarrow> bool" where
  "changed_below l s s' =
     ((\<forall>m. m \<parallel> l \<longrightarrow> lookup (tree s') m = lookup (tree s) m) \<and> cwd s' = cwd s)"

lemma changed_below_refl [simp]: "changed_below l s s"
  by (simp add: changed_below_def)

lemma changed_below_trans:
  "changed_below l s s' \<Longrightarrow> changed_below l s' s'' \<Longrightarrow> changed_below l s s''"
  by (simp add: changed_below_def)

lemma parallel_prefix: "m \<parallel> l \<Longrightarrow> prefix l k \<Longrightarrow> m \<parallel> k"
  by (metis parallel_append parallel_commute prefix_def append_Nil2)

lemma changed_below_prefix: "changed_below k s s' \<Longrightarrow> prefix l k \<Longrightarrow> changed_below l s s'"
  by (auto simp: changed_below_def dest: parallel_prefix)

lemma put_node_changed: "changed_below l s (put_node s l v)"
proof -
  have "lookup (set_at (tree s) l v) m = lookup (tree s) m" if "m \<parallel> l" for m
    using lookup_update_parallel [of l m] that by (simp add: parallel_commute)
  then show ?thesis by (simp add: changed_below_def put_node_def)
qed

lemma fs_create_changed:
  assumes "no_link (tree s) l" "fs_create s (abs_path l) = (r, s')"
  shows "changed_below l s s'" "r = Inr m \<Longrightarrow> m = l"
proof -
  have "changed_below l s s' \<and> (r = Inr m \<longrightarrow> m = l)"
  proof (cases "resolve_loc s True True (abs_path l)")
    case (Inl e)
    with assms(2) show ?thesis by (auto simp: fs_create_def)
  next
    case (Inr k)
    then have "k = l" by (rule resolve_loc_no_link [OF assms(1)])
    with assms(2) Inr show ?thesis
      by (auto simp: fs_create_def put_node_changed split: option.splits node.splits)
  qed
  then show "changed_below l s s'" "r = Inr m \<Longrightarrow> m = l" by auto
qed

lemma fs_write_changed:
  assumes "no_link (tree s) l" "fs_write s (abs_path l) bs = (r, s')"
  shows "changed_below l s s'"
proof (cases "fs_create s (abs_path l)")
  case (Pair r1 s1)
  note c = fs_create_changed [OF assms(1) Pair]
  show ?thesis
  proof (cases r1)
    case (Inl e)
    then show ?thesis using assms(2) Pair c(1) by (simp add: fs_write_def)
  next
    case (Inr m)
    then have "s' = put_node s1 l (Some (FileNode bs))"
      using assms(2) Pair c(2) by (auto simp: fs_write_def fs_write_loc_def)
    then show ?thesis using c(1) put_node_changed changed_below_trans by blast
  qed
qed

end
