(* ===== verification/Path_Trie.thy ===== *)
theory Path_Trie
  imports Paths
begin

text \<open>
  The trie of allowed directories (\<open>PathTrie\<close> in \<open>src/structures.rs\<close>). A node is its list of
  named children and its end mark; a lookup takes the first child of a name, as the source's
  \<open>find\<close> does. Keys are the lossy UTF-8 names of the components. The interface that the
  sandbox relies on is the locale \<open>prefix_index\<close>: what an insertion stores, and that the
  lookup finds the longest stored prefix; the trie is its interpretation.
\<close>

datatype trie_node = TrieNode (children: "(string \<times> trie_node) list") (is_end: bool)

definition new_node :: trie_node where
  "new_node = TrieNode [] False"

definition get_child :: "trie_node \<Rightarrow> string \<Rightarrow> trie_node option" where
  "get_child t k = map_of (children t) k"

text \<open>
  \<open>get_or_insert_child\<close> returns a reference to the child of the name, which it appends when
  there is none; \<open>f\<close> is what the caller then does to the child.
\<close>

fun get_or_insert_child ::
    "string \<Rightarrow> (trie_node \<Rightarrow> trie_node) \<Rightarrow> (string \<times> trie_node) list \<Rightarrow> (string \<times> trie_node) list" where
  "get_or_insert_child k f [] = [(k, f new_node)]"
| "get_or_insert_child k f ((k', t) # ts) =
     (if k' = k then (k', f t) # ts else (k', t) # get_or_insert_child k f ts)"

fun component_key :: "component \<Rightarrow> string option" where
  "component_key RootDir = Some ''/''"
| "component_key (Normal n) = Some (lossy n)"
| "component_key CurDir = None"
| "component_key ParentDir = None"
| "component_key (Prefix s) = Some (lossy s)"

fun trie_insert :: "trie_node \<Rightarrow> path \<Rightarrow> trie_node" where
  "trie_insert t [] = TrieNode (children t) True"
| "trie_insert t (c # cs) =
     (case component_key c of
        None \<Rightarrow> trie_insert t cs
      | Some k \<Rightarrow>
          TrieNode (get_or_insert_child k (\<lambda>s. trie_insert s cs) (children t)) (is_end t))"

fun trie_extend :: "trie_node \<Rightarrow> path list \<Rightarrow> trie_node" where
  "trie_extend t [] = t"
| "trie_extend t (p # ps) = trie_extend (trie_insert t p) ps"

fun contains_loop :: "trie_node \<Rightarrow> bool \<Rightarrow> path \<Rightarrow> bool" where
  "contains_loop current matched [] = matched"
| "contains_loop current matched (c # cs) =
     (if c = CurDir then contains_loop current matched cs
      else if c = ParentDir then False
      else (case get_child current (the (component_key c)) of
              None \<Rightarrow> matched
            | Some child \<Rightarrow> contains_loop child (if is_end child then True else matched) cs))"

definition trie_contains :: "trie_node \<Rightarrow> path \<Rightarrow> bool" where
  "trie_contains t p = contains_loop t (is_end t) p"

fun longest_loop :: "trie_node \<Rightarrow> path \<Rightarrow> path option \<Rightarrow> path \<Rightarrow> path option" where
  "longest_loop current result last_match [] = last_match"
| "longest_loop current result last_match (c # cs) =
     (if c = CurDir then longest_loop current result last_match cs
      else if c = ParentDir then last_match
      else (case get_child current (the (component_key c)) of
              None \<Rightarrow> last_match
            | Some child \<Rightarrow>
                (let result' = join result (path_of (the (component_key c)))
                 in longest_loop child result'
                      (if is_end child then Some result' else last_match) cs)))"

definition longest_prefix :: "trie_node \<Rightarrow> path \<Rightarrow> path option" where
  "longest_prefix t p = longest_loop t [] (if is_end t then Some [] else None) p"

section \<open>What a trie stores\<close>

fun ends :: "trie_node \<Rightarrow> string list \<Rightarrow> bool" where
  "ends t [] = is_end t"
| "ends t (k # ks) = (case get_child t k of None \<Rightarrow> False | Some c \<Rightarrow> ends c ks)"

definition stored :: "trie_node \<Rightarrow> string list set" where
  "stored t = {ks. ends t ks}"

fun keys_of :: "path \<Rightarrow> string list" where
  "keys_of [] = []"
| "keys_of (c # cs) = (case component_key c of None \<Rightarrow> keys_of cs | Some k \<Rightarrow> k # keys_of cs)"

text \<open>A lookup reads the components up to the first parent component.\<close>

definition lookup_keys :: "path \<Rightarrow> string list" where
  "lookup_keys p = keys_of (takeWhile (\<lambda>c. c \<noteq> ParentDir) p)"

definition keys_path :: "string list \<Rightarrow> path" where
  "keys_path ks = foldl (\<lambda>r k. join r (path_of k)) [] ks"

lemma get_child_insert:
  "map_of (get_or_insert_child k f ts) j =
     (if j = k then Some (f (unwrap_or new_node (map_of ts k))) else map_of ts j)"
  by (induction k f ts rule: get_or_insert_child.induct) auto

lemma ends_new_node [simp]: "\<not> ends new_node ks"
  by (cases ks) (auto simp: new_node_def get_child_def)

lemma ends_TrieNode_True: "ends (TrieNode (children t) True) ks \<longleftrightarrow> ks = [] \<or> ends t ks"
  by (cases ks) (auto simp: get_child_def)

lemma ends_insert: "ends (trie_insert t p) ks \<longleftrightarrow> ks = keys_of p \<or> ends t ks"
proof (induction t p arbitrary: ks rule: trie_insert.induct)
  case (1 t)
  then show ?case by (simp add: ends_TrieNode_True)
next
  case (2 t c cs)
  show ?case
  proof (cases "component_key c")
    case None
    then show ?thesis using "2.IH"(1) by simp
  next
    case (Some k)
    then show ?thesis
      using "2.IH"(2) [OF Some]
      by (cases ks)
        (auto simp: get_child_def get_child_insert unwrap_or_def split: option.splits if_splits)
  qed
qed

lemma stored_insert: "stored (trie_insert t p) = insert (keys_of p) (stored t)"
  by (auto simp: stored_def ends_insert)

lemma stored_new_node: "stored new_node = {}"
  by (simp add: stored_def)

section \<open>The lookup finds the longest stored prefix\<close>

fun best :: "trie_node \<Rightarrow> string list \<Rightarrow> string list option" where
  "best t [] = (if is_end t then Some [] else None)"
| "best t (k # ks) =
     (case Option.bind (get_child t k) (\<lambda>c. best c ks) of
        Some js \<Rightarrow> Some (k # js)
      | None \<Rightarrow> if is_end t then Some [] else None)"

lemma best_Some:
  "best t ks = Some js \<Longrightarrow>
     prefix js ks \<and> ends t js \<and> (\<forall>ls. prefix ls ks \<longrightarrow> ends t ls \<longrightarrow> length ls \<le> length js)"
proof (induction t ks arbitrary: js rule: best.induct)
  case (1 t)
  then show ?case by (auto split: if_splits)
next
  case (2 t k ks)
  show ?case
  proof (cases "Option.bind (get_child t k) (\<lambda>c. best c ks)")
    case (Some ms)
    then obtain c where c: "get_child t k = Some c" "best c ks = Some ms"
      by (auto simp: Option.bind_eq_Some_conv)
    have "length ls \<le> length js" if "prefix ls (k # ks)" "ends t ls" for ls
      using "2.IH" [OF c] that c "2.prems" Some
      by (cases ls) auto
    then show ?thesis using "2.IH" [OF c] c "2.prems" Some by auto
  next
    case None
    then have no: "get_child t k = Some c \<Longrightarrow> best c ks = None" for c by simp
    have none: "best c ls = None \<Longrightarrow> prefix ms ls \<Longrightarrow> \<not> ends c ms" for c ls ms
    proof (induction c ls arbitrary: ms rule: best.induct)
      case (1 t)
      then show ?case by (auto split: if_splits)
    next
      case (2 t k ks)
      then show ?case
        by (cases ms) (auto split: option.splits if_splits)
    qed
    have "length ls \<le> length js" if "prefix ls (k # ks)" "ends t ls" for ls
      using that no none by (cases ls) (auto split: option.splits)
    then show ?thesis using None "2.prems" by (auto split: if_splits)
  qed
qed

lemma best_None: "best t ks = None \<Longrightarrow> prefix ls ks \<Longrightarrow> \<not> ends t ls"
proof (induction t ks arbitrary: ls rule: best.induct)
  case (1 t)
  then show ?case by (auto split: if_splits)
next
  case (2 t k ks)
  then show ?case by (cases ls) (auto split: option.splits if_splits)
qed

lemma longest_loop_best:
  "longest_loop t result (if is_end t then Some result else before) p =
     (case best t (lookup_keys p) of
        Some js \<Rightarrow> Some (foldl (\<lambda>r k. join r (path_of k)) result js)
      | None \<Rightarrow> before)"
proof (induction p arbitrary: t result before)
  case Nil
  then show ?case by (auto simp: lookup_keys_def)
next
  case (Cons c cs)
  show ?case
  proof (cases "c = CurDir \<or> c = ParentDir")
    case True
    then show ?thesis using Cons.IH by (auto simp: lookup_keys_def)
  next
    case False
    then obtain k where k: "component_key c = Some k" by (cases c) auto
    have ks: "lookup_keys (c # cs) = k # lookup_keys cs"
      using False k by (simp add: lookup_keys_def)
    show ?thesis
    proof (cases "get_child t k")
      case None
      then show ?thesis using False k ks by auto
    next
      case (Some child)
      let ?r = "join result (path_of k)"
      have "longest_loop t result (if is_end t then Some result else before) (c # cs)
          = longest_loop child ?r
              (if is_end child then Some ?r else (if is_end t then Some result else before)) cs"
        using False k Some by (simp add: Let_def)
      also have "\<dots> = (case best child (lookup_keys cs) of
              Some js \<Rightarrow> Some (foldl (\<lambda>r k. join r (path_of k)) ?r js)
            | None \<Rightarrow> (if is_end t then Some result else before))"
        by (rule Cons.IH)
      finally show ?thesis using Some ks by (auto split: option.splits)
    qed
  qed
qed

lemma longest_prefix_best: "longest_prefix t p = map_option keys_path (best t (lookup_keys p))"
  unfolding longest_prefix_def longest_loop_best
  by (simp add: keys_path_def split: option.split)

lemma contains_loop_best:
  "ParentDir \<notin> set p \<Longrightarrow>
     contains_loop t (is_end t \<or> m) p \<longleftrightarrow> m \<or> best t (lookup_keys p) \<noteq> None"
proof (induction p arbitrary: t m)
  case Nil
  then show ?case by (auto simp: lookup_keys_def)
next
  case (Cons c cs)
  show ?case
  proof (cases "c = CurDir")
    case True
    then show ?thesis using Cons by (simp add: lookup_keys_def)
  next
    case False
    then obtain k where k: "component_key c = Some k" using Cons.prems by (cases c) auto
    have ks: "lookup_keys (c # cs) = k # lookup_keys cs"
      using Cons.prems k by (auto simp: lookup_keys_def)
    show ?thesis
    proof (cases "get_child t k")
      case None
      then show ?thesis using False k ks Cons.prems by auto
    next
      case (Some child)
      have "contains_loop t (is_end t \<or> m) (c # cs) \<longleftrightarrow>
          contains_loop child (is_end child \<or> (is_end t \<or> m)) cs"
        using False k Some Cons.prems by (cases "is_end child") auto
      then show ?thesis using Cons ks Some by (auto split: option.splits)
    qed
  qed
qed

section \<open>The interface and its interpretation\<close>

locale prefix_index =
  fixes empty_index :: "'i"
    and add :: "'i \<Rightarrow> path \<Rightarrow> 'i"
    and find_longest :: "'i \<Rightarrow> path \<Rightarrow> path option"
    and content :: "'i \<Rightarrow> string list set"
  assumes content_empty: "content empty_index = {}"
    and content_add: "content (add i p) = insert (keys_of p) (content i)"
    and found: "find_longest i p = Some q \<Longrightarrow>
      \<exists>ks\<in>content i. prefix ks (lookup_keys p) \<and> q = keys_path ks \<and>
        (\<forall>ls\<in>content i. prefix ls (lookup_keys p) \<longrightarrow> length ls \<le> length ks)"
    and not_found: "find_longest i p = None \<Longrightarrow> ks \<in> content i \<Longrightarrow> \<not> prefix ks (lookup_keys p)"
begin

definition index_of :: "path list \<Rightarrow> 'i" where
  "index_of ps = foldl add empty_index ps"

lemma content_foldl: "content (foldl add i ps) = content i \<union> keys_of ` set ps"
  by (induction ps arbitrary: i) (auto simp: content_add)

lemma content_index_of: "content (index_of ps) = keys_of ` set ps"
  by (simp add: index_of_def content_foldl content_empty)

lemma found_member:
  "find_longest (index_of ps) p = Some q \<Longrightarrow>
     \<exists>d\<in>set ps. q = keys_path (keys_of d) \<and> prefix (keys_of d) (lookup_keys p)"
  using found [of "index_of ps" p q] by (auto simp: content_index_of)

lemma covered_found:
  "d \<in> set ps \<Longrightarrow> prefix (keys_of d) (lookup_keys p) \<Longrightarrow> \<exists>q. find_longest (index_of ps) p = Some q"
  using not_found [of "index_of ps" p "keys_of d"]
  by (cases "find_longest (index_of ps) p") (auto simp: content_index_of)

lemma found_longest:
  "find_longest (index_of ps) p = Some q \<Longrightarrow> d \<in> set ps \<Longrightarrow> prefix (keys_of d) (lookup_keys p) \<Longrightarrow>
     \<exists>e\<in>set ps. q = keys_path (keys_of e) \<and> prefix (keys_of d) (keys_of e)"
proof -
  assume f: "find_longest (index_of ps) p = Some q" and d: "d \<in> set ps"
    and pd: "prefix (keys_of d) (lookup_keys p)"
  from found [OF f] obtain ks where ks: "ks \<in> content (index_of ps)" "prefix ks (lookup_keys p)"
    "q = keys_path ks" "\<forall>ls\<in>content (index_of ps). prefix ls (lookup_keys p) \<longrightarrow> length ls \<le> length ks"
    by blast
  from d pd ks(4) have "length (keys_of d) \<le> length ks" by (auto simp: content_index_of)
  with pd ks(2) have "prefix (keys_of d) ks" by (rule prefix_length_prefix)
  with ks(1,3) show ?thesis by (auto simp: content_index_of)
qed

end

interpretation trie: prefix_index new_node trie_insert longest_prefix stored
proof
  show "stored new_node = {}" by (rule stored_new_node)
  show "stored (trie_insert i p) = insert (keys_of p) (stored i)" for i p by (rule stored_insert)
  show "\<exists>ks\<in>stored i. prefix ks (lookup_keys p) \<and> q = keys_path ks \<and>
        (\<forall>ls\<in>stored i. prefix ls (lookup_keys p) \<longrightarrow> length ls \<le> length ks)"
    if "longest_prefix i p = Some q" for i p q
    using that best_Some [of i "lookup_keys p"]
    by (auto simp: longest_prefix_best stored_def)
  show "\<not> prefix ks (lookup_keys p)" if "longest_prefix i p = None" "ks \<in> stored i" for i p ks
    using that best_None [of i "lookup_keys p" ks]
    by (auto simp: longest_prefix_best stored_def)
qed

lemma trie_extend_foldl: "trie_extend t ps = foldl trie_insert t ps"
  by (induction ps arbitrary: t) auto

lemma trie_index_of: "trie.index_of ps = trie_extend new_node ps"
  by (simp add: trie.index_of_def trie_extend_foldl)

section \<open>Keys of absolute paths\<close>

definition utf8_names :: "string list \<Rightarrow> bool" where
  "utf8_names ns = (list_all plain_name ns \<and> list_all valid_str ns)"

lemma keys_of_map_Normal: "keys_of (map Normal ns) = map lossy ns"
  by (induction ns) auto

lemma keys_of_abs_path: "keys_of (abs_path ns) = ''/'' # map lossy ns"
  by (simp add: abs_path_def keys_of_map_Normal)

lemma lookup_keys_abs_path: "lookup_keys (abs_path ns) = ''/'' # map lossy ns"
proof -
  have "takeWhile (\<lambda>c. c \<noteq> ParentDir) (abs_path ns) = abs_path ns"
    by (auto simp: abs_path_def takeWhile_eq_all_conv)
  then have "lookup_keys (abs_path ns) = keys_of (abs_path ns)"
    unfolding lookup_keys_def by (rule arg_cong)
  then show ?thesis by (simp add: keys_of_abs_path)
qed

lemma path_of_plain_name: "plain_name n \<Longrightarrow> path_of n = [Normal n]"
  using path_of_path_text [of "[Normal n]"] by simp

lemma path_of_slash: "path_of ''/'' = [RootDir]"
  using path_of_path_text [of "[RootDir]"] by (simp add: slash_def)

lemma keys_path_abs: "list_all plain_name ns \<Longrightarrow> keys_path (''/'' # ns) = abs_path ns"
proof (induction ns rule: rev_induct)
  case Nil
  then show ?case by (simp add: keys_path_def path_of_slash join_def)
next
  case (snoc n ns)
  then show ?case
    by (simp add: keys_path_def path_of_plain_name join_def)
qed

lemma map_lossy_id: "list_all valid_str ns \<Longrightarrow> map lossy ns = ns"
  by (induction ns) auto

lemma keys_path_keys_abs: "utf8_names ns \<Longrightarrow> keys_path (keys_of (abs_path ns)) = abs_path ns"
  by (simp add: utf8_names_def keys_of_abs_path map_lossy_id keys_path_abs)

end
