(* ===== verification/Tools.thy ===== *)
theory Tools
  imports Rust_Str
begin

text \<open>
  \<open>src/tools.rs\<close> and the selection of categories in \<open>src/lib.rs\<close>: the table of the 41 tools,
  their categories and write flags, the lookup and the gate \<open>is_tool_available\<close>. The lemmas
  show that the names are unique, so that the first match of \<open>lookup\<close> is the only one, and
  characterise the gate and the categories that the command line enables.
\<close>

datatype tool_category = Read | Write | Delete | Compress | Crypto | Csv

definition all_categories :: "tool_category list" where
  "all_categories = [Read, Write, Delete, Compress, Crypto, Csv]"

fun slug :: "tool_category \<Rightarrow> string" where
  "slug Read = ''read''"
| "slug Write = ''write''"
| "slug Delete = ''delete''"
| "slug Compress = ''compress''"
| "slug Crypto = ''crypto''"
| "slug Csv = ''csv''"

text \<open>
  \<open>FromStr\<close>: the text is trimmed, lowered and its underscores become hyphens. Lowering is by
  ASCII here: the source's \<open>to_lowercase\<close> differs only on characters outside ASCII, and none
  of those lowers to a letter of a slug.
\<close>

definition category_key :: "string \<Rightarrow> string" where
  "category_key s = str_replace ''_'' ''-'' (to_ascii_lowercase (trim s))"

definition category_from_str :: "string \<Rightarrow> string + tool_category" where
  "category_from_str s =
     (let k = category_key s in
      if k = ''read'' then Inr Read
      else if k = ''write'' then Inr Write
      else if k = ''delete'' then Inr Delete
      else if k = ''compress'' then Inr Compress
      else if k = ''crypto'' then Inr Crypto
      else if k = ''csv'' then Inr Csv
      else Inl (''Unknown tool category: '' @ s))"

record tool_meta =
  tool_name :: string
  category :: tool_category
  is_write :: bool

abbreviation tool :: "string \<Rightarrow> tool_category \<Rightarrow> bool \<Rightarrow> tool_meta" where
  "tool n c w \<equiv> \<lparr>tool_name = n, category = c, is_write = w\<rparr>"

definition all_tools :: "tool_meta list" where
  "all_tools =
    [tool ''read_text_file'' Read False,
     tool ''read_media_file'' Read False,
     tool ''write_file'' Write True,
     tool ''edit_file'' Write True,
     tool ''create_directory'' Write True,
     tool ''list_directory'' Read False,
     tool ''list_directory_with_sizes'' Read False,
     tool ''move_file'' Write True,
     tool ''copy_file'' Write True,
     tool ''delete_file'' Delete True,
     tool ''delete_directory'' Delete True,
     tool ''search_files'' Read False,
     tool ''directory_tree'' Read False,
     tool ''get_file_info'' Read False,
     tool ''list_allowed_directories'' Read False,
     tool ''hash_file'' Read False,
     tool ''grep_files'' Read False,
     tool ''set_permissions'' Write True,
     tool ''get_disk_usage'' Read False,
     tool ''create_symlink'' Write True,
     tool ''read_file_range'' Read False,
     tool ''compress_gzip'' Compress True,
     tool ''decompress_gzip'' Compress True,
     tool ''compress_zstd'' Compress True,
     tool ''decompress_zstd'' Compress True,
     tool ''compress_tar'' Compress True,
     tool ''decompress_tar'' Compress True,
     tool ''encrypt_file'' Crypto True,
     tool ''decrypt_file'' Crypto True,
     tool ''generate_key'' Crypto True,
     tool ''csv_create'' Csv True,
     tool ''csv_read'' Csv False,
     tool ''csv_add_row'' Csv True,
     tool ''csv_update_cell'' Csv True,
     tool ''csv_remove_row'' Csv True,
     tool ''csv_add_column'' Csv True,
     tool ''csv_remove_column'' Csv True,
     tool ''csv_rename_column'' Csv True,
     tool ''csv_read_column_values_range'' Csv False,
     tool ''csv_read_row_range'' Csv False,
     tool ''csv_select_column_range'' Csv False]"

definition lookup_tool :: "string \<Rightarrow> tool_meta option" where
  "lookup_tool name = find (\<lambda>t. tool_name t = name) all_tools"

definition is_write_tool :: "string \<Rightarrow> bool" where
  "is_write_tool name = unwrap_or False (map_option is_write (lookup_tool name))"

definition category_of :: "string \<Rightarrow> tool_category option" where
  "category_of name = map_option category (lookup_tool name)"

definition is_tool_available :: "string \<Rightarrow> tool_category list \<Rightarrow> bool" where
  "is_tool_available name enabled =
     (case category_of name of None \<Rightarrow> False | Some c \<Rightarrow> List.member enabled c)"

section \<open>The categories enabled on the command line\<close>

record category_flags =
  enable_all :: bool
  enable_read :: bool
  enable_write :: bool
  enable_delete :: bool
  enable_compress :: bool
  enable_crypto :: bool
  enable_csv :: bool

definition enabled_categories :: "category_flags \<Rightarrow> tool_category list" where
  "enabled_categories a =
     (if enable_all a then all_categories
      else (if enable_read a then [Read] else [])
         @ (if enable_write a then [Write] else [])
         @ (if enable_delete a then [Delete] else [])
         @ (if enable_compress a then [Compress] else [])
         @ (if enable_crypto a then [Crypto] else [])
         @ (if enable_csv a then [Csv] else []))"

section \<open>Laws of the table\<close>

lemma all_tools_distinct: "distinct (map tool_name all_tools)"
  by (simp add: all_tools_def)

lemma find_distinct:
  "distinct (map f xs) \<Longrightarrow> x \<in> set xs \<Longrightarrow> find (\<lambda>y. f y = f x) xs = Some x"
  by (induction xs) (auto simp: image_iff)

lemma lookup_tool_in: "t \<in> set all_tools \<Longrightarrow> lookup_tool (tool_name t) = Some t"
  unfolding lookup_tool_def by (rule find_distinct [OF all_tools_distinct])

lemma lookup_tool_eq_Some: "lookup_tool n = Some t \<longleftrightarrow> t \<in> set all_tools \<and> tool_name t = n"
  using lookup_tool_in [of t] find_Some_iff_filter [of "\<lambda>t. tool_name t = n" all_tools t]
  by (auto simp: lookup_tool_def)

lemma tool_unique:
  "t \<in> set all_tools \<Longrightarrow> u \<in> set all_tools \<Longrightarrow> tool_name t = tool_name u \<Longrightarrow> t = u"
  by (metis lookup_tool_in option.inject)

lemma is_tool_available_iff:
  "is_tool_available n enabled \<longleftrightarrow>
     (\<exists>t\<in>set all_tools. tool_name t = n \<and> category t \<in> set enabled)"
  by (cases "lookup_tool n")
    (auto simp: is_tool_available_def category_of_def lookup_tool_eq_Some lookup_tool_in
      dest: tool_unique)

lemma is_write_tool_iff:
  "is_write_tool n \<longleftrightarrow> (\<exists>t\<in>set all_tools. tool_name t = n \<and> is_write t)"
  by (cases "lookup_tool n")
    (auto simp: is_write_tool_def lookup_tool_eq_Some lookup_tool_in dest: tool_unique)

lemma all_tools_write_flags:
  "\<forall>t\<in>set all_tools.
     (category t \<in> {Write, Delete, Compress, Crypto} \<longrightarrow> is_write t) \<and>
     (category t = Read \<longrightarrow> \<not> is_write t)"
  by (simp add: all_tools_def)

lemma enabled_categories_iff:
  "c \<in> set (enabled_categories a) \<longleftrightarrow>
     enable_all a \<or>
     (case c of Read \<Rightarrow> enable_read a | Write \<Rightarrow> enable_write a | Delete \<Rightarrow> enable_delete a
      | Compress \<Rightarrow> enable_compress a | Crypto \<Rightarrow> enable_crypto a | Csv \<Rightarrow> enable_csv a)"
  by (cases c) (simp_all add: enabled_categories_def all_categories_def)

end
