(* ===== verification/Json.thy ===== *)
theory Json
  imports Rust_Str
begin

text \<open>
  The JSON values the handlers take apart and build: \<open>serde_json::Value\<close>, whose constructors
  the source matches on, and the accessors the source calls on it. An object is kept as its
  association list in key order without duplicates, as the default map of \<open>serde_json\<close> is
  ordered. A number is an integer or a float; a float is kept as its text, as no definition
  computes with one. Parsing and printing of JSON text are parameters of the definitions that
  use them.
\<close>

datatype json =
    JNull
  | JBool bool
  | JInt int
  | JFloat string
  | JStr string
  | JArr "json list"
  | JObj "(string \<times> json) list"

type_synonym json_map = "(string \<times> json) list"

text \<open>\<open>Map::insert\<close>: replaces the value of a key, or puts the key in its place.\<close>

fun map_insert :: "string \<Rightarrow> json \<Rightarrow> json_map \<Rightarrow> json_map" where
  "map_insert k v [] = [(k, v)]"
| "map_insert k v ((k', v') # m) =
     (if k = k' then (k, v) # m
      else if k < k' then (k, v) # (k', v') # m
      else (k', v') # map_insert k v m)"

text \<open>\<open>map.entry(k).or_insert(v)\<close>: keeps a value that is there.\<close>

definition or_insert :: "string \<Rightarrow> json \<Rightarrow> json_map \<Rightarrow> json_map" where
  "or_insert k v m = (case map_of m k of None \<Rightarrow> map_insert k v m | Some _ \<Rightarrow> m)"

text \<open>The macro \<open>json!({ k: v, ... })\<close> inserts its entries one after the other.\<close>

definition obj :: "json_map \<Rightarrow> json" where
  "obj kvs = JObj (fold (\<lambda>(k, v). map_insert k v) kvs [])"

text \<open>\<open>v[k] = x\<close> on an object; the source does this only on objects that it has built.\<close>

fun set_key :: "string \<Rightarrow> json \<Rightarrow> json \<Rightarrow> json" where
  "set_key k v (JObj m) = JObj (map_insert k v m)"
| "set_key k v j = j"

text \<open>\<open>Value::get(name)\<close>: \<open>None\<close> also for a value that is no object.\<close>

fun jget :: "json \<Rightarrow> string \<Rightarrow> json option" where
  "jget (JObj m) k = map_of m k"
| "jget _ k = None"

fun as_str :: "json \<Rightarrow> string option" where
  "as_str (JStr s) = Some s"
| "as_str _ = None"

fun as_bool :: "json \<Rightarrow> bool option" where
  "as_bool (JBool b) = Some b"
| "as_bool _ = None"

fun as_i64 :: "json \<Rightarrow> int option" where
  "as_i64 (JInt i) = (if - (2 ^ 63) \<le> i \<and> i < 2 ^ 63 then Some i else None)"
| "as_i64 _ = None"

fun as_u64 :: "json \<Rightarrow> nat option" where
  "as_u64 (JInt i) = (if 0 \<le> i \<and> i < 2 ^ 64 then Some (nat i) else None)"
| "as_u64 _ = None"

fun as_array :: "json \<Rightarrow> json list option" where
  "as_array (JArr xs) = Some xs"
| "as_array _ = None"

fun as_object :: "json \<Rightarrow> json_map option" where
  "as_object (JObj m) = Some m"
| "as_object _ = None"

definition is_array :: "json \<Rightarrow> bool" where
  "is_array v = (as_array v \<noteq> None)"

definition is_object :: "json \<Rightarrow> bool" where
  "is_object v = (as_object v \<noteq> None)"

fun is_string :: "json \<Rightarrow> bool" where
  "is_string (JStr _) = True"
| "is_string _ = False"

fun is_number :: "json \<Rightarrow> bool" where
  "is_number (JInt _) = True"
| "is_number (JFloat _) = True"
| "is_number _ = False"

fun is_null :: "json \<Rightarrow> bool" where
  "is_null JNull = True"
| "is_null _ = False"

definition jnat :: "nat \<Rightarrow> json" where
  "jnat n = JInt (int n)"

definition jstrs :: "string list \<Rightarrow> json" where
  "jstrs ss = JArr (map JStr ss)"

definition jopt :: "('a \<Rightarrow> json) \<Rightarrow> 'a option \<Rightarrow> json" where
  \<comment> \<open>serialization of an \<open>Option\<close>\<close>
  "jopt f x = (case x of None \<Rightarrow> JNull | Some a \<Rightarrow> f a)"

section \<open>Laws of objects\<close>

lemma map_of_map_insert [simp]: "map_of (map_insert k v m) = (map_of m)(k \<mapsto> v)"
  by (induction k v m rule: map_insert.induct) auto

lemma map_of_or_insert [simp]:
  "map_of (or_insert k v m) = (case map_of m k of None \<Rightarrow> (map_of m)(k \<mapsto> v) | Some _ \<Rightarrow> map_of m)"
  by (simp add: or_insert_def split: option.split)

lemma map_of_fold_insert:
  "map_of (fold (\<lambda>(k, v). map_insert k v) kvs m) = map_of m ++ map_of (rev kvs)"
  by (induction kvs arbitrary: m) (auto simp: map_add_def fun_eq_iff split: option.splits)

lemma jget_obj [simp]: "jget (obj kvs) k = map_of (rev kvs) k"
  by (simp add: obj_def map_of_fold_insert)

lemma jget_set_key: "is_object j \<Longrightarrow> jget (set_key k v j) k' = (if k' = k then Some v else jget j k')"
  by (cases j) (auto simp: is_object_def)

lemma is_object_obj [simp]: "is_object (obj kvs)"
  by (simp add: obj_def is_object_def)

text \<open>The keys stay sorted and distinct.\<close>

definition key_ordered :: "json_map \<Rightarrow> bool" where
  "key_ordered m = sorted_wrt (<) (map fst m)"

lemma set_map_insert: "fst ` set (map_insert k v m) = insert k (fst ` set m)"
  by (induction k v m rule: map_insert.induct) auto

lemma key_ordered_map_insert: "key_ordered m \<Longrightarrow> key_ordered (map_insert k v m)"
proof (induction k v m rule: map_insert.induct)
  case (2 k v k' v' m)
  then show ?case
    using set_map_insert [of k v m]
    by (auto simp: key_ordered_def)
qed (simp add: key_ordered_def)

lemma key_ordered_fold:
  "key_ordered m \<Longrightarrow> key_ordered (fold (\<lambda>(k, v). map_insert k v) kvs m)"
  by (induction kvs arbitrary: m) (auto simp: key_ordered_map_insert)

end
