(* ===== verification/Args.thy ===== *)
theory Args
  imports Json Errors
begin

text \<open>
  \<open>src/actions/args.rs\<close>: how the tool handlers pull typed arguments out of the optional
  JSON object of a call. The text of a JSON value (\<open>Value::to_string\<close> of \<open>serde_json\<close>) is the
  parameter \<open>json_text\<close> of \<open>val_as_string\<close>.
\<close>

type_synonym 'a result = "mcs_error + 'a"

definition quoted :: "string \<Rightarrow> string" where
  "quoted s = CHR 0x27 # s @ [CHR 0x27]"

definition arg :: "json option \<Rightarrow> string \<Rightarrow> json option" where
  \<comment> \<open>\<open>args.and_then(|a| a.get(name))\<close>\<close>
  "arg args name = Option.bind args (\<lambda>a. jget a name)"

definition missing_param :: "string \<Rightarrow> mcs_error" where
  "missing_param name = InvalidParams (''Missing required parameter: '' @ quoted name)"

definition get_str_arg :: "json option \<Rightarrow> string \<Rightarrow> string result" where
  "get_str_arg args name = ok_or (missing_param name) (Option.bind (arg args name) as_str)"

definition get_opt_str :: "json option \<Rightarrow> string \<Rightarrow> string option" where
  "get_opt_str args name = Option.bind (arg args name) as_str"

definition get_i64_arg :: "json option \<Rightarrow> string \<Rightarrow> int result" where
  "get_i64_arg args name = ok_or (missing_param name) (Option.bind (arg args name) as_i64)"

definition get_opt_i64 :: "json option \<Rightarrow> string \<Rightarrow> int option" where
  "get_opt_i64 args name = Option.bind (arg args name) as_i64"

definition get_opt_u64 :: "json option \<Rightarrow> string \<Rightarrow> nat option" where
  "get_opt_u64 args name = Option.bind (arg args name) as_u64"

definition get_opt_bool :: "json option \<Rightarrow> string \<Rightarrow> bool option" where
  "get_opt_bool args name = Option.bind (arg args name) as_bool"

text \<open>\<open>filter_map(|v| v.as_str())\<close>: elements that are no strings are left out.\<close>

fun filter_strs :: "json list \<Rightarrow> string list" where
  "filter_strs [] = []"
| "filter_strs (v # vs) =
     (case as_str v of None \<Rightarrow> filter_strs vs | Some s \<Rightarrow> s # filter_strs vs)"

definition get_opt_str_array :: "json option \<Rightarrow> string \<Rightarrow> string list option" where
  "get_opt_str_array args name =
     map_option filter_strs (Option.bind (arg args name) as_array)"

text \<open>The loop of \<open>get_str_array\<close>, with the index of its next element.\<close>

fun str_elements :: "string \<Rightarrow> nat \<Rightarrow> json list \<Rightarrow> string list result" where
  "str_elements name i [] = Inr []"
| "str_elements name i (v # vs) =
     and_then
       (ok_or (InvalidParams
           (quoted (name @ ''['' @ show_nat i @ '']'') @ '' must be a string'')) (as_str v))
       (\<lambda>s. and_then (str_elements name (Suc i) vs) (\<lambda>ss. Inr (s # ss)))"

definition get_str_array :: "json option \<Rightarrow> string \<Rightarrow> string list result" where
  "get_str_array args name =
     and_then
       (ok_or (InvalidParams
           (''Missing required: '' @ quoted name @ '' (must be an array)''))
         (Option.bind (arg args name) as_array))
       (str_elements name 0)"

definition get_edits_arg :: "json option \<Rightarrow> json list result" where
  "get_edits_arg args =
     ok_or (InvalidParams
         (''Missing required parameter: '' @ quoted ''edits'' @ '' (array)''))
       (Option.bind (arg args ''edits'') as_array)"

fun val_as_string :: "(json \<Rightarrow> string) \<Rightarrow> json \<Rightarrow> string" where
  "val_as_string json_text (JStr s) = s"
| "val_as_string json_text JNull = []"
| "val_as_string json_text other = json_text other"

text \<open>The whole is \<open>None\<close> as soon as one element is no array.\<close>

fun rows_of :: "(json \<Rightarrow> string) \<Rightarrow> json list \<Rightarrow> string list list option" where
  "rows_of json_text [] = Some []"
| "rows_of json_text (v # vs) =
     (case as_array v of
        None \<Rightarrow> None
      | Some inner \<Rightarrow>
          map_option (\<lambda>rows. map (val_as_string json_text) inner # rows)
            (rows_of json_text vs))"

definition get_opt_str_array_of_arrays ::
    "(json \<Rightarrow> string) \<Rightarrow> json option \<Rightarrow> string \<Rightarrow> string list list option" where
  "get_opt_str_array_of_arrays json_text args name =
     Option.bind (Option.bind (arg args name) as_array) (rows_of json_text)"

section \<open>Laws\<close>

lemma str_elements_eq_Inr:
  "str_elements name i vs = Inr ss \<longleftrightarrow> vs = map JStr ss"
proof (induction vs arbitrary: i ss)
  case (Cons v vs)
  then show ?case by (cases v) (auto simp: result_simps)
qed auto

lemma filter_strs_strs [simp]: "filter_strs (map JStr ss) = ss"
  by (induction ss) auto

text \<open>A required array of strings is exactly an array whose elements are all strings.\<close>

lemma get_str_array_eq_Inr:
  "get_str_array args name = Inr ss \<longleftrightarrow> arg args name = Some (jstrs ss)"
proof -
  have "Option.bind (arg args name) as_array = Some vs \<longleftrightarrow> arg args name = Some (JArr vs)" for vs
    by (cases "arg args name"; cases "the (arg args name)") auto
  then show ?thesis
    by (auto simp: get_str_array_def jstrs_def result_simps str_elements_eq_Inr)
qed

lemma get_str_arg_eq_Inr [result_simps]:
  "get_str_arg args name = Inr s \<longleftrightarrow> arg args name = Some (JStr s)"
proof -
  have "as_str v = Some s \<longleftrightarrow> v = JStr s" for v by (cases v) auto
  then show ?thesis
    by (auto simp: get_str_arg_def result_simps Option.bind_eq_Some_conv)
qed

lemma get_str_arg_eq_Inl [result_simps]:
  "get_str_arg args name = Inl e \<longleftrightarrow>
     e = missing_param name \<and> (\<forall>s. arg args name \<noteq> Some (JStr s))"
proof -
  have "as_str v = None \<longleftrightarrow> (\<forall>s. v \<noteq> JStr s)" for v by (cases v) auto
  then show ?thesis
    by (cases "arg args name") (auto simp: get_str_arg_def result_simps)
qed

lemma rows_of_lengths:
  "rows_of jt vs = Some rows \<Longrightarrow> length rows = length vs"
  by (induction vs arbitrary: rows) (auto split: option.splits)

end
