(* ===== verification/Config.thy ===== *)
theory Config
  imports File_System Path_Trie Tools Args
begin

text \<open>
  \<open>src/config.rs\<close> and the command line of \<open>src/lib.rs\<close>: the access mode, the configuration,
  how it is built from the arguments and the environment, and the trie of the canonical
  allowed directories. The environment is a function from names to values. Sizes given in
  megabytes are multiplied in 64 bits, as the release build does without overflow checks.
\<close>

datatype access_mode = Unrestricted | ReadOnly

fun access_mode_text :: "access_mode \<Rightarrow> string" where
  "access_mode_text Unrestricted = ''unrestricted''"
| "access_mode_text ReadOnly = ''readonly''"

text \<open>
  \<open>FromStr\<close>; lowering is by ASCII, which decides the same for these words, as no character
  outside ASCII lowers to a letter of them alone.
\<close>

definition access_mode_from_str :: "string \<Rightarrow> string + access_mode" where
  "access_mode_from_str s =
     (let k = to_ascii_lowercase s in
      if k = ''unrestricted'' then Inr Unrestricted
      else if k = ''readonly'' \<or> k = ''read-only'' then Inr ReadOnly
      else Inl (''Invalid access mode: '' @ s @ ''. Use '' @ quoted ''unrestricted'' @ '' or ''
                @ quoted ''readonly''))"

record server_config =
  host :: string
  http_port :: nat
  request_timeout :: nat
  access_mode :: access_mode
  follow_symlinks :: bool
  max_request_bytes :: nat
  max_http_body_bytes :: nat
  auth_token :: "string option"
  enabled :: "tool_category list"
  tls_cert :: "path option"
  tls_key :: "path option"

record config =
  allowed_directories :: "string list"
  server :: server_config
  max_file_size :: nat
  max_decompressed_size :: nat
  allowed_trie :: trie_node

record args =
  arg_directories :: "string list"
  arg_host :: string
  arg_http_port :: nat
  arg_max_file_size :: nat
  arg_max_decompressed_size :: nat
  arg_access_mode :: access_mode
  arg_follow_symlinks :: bool
  arg_request_timeout :: nat
  arg_max_request_bytes :: nat
  arg_max_http_body_bytes :: nat
  arg_auth_token :: "string option"
  arg_tls_cert :: "string option"
  arg_tls_key :: "string option"
  arg_categories :: category_flags

text \<open>A path made absolute against the working directory, or the empty path without one.\<close>

definition to_abs :: "os \<Rightarrow> string \<Rightarrow> path" where
  "to_abs s p =
     (let q = path_of p in
      if is_absolute q then q
      else join (unwrap_or [] (ok (current_dir s))) q)"

fun insert_allowed :: "os \<Rightarrow> trie_node \<Rightarrow> string list \<Rightarrow> trie_node" where
  "insert_allowed s t [] = t"
| "insert_allowed s t (d # ds) =
     insert_allowed s
       (case canonicalize s (to_abs s d) of
          Inr canonical \<Rightarrow> trie_insert t canonical
        | Inl e \<Rightarrow> trie_insert t (to_abs s d)) ds"

definition build_allowed_trie :: "os \<Rightarrow> string list \<Rightarrow> trie_node" where
  "build_allowed_trie s ds = insert_allowed s new_node ds"

text \<open>\<open>n * 1024 * 1024\<close> in \<open>u64\<close>.\<close>

definition megabytes :: "nat \<Rightarrow> nat" where
  "megabytes n = unat ((of_nat n :: u64) * 1024 * 1024)"

definition tls_path :: "(string \<Rightarrow> string option) \<Rightarrow> string option \<Rightarrow> string \<Rightarrow> path option" where
  \<comment> \<open>\<open>flag.or_else(|| env::var(name).ok()).filter(|s| !s.is_empty()).map(PathBuf::from)\<close>\<close>
  "tls_path env flag name =
     map_option path_of
       (filter_opt (\<lambda>s. s \<noteq> []) (case flag of None \<Rightarrow> env name | Some f \<Rightarrow> Some f))"

definition config_from_args :: "(string \<Rightarrow> string option) \<Rightarrow> os \<Rightarrow> args \<Rightarrow> string + config" where
  "config_from_args env s a =
     and_then
       (if arg_directories a \<noteq> [] then Inr (arg_directories a)
        else map_err io_text (map_ok (\<lambda>p. [lossy (path_text p)]) (current_dir s)))
     (\<lambda>allowed_dirs.
       let cert = tls_path env (arg_tls_cert a) ''MCP_TLS_CERT'';
           key = tls_path env (arg_tls_key a) ''MCP_TLS_KEY'' in
       if (cert \<noteq> None) \<noteq> (key \<noteq> None) then
         Inl ''--tls-cert and --tls-key must be provided together (or both omitted for plaintext HTTP)''
       else
         Inr \<lparr>allowed_directories = allowed_dirs,
              server = \<lparr>
                host = arg_host a,
                http_port = arg_http_port a,
                request_timeout = arg_request_timeout a,
                access_mode = arg_access_mode a,
                follow_symlinks = arg_follow_symlinks a,
                max_request_bytes = arg_max_request_bytes a,
                max_http_body_bytes = arg_max_http_body_bytes a,
                auth_token = arg_auth_token a,
                enabled = enabled_categories (arg_categories a),
                tls_cert = cert,
                tls_key = key\<rparr>,
              max_file_size = megabytes (arg_max_file_size a),
              max_decompressed_size = megabytes (arg_max_decompressed_size a),
              allowed_trie = build_allowed_trie s allowed_dirs\<rparr>)"

definition config_new :: "os \<Rightarrow> string list \<Rightarrow> server_config \<Rightarrow> nat \<Rightarrow> config" where
  "config_new s allowed srv max_size =
     \<lparr>allowed_directories = allowed, server = srv, max_file_size = max_size,
      max_decompressed_size = 1024 * 1024 * 1024, allowed_trie = build_allowed_trie s allowed\<rparr>"

definition rebuild_trie :: "os \<Rightarrow> config \<Rightarrow> config" where
  "rebuild_trie s c = c\<lparr>allowed_trie := build_allowed_trie s (allowed_directories c)\<rparr>"

definition default_config :: "os \<Rightarrow> config" where
  "default_config s =
     \<lparr>allowed_directories = [''.''],
      server = \<lparr>
        host = ''127.0.0.1'', http_port = 3001, request_timeout = 30,
        access_mode = Unrestricted, follow_symlinks = False,
        max_request_bytes = 16 * 1024 * 1024, max_http_body_bytes = 16 * 1024 * 1024,
        auth_token = None, enabled = [], tls_cert = None, tls_key = None\<rparr>,
      max_file_size = 100 * 1024 * 1024,
      max_decompressed_size = 1024 * 1024 * 1024,
      allowed_trie = build_allowed_trie s [''.'']\<rparr>"

section \<open>Laws\<close>

text \<open>What the trie of a configuration holds: one path for each allowed directory.\<close>

definition allowed_path :: "os \<Rightarrow> string \<Rightarrow> path" where
  "allowed_path s d =
     (case canonicalize s (to_abs s d) of Inr c \<Rightarrow> c | Inl e \<Rightarrow> to_abs s d)"

lemma insert_allowed_extend: "insert_allowed s t ds = trie_extend t (map (allowed_path s) ds)"
  by (induction s t ds rule: insert_allowed.induct)
    (auto simp: allowed_path_def split: sum.split)

lemma build_allowed_trie_index:
  "build_allowed_trie s ds = trie.index_of (map (allowed_path s) ds)"
  by (simp add: build_allowed_trie_def insert_allowed_extend trie_index_of)

lemma wf_join: "wf_path p \<Longrightarrow> wf_path q \<Longrightarrow> wf_path (join p q)"
  by (cases p; cases q) (auto simp: join_def list_all_iff)

lemma wf_current_dir:
  "(\<And>l. cwd s = Some l \<Longrightarrow> list_all plain_name l) \<Longrightarrow>
     wf_path (unwrap_or [] (ok (current_dir s)))"
  by (cases "cwd s") (auto simp: current_dir_def wf_abs_path)

lemma megabytes_small: "n < 2 ^ 44 \<Longrightarrow> megabytes n = n * 1048576"
proof -
  assume n: "n < 2 ^ 44"
  have "(of_nat n :: u64) * 1024 * 1024 = of_nat (n * 1048576)" by simp
  moreover have "n * 1048576 < 2 ^ 64" using n by simp
  then have "unat (of_nat (n * 1048576) :: u64) = n * 1048576"
    by (subst unat_of_nat) simp
  ultimately show ?thesis
    by (simp only: megabytes_def)
qed

lemma megabytes_wraps: "megabytes (2 ^ 44) = 0"
  by (simp add: megabytes_def)

end
