(* ===== verification/Sandbox.thy ===== *)
theory Sandbox
  imports Config
begin

text \<open>
  \<open>src/validation.rs\<close>: the sandbox, its single choke point \<open>resolve\<close>, the operations of a
  resolved path and those on two paths. The capability handles come from the third-party crate
  \<open>cap-std\<close>, whose operations are the record \<open>cap_std\<close> of parameters over a type of handles;
  \<open>cap_beneath\<close> states what its documentation promises, that an operation through a handle
  stays beneath the directory of the handle. The blocking tasks of this file have nothing in
  them that panics, so their join errors do not occur.
\<close>

section \<open>The parameter: cap-std\<close>

record cap_meta =
  cap_is_dir :: bool
  cap_is_file :: bool
  cap_is_symlink :: bool
  cap_len :: nat
  cap_mode :: nat
  cap_readonly :: bool
  cap_created :: "json option"
  cap_modified :: "json option"
  cap_accessed :: "json option"

record 'd cap_std =
  cap_open_ambient_dir :: "os \<Rightarrow> path \<Rightarrow> io_error + 'd"
  cap_try_clone :: "os \<Rightarrow> 'd \<Rightarrow> io_error + 'd"
  cap_open :: "os \<Rightarrow> 'd \<Rightarrow> path \<Rightarrow> io_error + 'd"
  cap_read_to_end :: "os \<Rightarrow> 'd \<Rightarrow> io_error + u8 list"
  cap_create :: "os \<Rightarrow> 'd \<Rightarrow> path \<Rightarrow> (io_error + 'd) \<times> os"
  cap_write_all :: "os \<Rightarrow> 'd \<Rightarrow> u8 list \<Rightarrow> (io_error + unit) \<times> os"
  cap_flush :: "os \<Rightarrow> 'd \<Rightarrow> (io_error + unit) \<times> os"
  cap_metadata :: "os \<Rightarrow> 'd \<Rightarrow> path \<Rightarrow> io_error + cap_meta"
  cap_create_dir_all :: "os \<Rightarrow> 'd \<Rightarrow> path \<Rightarrow> (io_error + unit) \<times> os"
  cap_read_dir :: "os \<Rightarrow> 'd \<Rightarrow> path \<Rightarrow> io_error + (io_error + string \<times> (io_error + bool)) list"
  cap_remove_file :: "os \<Rightarrow> 'd \<Rightarrow> path \<Rightarrow> (io_error + unit) \<times> os"
  cap_remove_dir :: "os \<Rightarrow> 'd \<Rightarrow> path \<Rightarrow> (io_error + unit) \<times> os"
  cap_remove_dir_all :: "os \<Rightarrow> 'd \<Rightarrow> path \<Rightarrow> (io_error + unit) \<times> os"
  cap_set_permissions :: "os \<Rightarrow> 'd \<Rightarrow> path \<Rightarrow> nat \<Rightarrow> (io_error + unit) \<times> os"
  cap_rename :: "os \<Rightarrow> 'd \<Rightarrow> path \<Rightarrow> 'd \<Rightarrow> path \<Rightarrow> (io_error + unit) \<times> os"

section \<open>The sandbox\<close>

record 'd sandbox =
  roots :: "path \<Rightarrow> 'd option"
  strie :: trie_node
  sb_follow :: bool

record 'd resolved =
  dir :: 'd
  rel :: path
  requested :: string
  canonical :: path

definition fs_error :: "string \<Rightarrow> io_error \<Rightarrow> mcs_error" where
  "fs_error label e = FilesystemError (label @ '': '' @ io_text e)"

definition path_display :: "path \<Rightarrow> string" where
  "path_display p = lossy (path_text p)"

definition cannot_resolve :: "path \<Rightarrow> mcs_error" where
  "cannot_resolve p = PathNotAllowed (''Cannot resolve path: '' @ path_display p)"

definition canonicalize_or_parent :: "os \<Rightarrow> path \<Rightarrow> path result" where
  "canonicalize_or_parent s p =
     (case canonicalize s p of
        Inr c \<Rightarrow> Inr c
      | Inl e \<Rightarrow>
          and_then (ok_or (cannot_resolve p) (parent p)) (\<lambda>q.
          and_then (ok_or (cannot_resolve p) (file_name p)) (\<lambda>n.
          and_then (map_err (\<lambda>e. cannot_resolve p) (canonicalize s q)) (\<lambda>c.
          Inr (join c [Normal n])))))"

text \<open>The loop of \<open>check_symlinks_in_path\<close>; true is \<open>Ok\<close>.\<close>

fun check_components :: "os \<Rightarrow> path \<Rightarrow> path \<Rightarrow> bool" where
  "check_components s current [] = True"
| "check_components s current (c # cs) =
     (case c of
        Prefix d \<Rightarrow> check_components s (join current [c]) cs
      | RootDir \<Rightarrow> check_components s (join current [c]) cs
      | CurDir \<Rightarrow> False
      | ParentDir \<Rightarrow> False
      | Normal n \<Rightarrow>
          if path_is_symlink s (join current [c]) then False
          else check_components s (join current [c]) cs)"

definition check_symlinks_in_path :: "os \<Rightarrow> path \<Rightarrow> bool" where
  "check_symlinks_in_path s p = (is_absolute p \<and> check_components s [] p)"

text \<open>The loop of \<open>Sandbox::new\<close> over the allowed directories.\<close>

fun open_roots ::
    "'d cap_std \<Rightarrow> os \<Rightarrow> string list \<Rightarrow> (path \<Rightarrow> 'd option) \<Rightarrow> (path \<Rightarrow> 'd option) result" where
  "open_roots cap s [] rs = Inr rs"
| "open_roots cap s (d # ds) rs =
     and_then
       (map_err (fs_error (''Cannot canonicalize allowed directory '' @ d))
         (canonicalize s (to_abs s d))) (\<lambda>c.
     and_then
       (map_err (fs_error (''Failed to open sandboxed directory '' @ d))
         (cap_open_ambient_dir cap s c)) (\<lambda>h.
     open_roots cap s ds (rs(c \<mapsto> h))))"

definition sandbox_new :: "'d cap_std \<Rightarrow> os \<Rightarrow> config \<Rightarrow> 'd sandbox result" where
  "sandbox_new cap s cfg =
     map_ok (\<lambda>rs. \<lparr>roots = rs, strie = allowed_trie cfg, sb_follow = follow_symlinks (server cfg)\<rparr>)
       (open_roots cap s (allowed_directories cfg) Map.empty)"

text \<open>
  \<open>Config::sandbox\<close>: the cell is filled by the first call, and a failure to build the sandbox
  panics (\<open>None\<close>).
\<close>

definition config_sandbox ::
    "'d cap_std \<Rightarrow> os \<Rightarrow> config \<Rightarrow> 'd sandbox option \<Rightarrow> ('d sandbox \<times> 'd sandbox option) option" where
  "config_sandbox cap s cfg cell =
     (case cell of
        Some sb \<Rightarrow> Some (sb, cell)
      | None \<Rightarrow>
          (case sandbox_new cap s cfg of
             Inl e \<Rightarrow> None
           | Inr sb \<Rightarrow> Some (sb, Some sb)))"

definition clone_dir :: "'d cap_std \<Rightarrow> os \<Rightarrow> 'd \<Rightarrow> 'd result" where
  "clone_dir cap s h = map_err (fs_error ''Failed to clone Dir handle'') (cap_try_clone cap s h)"

definition resolve :: "'d cap_std \<Rightarrow> os \<Rightarrow> 'd sandbox \<Rightarrow> string \<Rightarrow> 'd resolved result" where
  "resolve cap s sb p =
     (let normalized = normalize_path (to_abs s p) in
      and_then
        (if \<not> sb_follow sb \<and> \<not> check_symlinks_in_path s normalized
         then Inl (PathNotAllowed (''Symlink component in path is not allowed: '' @ p))
         else Inr ()) (\<lambda>u.
      and_then (canonicalize_or_parent s normalized) (\<lambda>c.
      and_then (ok_or (PathNotAllowed p) (longest_prefix (strie sb) c)) (\<lambda>root.
      and_then (ok_or (PathNotAllowed p) (roots sb root)) (\<lambda>h.
      and_then (clone_dir cap s h) (\<lambda>d.
      and_then (ok_or (PathNotAllowed p) (path_strip_prefix c root)) (\<lambda>r.
      Inr \<lparr>dir = d, rel = (if r = [] then [CurDir] else r), requested = p, canonical = c\<rparr>)))))))"

definition resolve_path :: "'d cap_std \<Rightarrow> os \<Rightarrow> 'd sandbox \<Rightarrow> string \<Rightarrow> path result" where
  "resolve_path cap s sb p = map_ok canonical (resolve cap s sb p)"

definition resolve_destination_path :: "'d cap_std \<Rightarrow> os \<Rightarrow> 'd sandbox \<Rightarrow> string \<Rightarrow> path result" where
  "resolve_destination_path cap s sb p = map_ok canonical (resolve cap s sb p)"

section \<open>The operations of a resolved path\<close>

definition not_found_or :: "string \<Rightarrow> string \<Rightarrow> io_error \<Rightarrow> mcs_error" where
  \<comment> \<open>a missing file is reported by the requested path, any other error by its text\<close>
  "not_found_or req label e = (if e = NotFound then PathNotFound req else fs_error label e)"

definition resolved_read :: "'d cap_std \<Rightarrow> os \<Rightarrow> 'd resolved \<Rightarrow> u8 list result" where
  "resolved_read cap s r =
     and_then (clone_dir cap s (dir r)) (\<lambda>d.
     and_then (map_err (not_found_or (requested r) ''Cannot read file'') (cap_open cap s d (rel r)))
       (\<lambda>file. map_err (fs_error ''Cannot read file'') (cap_read_to_end cap s file)))"

definition resolved_read_to_string :: "'d cap_std \<Rightarrow> os \<Rightarrow> 'd resolved \<Rightarrow> string result" where
  "resolved_read_to_string cap s r = map_ok from_utf8_lossy (resolved_read cap s r)"

text \<open>An operation that changes the files: its result and the state after it.\<close>

definition on_clone ::
    "'d cap_std \<Rightarrow> 'd resolved \<Rightarrow> (os \<Rightarrow> 'd \<Rightarrow> 'a result \<times> os) \<Rightarrow> os \<Rightarrow> 'a result \<times> os" where
  "on_clone cap r f s =
     (case clone_dir cap s (dir r) of Inl e \<Rightarrow> (Inl e, s) | Inr d \<Rightarrow> f s d)"

definition map_fst_err :: "(io_error \<Rightarrow> mcs_error) \<Rightarrow> (io_error + 'a) \<times> os \<Rightarrow> 'a result \<times> os" where
  "map_fst_err f x = (map_err f (fst x), snd x)"

definition about :: "string \<Rightarrow> string \<Rightarrow> io_error \<Rightarrow> mcs_error" where
  "about label req = fs_error (label @ '' '' @ quoted req)"

definition resolved_write :: "'d cap_std \<Rightarrow> 'd resolved \<Rightarrow> u8 list \<Rightarrow> os \<Rightarrow> unit result \<times> os" where
  "resolved_write cap r content =
     on_clone cap r (\<lambda>s d.
       case cap_create cap s d (rel r) of
         (Inl e, s1) \<Rightarrow> (Inl (about ''Cannot create file'' (requested r) e), s1)
       | (Inr file, s1) \<Rightarrow>
           (case cap_write_all cap s1 file content of
              (Inl e, s2) \<Rightarrow> (Inl (fs_error ''Cannot write file'' e), s2)
            | (Inr u, s2) \<Rightarrow>
                map_fst_err (fs_error ''Cannot flush file'') (cap_flush cap s2 file)))"

definition resolved_metadata :: "'d cap_std \<Rightarrow> os \<Rightarrow> 'd resolved \<Rightarrow> cap_meta result" where
  "resolved_metadata cap s r =
     and_then (clone_dir cap s (dir r)) (\<lambda>d.
       map_err (not_found_or (requested r) ''Cannot read metadata'') (cap_metadata cap s d (rel r)))"

definition resolved_create_dir_all :: "'d cap_std \<Rightarrow> 'd resolved \<Rightarrow> os \<Rightarrow> unit result \<times> os" where
  "resolved_create_dir_all cap r =
     on_clone cap r (\<lambda>s d. map_fst_err (about ''Cannot create directory'' (requested r))
       (cap_create_dir_all cap s d (rel r)))"

fun read_entries :: "(io_error + string \<times> (io_error + bool)) list \<Rightarrow> (string \<times> bool) list result" where
  "read_entries [] = Inr []"
| "read_entries (entry # es) =
     and_then (map_err (fs_error ''Cannot read directory entry'') entry) (\<lambda>(name, file_type).
     and_then (map_err (fs_error ''Cannot read entry type'') file_type) (\<lambda>is_dir.
     and_then (read_entries es) (\<lambda>rest. Inr ((lossy name, is_dir) # rest))))"

definition resolved_read_dir :: "'d cap_std \<Rightarrow> os \<Rightarrow> 'd resolved \<Rightarrow> (string \<times> bool) list result" where
  "resolved_read_dir cap s r =
     and_then (clone_dir cap s (dir r)) (\<lambda>d.
     and_then (map_err (about ''Cannot read directory'' (requested r)) (cap_read_dir cap s d (rel r)))
       read_entries)"

definition resolved_remove_file :: "'d cap_std \<Rightarrow> 'd resolved \<Rightarrow> os \<Rightarrow> unit result \<times> os" where
  "resolved_remove_file cap r =
     on_clone cap r (\<lambda>s d. map_fst_err (about ''Cannot remove file'' (requested r))
       (cap_remove_file cap s d (rel r)))"

definition resolved_remove_dir :: "'d cap_std \<Rightarrow> 'd resolved \<Rightarrow> os \<Rightarrow> unit result \<times> os" where
  "resolved_remove_dir cap r =
     on_clone cap r (\<lambda>s d. map_fst_err (about ''Cannot remove directory'' (requested r))
       (cap_remove_dir cap s d (rel r)))"

definition resolved_remove_dir_all :: "'d cap_std \<Rightarrow> 'd resolved \<Rightarrow> os \<Rightarrow> unit result \<times> os" where
  "resolved_remove_dir_all cap r =
     on_clone cap r (\<lambda>s d. map_fst_err (about ''Cannot remove directory tree'' (requested r))
       (cap_remove_dir_all cap s d (rel r)))"

definition resolved_set_permissions :: "'d cap_std \<Rightarrow> 'd resolved \<Rightarrow> nat \<Rightarrow> os \<Rightarrow> unit result \<times> os" where
  "resolved_set_permissions cap r mode =
     on_clone cap r (\<lambda>s d. map_fst_err (about ''Cannot set permissions on'' (requested r))
       (cap_set_permissions cap s d (rel r) mode))"

section \<open>The operations on two paths\<close>

text \<open>Both ends of a two-path operation, canonicalised and matched against the trie.\<close>

definition two_ends ::
    "os \<Rightarrow> 'd sandbox \<Rightarrow> string \<Rightarrow> string \<Rightarrow> (path \<times> path \<times> path \<times> path) result" where
  "two_ends s sb src dst =
     and_then (canonicalize_or_parent s (normalize_path (to_abs s src))) (\<lambda>src_abs.
     and_then (canonicalize_or_parent s (normalize_path (to_abs s dst))) (\<lambda>dst_abs.
     and_then (ok_or (PathNotAllowed src) (longest_prefix (strie sb) src_abs)) (\<lambda>src_root.
     and_then (ok_or (PathNotAllowed dst) (longest_prefix (strie sb) dst_abs)) (\<lambda>dst_root.
     Inr (src_abs, dst_abs, src_root, dst_root)))))"

text \<open>
  \<open>Sandbox::rename\<close>; \<open>None\<close> is the panic of \<open>strip_prefix(..).unwrap()\<close>. An error of the
  rename itself is wrapped twice.
\<close>

definition cannot_rename :: "io_error \<Rightarrow> mcs_error" where
  "cannot_rename e =
     FilesystemError (''Cannot rename: '' @ error_text (fs_error ''Cannot rename'' e))"

definition rename_same_root ::
    "'d cap_std \<Rightarrow> 'd sandbox \<Rightarrow> string \<Rightarrow> path \<times> path \<times> path \<times> path \<Rightarrow> os \<Rightarrow> unit result option \<times> os" where
  "rename_same_root cap sb src = (\<lambda>(src_abs, dst_abs, src_root, dst_root) s.
     case and_then (ok_or (PathNotAllowed src) (roots sb src_root)) (\<lambda>h.
          and_then (clone_dir cap s h) (\<lambda>d.
          and_then (clone_dir cap s d) (\<lambda>d'. Inr (d, d')))) of
       Inl e \<Rightarrow> (Some (Inl e), s)
     | Inr (d, d') \<Rightarrow>
         (case (path_strip_prefix src_abs src_root, path_strip_prefix dst_abs dst_root) of
            (Some rel_src, Some rel_dst) \<Rightarrow>
              (case cap_rename cap s d rel_src d' rel_dst of
                 (r, s') \<Rightarrow> (Some (map_err cannot_rename r), s'))
          | _ \<Rightarrow> (None, s)))"

definition symlinks_rejected :: "os \<Rightarrow> 'd sandbox \<Rightarrow> string \<Rightarrow> string \<Rightarrow> path \<Rightarrow> path \<Rightarrow> unit result" where
  "symlinks_rejected s sb src dst src_abs dst_abs =
     (if sb_follow sb then Inr ()
      else if \<not> check_symlinks_in_path s src_abs then
        Inl (PathNotAllowed (''Symlink in source path: '' @ src))
      else if \<not> check_symlinks_in_path s dst_abs then
        Inl (PathNotAllowed (''Symlink in destination path: '' @ dst))
      else Inr ())"

definition sandbox_rename ::
    "'d cap_std \<Rightarrow> 'd sandbox \<Rightarrow> string \<Rightarrow> string \<Rightarrow> os \<Rightarrow> unit result option \<times> os" where
  "sandbox_rename cap sb src dst s =
     (case two_ends s sb src dst of
        Inl e \<Rightarrow> (Some (Inl e), s)
      | Inr (src_abs, dst_abs, src_root, dst_root) \<Rightarrow>
          if path_exists s dst_abs then
            (Some (Inl (FilesystemError
               (''Destination already exists: '' @ path_display dst_abs))), s)
          else if src_root = dst_root then
            rename_same_root cap sb src (src_abs, dst_abs, src_root, dst_root) s
          else
            (case symlinks_rejected s sb src dst src_abs dst_abs of
               Inl e \<Rightarrow> (Some (Inl e), s)
             | Inr u \<Rightarrow>
                 (case fs_rename s src_abs dst_abs of
                    (r, s') \<Rightarrow> (Some (map_err cannot_rename r), s'))))"

definition sandbox_copy :: "'d sandbox \<Rightarrow> string \<Rightarrow> string \<Rightarrow> os \<Rightarrow> nat result \<times> os" where
  "sandbox_copy sb src dst s =
     (case two_ends s sb src dst of
        Inl e \<Rightarrow> (Inl e, s)
      | Inr (src_abs, dst_abs, src_root, dst_root) \<Rightarrow>
          (case symlinks_rejected s sb src dst src_abs dst_abs of
             Inl e \<Rightarrow> (Inl e, s)
           | Inr u \<Rightarrow> map_fst_err (fs_error ''Cannot copy'') (fs_copy s src_abs dst_abs)))"

definition sandbox_create_symlink :: "'d sandbox \<Rightarrow> string \<Rightarrow> string \<Rightarrow> os \<Rightarrow> unit result \<times> os" where
  "sandbox_create_symlink sb src link s =
     (case two_ends s sb src link of
        Inl e \<Rightarrow> (Inl e, s)
      | Inr (src_abs, link_abs, src_root, link_root) \<Rightarrow>
          map_fst_err
            (\<lambda>e. FilesystemError (''Cannot create symlink: ''
                @ error_text (fs_error ''Cannot create symlink'' e)))
            (fs_symlink s src_abs link_abs))"

section \<open>Laws\<close>

lemma map_fst_err_simps [simp]:
  "map_fst_err f (r, s) = (map_err f r, s)"
  by (simp add: map_fst_err_def)

section \<open>Links on the way\<close>

lemma path_is_symlink_iff:
  assumes "no_link (tree s) m"
  shows "path_is_symlink s (abs_path (m @ [n])) \<longleftrightarrow>
           (\<exists>p. lookup (tree s) (m @ [n]) = Some (LinkNode p))"
proof (cases "\<exists>p. lookup (tree s) (m @ [n]) = Some (LinkNode p)")
  case True
  then obtain p where p: "lookup (tree s) (m @ [n]) = Some (LinkNode p)" by blast
  then obtain es where es: "lookup (tree s) m = Some (DirNode es)" using lookup_above [of _ m n "[]"] by blast
  with assms have "link_free (tree s) m" by (auto intro: no_link_link_free)
  then have "resolve_loc s False False (abs_path (m @ [n])) = Inr (m @ [n])"
    using walk_names_append [of "tree s" "[]" m False False max_links "[Normal n]"] p es
    by (simp add: resolve_loc_abs lookup_snoc max_links_def del: abs_path_simps(2))
  with p show ?thesis
    by (simp add: path_is_symlink_def fs_lstat_def node_at_def del: abs_path_simps(2))
next
  case False
  then have "no_link (tree s) (m @ [n])" using assms by (auto simp: no_link_snoc elim: node_is_link.elims)
  then have "resolve_loc s False False (abs_path (m @ [n])) = Inr l \<Longrightarrow> l = m @ [n]" for l
    by (rule resolve_loc_no_link)
  with False show ?thesis
    by (auto simp: path_is_symlink_def fs_lstat_def node_at_def result_simps
          simp del: abs_path_simps(2) split: sum.splits elim: node_is_link.elims)
qed

lemma check_components_iff:
  "no_link (tree s) m \<Longrightarrow> check_components s (abs_path m) (map Normal ns) \<longleftrightarrow> no_link (tree s) (m @ ns)"
proof (induction ns arbitrary: m)
  case (Cons n ns)
  have j: "join (abs_path m) [Normal n] = abs_path (m @ [n])" by (simp add: join_def)
  show ?case
  proof (cases "\<exists>p. lookup (tree s) (m @ [n]) = Some (LinkNode p)")
    case True
    then have "\<not> no_link (tree s) (m @ [n])" by (auto simp: no_link_snoc)
    then have "\<not> no_link (tree s) (m @ n # ns)"
      using no_link_prefix [of "tree s" "m @ n # ns" "m @ [n]"] by auto
    with True show ?thesis
      by (simp add: j path_is_symlink_iff [OF Cons.prems] del: abs_path_simps(2))
  next
    case False
    then have nl: "no_link (tree s) (m @ [n])"
      using Cons.prems by (auto simp: no_link_snoc elim: node_is_link.elims)
    have "check_components s (abs_path m) (map Normal (n # ns)) \<longleftrightarrow>
        check_components s (abs_path (m @ [n])) (map Normal ns)"
      using False by (simp add: j path_is_symlink_iff [OF Cons.prems] del: abs_path_simps(2))
    also have "\<dots> \<longleftrightarrow> no_link (tree s) ((m @ [n]) @ ns)" by (rule Cons.IH [OF nl])
    finally show ?thesis by simp
  qed
qed simp

lemma check_symlinks_iff:
  "os_wf s \<Longrightarrow> check_symlinks_in_path s (abs_path l) \<longleftrightarrow> no_link (tree s) l"
  using check_components_iff [of s "[]" l] link_free_no_link [OF os_wf_root [of s]]
  by (simp add: check_symlinks_in_path_def) (simp add: abs_path_def join_def)

section \<open>Canonical paths\<close>

lemma join_Normal [simp]: "join (abs_path l) [Normal n] = abs_path (l @ [n])"
  by (simp add: join_def)

lemma canonicalize_or_parent_cases:
  assumes "os_wf s" "canonicalize_or_parent s p = Inr c"
  obtains (exists) l where "c = abs_path l" "link_free (tree s) l" "canonicalize s p = Inr c"
  | (new) l n q where "c = abs_path (l @ [n])" "link_free (tree s) l" "p = q @ [Normal n]"
      "canonicalize s q = Inr (abs_path l)"
proof (cases "canonicalize s p")
  case (Inr c')
  with assms(2) have "c' = c" by (simp add: canonicalize_or_parent_def)
  with Inr have "canonicalize s p = Inr c" by simp
  with exists show thesis using canonicalize_abs [OF assms(1)] by metis
next
  case (Inl e)
  with assms(2) obtain q n d where d: "parent p = Some q" "file_name p = Some n"
    "canonicalize s q = Inr d" "c = join d [Normal n]"
    by (auto simp: canonicalize_or_parent_def result_simps)
  from d(1,2) have "p = q @ [Normal n]"
    by (auto simp: parent_def file_name_def unsnoc_eq_Some split: option.splits component.splits)
  moreover obtain l where "d = abs_path l" "link_free (tree s) l"
    using canonicalize_abs [OF assms(1) d(3)] .
  ultimately show thesis using new d by simp
qed

lemma canonicalize_or_parent_no_link:
  assumes "no_link (tree s) l" "canonicalize_or_parent s (abs_path l) = Inr c"
  shows "c = abs_path l"
proof (cases "canonicalize s (abs_path l)")
  case (Inr c')
  with assms show ?thesis
    by (simp add: canonicalize_or_parent_def canonicalize_no_link)
next
  case (Inl e)
  with assms(2) obtain m n where l: "l = m @ [n]"
    by (cases l rule: rev_cases) (auto simp: canonicalize_or_parent_def result_simps)
  have "no_link (tree s) m" using assms(1) l by (auto intro: no_link_prefix)
  then have "canonicalize s (abs_path m) = Inr q \<Longrightarrow> q = abs_path m" for q
    by (rule canonicalize_no_link)
  with assms(2) Inl l show ?thesis
    by (auto simp: canonicalize_or_parent_def result_simps)
qed

text \<open>Sane states: well-formed, and the working directory is a path of plain names.\<close>

definition sane :: "os \<Rightarrow> bool" where
  "sane s = (os_wf s \<and> (\<forall>l. cwd s = Some l \<longrightarrow> list_all plain_name l))"

lemma to_abs_wf: "sane s \<Longrightarrow> wf_path (to_abs s p)"
  unfolding to_abs_def Let_def sane_def
  by (auto intro!: wf_join wf_path_of wf_current_dir)

lemma to_abs_absolute: "cwd s \<noteq> None \<or> starts_with p [slash] \<Longrightarrow> is_absolute (to_abs s p)"
proof -
  assume "cwd s \<noteq> None \<or> starts_with p [slash]"
  then have "is_absolute (path_of p) \<or> (\<exists>l. cwd s = Some l)"
    by (auto simp: is_absolute_path_of)
  then show ?thesis
    by (auto simp: to_abs_def Let_def join_def current_dir_def abs_path_def)
qed

text \<open>The names that a requested path has after normalisation.\<close>

definition request_names :: "os \<Rightarrow> string \<Rightarrow> string list" where
  "request_names s p = norm_names [] (tl (to_abs s p))"

lemma normalize_request:
  "sane s \<Longrightarrow> is_absolute (to_abs s p) \<Longrightarrow> normalize_path (to_abs s p) = abs_path (request_names s p)"
  unfolding request_names_def by (rule normalize_path_abs [OF to_abs_wf])

section \<open>What a resolution guarantees\<close>

lemma open_roots_entry:
  "open_roots cap s ds rs = Inr rs' \<Longrightarrow> rs' p = Some h \<Longrightarrow>
     rs p = Some h \<or> (\<exists>d\<in>set ds. canonicalize s (to_abs s d) = Inr p \<and> cap_open_ambient_dir cap s p = Inr h)"
proof (induction cap s ds rs arbitrary: rs' rule: open_roots.induct)
  case (2 cap s d ds rs)
  then obtain c k where c: "canonicalize s (to_abs s d) = Inr c" "cap_open_ambient_dir cap s c = Inr k"
    "open_roots cap s ds (rs(c \<mapsto> k)) = Inr rs'"
    by (auto simp: result_simps)
  from "2.IH" [OF c(3) "2.prems"(2)] show ?case using c(1,2) by (auto split: if_splits)
qed simp

lemma open_roots_dom:
  "open_roots cap s ds rs = Inr rs' \<Longrightarrow>
     dom rs' = dom rs \<union> {p. \<exists>d\<in>set ds. canonicalize s (to_abs s d) = Inr p}"
proof (induction cap s ds rs arbitrary: rs' rule: open_roots.induct)
  case (2 cap s d ds rs)
  then obtain c k where c: "canonicalize s (to_abs s d) = Inr c" "cap_open_ambient_dir cap s c = Inr k"
    "open_roots cap s ds (rs(c \<mapsto> k)) = Inr rs'"
    by (auto simp: result_simps)
  from "2.IH" [OF c(3)] show ?case using c(1) by (auto split: if_splits)
qed simp

lemma sandbox_new_roots:
  "sandbox_new cap s cfg = Inr sb \<Longrightarrow> roots sb p = Some h \<Longrightarrow>
     \<exists>d\<in>set (allowed_directories cfg). canonicalize s (to_abs s d) = Inr p"
  by (auto simp: sandbox_new_def result_simps dest: open_roots_entry)

lemma resolve_InrE:
  assumes "resolve cap s sb p = Inr r"
  obtains root h where
    "\<not> sb_follow sb \<Longrightarrow> check_symlinks_in_path s (normalize_path (to_abs s p))"
    "canonicalize_or_parent s (normalize_path (to_abs s p)) = Inr (canonical r)"
    "longest_prefix (strie sb) (canonical r) = Some root" "roots sb root = Some h"
    "cap_try_clone cap s h = Inr (dir r)" "requested r = p"
    "canonical r = (if rel r = [CurDir] \<and> canonical r = root then root else root @ rel r)"
    "prefix root (canonical r)"
  using assms
  by (fastforce simp: resolve_def Let_def result_simps clone_dir_def path_strip_prefix_eq_Some
      split: if_splits)

end
