(* ===== verification/Containment.thy ===== *)
theory Containment
  imports Sandbox
begin

text \<open>
  What the sandbox promises. \<open>cap_beneath\<close> is the contract of the capability handles,
  \<open>roots_at\<close> says that every handle of the sandbox still stands at the path it was opened at.
  A resolution yields a canonical path under an allowed directory; an operation on it changes
  nothing outside that directory.
\<close>

section \<open>The contract of the capability handles\<close>

text \<open>\<open>changed_beneath ls s s'\<close>: nothing changed at a location parallel to all of the given ones.\<close>

definition changed_beneath :: "loc set \<Rightarrow> os \<Rightarrow> os \<Rightarrow> bool" where
  "changed_beneath ls s s' =
     ((\<forall>m. (\<forall>l\<in>ls. m \<parallel> l) \<longrightarrow> lookup (tree s') m = lookup (tree s) m) \<and> cwd s' = cwd s)"

text \<open>
  \<open>at s h\<close> is the location that a handle stands for. A clone stands at the same place, a
  created file beneath the directory it was created through, and what a handle changes is
  beneath it.
\<close>

definition cap_beneath :: "(os \<Rightarrow> 'd \<Rightarrow> loc) \<Rightarrow> 'd cap_std \<Rightarrow> bool" where
  "cap_beneath at cap =
     ((\<forall>s h h'. cap_try_clone cap s h = Inr h' \<longrightarrow> at s h' = at s h) \<and>
      (\<forall>s h p r s'. cap_create cap s h p = (r, s') \<longrightarrow>
         changed_below (at s h) s s' \<and> (\<forall>f. r = Inr f \<longrightarrow> prefix (at s h) (at s' f))) \<and>
      (\<forall>s f bs r s'. cap_write_all cap s f bs = (r, s') \<longrightarrow>
         changed_below (at s f) s s' \<and> at s' f = at s f) \<and>
      (\<forall>s f. changed_below (at s f) s (snd (cap_flush cap s f))) \<and>
      (\<forall>s h p. changed_below (at s h) s (snd (cap_create_dir_all cap s h p))) \<and>
      (\<forall>s h p. changed_below (at s h) s (snd (cap_remove_file cap s h p))) \<and>
      (\<forall>s h p. changed_below (at s h) s (snd (cap_remove_dir cap s h p))) \<and>
      (\<forall>s h p. changed_below (at s h) s (snd (cap_remove_dir_all cap s h p))) \<and>
      (\<forall>s h p m. changed_below (at s h) s (snd (cap_set_permissions cap s h p m))) \<and>
      (\<forall>s h p h' q. changed_beneath {at s h, at s h'} s (snd (cap_rename cap s h p h' q))))"

definition roots_at :: "(os \<Rightarrow> 'd \<Rightarrow> loc) \<Rightarrow> os \<Rightarrow> 'd sandbox \<Rightarrow> bool" where
  "roots_at at s sb = (\<forall>p h. roots sb p = Some h \<longrightarrow> p = abs_path (at s h))"

text \<open>The locations of the allowed roots.\<close>

definition root_locs :: "(os \<Rightarrow> 'd \<Rightarrow> loc) \<Rightarrow> os \<Rightarrow> 'd sandbox \<Rightarrow> loc set" where
  "root_locs at s sb = at s ` ran (roots sb)"

lemma changed_beneath_one: "changed_beneath {l} s s' \<longleftrightarrow> changed_below l s s'"
  by (simp add: changed_beneath_def changed_below_def)

lemma changed_beneath_refl [simp]: "changed_beneath ls s s"
  by (simp add: changed_beneath_def)

lemma changed_beneath_trans:
  "changed_beneath ls s s' \<Longrightarrow> changed_beneath ls s' s'' \<Longrightarrow> changed_beneath ls s s''"
  by (simp add: changed_beneath_def)

lemma changed_below_beneath: "changed_below k s s' \<Longrightarrow> l \<in> ls \<Longrightarrow> prefix l k \<Longrightarrow> changed_beneath ls s s'"
  by (auto simp: changed_beneath_def changed_below_def dest: parallel_prefix)

lemma changed_beneath_above:
  "changed_beneath ks s s' \<Longrightarrow> (\<And>k. k \<in> ks \<Longrightarrow> \<exists>l\<in>ls. prefix l k) \<Longrightarrow> changed_beneath ls s s'"
  unfolding changed_beneath_def by (meson parallel_prefix)

section \<open>Operations through a resolved path\<close>

lemma clone_at: "cap_beneath at cap \<Longrightarrow> clone_dir cap s h = Inr d \<Longrightarrow> at s d = at s h"
  by (auto simp: cap_beneath_def clone_dir_def result_simps)

lemma on_clone_changed:
  assumes "cap_beneath at cap"
    and "\<And>d r' s''. at s d = at s (dir r) \<Longrightarrow> f s d = (r', s'') \<Longrightarrow> changed_below (at s d) s s''"
    and "on_clone cap r f s = (x, s')"
  shows "changed_below (at s (dir r)) s s'"
proof (cases "clone_dir cap s (dir r)")
  case (Inr d)
  then have at: "at s d = at s (dir r)" using clone_at [OF assms(1)] by blast
  from Inr assms(3) have "f s d = (x, s')" by (simp add: on_clone_def)
  from assms(2) [OF at this] show ?thesis using at by simp
qed (use assms(3) in \<open>simp add: on_clone_def\<close>)

lemma map_fst_err_eq: "map_fst_err f x = (r, s') \<longleftrightarrow> r = map_err f (fst x) \<and> s' = snd x"
  by (auto simp: map_fst_err_def)

lemma write_changed:
  assumes "cap_beneath at cap" "resolved_write cap r bs s = (x, s')"
  shows "changed_below (at s (dir r)) s s'"
proof (rule on_clone_changed [OF assms(1) _ assms(2) [unfolded resolved_write_def]])
  fix d x' s''
  assume *: "(case cap_create cap s d (rel r) of
         (Inl e, s1) \<Rightarrow> (Inl (about ''Cannot create file'' (requested r) e), s1)
       | (Inr file, s1) \<Rightarrow>
           (case cap_write_all cap s1 file bs of
              (Inl e, s2) \<Rightarrow> (Inl (fs_error ''Cannot write file'' e), s2)
            | (Inr u, s2) \<Rightarrow>
                map_fst_err (fs_error ''Cannot flush file'') (cap_flush cap s2 file)))
     = (x', s'')"
  obtain f s1 where c: "cap_create cap s d (rel r) = (f, s1)" by (cases "cap_create cap s d (rel r)")
  then have c1: "changed_below (at s d) s s1" and c2: "f = Inr h \<Longrightarrow> prefix (at s d) (at s1 h)" for h
    using assms(1) by (auto simp: cap_beneath_def)
  show "changed_below (at s d) s s''"
  proof (cases f)
    case (Inl e)
    with * c c1 show ?thesis by simp
  next
    case (Inr h)
    obtain g s2 where w: "cap_write_all cap s1 h bs = (g, s2)" by (cases "cap_write_all cap s1 h bs")
    then have w1: "changed_below (at s1 h) s1 s2" and w2: "at s2 h = at s1 h"
      using assms(1) by (auto simp: cap_beneath_def)
    obtain k s3 where l: "cap_flush cap s2 h = (k, s3)" by (cases "cap_flush cap s2 h")
    have "changed_below (at s2 h) s2 (snd (cap_flush cap s2 h))"
      using assms(1) by (simp add: cap_beneath_def)
    with l have l1: "changed_below (at s2 h) s2 s3" by simp
    have p: "prefix (at s d) (at s1 h)" by (rule c2 [OF Inr])
    have s2: "changed_below (at s d) s s2"
      using c1 changed_below_prefix [OF w1 p] by (rule changed_below_trans)
    have s3: "changed_below (at s d) s s3"
      using s2 changed_below_prefix [OF l1 [unfolded w2] p] by (rule changed_below_trans)
    from * c Inr w l s2 s3 show ?thesis by (auto split: sum.splits simp: map_fst_err_eq)
  qed
qed

lemma on_clone_map:
  assumes "cap_beneath at cap" "\<And>d. changed_below (at s d) s (snd (g s d))"
    and "on_clone cap r (\<lambda>s d. map_fst_err f (g s d)) s = (x, s')"
  shows "changed_below (at s (dir r)) s s'"
proof (rule on_clone_changed [OF assms(1) _ assms(3)])
  fix d r' s''
  assume "map_fst_err f (g s d) = (r', s'')"
  then show "changed_below (at s d) s s''" using assms(2) [of d] by (auto simp: map_fst_err_eq)
qed

lemma cap_beneath_ops:
  assumes "cap_beneath at cap"
  shows "changed_below (at s h) s (snd (cap_create_dir_all cap s h p))"
    and "changed_below (at s h) s (snd (cap_remove_file cap s h p))"
    and "changed_below (at s h) s (snd (cap_remove_dir cap s h p))"
    and "changed_below (at s h) s (snd (cap_remove_dir_all cap s h p))"
    and "changed_below (at s h) s (snd (cap_set_permissions cap s h p m))"
  using assms by (simp_all add: cap_beneath_def)

lemma resolved_ops_changed:
  assumes "cap_beneath at cap"
  shows "resolved_create_dir_all cap r s = (x, s') \<Longrightarrow> changed_below (at s (dir r)) s s'"
    and "resolved_remove_file cap r s = (x, s') \<Longrightarrow> changed_below (at s (dir r)) s s'"
    and "resolved_remove_dir cap r s = (x, s') \<Longrightarrow> changed_below (at s (dir r)) s s'"
    and "resolved_remove_dir_all cap r s = (x, s') \<Longrightarrow> changed_below (at s (dir r)) s s'"
    and "resolved_set_permissions cap r m s = (x, s') \<Longrightarrow> changed_below (at s (dir r)) s s'"
  unfolding resolved_create_dir_all_def resolved_remove_file_def resolved_remove_dir_def
    resolved_remove_dir_all_def resolved_set_permissions_def
  by (erule on_clone_map [OF assms, rotated], rule cap_beneath_ops [OF assms])+

section \<open>The guard\<close>

text \<open>
  What the handlers rely on: a check of a requested path that, when it succeeds, has a target
  with a handle standing at an allowed root above the target.
\<close>

locale path_guard =
  fixes check :: "'s \<Rightarrow> string \<Rightarrow> 'e + 'r"
    and target :: "'r \<Rightarrow> path"
    and allowed :: "path set"
  assumes guarded: "check s p = Inr r \<Longrightarrow> \<exists>root\<in>allowed. path_starts_with (target r) root"
begin

lemma target_under_root:
  "check s p = Inr r \<Longrightarrow> (\<And>root. root \<in> allowed \<Longrightarrow> \<exists>k. root = abs_path k) \<Longrightarrow> target r = abs_path l \<Longrightarrow>
     \<exists>k. abs_path k \<in> allowed \<and> prefix k l"
  using guarded [of s p r] by (fastforce simp: path_starts_with_def)

lemma outside_rejected:
  "(\<And>root r. root \<in> allowed \<Longrightarrow> check s p = Inr r \<Longrightarrow> \<not> path_starts_with (target r) root) \<Longrightarrow>
     \<exists>e. check s p = Inl e"
  using guarded [of s p] by (cases "check s p") auto

end

interpretation guard: path_guard "\<lambda>s. resolve cap s sb" canonical "dom (roots sb)" for cap sb
proof
  fix s p r
  assume "resolve cap s sb p = Inr r"
  then show "\<exists>root\<in>dom (roots sb). path_starts_with (canonical r) root"
    by (rule resolve_InrE) (auto simp: path_starts_with_def)
qed

interpretation path_check: path_guard "\<lambda>s. resolve_path cap s sb" "\<lambda>p. p" "dom (roots sb)" for cap sb
  by unfold_locales
    (use guard.guarded in \<open>auto simp: resolve_path_def result_simps\<close>)

section \<open>Resolution without links\<close>

lemma resolve_canonical:
  assumes "sane s" "resolve cap s sb p = Inr r"
  shows "\<exists>l. canonical r = abs_path l \<and> no_link (tree s) (butlast l)"
proof -
  from assms(2) have c: "canonicalize_or_parent s (normalize_path (to_abs s p)) = Inr (canonical r)"
    by (rule resolve_InrE)
  have "os_wf s" using assms(1) by (simp add: sane_def)
  from this c show ?thesis
  proof (cases rule: canonicalize_or_parent_cases)
    case (exists l)
    then show ?thesis
      using link_free_no_link no_link_prefix [OF _ prefixeq_butlast] by blast
  next
    case (new l n q)
    then show ?thesis by (intro exI [of _ "l @ [n]"]) (simp add: link_free_no_link)
  qed
qed

lemma resolve_no_follow:
  assumes "sane s" "\<not> sb_follow sb" "resolve cap s sb p = Inr r"
  shows "canonical r = abs_path (request_names s p)" "no_link (tree s) (request_names s p)"
    "is_absolute (to_abs s p)"
proof -
  from assms(3) have chk: "check_symlinks_in_path s (normalize_path (to_abs s p))"
    and c: "canonicalize_or_parent s (normalize_path (to_abs s p)) = Inr (canonical r)"
    using assms(2) by (auto elim!: resolve_InrE)
  have wf: "os_wf s" using assms(1) by (simp add: sane_def)
  show abs: "is_absolute (to_abs s p)"
  proof (rule ccontr)
    assume rel: "\<not> is_absolute (to_abs s p)"
    have "\<not> is_absolute (foldl norm_step acc cs)" if "\<not> is_absolute acc" "RootDir \<notin> set cs" for acc cs
      using that
    proof (induction cs arbitrary: acc)
      case (Cons c cs)
      have "\<not> is_absolute (norm_step acc c)"
        using Cons.prems
        by (cases c; cases acc rule: rev_cases)
          (auto simp: norm_step_def join_def is_absolute_iff pop_def parent_def append_eq_Cons_conv Cons_eq_append_conv
            split: option.splits component.splits)
      then show ?case using Cons by simp
    qed simp
    moreover have "RootDir \<notin> set (to_abs s p)"
      using rel to_abs_wf [OF assms(1), of p]
      by (cases "to_abs s p") (auto simp: list_all_iff is_absolute_iff)
    ultimately have "\<not> is_absolute (normalize_path (to_abs s p))"
      by (simp add: normalize_path_def)
    with chk show False by (simp add: check_symlinks_in_path_def)
  qed
  note n = normalize_request [OF assms(1) abs]
  show "no_link (tree s) (request_names s p)" using chk check_symlinks_iff [OF wf] by (simp add: n)
  then show "canonical r = abs_path (request_names s p)"
    using c by (simp add: n canonicalize_or_parent_no_link)
qed

section \<open>The operations on two paths\<close>

lemma resolve_loc_last_kept:
  assumes "no_link (tree s) (butlast l)" "resolve_loc s False c (abs_path l) = Inr m"
  shows "m = l"
proof (cases l rule: rev_cases)
  case Nil
  with assms(2) show ?thesis by (simp add: resolve_loc_def max_links_def)
next
  case (snoc k n)
  show ?thesis
  proof (cases "\<exists>p. lookup (tree s) (k @ [n]) = Some (LinkNode p)")
    case True
    then obtain p where p: "lookup (tree s) (k @ [n]) = Some (LinkNode p)" by blast
    then obtain es where es: "lookup (tree s) k = Some (DirNode es)"
      using lookup_above [of _ k n "[]"] by blast
    with assms(1) snoc have "link_free (tree s) k" by (auto intro: no_link_link_free)
    then show ?thesis
      using walk_names_append [of "tree s" "[]" k False c max_links "[Normal n]"] p es assms(2) snoc
      by (simp add: resolve_loc_abs lookup_snoc del: abs_path_simps(2))
  next
    case False
    then have "no_link (tree s) (k @ [n])"
      using assms(1) snoc by (auto simp: no_link_snoc elim: node_is_link.elims)
    then show ?thesis using assms(2) snoc by (auto intro: resolve_loc_no_link)
  qed
qed

lemma canonicalize_or_parent_loc:
  assumes "sane s" "canonicalize_or_parent s p = Inr c"
  obtains l where "c = abs_path l" "no_link (tree s) (butlast l)"
proof -
  have "os_wf s" using assms(1) by (simp add: sane_def)
  from this assms(2) show thesis
    by (cases rule: canonicalize_or_parent_cases)
      (use that link_free_no_link no_link_prefix [OF _ prefixeq_butlast] in \<open>fastforce simp del: abs_path_simps(2)\<close>)+
qed

text \<open>Both ends of a two-path operation are canonical and covered by the trie.\<close>

lemma two_ends_InrE:
  assumes "sane s" "two_ends s sb src dst = Inr (a, b, ra, rb)"
  obtains l m where "a = abs_path l" "b = abs_path m"
    "no_link (tree s) (butlast l)" "no_link (tree s) (butlast m)"
    "canonicalize_or_parent s (normalize_path (to_abs s src)) = Inr (abs_path l)"
    "canonicalize_or_parent s (normalize_path (to_abs s dst)) = Inr (abs_path m)"
    "longest_prefix (strie sb) (abs_path l) = Some ra"
    "longest_prefix (strie sb) (abs_path m) = Some rb"
proof -
  from assms(2) have c: "canonicalize_or_parent s (normalize_path (to_abs s src)) = Inr a"
    "canonicalize_or_parent s (normalize_path (to_abs s dst)) = Inr b"
    "longest_prefix (strie sb) a = Some ra" "longest_prefix (strie sb) b = Some rb"
    by (auto simp: two_ends_def result_simps)
  obtain l where "a = abs_path l" "no_link (tree s) (butlast l)"
    using canonicalize_or_parent_loc [OF assms(1) c(1)] .
  moreover obtain m where "b = abs_path m" "no_link (tree s) (butlast m)"
    using canonicalize_or_parent_loc [OF assms(1) c(2)] .
  ultimately show thesis using that c by blast
qed

lemma fs_rename_changed:
  assumes "no_link (tree s) (butlast l)" "no_link (tree s) (butlast m)"
    "fs_rename s (abs_path l) (abs_path m) = (r, s')"
  shows "changed_beneath {l, m} s s'"
proof -
  have move: "changed_beneath {l, m} s (put_node (put_node s l v) m w)" for v w
    using changed_below_beneath [OF put_node_changed, of l "{l, m}" l s v]
      changed_below_beneath [OF put_node_changed, of m "{l, m}" m "put_node s l v" w]
    by (auto intro: changed_beneath_trans)
  show ?thesis
  proof (cases "resolve_loc s False False (abs_path l)")
    case (Inr l')
    then have l: "l' = l" by (rule resolve_loc_last_kept [OF assms(1)])
    show ?thesis
    proof (cases "resolve_loc s False True (abs_path m)")
      case (Inr m')
      then have m: "m' = m" by (rule resolve_loc_last_kept [OF assms(2)])
      show ?thesis
        using assms(3) \<open>resolve_loc s False False (abs_path l) = Inr l'\<close> Inr l m move
        by (auto simp: fs_rename_def Let_def split: option.splits node.splits if_splits)
    qed (use assms(3) Inr in \<open>simp add: fs_rename_def\<close>)
  qed (use assms(3) in \<open>simp add: fs_rename_def\<close>)
qed

lemma fs_symlink_changed:
  assumes "no_link (tree s) (butlast m)" "fs_symlink s a (abs_path m) = (r, s')"
  shows "changed_below m s s'"
    and "r = Inr () \<Longrightarrow> s' = put_node s m (Some (LinkNode a)) \<and> lookup (tree s) m = None"
proof -
  have "s' = s \<and> r \<noteq> Inr () \<or> s' = put_node s m (Some (LinkNode a)) \<and> lookup (tree s) m = None"
    using assms(2) resolve_loc_last_kept [OF assms(1), of True]
    by (fastforce simp: fs_symlink_def split: sum.splits option.splits)
  then show "changed_below m s s'"
    "r = Inr () \<Longrightarrow> s' = put_node s m (Some (LinkNode a)) \<and> lookup (tree s) m = None"
    by (auto simp: put_node_changed)
qed

lemma fs_copy_changed:
  assumes "no_link (tree s) m" "fs_copy s p (abs_path m) = (r, s')"
  shows "changed_below m s s'"
proof (cases "resolve_loc s True False p")
  case (Inr l)
  show ?thesis
  proof (cases "\<exists>bs. lookup (tree s) l = Some (FileNode bs)")
    case True
    then obtain bs where bs: "lookup (tree s) l = Some (FileNode bs)" by blast
    obtain x s1 where c: "fs_create s (abs_path m) = (x, s1)" by (cases "fs_create s (abs_path m)")
    note c' = fs_create_changed [OF assms(1) c]
    show ?thesis
    proof (cases x)
      case (Inl e)
      with assms(2) \<open>resolve_loc s True False p = Inr l\<close> bs c c'(1) show ?thesis
        by (simp add: fs_copy_def)
    next
      case (Inr k)
      then have "k = m" by (rule c'(2))
      with assms(2) \<open>resolve_loc s True False p = Inr l\<close> bs c Inr
      have "s' = s1 \<or> (\<exists>cs. s' = put_node s1 m (Some (FileNode cs)))"
        by (auto simp: fs_copy_def fs_write_loc_def split: option.splits node.splits)
      then show ?thesis using c'(1) put_node_changed changed_below_trans by blast
    qed
  next
    case False
    with assms(2) Inr show ?thesis
      by (auto simp: fs_copy_def split: option.splits node.splits)
  qed
qed (use assms(2) in \<open>simp add: fs_copy_def\<close>)

lemma resolve_root:
  assumes "resolve cap s sb p = Inr r" "roots_at at s sb" "cap_beneath at cap" "canonical r = abs_path l"
  shows "\<exists>k\<in>root_locs at s sb. prefix k l \<and> at s (dir r) = k \<and>
           longest_prefix (strie sb) (abs_path l) = Some (abs_path k)"
proof -
  from assms(1) obtain root h where h: "longest_prefix (strie sb) (canonical r) = Some root"
    "roots sb root = Some h" "cap_try_clone cap s h = Inr (dir r)" "prefix root (canonical r)"
    by (rule resolve_InrE)
  from h(2) assms(2) have root: "root = abs_path (at s h)" by (simp add: roots_at_def)
  from h(3) assms(3) have "at s (dir r) = at s h" by (simp add: cap_beneath_def)
  moreover from h(2) have "at s h \<in> root_locs at s sb" by (auto simp: root_locs_def ran_def)
  ultimately show ?thesis using h(1,4) root assms(4) by (intro bexI [of _ "at s h"]) auto
qed

lemma resolve_canonicalize:
  "resolve cap s sb p = Inr r \<Longrightarrow>
     canonicalize_or_parent s (normalize_path (to_abs s p)) = Inr (canonical r)"
  by (rule resolve_InrE)

text \<open>When both ends have been resolved, the two-path operations know their roots.\<close>

lemma two_ends_roots:
  assumes "sane s" "cap_beneath at cap" "roots_at at s sb"
    and "resolve cap s sb src = Inr r1" "resolve cap s sb dst = Inr r2"
    and "two_ends s sb src dst = Inr (a, b, ra, rb)"
  obtains l m k j where "a = abs_path l" "b = abs_path m" "ra = abs_path k" "rb = abs_path j"
    "no_link (tree s) (butlast l)" "no_link (tree s) (butlast m)"
    "k \<in> root_locs at s sb" "j \<in> root_locs at s sb" "prefix k l" "prefix j m"
proof -
  from assms(1,6) obtain l m where lm: "a = abs_path l" "b = abs_path m"
    "no_link (tree s) (butlast l)" "no_link (tree s) (butlast m)"
    "canonicalize_or_parent s (normalize_path (to_abs s src)) = Inr (abs_path l)"
    "canonicalize_or_parent s (normalize_path (to_abs s dst)) = Inr (abs_path m)"
    "longest_prefix (strie sb) (abs_path l) = Some ra"
    "longest_prefix (strie sb) (abs_path m) = Some rb"
    by (rule two_ends_InrE)
  have "canonical r1 = abs_path l" "canonical r2 = abs_path m"
    using resolve_canonicalize [OF assms(4)] resolve_canonicalize [OF assms(5)] lm(5,6) by simp_all
  then show thesis
    using that lm resolve_root [OF assms(4,3,2)] resolve_root [OF assms(5,3,2)] by fastforce
qed

lemma rename_same_root_changed:
  assumes "cap_beneath at cap" "roots_at at s sb" "prefix k l" "prefix k m"
    and "rename_same_root cap sb src (abs_path l, abs_path m, abs_path k, abs_path k) s = (x, s')"
  shows "x \<noteq> None \<and> changed_below k s s'"
proof (cases "and_then (ok_or (PathNotAllowed src) (roots sb (abs_path k))) (\<lambda>h.
          and_then (clone_dir cap s h) (\<lambda>d. and_then (clone_dir cap s d) (\<lambda>d'. Inr (d, d'))))")
  case (Inr dd)
  then obtain h d d' where h: "roots sb (abs_path k) = Some h" "clone_dir cap s h = Inr d"
    "clone_dir cap s d = Inr d'" "dd = (d, d')" by (auto simp: result_simps)
  from h(1) assms(2) have "at s h = k" by (force simp: roots_at_def)
  then have at: "at s d = k" "at s d' = k"
    using clone_at [OF assms(1) h(2)] clone_at [OF assms(1) h(3)] by simp_all
  obtain p q where "abs_path l = abs_path k @ p" "abs_path m = abs_path k @ q"
    using assms(3,4) by (metis prefix_abs_path prefix_def)
  then have s: "path_strip_prefix (abs_path l) (abs_path k) = Some p"
    "path_strip_prefix (abs_path m) (abs_path k) = Some q" by simp_all
  have "changed_beneath {at s d, at s d'} s (snd (cap_rename cap s d p d' q))"
    using assms(1) by (simp add: cap_beneath_def)
  then show ?thesis
    using assms(5) Inr h(4) s at
    by (auto simp: rename_same_root_def changed_beneath_one split: prod.splits)
qed (use assms(5) in \<open>auto simp: rename_same_root_def\<close>)

lemma sandbox_rename_changed:
  assumes "sane s" "cap_beneath at cap" "roots_at at s sb"
    and "resolve cap s sb src = Inr r1" "resolve cap s sb dst = Inr r2"
    and "sandbox_rename cap sb src dst s = (x, s')"
  shows "x \<noteq> None \<and> changed_beneath (root_locs at s sb) s s'"
proof (cases "two_ends s sb src dst")
  case (Inr e)
  obtain a b ra rb where e: "e = (a, b, ra, rb)" by (cases e)
  from assms(1-5) Inr [unfolded e] obtain l m k j where o: "a = abs_path l" "b = abs_path m"
    "ra = abs_path k" "rb = abs_path j" "no_link (tree s) (butlast l)" "no_link (tree s) (butlast m)"
    "k \<in> root_locs at s sb" "j \<in> root_locs at s sb" "prefix k l" "prefix j m"
    by (rule two_ends_roots)
  have same: "x \<noteq> None \<and> changed_beneath (root_locs at s sb) s s'"
    if "k = j" "rename_same_root cap sb src (abs_path l, abs_path m, abs_path j, abs_path j) s = (x, s')"
    using rename_same_root_changed [OF assms(2,3) _ o(10) that(2)] o(9) that(1)
      changed_below_beneath [OF _ o(8)] by blast
  have cross: "changed_beneath (root_locs at s sb) s t"
    if "fs_rename s (abs_path l) (abs_path m) = (y, t)" for y t
    using changed_beneath_above [OF fs_rename_changed [OF o(5,6) that]] o(7-10) by auto
  from assms(6) Inr e o(1-4) show ?thesis
    by (auto simp: sandbox_rename_def split: if_splits sum.splits prod.splits dest: same cross)
qed (use assms(6) in \<open>auto simp: sandbox_rename_def\<close>)

lemma sandbox_create_symlink_changed:
  assumes "sane s" "cap_beneath at cap" "roots_at at s sb"
    and "resolve cap s sb src = Inr r1" "resolve cap s sb link = Inr r2"
    and "sandbox_create_symlink sb src link s = (x, s')"
  shows "changed_beneath (root_locs at s sb) s s'"
proof (cases "two_ends s sb src link")
  case (Inr e)
  obtain a b ra rb where e: "e = (a, b, ra, rb)" by (cases e)
  from assms(1-5) Inr [unfolded e] obtain l m k j where o: "a = abs_path l" "b = abs_path m"
    "ra = abs_path k" "rb = abs_path j" "no_link (tree s) (butlast l)" "no_link (tree s) (butlast m)"
    "k \<in> root_locs at s sb" "j \<in> root_locs at s sb" "prefix k l" "prefix j m"
    by (rule two_ends_roots)
  obtain y t where y: "fs_symlink s (abs_path l) (abs_path m) = (y, t)"
    by (cases "fs_symlink s (abs_path l) (abs_path m)")
  have "changed_beneath (root_locs at s sb) s t"
    by (rule changed_below_beneath [OF fs_symlink_changed(1) [OF o(6) y] o(8,10)])
  then show ?thesis
    using assms(6) Inr e o(1,2) y by (auto simp: sandbox_create_symlink_def)
qed (use assms(6) in \<open>auto simp: sandbox_create_symlink_def\<close>)

lemma sandbox_copy_changed:
  assumes "sane s" "cap_beneath at cap" "roots_at at s sb" "\<not> sb_follow sb"
    and "resolve cap s sb src = Inr r1" "resolve cap s sb dst = Inr r2"
    and "sandbox_copy sb src dst s = (x, s')"
  shows "changed_beneath (root_locs at s sb) s s'"
proof (cases "two_ends s sb src dst")
  case (Inr e)
  obtain a b ra rb where e: "e = (a, b, ra, rb)" by (cases e)
  from assms(1-3,5,6) Inr [unfolded e] obtain l m k j where o: "a = abs_path l" "b = abs_path m"
    "ra = abs_path k" "rb = abs_path j" "no_link (tree s) (butlast l)" "no_link (tree s) (butlast m)"
    "k \<in> root_locs at s sb" "j \<in> root_locs at s sb" "prefix k l" "prefix j m"
    by (rule two_ends_roots)
  obtain y t where y: "fs_copy s (abs_path l) (abs_path m) = (y, t)"
    by (cases "fs_copy s (abs_path l) (abs_path m)")
  have wf: "os_wf s" using assms(1) by (simp add: sane_def)
  have "changed_beneath (root_locs at s sb) s t" if "check_symlinks_in_path s (abs_path m)"
  proof -
    from that have "no_link (tree s) m" using check_symlinks_iff [OF wf] by simp
    from changed_below_beneath [OF fs_copy_changed [OF this y] o(8,10)] show ?thesis .
  qed
  then show ?thesis
    using assms(4,7) Inr e o(1,2) y
    by (auto simp: sandbox_copy_def symlinks_rejected_def split: if_splits)
qed (use assms(7) in \<open>auto simp: sandbox_copy_def\<close>)

section \<open>Which paths a sandbox accepts\<close>

text \<open>
  The sandbox of the allowed locations \<open>ls\<close>: the trie indexes them, each has a handle. This is
  what \<open>Sandbox::new\<close> builds when the directories do not change between the two passes over
  them and their names are valid UTF-8.
\<close>

definition sandbox_of :: "loc list \<Rightarrow> 'd sandbox \<Rightarrow> bool" where
  "sandbox_of ls sb =
     (strie sb = trie.index_of (map abs_path ls) \<and> dom (roots sb) = abs_path ` set ls \<and>
      list_all utf8_names ls)"

lemma sandbox_new_of:
  assumes "sandbox_new cap s cfg = Inr sb"
    and "allowed_trie cfg = build_allowed_trie s (allowed_directories cfg)"
    and "map (\<lambda>d. canonicalize s (to_abs s d)) (allowed_directories cfg) = map (\<lambda>l. Inr (abs_path l)) ls"
    and "list_all utf8_names ls"
  shows "sandbox_of ls sb"
proof -
  have d: "map (allowed_path s) (allowed_directories cfg) = map abs_path ls"
    using assms(3)
    by (auto simp: list_eq_iff_nth_eq allowed_path_def)
  from assms(1) obtain rs where rs: "open_roots cap s (allowed_directories cfg) Map.empty = Inr rs"
    and sb: "roots sb = rs" "strie sb = allowed_trie cfg"
    by (auto simp: sandbox_new_def result_simps)
  have "{p. \<exists>d\<in>set (allowed_directories cfg). canonicalize s (to_abs s d) = Inr p}
      = {p. Inr p \<in> set (map (\<lambda>d. canonicalize s (to_abs s d)) (allowed_directories cfg))}"
    by (force simp: image_iff)
  also have "\<dots> = abs_path ` set ls" unfolding assms(3) by auto
  finally have "dom rs = abs_path ` set ls" using open_roots_dom [OF rs] by simp
  then show ?thesis
    using assms(2,4) sb d by (simp add: sandbox_of_def build_allowed_trie_index)
qed

lemma prefix_lookup_abs:
  "utf8_names k \<Longrightarrow> utf8_names l \<Longrightarrow>
     prefix (keys_of (abs_path k)) (lookup_keys (abs_path l)) \<longleftrightarrow> prefix k l"
  by (simp add: keys_of_abs_path lookup_keys_abs_path utf8_names_def map_lossy_id)

lemma sandbox_longest:
  assumes "sandbox_of ls sb" "utf8_names l"
  shows "longest_prefix (strie sb) (abs_path l) = None \<longleftrightarrow> (\<forall>k\<in>set ls. \<not> prefix k l)"
    and "longest_prefix (strie sb) (abs_path l) = Some root \<Longrightarrow>
      \<exists>k\<in>set ls. root = abs_path k \<and> prefix k l \<and> (\<forall>j\<in>set ls. prefix j l \<longrightarrow> prefix j k)"
proof -
  have t: "strie sb = trie.index_of (map abs_path ls)" and u: "\<And>k. k \<in> set ls \<Longrightarrow> utf8_names k"
    using assms(1) by (auto simp: sandbox_of_def list_all_iff)
  have some: "\<exists>k\<in>set ls. root = abs_path k \<and> prefix k l"
    if "longest_prefix (strie sb) (abs_path l) = Some root" for root
    using trie.found_member [OF that [unfolded t]] u
    by (auto simp: prefix_lookup_abs [OF _ assms(2)] keys_path_keys_abs)
  show "longest_prefix (strie sb) (abs_path l) = None \<longleftrightarrow> (\<forall>k\<in>set ls. \<not> prefix k l)"
  proof
    assume n: "longest_prefix (strie sb) (abs_path l) = None"
    show "\<forall>k\<in>set ls. \<not> prefix k l"
    proof
      fix k assume k: "k \<in> set ls"
      show "\<not> prefix k l"
        using trie.covered_found [of "abs_path k" "map abs_path ls" "abs_path l"] n k
        by (auto simp: t prefix_lookup_abs [OF u [OF k] assms(2)])
    qed
  next
    assume "\<forall>k\<in>set ls. \<not> prefix k l"
    then show "longest_prefix (strie sb) (abs_path l) = None"
      using some by (cases "longest_prefix (strie sb) (abs_path l)") auto
  qed
  show "\<exists>k\<in>set ls. root = abs_path k \<and> prefix k l \<and> (\<forall>j\<in>set ls. prefix j l \<longrightarrow> prefix j k)"
    if r: "longest_prefix (strie sb) (abs_path l) = Some root"
  proof -
    obtain k where k: "k \<in> set ls" "root = abs_path k" "prefix k l" using some [OF r] by blast
    have "prefix j k" if j: "j \<in> set ls" "prefix j l" for j
    proof -
      have pj: "prefix (keys_of (abs_path j)) (lookup_keys (abs_path l))"
        using j by (simp add: prefix_lookup_abs [OF u [OF j(1)] assms(2)])
      obtain e where e: "e \<in> set ls" "root = keys_path (keys_of (abs_path e))"
        "prefix (keys_of (abs_path j)) (keys_of (abs_path e))"
        using trie.found_longest [OF r [unfolded t] _ pj] j(1) by auto
      then have "e = k" using k(2) by (simp add: keys_path_keys_abs [OF u])
      with e(3) show ?thesis
        using u [OF j(1)] u [OF k(1)] by (simp add: keys_of_abs_path utf8_names_def map_lossy_id)
    qed
    with k show ?thesis by blast
  qed
qed

lemma resolve_exact:
  assumes "sandbox_of ls sb" "sb_follow sb \<or> check_symlinks_in_path s (normalize_path (to_abs s p))"
    and "canonicalize_or_parent s (normalize_path (to_abs s p)) = Inr (abs_path l)" "utf8_names l"
  shows "(\<forall>k\<in>set ls. \<not> prefix k l) \<Longrightarrow> resolve cap s sb p = Inl (PathNotAllowed p)"
    and "k \<in> set ls \<Longrightarrow> prefix k l \<Longrightarrow> (\<And>h. cap_try_clone cap s h = Inr h) \<Longrightarrow>
      \<exists>j\<in>set ls. (\<forall>i\<in>set ls. prefix i l \<longrightarrow> prefix i j) \<and> prefix j l \<and>
        resolve cap s sb p = Inr \<lparr>dir = the (roots sb (abs_path j)),
          rel = (if j = l then [CurDir] else map Normal (drop (length j) l)),
          requested = p, canonical = abs_path l\<rparr>"
proof -
  have c: "(\<not> sb_follow sb \<and> \<not> check_symlinks_in_path s (normalize_path (to_abs s p))) = False"
    using assms(2) by auto
  show "resolve cap s sb p = Inl (PathNotAllowed p)" if "\<forall>k\<in>set ls. \<not> prefix k l"
    using that sandbox_longest(1) [OF assms(1,4)]
    unfolding resolve_def Let_def c by (simp add: assms(3))
  assume k: "k \<in> set ls" "prefix k l" and clone: "\<And>h. cap_try_clone cap s h = Inr h"
  then obtain root where r: "longest_prefix (strie sb) (abs_path l) = Some root"
    using sandbox_longest(1) [OF assms(1,4)] by auto
  from sandbox_longest(2) [OF assms(1,4) this] obtain j where j: "j \<in> set ls" "root = abs_path j"
    "prefix j l" "\<forall>i\<in>set ls. prefix i l \<longrightarrow> prefix i j" by blast
  obtain h where h: "roots sb (abs_path j) = Some h"
    using assms(1) j(1) by (auto simp: sandbox_of_def dom_def set_eq_iff)
  obtain q where q: "l = j @ q" using j(3) by (auto simp: prefix_def)
  then have s: "path_strip_prefix (abs_path l) (abs_path j) = Some (map Normal q)"
    by (simp add: abs_path_append)
  have "resolve cap s sb p = Inr \<lparr>dir = the (roots sb (abs_path j)),
          rel = (if j = l then [CurDir] else map Normal (drop (length j) l)),
          requested = p, canonical = abs_path l\<rparr>"
    unfolding resolve_def Let_def c using q s r j(2) h clone
    by (simp add: assms(3) clone_dir_def del: path_strip_prefix_append)
  with j show "\<exists>j\<in>set ls. (\<forall>i\<in>set ls. prefix i l \<longrightarrow> prefix i j) \<and> prefix j l \<and>
        resolve cap s sb p = Inr \<lparr>dir = the (roots sb (abs_path j)),
          rel = (if j = l then [CurDir] else map Normal (drop (length j) l)),
          requested = p, canonical = abs_path l\<rparr>" by blast
qed

end
