(* ===== verification/Beneath_Cap.thy ===== *)
theory Beneath_Cap
  imports Containment
begin

text \<open>
  A provider that meets the contract of \<open>Containment\<close>, on the model of the file system: handles
  are locations, a relative path must consist of names, and no link is followed, as with
  \<open>RESOLVE_BENEATH\<close> and \<open>RESOLVE_NO_SYMLINKS\<close>. It shows that the contract can be met, and the
  witnesses evaluate the server on it. It is no model of \<open>cap-std\<close> and no definition here
  stands for code of the repository.
\<close>

fun rel_names :: "path \<Rightarrow> string list option" where
  "rel_names [] = Some []"
| "rel_names (CurDir # cs) = rel_names cs"
| "rel_names (Normal n # cs) = map_option (\<lambda>ns. n # ns) (rel_names cs)"
| "rel_names (c # cs) = None"

text \<open>The location of a relative path beneath a handle; the last name may be missing on request.\<close>

definition beneath :: "bool \<Rightarrow> os \<Rightarrow> loc \<Rightarrow> path \<Rightarrow> io_error + loc" where
  "beneath create s h p =
     (case rel_names p of
        None \<Rightarrow> Inl (IoOther ''Operation not permitted (os error 1)'')
      | Some ns \<Rightarrow> walk (tree s) False create 0 h (map Normal ns))"

definition beneath_node :: "os \<Rightarrow> loc \<Rightarrow> path \<Rightarrow> io_error + loc \<times> node" where
  "beneath_node s h p =
     and_then (beneath False s h p) (\<lambda>l. and_then (node_at s l) (\<lambda>n.
       if node_is_link n then Inl FilesystemLoop else Inr (l, n)))"

definition beneath_create :: "os \<Rightarrow> loc \<Rightarrow> path \<Rightarrow> (io_error + loc) \<times> os" where
  "beneath_create s h p =
     (case beneath True s h p of
        Inl e \<Rightarrow> (Inl e, s)
      | Inr l \<Rightarrow>
          (case lookup (tree s) l of
             Some (DirNode es) \<Rightarrow> (Inl IsADirectory, s)
           | Some (LinkNode q) \<Rightarrow> (Inl FilesystemLoop, s)
           | _ \<Rightarrow> (Inr l, put_node s l (Some (FileNode [])))))"

definition beneath_remove :: "(node \<Rightarrow> io_error option) \<Rightarrow> os \<Rightarrow> loc \<Rightarrow> path \<Rightarrow> (io_error + unit) \<times> os" where
  "beneath_remove refuse s h p =
     (case beneath False s h p of
        Inl e \<Rightarrow> (Inl e, s)
      | Inr l \<Rightarrow>
          (case lookup (tree s) l of
             None \<Rightarrow> (Inl NotFound, s)
           | Some n \<Rightarrow>
               (if l = h then (Inl (IoOther ''Device or resource busy (os error 16)''), s)
                else (case refuse n of
                        Some e \<Rightarrow> (Inl e, s)
                      | None \<Rightarrow> (Inr (), put_node s l None)))))"

fun make_dirs :: "os \<Rightarrow> loc \<Rightarrow> string list \<Rightarrow> (io_error + unit) \<times> os" where
  "make_dirs s l [] = (Inr (), s)"
| "make_dirs s l (n # ns) =
     (case lookup (tree s) (l @ [n]) of
        None \<Rightarrow> make_dirs (put_node s (l @ [n]) (Some (DirNode []))) (l @ [n]) ns
      | Some (DirNode es) \<Rightarrow> make_dirs s (l @ [n]) ns
      | Some _ \<Rightarrow> (Inl NotADirectory, s))"

definition beneath_rename :: "os \<Rightarrow> loc \<Rightarrow> path \<Rightarrow> loc \<Rightarrow> path \<Rightarrow> (io_error + unit) \<times> os" where
  "beneath_rename s h p h' q =
     (case (beneath_node s h p, beneath True s h' q) of
        (Inr (l, n), Inr m) \<Rightarrow>
          if prefix l m \<or> lookup (tree s) m \<noteq> None
          then (Inl (IoOther ''Invalid argument (os error 22)''), s)
          else (Inr (), put_node (put_node s l None) m (Some n))
      | (Inl e, _) \<Rightarrow> (Inl e, s)
      | (_, Inl e) \<Rightarrow> (Inl e, s))"

definition meta_of :: "os \<Rightarrow> node \<Rightarrow> cap_meta" where
  "meta_of s n =
     \<lparr>cap_is_dir = node_is_dir n, cap_is_file = node_is_file n, cap_is_symlink = node_is_link n,
      cap_len = node_len s n, cap_mode = 420, cap_readonly = False,
      cap_created = None, cap_modified = None, cap_accessed = None\<rparr>"

fun refuse_dir :: "node \<Rightarrow> io_error option" where
  "refuse_dir (DirNode es) = Some IsADirectory"
| "refuse_dir _ = None"

fun refuse_full :: "node \<Rightarrow> io_error option" where
  "refuse_full (DirNode es) = (if es = [] then None else Some DirectoryNotEmpty)"
| "refuse_full _ = Some NotADirectory"

fun refuse_file :: "node \<Rightarrow> io_error option" where
  "refuse_file (DirNode es) = None"
| "refuse_file _ = Some NotADirectory"

definition beneath_cap :: "loc cap_std" where
  "beneath_cap =
     \<lparr>cap_open_ambient_dir = (\<lambda>s p. and_then (resolve_loc s True False p) (\<lambda>l.
        and_then (node_at s l) (\<lambda>n. if node_is_dir n then Inr l else Inl NotADirectory))),
      cap_try_clone = (\<lambda>s h. Inr h),
      cap_open = (\<lambda>s h p. map_ok fst (beneath_node s h p)),
      cap_read_to_end = (\<lambda>s f. and_then (node_at s f) node_bytes),
      cap_create = beneath_create,
      cap_write_all = (\<lambda>s f bs. (Inr (), put_node s f (Some (FileNode bs)))),
      cap_flush = (\<lambda>s f. (Inr (), s)),
      cap_metadata = (\<lambda>s h p. map_ok (\<lambda>(l, n). meta_of s n) (beneath_node s h p)),
      cap_create_dir_all = (\<lambda>s h p.
        case rel_names p of
          None \<Rightarrow> (Inl (IoOther ''Operation not permitted (os error 1)''), s)
        | Some ns \<Rightarrow> make_dirs s h ns),
      cap_read_dir = (\<lambda>s h p. and_then (beneath_node s h p) (\<lambda>(l, n).
        case n of
          DirNode es \<Rightarrow> Inr (map (\<lambda>(k, c). Inr (k, Inr (node_is_dir c))) es)
        | _ \<Rightarrow> Inl NotADirectory)),
      cap_remove_file = beneath_remove refuse_dir,
      cap_remove_dir = beneath_remove refuse_full,
      cap_remove_dir_all = beneath_remove refuse_file,
      cap_set_permissions = (\<lambda>s h p m. (map_ok (\<lambda>x. ()) (beneath_node s h p), s)),
      cap_rename = beneath_rename\<rparr>"

section \<open>It meets the contract\<close>

lemma walk_beneath: "walk t False c 0 l (map Normal ns) = Inr m \<Longrightarrow> m = l @ ns"
proof (induction ns arbitrary: l)
  case (Cons n ns)
  from Cons.prems have "walk t False c 0 (l @ [n]) (map Normal ns) = Inr m \<or> ns = [] \<and> m = l @ [n]"
    by (auto split: option.splits node.splits if_splits)
  then show ?case using Cons.IH [of "l @ [n]"] by (elim disjE) simp_all
qed simp

lemma beneath_prefix: "beneath c s h p = Inr l \<Longrightarrow> prefix h l"
  by (auto simp: beneath_def dest: walk_beneath split: option.splits)

lemma put_beneath: "prefix h l \<Longrightarrow> changed_below h s (put_node s l v)"
  by (rule changed_below_prefix [OF put_node_changed])

lemma make_dirs_changed: "prefix h l \<Longrightarrow> changed_below h s (snd (make_dirs s l ns))"
proof (induction s l ns rule: make_dirs.induct)
  case (2 s l n ns)
  have p: "prefix h (l @ [n])" using "2.prems" by (auto simp: prefix_def)
  show ?case
  proof (cases "lookup (tree s) (l @ [n])")
    case None
    have "changed_below h (put_node s (l @ [n]) (Some (DirNode [])))
        (snd (make_dirs (put_node s (l @ [n]) (Some (DirNode []))) (l @ [n]) ns))"
      by (rule "2.IH"(1) [OF None p])
    with put_beneath [OF p] have "changed_below h s
        (snd (make_dirs (put_node s (l @ [n]) (Some (DirNode []))) (l @ [n]) ns))"
      by (rule changed_below_trans)
    with None show ?thesis by simp
  next
    case (Some c)
    then show ?thesis using "2.IH"(2) [OF Some _ p] by (cases c) auto
  qed
qed simp

lemma beneath_create_changed:
  "changed_below h s (snd (beneath_create s h p))"
  "beneath_create s h p = (Inr f, s') \<Longrightarrow> prefix h f"
  by (auto simp: beneath_create_def dest!: beneath_prefix intro: put_beneath
      split: sum.splits option.splits node.splits)

lemma beneath_remove_changed: "changed_below h s (snd (beneath_remove refuse s h p))"
  by (auto simp: beneath_remove_def dest!: beneath_prefix intro: put_beneath
      split: sum.splits option.splits)

lemma move_changed:
  assumes "prefix h l" "prefix h' m"
  shows "changed_beneath {h, h'} s (put_node (put_node s l v) m w)"
proof (rule changed_beneath_trans)
  show "changed_beneath {h, h'} s (put_node s l v)"
    using changed_below_beneath [OF put_node_changed _ assms(1)] by simp
  show "changed_beneath {h, h'} (put_node s l v) (put_node (put_node s l v) m w)"
    using changed_below_beneath [OF put_node_changed _ assms(2)] by simp
qed

lemma beneath_rename_changed: "changed_beneath {h, h'} s (snd (beneath_rename s h p h' q))"
proof (cases "beneath_node s h p")
  case (Inr ln)
  obtain l n where ln: "ln = (l, n)" by (cases ln)
  with Inr have l: "prefix h l"
    by (auto simp: beneath_node_def result_simps split: if_splits dest: beneath_prefix)
  show ?thesis
  proof (cases "beneath True s h' q")
    case (Inr m)
    then have "prefix h' m" by (rule beneath_prefix)
    with l show ?thesis using \<open>beneath_node s h p = Inr ln\<close> ln Inr
      by (simp add: beneath_rename_def move_changed)
  qed (use Inr ln in \<open>simp add: beneath_rename_def\<close>)
qed (simp add: beneath_rename_def)

lemma beneath_cap_contract: "cap_beneath (\<lambda>s h. h) beneath_cap"
proof -
  have c: "beneath_create s h p = (r, s') \<Longrightarrow> changed_below h s s'" for s h p r s'
    using beneath_create_changed(1) [of h s p] by simp
  show ?thesis
    unfolding cap_beneath_def beneath_cap_def
    by (auto simp: beneath_remove_changed beneath_rename_changed make_dirs_changed put_node_changed
        split: option.split intro: c dest: beneath_create_changed(2))
qed

section \<open>A small world\<close>

text \<open>
  The state on which the witnesses run: \<open>/srv\<close> is the allowed directory, with a file, a
  subdirectory, a link that leads out and a link whose target is missing.
\<close>

definition hello :: "u8 list" where
  "hello = as_bytes ''hello''"

definition demo_os :: os where
  "demo_os =
     \<lparr>tree = DirNode [
        (''srv'', DirNode [
           (''notes.txt'', FileNode hello),
           (''sub'', DirNode [(''a.txt'', FileNode [])]),
           (''out'', LinkNode (abs_path [''etc''])),
           (''gone'', LinkNode (abs_path [''etc'', ''new'']))]),
        (''etc'', DirNode [(''passwd'', FileNode [120])])],
      cwd = Some [''srv''],
      dir_len = 4096\<rparr>"

definition demo_server :: server_config where
  "demo_server =
     \<lparr>host = ''127.0.0.1'', http_port = 3001, request_timeout = 30, access_mode = Unrestricted,
      follow_symlinks = False, max_request_bytes = 4096, max_http_body_bytes = 4096,
      auth_token = None, enabled = all_categories, tls_cert = None, tls_key = None\<rparr>"

definition demo_config :: config where
  "demo_config = config_new demo_os [''/srv''] demo_server 1048576"

definition demo_sandbox :: "loc sandbox" where
  "demo_sandbox =
     \<lparr>roots = Map.empty(abs_path [''srv''] \<mapsto> [''srv'']),
      strie = build_allowed_trie demo_os [''/srv''],
      sb_follow = False\<rparr>"

lemma demo_canonical: "canonicalize demo_os (to_abs demo_os ''/srv'') = Inr (abs_path [''srv''])"
  by code_simp

lemma demo_open: "cap_open_ambient_dir beneath_cap demo_os (abs_path [''srv'']) = Inr [''srv'']"
  by code_simp

lemma demo_sandbox_new: "sandbox_new beneath_cap demo_os demo_config = Inr demo_sandbox"
  by (simp add: sandbox_new_def demo_config_def config_new_def demo_server_def demo_canonical demo_open
      demo_sandbox_def)

lemma demo_sane: "sane demo_os"
proof -
  have "link_free (tree demo_os) [''srv'']"
    by (auto simp: link_free_def demo_os_def prefix_Cons)
  moreover have "cwd demo_os = Some [''srv'']" "list_all plain_name [''srv'']"
    "node_is_dir (tree demo_os)"
    by (simp_all add: demo_os_def plain_name_def slash_def)
  ultimately show ?thesis by (simp add: sane_def os_wf_def)
qed

lemma demo_roots_at: "roots_at (\<lambda>s h. h) demo_os demo_sandbox"
  by (simp add: roots_at_def demo_sandbox_def)

lemma demo_root_locs: "root_locs (\<lambda>s h. h) demo_os demo_sandbox = {[''srv'']}"
  by (simp add: root_locs_def demo_sandbox_def)

lemma demo_sandbox_of: "sandbox_of [[''srv'']] demo_sandbox"
proof (rule sandbox_new_of [OF demo_sandbox_new])
  show "allowed_trie demo_config = build_allowed_trie demo_os (allowed_directories demo_config)"
    by (simp add: demo_config_def config_new_def)
  show "map (\<lambda>d. canonicalize demo_os (to_abs demo_os d)) (allowed_directories demo_config)
      = map (\<lambda>l. Inr (abs_path l)) [[''srv'']]"
    by (simp add: demo_config_def config_new_def demo_canonical)
  show "list_all utf8_names [[''srv'']]" by code_simp
qed

lemma demo_resolve:
  "resolve beneath_cap demo_os demo_sandbox ''sub/../notes.txt'' =
     Inr \<lparr>dir = [''srv''], rel = [Normal ''notes.txt''], requested = ''sub/../notes.txt'',
          canonical = abs_path [''srv'', ''notes.txt'']\<rparr>"
  by code_simp

end
