(* ===== verification/Sandbox_Properties.thy ===== *)
theory Sandbox_Properties
  imports Beneath_Cap
begin

text \<open>
  The properties of the sandbox, each with a witness on the small world of \<open>Beneath_Cap\<close>.
\<close>

section \<open>Resolution\<close>

text \<open>
  C1: whatever path is requested, a successful resolution yields a canonical path under the
  canonical path of one of the configured directories, made of that directory and the relative
  path of the capability handle, and no component above its last one is a symbolic link.
\<close>

theorem resolve_contained:
  assumes "sandbox_new cap s0 cfg = Inr sb" "sane s" "resolve cap s sb p = Inr r"
  shows "\<exists>d\<in>set (allowed_directories cfg). \<exists>root l.
    canonicalize s0 (to_abs s0 d) = Inr root \<and> path_starts_with (canonical r) root \<and>
    (canonical r = root @ rel r \<or> canonical r = root \<and> rel r = [CurDir]) \<and>
    canonical r = abs_path l \<and> no_link (tree s) (butlast l)"
proof -
  obtain root h where root: "roots sb root = Some h" "prefix root (canonical r)"
    "canonical r = (if rel r = [CurDir] \<and> canonical r = root then root else root @ rel r)"
    using assms(3) by (rule resolve_InrE)
  from sandbox_new_roots [OF assms(1) root(1)] obtain d where
    "d \<in> set (allowed_directories cfg)" "canonicalize s0 (to_abs s0 d) = Inr root" by blast
  moreover obtain l where "canonical r = abs_path l" "no_link (tree s) (butlast l)"
    using resolve_canonical [OF assms(2,3)] by blast
  moreover have "canonical r = root @ rel r \<or> canonical r = root \<and> rel r = [CurDir]"
    using root(3) by (auto split: if_splits)
  ultimately show ?thesis using root(2) unfolding path_starts_with_def by blast
qed

theorem resolve_contained_witness:
  "\<exists>r. resolve beneath_cap demo_os demo_sandbox ''sub/../notes.txt'' = Inr r \<and>
     (\<exists>d\<in>set (allowed_directories demo_config). \<exists>root l.
        canonicalize demo_os (to_abs demo_os d) = Inr root \<and> path_starts_with (canonical r) root \<and>
        (canonical r = root @ rel r \<or> canonical r = root \<and> rel r = [CurDir]) \<and>
        canonical r = abs_path l \<and> no_link (tree demo_os) (butlast l))"
  using demo_resolve resolve_contained [OF demo_sandbox_new demo_sane demo_resolve] by blast

text \<open>
  C2: without \<open>--follow-symlinks\<close> the canonical path is the lexical normal form of the request,
  and no component of it, the last one included, is a symbolic link; so a link is never
  crossed on the way to an accepted path.
\<close>

theorem resolve_symlink_free:
  assumes "sane s" "\<not> sb_follow sb" "resolve cap s sb p = Inr r"
  shows "canonical r = normalize_path (to_abs s p) \<and>
    (\<exists>l. canonical r = abs_path l \<and> no_link (tree s) l)"
  using resolve_no_follow [OF assms] normalize_request [OF assms(1)] by auto

theorem resolve_symlink_free_witness:
  "\<exists>r. resolve beneath_cap demo_os demo_sandbox ''sub/../notes.txt'' = Inr r \<and>
     canonical r = normalize_path (to_abs demo_os ''sub/../notes.txt'') \<and>
     (\<exists>l. canonical r = abs_path l \<and> no_link (tree demo_os) l)"
proof -
  have "\<not> sb_follow demo_sandbox" by (simp add: demo_sandbox_def)
  from resolve_symlink_free [OF demo_sane this demo_resolve] demo_resolve show ?thesis by blast
qed





end
