(* ===== verification/Ring_Buffer.thy ===== *)
theory Ring_Buffer
  imports Prelude
begin

text \<open>
  The circular buffer of \<open>src/structures.rs\<close>. An operation that indexes the vector or takes a
  remainder returns an option, \<open>None\<close> for the panic that an index out of range or a zero
  divisor raises. The locale \<open>bounded_queue\<close> states the contract that \<open>read_text_file\<close> relies
  on: a buffer of capacity \<open>c\<close> keeps the last \<open>c\<close> items pushed, oldest first; the ring buffer
  is its interpretation.
\<close>

record 'a ring =
  buffer :: "'a option list"
  rhead :: nat
  rsize :: nat
  rcapacity :: nat

definition ring_new :: "nat \<Rightarrow> 'a ring" where
  "ring_new c = \<lparr>buffer = replicate c None, rhead = 0, rsize = 0, rcapacity = c\<rparr>"

text \<open>Indexed assignment and \<open>%\<close>, which may panic.\<close>

definition set_slot :: "'a option list \<Rightarrow> nat \<Rightarrow> 'a option \<Rightarrow> 'a option list option" where
  "set_slot b i v = (if i < length b then Some (b[i := v]) else None)"

definition get_slot :: "'a option list \<Rightarrow> nat \<Rightarrow> 'a option option" where
  "get_slot b i = (if i < length b then Some (b ! i) else None)"

definition checked_rem :: "nat \<Rightarrow> nat \<Rightarrow> nat option" where
  "checked_rem a b = (if b = 0 then None else Some (a mod b))"

definition ring_push :: "'a ring \<Rightarrow> 'a \<Rightarrow> 'a ring option" where
  "ring_push r item =
     (if rsize r = rcapacity r then
        Option.bind (set_slot (buffer r) (rhead r) (Some item)) (\<lambda>b.
        Option.bind (checked_rem (rhead r + 1) (rcapacity r)) (\<lambda>h.
          Some (r\<lparr>buffer := b, rhead := h\<rparr>)))
      else
        Option.bind (checked_rem (rhead r + rsize r) (rcapacity r)) (\<lambda>i.
        Option.bind (set_slot (buffer r) i (Some item)) (\<lambda>b.
          Some (r\<lparr>buffer := b, rsize := rsize r + 1\<rparr>))))"

definition ring_pop :: "'a ring \<Rightarrow> ('a ring \<times> 'a option) option" where
  "ring_pop r =
     (if rsize r = 0 then Some (r, None)
      else
        Option.bind (get_slot (buffer r) (rhead r)) (\<lambda>item.
        Option.bind (set_slot (buffer r) (rhead r) None) (\<lambda>b.
        Option.bind (checked_rem (rhead r + 1) (rcapacity r)) (\<lambda>h.
          Some (r\<lparr>buffer := b, rhead := h, rsize := rsize r - 1\<rparr>, item)))))"

definition ring_len :: "'a ring \<Rightarrow> nat" where
  "ring_len r = rsize r"

definition ring_is_empty :: "'a ring \<Rightarrow> bool" where
  "ring_is_empty r = (rsize r = 0)"

definition ring_is_full :: "'a ring \<Rightarrow> bool" where
  "ring_is_full r = (rsize r = rcapacity r)"

text \<open>\<open>to_vec\<close>: the loop over \<open>0..size\<close>, from the index \<open>i\<close> on with \<open>n\<close> steps to go.\<close>

fun to_vec_loop :: "'a ring \<Rightarrow> nat \<Rightarrow> nat \<Rightarrow> 'a list option" where
  "to_vec_loop r i 0 = Some []"
| "to_vec_loop r i (Suc n) =
     Option.bind (checked_rem (rhead r + i) (rcapacity r)) (\<lambda>idx.
     Option.bind (get_slot (buffer r) idx) (\<lambda>slot.
     Option.bind (to_vec_loop r (Suc i) n) (\<lambda>rest.
       Some (case slot of None \<Rightarrow> rest | Some item \<Rightarrow> item # rest))))"

definition ring_to_vec :: "'a ring \<Rightarrow> 'a list option" where
  "ring_to_vec r = to_vec_loop r 0 (rsize r)"

lemma ring_pop_size:
  "ring_pop r = Some (r', Some x) \<Longrightarrow> rsize r' < rsize r"
  by (auto simp: ring_pop_def Option.bind_eq_Some_conv split: if_splits)

text \<open>\<open>into_vec\<close>: pops while there is an item.\<close>

function ring_into_vec :: "'a ring \<Rightarrow> 'a list option" where
  "ring_into_vec r =
     (case ring_pop r of
        None \<Rightarrow> None
      | Some (r', None) \<Rightarrow> Some []
      | Some (r', Some item) \<Rightarrow> map_option (\<lambda>rest. item # rest) (ring_into_vec r'))"
  by pat_completeness auto
termination
  by (relation "measure rsize") (auto dest: ring_pop_size)

declare ring_into_vec.simps [simp del]

text \<open>The iterator holds the buffer and the index of its next item.\<close>

definition ring_iter_next :: "'a ring \<times> nat \<Rightarrow> (('a ring \<times> nat) \<times> 'a option) option" where
  "ring_iter_next it =
     (case it of (r, index) \<Rightarrow>
        if index \<ge> rsize r then Some (it, None)
        else
          Option.bind (checked_rem (rhead r + index) (rcapacity r)) (\<lambda>idx.
          Option.bind (get_slot (buffer r) idx) (\<lambda>slot.
            Some ((r, index + 1), slot))))"

definition ring_iter_size_hint :: "'a ring \<times> nat \<Rightarrow> nat \<times> nat option" where
  "ring_iter_size_hint it =
     (case it of (r, index) \<Rightarrow> let remaining = rsize r - index in (remaining, Some remaining))"

section \<open>The invariant and the list a buffer stands for\<close>

definition slot_of :: "'a ring \<Rightarrow> nat \<Rightarrow> nat" where
  "slot_of r i = (rhead r + i) mod rcapacity r"

definition ring_inv :: "'a ring \<Rightarrow> bool" where
  "ring_inv r =
     (length (buffer r) = rcapacity r \<and> rsize r \<le> rcapacity r \<and>
      (0 < rcapacity r \<longrightarrow> rhead r < rcapacity r) \<and>
      (\<forall>i<rsize r. buffer r ! slot_of r i \<noteq> None))"

definition ring_list :: "'a ring \<Rightarrow> 'a list" where
  "ring_list r = map (\<lambda>i. the (buffer r ! slot_of r i)) [0..<rsize r]"

lemma mod_shift_inj:
  fixes h i j c :: nat
  assumes "i < c" "j < c" "(h + i) mod c = (h + j) mod c"
  shows "i = j"
proof -
  have le: "i = j" if "i \<le> j" "j < c" "(h + j) mod c = (h + i) mod c" for i j :: nat
  proof -
    from that(1,3) have "c dvd (h + j) - (h + i)"
      by (simp add: mod_eq_dvd_iff_nat)
    with that(1,2) show "i = j" by (auto dest: dvd_imp_le)
  qed
  show ?thesis
    using le [of i j] le [of j i] assms by (cases "i \<le> j") auto
qed

lemma slot_less: "0 < rcapacity r \<Longrightarrow> slot_of r i < rcapacity r"
  by (simp add: slot_of_def)

lemma slot_inj:
  "i < rcapacity r \<Longrightarrow> j < rcapacity r \<Longrightarrow> slot_of r i = slot_of r j \<Longrightarrow> i = j"
  unfolding slot_of_def by (rule mod_shift_inj)

lemma slot_zero: "ring_inv r \<Longrightarrow> 0 < rcapacity r \<Longrightarrow> slot_of r 0 = rhead r"
  by (simp add: slot_of_def ring_inv_def)

lemma slot_shift:
  "rcapacity r' = rcapacity r \<Longrightarrow> rhead r' = Suc (rhead r) mod rcapacity r \<Longrightarrow>
     slot_of r' i = slot_of r (Suc i)"
  by (simp add: slot_of_def mod_simps)

lemma ring_list_length [simp]: "length (ring_list r) = rsize r"
  by (simp add: ring_list_def)

lemma ring_list_nth: "i < rsize r \<Longrightarrow> ring_list r ! i = the (buffer r ! slot_of r i)"
  by (simp add: ring_list_def)

lemma ring_inv_new: "ring_inv (ring_new c)" "ring_list (ring_new c) = []"
  by (simp_all add: ring_inv_def ring_new_def ring_list_def)

lemma ring_push_full:
  assumes inv: "ring_inv r" and c: "0 < rcapacity r" and full: "rsize r = rcapacity r"
  shows "\<exists>r'. ring_push r x = Some r' \<and> ring_inv r' \<and> rcapacity r' = rcapacity r \<and>
    ring_list r' = tl (ring_list r) @ [x]"
proof -
  let ?r = "r\<lparr>buffer := (buffer r)[rhead r := Some x], rhead := Suc (rhead r) mod rcapacity r\<rparr>"
  let ?n = "rcapacity r - 1"
  have len: "length (buffer r) = rcapacity r" and h: "rhead r < rcapacity r"
    using inv c by (simp_all add: ring_inv_def)
  have push: "ring_push r x = Some ?r"
    using full len h c by (simp add: ring_push_def set_slot_def checked_rem_def)
  have slot: "slot_of ?r i = slot_of r (Suc i)" for i by (rule slot_shift) simp_all
  have "slot_of ?r ?n = slot_of r (rcapacity r)" using slot [of ?n] c by simp
  also have "\<dots> = rhead r" using h by (simp add: slot_of_def)
  finally have last: "slot_of ?r ?n = rhead r" .
  have other: "slot_of ?r i \<noteq> rhead r" if "i < ?n" for i
  proof -
    have "Suc i < rcapacity r" using that by linarith
    then show ?thesis using slot_inj [of "Suc i" r 0] slot [of i] slot_zero [OF inv c] c by auto
  qed
  have old: "buffer ?r ! slot_of ?r i = buffer r ! slot_of r (Suc i)" if "i < ?n" for i
    using other [OF that] slot [of i] by simp
  have new: "buffer ?r ! slot_of ?r ?n = Some x"
    using last len h by simp
  have some: "buffer ?r ! slot_of ?r i \<noteq> None" if "i < rsize ?r" for i
  proof (cases "i < ?n")
    case True
    then show ?thesis using old inv full by (auto simp: ring_inv_def)
  next
    case False
    then have "i = ?n" using that full by simp
    then show ?thesis using new by simp
  qed
  have "ring_inv ?r" using some inv c by (auto simp: ring_inv_def)
  moreover have "ring_list ?r = tl (ring_list r) @ [x]"
  proof (rule nth_equalityI)
    show "length (ring_list ?r) = length (tl (ring_list r) @ [x])" using c full by simp
    fix i assume "i < length (ring_list ?r)"
    then have i: "i < rcapacity r" using full by simp
    show "ring_list ?r ! i = (tl (ring_list r) @ [x]) ! i"
    proof (cases "i < ?n")
      case True
      then have "ring_list ?r ! i = the (buffer r ! slot_of r (Suc i))"
        using ring_list_nth [of i ?r] old i full by simp
      also have "\<dots> = ring_list r ! Suc i" using True full by (simp add: ring_list_nth)
      finally show ?thesis using True full by (simp add: nth_append nth_tl)
    next
      case False
      then have "i = ?n" using i by simp
      then show ?thesis using new ring_list_nth [of ?n ?r] full c by (simp add: nth_append)
    qed
  qed
  ultimately show ?thesis using push by auto
qed

lemma ring_push_room:
  assumes inv: "ring_inv r" and room: "rsize r < rcapacity r"
  shows "\<exists>r'. ring_push r x = Some r' \<and> ring_inv r' \<and> rcapacity r' = rcapacity r \<and>
    ring_list r' = ring_list r @ [x]"
proof -
  let ?s = "slot_of r (rsize r)"
  let ?r = "r\<lparr>buffer := (buffer r)[?s := Some x], rsize := Suc (rsize r)\<rparr>"
  have len: "length (buffer r) = rcapacity r" using inv by (simp add: ring_inv_def)
  have s: "?s < rcapacity r" using room slot_less [of r "rsize r"] by simp
  have push: "ring_push r x = Some ?r"
    using room len s by (simp add: ring_push_def set_slot_def checked_rem_def slot_of_def)
  have slot: "slot_of ?r i = slot_of r i" for i by (simp add: slot_of_def)
  have old: "buffer ?r ! slot_of ?r i = buffer r ! slot_of r i" if "i < rsize r" for i
  proof -
    have "slot_of r (rsize r) \<noteq> slot_of r i"
      using slot_inj [of i r "rsize r"] that room by auto
    then show ?thesis by (simp add: slot)
  qed
  have new: "buffer ?r ! slot_of ?r (rsize r) = Some x" using s len by (simp add: slot)
  have "ring_inv ?r" using old new inv room
    by (auto simp: ring_inv_def less_Suc_eq)
  moreover have "ring_list ?r = ring_list r @ [x]"
    using old new by (auto simp: ring_list_def)
  ultimately show ?thesis using push by auto
qed

lemma ring_pop_nonempty:
  assumes inv: "ring_inv r" and ne: "ring_list r \<noteq> []"
  shows "\<exists>r'. ring_pop r = Some (r', Some (hd (ring_list r))) \<and> ring_inv r' \<and>
    rcapacity r' = rcapacity r \<and> ring_list r' = tl (ring_list r)"
proof -
  let ?r = "r\<lparr>buffer := (buffer r)[rhead r := None], rhead := Suc (rhead r) mod rcapacity r,
    rsize := rsize r - Suc 0\<rparr>"
  have pos: "0 < rsize r" using ne by (metis length_greater_0_conv ring_list_length)
  then have c: "0 < rcapacity r" using inv by (simp add: ring_inv_def)
  have len: "length (buffer r) = rcapacity r" and h: "rhead r < rcapacity r"
    and size: "rsize r \<le> rcapacity r" using inv c by (simp_all add: ring_inv_def)
  have pop: "ring_pop r = Some (?r, buffer r ! rhead r)"
    using pos len h c by (simp add: ring_pop_def get_slot_def set_slot_def checked_rem_def)
  have first: "buffer r ! rhead r = Some (hd (ring_list r))"
    using inv pos slot_zero [OF inv c] ring_list_nth [of 0 r] ne
    by (auto simp: ring_inv_def hd_conv_nth)
  have slot: "slot_of ?r i = slot_of r (Suc i)" for i by (rule slot_shift) simp_all
  have old: "buffer ?r ! slot_of ?r i = buffer r ! slot_of r (Suc i)" if "i < rsize r - 1" for i
  proof -
    have "Suc i < rcapacity r" using that size by linarith
    then have "rhead r \<noteq> slot_of r (Suc i)"
      using slot_inj [of "Suc i" r 0] slot_zero [OF inv c] c by auto
    then show ?thesis by (simp add: slot)
  qed
  have "ring_inv ?r" using old inv c by (auto simp: ring_inv_def)
  moreover have "ring_list ?r = tl (ring_list r)"
    using old pos by (intro nth_equalityI) (simp_all add: ring_list_nth nth_tl)
  ultimately show ?thesis using pop first by auto
qed

lemma ring_pop_empty: "ring_list r = [] \<Longrightarrow> ring_pop r = Some (r, None)"
  by (metis length_0_conv ring_list_length ring_pop_def)

lemma ring_into_vec_list: "ring_inv r \<Longrightarrow> ring_into_vec r = Some (ring_list r)"
proof (induction r rule: ring_into_vec.induct)
  case (1 r)
  show ?case
  proof (cases "ring_list r = []")
    case True
    then show ?thesis by (subst ring_into_vec.simps) (simp add: ring_pop_empty)
  next
    case False
    from ring_pop_nonempty [OF "1.prems" False] obtain r' where
      pop: "ring_pop r = Some (r', Some (hd (ring_list r)))"
      and r': "ring_inv r'" "ring_list r' = tl (ring_list r)" by auto
    from "1.IH" [OF pop refl refl r'(1)] show ?thesis
      using pop r' False by (subst ring_into_vec.simps) simp
  qed
qed

lemma to_vec_loop_list:
  "ring_inv r \<Longrightarrow> i + n \<le> rsize r \<Longrightarrow> to_vec_loop r i n = Some (take n (drop i (ring_list r)))"
proof (induction r i n rule: to_vec_loop.induct)
  case (2 r i n)
  then have c: "0 < rcapacity r" and i: "i < rsize r"
    and len: "length (buffer r) = rcapacity r" by (auto simp: ring_inv_def)
  have some: "buffer r ! slot_of r i = Some (ring_list r ! i)"
    using "2.prems" i by (auto simp: ring_inv_def ring_list_nth)
  have IH: "to_vec_loop r (Suc i) n = Some (take n (drop (Suc i) (ring_list r)))"
    using "2.IH" "2.prems" c i by (simp add: checked_rem_def get_slot_def len slot_less)
  have "drop i (ring_list r) = ring_list r ! i # drop (Suc i) (ring_list r)"
    using i by (simp add: Cons_nth_drop_Suc)
  then show ?case
    using c len some IH slot_less [OF c, of i]
    by (simp add: checked_rem_def get_slot_def slot_of_def)
qed simp

lemma ring_to_vec_list: "ring_inv r \<Longrightarrow> ring_to_vec r = Some (ring_list r)"
  by (simp add: ring_to_vec_def to_vec_loop_list)

section \<open>The interface\<close>

locale bounded_queue =
  fixes new_queue :: "nat \<Rightarrow> 'q"
    and put :: "'q \<Rightarrow> 'a \<Rightarrow> 'q option"
    and drain :: "'q \<Rightarrow> 'a list option"
    and items :: "'q \<Rightarrow> 'a list"
    and limit :: "'q \<Rightarrow> nat"
    and inv :: "'q \<Rightarrow> bool"
  assumes new_inv: "inv (new_queue c)"
    and new_items: "items (new_queue c) = []"
    and new_limit: "limit (new_queue c) = c"
    and bounded: "inv q \<Longrightarrow> length (items q) \<le> limit q"
    and put_full: "inv q \<Longrightarrow> 0 < limit q \<Longrightarrow> length (items q) = limit q \<Longrightarrow>
      \<exists>q'. put q x = Some q' \<and> inv q' \<and> limit q' = limit q \<and> items q' = tl (items q) @ [x]"
    and put_room: "inv q \<Longrightarrow> length (items q) < limit q \<Longrightarrow>
      \<exists>q'. put q x = Some q' \<and> inv q' \<and> limit q' = limit q \<and> items q' = items q @ [x]"
    and drain_items: "inv q \<Longrightarrow> drain q = Some (items q)"
begin

fun put_all :: "'q \<Rightarrow> 'a list \<Rightarrow> 'q option" where
  "put_all q [] = Some q"
| "put_all q (x # xs) = Option.bind (put q x) (\<lambda>q'. put_all q' xs)"

text \<open>One item more: the queue holds the last items of what it held and the new one.\<close>

lemma put_last:
  assumes "inv q" "0 < limit q"
  shows "\<exists>q'. put q x = Some q' \<and> inv q' \<and> limit q' = limit q \<and>
    items q' = drop (Suc (length (items q)) - limit q) (items q @ [x])"
proof (cases "length (items q) = limit q")
  case True
  have "items q \<noteq> []" using True assms(2) by auto
  then show ?thesis using put_full [OF assms True, of x] True assms(2) by (auto simp: drop_Suc)
next
  case False
  then have "length (items q) < limit q" using bounded [OF assms(1)] by simp
  then show ?thesis using put_room [OF assms(1)] by auto
qed

lemma put_all_last:
  assumes "inv q" "0 < limit q"
  shows "\<exists>q'. put_all q xs = Some q' \<and> inv q' \<and>
    items q' = drop (length (items q) + length xs - limit q) (items q @ xs)"
  using assms
proof (induction xs arbitrary: q)
  case Nil
  then show ?case using bounded by auto
next
  case (Cons x xs)
  from put_last [OF Cons.prems, of x] obtain q1 where
    q1: "put q x = Some q1" "inv q1" "limit q1 = limit q"
      "items q1 = drop (Suc (length (items q)) - limit q) (items q @ [x])" by blast
  let ?d = "Suc (length (items q)) - limit q"
  from Cons.IH [OF q1(2)] q1(3) Cons.prems(2) obtain q2 where
    q2: "put_all q1 xs = Some q2" "inv q2"
      "items q2 = drop (length (items q1) + length xs - limit q) (items q1 @ xs)" by auto
  have d: "?d \<le> length (items q @ [x])" by simp
  have "items q1 @ xs = drop ?d (items q @ x # xs)"
    using q1(4) d Cons.prems(2) by (simp add: drop_append)
  then have "items q2 = drop (length (items q1) + length xs - limit q + ?d) (items q @ x # xs)"
    using q2(3) by (simp only: drop_drop)
  moreover have "length (items q1) + length xs - limit q + ?d
      = length (items q) + length (x # xs) - limit q"
    using bounded [OF Cons.prems(1)] Cons.prems(2) q1(4) by simp
  ultimately show ?case using q1(1) q2 by auto
qed

lemma put_all_drain:
  assumes "0 < c"
  shows "Option.bind (put_all (new_queue c) xs) drain = Some (drop (length xs - c) xs)"
  using put_all_last [OF new_inv, of c xs] assms
  by (auto simp: new_limit new_items drain_items)

end

interpretation ring_queue: bounded_queue ring_new ring_push ring_into_vec ring_list rcapacity ring_inv
proof
  show "ring_inv (ring_new c)" "ring_list (ring_new c) = []" for c
    by (rule ring_inv_new)+
  show "rcapacity (ring_new c) = c" for c by (simp add: ring_new_def)
  show "length (ring_list q) \<le> rcapacity q" if "ring_inv q" for q
    using that by (simp add: ring_inv_def)
  show "\<exists>q'. ring_push q x = Some q' \<and> ring_inv q' \<and> rcapacity q' = rcapacity q \<and>
      ring_list q' = tl (ring_list q) @ [x]"
    if "ring_inv q" "0 < rcapacity q" "length (ring_list q) = rcapacity q" for q x
    using ring_push_full [OF that(1,2)] that(3) by simp
  show "\<exists>q'. ring_push q x = Some q' \<and> ring_inv q' \<and> rcapacity q' = rcapacity q \<and>
      ring_list q' = ring_list q @ [x]"
    if "ring_inv q" "length (ring_list q) < rcapacity q" for q x
    using ring_push_room [OF that(1)] that(2) by simp
  show "ring_into_vec q = Some (ring_list q)" if "ring_inv q" for q
    using that by (rule ring_into_vec_list)
qed

end
