(* ===== verification/Text_Files.thy ===== *)
theory Text_Files
  imports Ring_Buffer Args Utf8
begin

text \<open>
  The computations inside the handlers of \<open>src/actions/files.rs\<close>: the lines of a buffered
  reader, the loops of \<open>head\<close> and \<open>tail\<close>, the edit loop with its character boundaries, and the
  range of bytes of a partial read. A panic is \<open>None\<close>.
\<close>

section \<open>Lines of a reader\<close>

definition nl :: u8 where "nl = 10"
definition cr :: u8 where "cr = 13"

text \<open>\<open>BufRead::lines\<close>: a line is an error when its bytes are no UTF-8.\<close>

definition line_of :: "u8 list \<Rightarrow> io_error + string" where
  "line_of bs = (if utf8_valid bs then Inr (of_bytes bs) else Inl InvalidData)"

definition drop_cr :: "u8 list \<Rightarrow> u8 list" where
  "drop_cr bs = (if bs \<noteq> [] \<and> last bs = cr then butlast bs else bs)"

fun buf_lines_acc :: "u8 list \<Rightarrow> u8 list \<Rightarrow> (io_error + string) list" where
  "buf_lines_acc acc [] = (if acc = [] then [] else [line_of (rev acc)])"
| "buf_lines_acc acc (b # bs) =
     (if b = nl then line_of (drop_cr (rev acc)) # buf_lines_acc [] bs
      else buf_lines_acc (b # acc) bs)"

definition buf_lines :: "u8 list \<Rightarrow> (io_error + string) list" where
  "buf_lines bs = buf_lines_acc [] bs"

definition cannot :: "string \<Rightarrow> io_error \<Rightarrow> string" where
  "cannot what e = ''Cannot '' @ what @ '': '' @ io_text e"

text \<open>The loop of \<open>head\<close>: the lines read and their count.\<close>

fun head_loop :: "nat \<Rightarrow> nat \<Rightarrow> (io_error + string) list \<Rightarrow> string + string list \<times> nat" where
  "head_loop h count [] = Inr ([], count)"
| "head_loop h count (line # lines) =
     (if count \<ge> h then Inr ([], count)
      else and_then (map_err (cannot ''read file'') line) (\<lambda>l.
             map_ok (\<lambda>(ls, c). (l # ls, c)) (head_loop h (count + 1) lines)))"

text \<open>The loop of \<open>tail\<close>, with the number of lines read so far and the ring buffer.\<close>

fun tail_loop ::
    "nat \<Rightarrow> string ring \<Rightarrow> (io_error + string) list \<Rightarrow> (string + nat \<times> string ring) option" where
  "tail_loop seen ring [] = Some (Inr (seen, ring))"
| "tail_loop seen ring (line # lines) =
     (case line of
        Inl e \<Rightarrow> Some (Inl (cannot ''read file'' e))
      | Inr l \<Rightarrow>
          (case ring_push ring l of
             None \<Rightarrow> None
           | Some ring' \<Rightarrow> tail_loop (seen + 1) ring' lines))"

definition tail_lines :: "nat \<Rightarrow> (io_error + string) list \<Rightarrow> (string + nat \<times> string list) option" where
  "tail_lines t lines =
     (case tail_loop 0 (ring_new t) lines of
        None \<Rightarrow> None
      | Some (Inl e) \<Rightarrow> Some (Inl e)
      | Some (Inr (seen, ring)) \<Rightarrow> map_option (\<lambda>ls. Inr (seen, ls)) (ring_into_vec ring))"

section \<open>Edits\<close>

fun floor_loop :: "string \<Rightarrow> nat \<Rightarrow> nat" where
  "floor_loop s 0 = 0"
| "floor_loop s (Suc i) = (if is_char_boundary s (Suc i) then Suc i else floor_loop s i)"

definition floor_char_boundary :: "string \<Rightarrow> nat \<Rightarrow> nat" where
  "floor_char_boundary s i = (if i \<ge> length s then length s else floor_loop s i)"

function ceil_char_boundary :: "string \<Rightarrow> nat \<Rightarrow> nat" where
  "ceil_char_boundary s i =
     (if i < length s \<and> \<not> is_char_boundary s i then ceil_char_boundary s (i + 1) else i)"
  by pat_completeness auto
termination
  by (relation "measure (\<lambda>(s, i). length s - i)") auto

declare ceil_char_boundary.simps [simp del]

definition four_spaces :: string where
  "four_spaces = ''    ''"

fun count_indents :: "string list \<Rightarrow> nat \<Rightarrow> nat \<Rightarrow> nat \<times> nat" where
  "count_indents [] spaces tabs = (spaces, tabs)"
| "count_indents (line # ls) spaces tabs =
     (if starts_with line [tab] then count_indents ls spaces (tabs + 1)
      else if starts_with line ''  '' then count_indents ls (spaces + 1) tabs
      else count_indents ls spaces tabs)"

definition detect_indent :: "string \<Rightarrow> string" where
  "detect_indent content =
     (case count_indents (str_lines content) 0 0 of
        (spaces, tabs) \<Rightarrow> if tabs > spaces then [tab] else four_spaces)"

definition normalize_whitespace :: "string \<Rightarrow> string \<Rightarrow> string" where
  "normalize_whitespace text indent =
     (if indent = [tab] then str_replace four_spaces [tab] text
      else str_replace [tab] four_spaces text)"

text \<open>The context of a match: 40 bytes on either side, widened to character boundaries.\<close>

definition edit_context :: "string \<Rightarrow> nat \<Rightarrow> nat \<Rightarrow> string option" where
  "edit_context result pos after =
     map_option (\<lambda>c. ''...'' @ str_replace [newline] [CHR 0x5C, CHR ''n''] c @ ''...'')
       (str_slice result
         (floor_char_boundary result (pos - 40))
         (ceil_char_boundary result (min (after + 40) (length result))))"

definition edit_texts :: "json \<Rightarrow> (string \<times> string) result" where
  "edit_texts edit =
     and_then
       (ok_or (InvalidParams (''Each edit must have '' @ quoted ''oldText'' @ '' string''))
         (Option.bind (jget edit ''oldText'') as_str))
       (\<lambda>old. Inr (old, unwrap_or [] (Option.bind (jget edit ''newText'') as_str)))"

text \<open>One round of the edit loop: the new text and the entry for the report.\<close>

definition edit_step :: "string \<Rightarrow> string \<Rightarrow> string \<times> string \<Rightarrow> (string \<times> json) option" where
  "edit_step indent result edit =
     (case edit of (old_text, new_text) \<Rightarrow>
        let normalized_old = normalize_whitespace old_text indent;
            normalized_new = normalize_whitespace new_text indent in
        (case str_find normalized_old result of
           Some pos \<Rightarrow>
             (let after = pos + length normalized_old in
              Option.bind (edit_context result pos after) (\<lambda>context.
              Option.bind (replace_range result pos after normalized_new) (\<lambda>result'.
                Some (result',
                  obj [(''oldText'', JStr old_text), (''newText'', JStr new_text),
                       (''position'', jnat pos), (''context'', JStr context)]))))
         | None \<Rightarrow>
             Some (result,
               obj [(''oldText'', JStr old_text), (''newText'', JStr new_text),
                    (''error'', JStr ''Pattern not found in file'')])))"

fun edit_loop :: "string \<Rightarrow> string \<Rightarrow> json list \<Rightarrow> (string \<times> json list) result option" where
  "edit_loop indent result [] = Some (Inr (result, []))"
| "edit_loop indent result (edit # edits) =
     (case edit_texts edit of
        Inl e \<Rightarrow> Some (Inl e)
      | Inr texts \<Rightarrow>
          (case edit_step indent result texts of
             None \<Rightarrow> None
           | Some (result', diff) \<Rightarrow>
               map_option (map_ok (\<lambda>(r, diffs). (r, diff # diffs))) (edit_loop indent result' edits)))"

section \<open>Ranges\<close>

text \<open>\<open>as i64\<close> on a \<open>u64\<close>, and the number of bytes that \<open>read_file_range\<close> reads.\<close>

definition as_signed :: "nat \<Rightarrow> int" where
  "as_signed n = (if n < 2 ^ 63 then int n else int n - 2 ^ 64)"

definition range_length :: "nat \<Rightarrow> nat \<Rightarrow> nat \<Rightarrow> nat" where
  "range_length offset len file_size = min (sat_add offset len) file_size - offset"

section \<open>What the loops compute\<close>

lemma head_loop_ok:
  "head_loop h count (map Inr ls) = Inr (take (h - count) ls, count + min (h - count) (length ls))"
proof (induction ls arbitrary: count)
  case (Cons l ls)
  show ?case
  proof (cases "count \<ge> h")
    case False
    then have "h - count = Suc (h - Suc count)" by simp
    then show ?thesis using False Cons [of "Suc count"] by simp
  qed simp
qed simp

lemma tail_loop_put_all:
  "tail_loop n r (map Inr ls) = map_option (\<lambda>r'. Inr (n + length ls, r')) (ring_queue.put_all r ls)"
  by (induction ls arbitrary: n r) (auto split: option.split)

lemma tail_lines_ok:
  assumes "0 < t"
  shows "tail_lines t (map Inr ls) = Some (Inr (length ls, drop (length ls - t) ls))"
  using ring_queue.put_all_drain [OF assms, of ls]
  by (auto simp: tail_lines_def tail_loop_put_all Option.bind_eq_Some_conv split: option.split)

lemma tail_lines_zero: "tail_lines 0 (Inr l # lines) = None"
  by (simp add: tail_lines_def ring_push_def ring_new_def set_slot_def)

text \<open>The boundary functions return boundaries around the index they are given.\<close>

lemma is_char_boundary_0 [simp]: "is_char_boundary s 0"
  by (simp add: is_char_boundary_def)

lemma is_char_boundary_length [simp]: "is_char_boundary s (length s)"
  by (simp add: is_char_boundary_def)

lemma floor_loop_boundary: "is_char_boundary s (floor_loop s i) \<and> floor_loop s i \<le> i"
  by (induction s i rule: floor_loop.induct) auto

lemma floor_boundary:
  "is_char_boundary s (floor_char_boundary s i)" "i \<le> length s \<Longrightarrow> floor_char_boundary s i \<le> i"
  using floor_loop_boundary [of s i] by (auto simp: floor_char_boundary_def)

lemma ceil_boundary:
  "i \<le> length s \<Longrightarrow> is_char_boundary s (ceil_char_boundary s i) \<and>
     i \<le> ceil_char_boundary s i \<and> ceil_char_boundary s i \<le> length s"
proof (induction s i rule: ceil_char_boundary.induct)
  case (1 s i)
  show ?case
  proof (cases "i < length s \<and> \<not> is_char_boundary s i")
    case True
    then show ?thesis using 1 by (subst (1 2 3) ceil_char_boundary.simps) auto
  next
    case False
    then show ?thesis using 1(2) by (subst (1 2 3) ceil_char_boundary.simps) auto
  qed
qed

lemma edit_context_total:
  assumes "pos \<le> after" "after \<le> length s"
  shows "\<exists>c. edit_context s pos after = Some c"
proof -
  have "floor_char_boundary s (pos - 40) \<le> pos - 40" using assms by (intro floor_boundary(2)) simp
  moreover have "min (after + 40) (length s) \<le> ceil_char_boundary s (min (after + 40) (length s))"
    "is_char_boundary s (ceil_char_boundary s (min (after + 40) (length s)))"
    using ceil_boundary [of "min (after + 40) (length s)" s] by auto
  ultimately show ?thesis
    using assms floor_boundary(1) [of s "pos - 40"] by (auto simp: edit_context_def str_slice_def)
qed

text \<open>Replacing valid text in valid text gives valid text.\<close>

lemma valid_str_split_before:
  assumes "valid_str (x @ p @ t)" "valid_str p" "p \<noteq> []"
  shows "valid_str x \<and> valid_str t"
proof -
  obtain c p' where p: "p = c # p'" using assms(3) by (cases p) auto
  have "\<not> is_cont (unat (u8_of_char c))"
    using utf8_valid_hd [of "u8_of_char c" "as_bytes p'"] assms(2) p by (simp add: valid_str_def as_bytes_def)
  then have "is_char_boundary (x @ p @ t) (length x)"
    using p by (simp add: is_char_boundary_def)
  note b = boundary_split [OF assms(1) this]
  from b(2) have "valid_str (p @ t)" by simp
  with b(1) assms(2) show ?thesis by (simp add: valid_str_append)
qed

lemma str_replace_valid:
  assumes "valid_str p" "valid_str q"
  shows "valid_str (x @ s) \<Longrightarrow> valid_str (x @ str_replace p q s)"
  using assms
proof (induction p q s arbitrary: x rule: str_replace.induct)
  case (2 p q c s)
  show ?case
  proof (cases "p \<noteq> [] \<and> prefix p (c # s)")
    case True
    then obtain t where t: "c # s = p @ t" by (auto simp: prefix_def)
    then have v: "valid_str x \<and> valid_str t"
      using valid_str_split_before [of x p t] "2.prems" True by simp
    have d: "drop (length p) (c # s) = t" by (simp add: t)
    have e: "str_replace p q (c # s) = q @ str_replace p q t"
      by (subst str_replace.simps(2), subst if_P [OF True], subst d, rule refl)
    from "2.IH"(1) [OF True, of "[]"] v "2.prems" have "valid_str (str_replace p q t)"
      unfolding d by simp
    then show ?thesis unfolding e using v "2.prems" by (simp add: valid_str_append)
  next
    case False
    have "valid_str ((x @ [c]) @ str_replace p q s)"
      using "2.prems" by (intro "2.IH"(2) [OF False]) simp_all
    then show ?thesis using False by (auto simp del: append_assoc) (simp_all add: append_assoc)
  qed
qed simp

lemma valid_blank: "valid_str [tab]" "valid_str four_spaces"
  by code_simp+

lemma normalize_whitespace_valid: "valid_str t \<Longrightarrow> valid_str (normalize_whitespace t indent)"
  using str_replace_valid [OF valid_blank(1,2), of "[]" t] str_replace_valid [OF valid_blank(2,1), of "[]" t]
  by (simp add: normalize_whitespace_def)

text \<open>The first occurrence replaced, if there is one.\<close>

definition replace_first :: "string \<Rightarrow> string \<Rightarrow> string \<Rightarrow> string" where
  "replace_first p q s =
     (case str_find p s of None \<Rightarrow> s | Some i \<Rightarrow> take i s @ q @ drop (i + length p) s)"

lemma edit_step_ok:
  assumes "valid_str s" "valid_str old" "valid_str new"
  shows "\<exists>d. edit_step indent s (old, new) =
    Some (replace_first (normalize_whitespace old indent) (normalize_whitespace new indent) s, d)"
    and "valid_str (replace_first (normalize_whitespace old indent) (normalize_whitespace new indent) s)"
proof -
  let ?o = "normalize_whitespace old indent" and ?n = "normalize_whitespace new indent"
  have v: "valid_str ?o" "valid_str ?n" using assms by (simp_all add: normalize_whitespace_valid)
  have "(\<exists>d. edit_step indent s (old, new) = Some (replace_first ?o ?n s, d)) \<and>
      valid_str (replace_first ?o ?n s)"
  proof (cases "str_find ?o s")
    case (Some pos)
    note d = str_find_decomp [OF Some]
    note b = str_find_boundaries [OF assms(1) v(1) Some]
    obtain c where c: "edit_context s pos (pos + length ?o) = Some c"
      using edit_context_total [of pos "pos + length ?o" s] d(2) by auto
    have r: "replace_range s pos (pos + length ?o) ?n = Some (replace_first ?o ?n s)"
      using b by (simp add: replace_range_def replace_first_def Some)
    from replace_range_valid [OF assms(1) v(2) r] c r Some show ?thesis
      by (simp add: edit_step_def Let_def)
  qed (simp add: edit_step_def replace_first_def assms(1))
  then show "\<exists>d. edit_step indent s (old, new) = Some (replace_first ?o ?n s, d)"
    "valid_str (replace_first ?o ?n s)" by blast+
qed

definition valid_edit :: "json \<Rightarrow> bool" where
  "valid_edit e = (\<forall>old new. edit_texts e = Inr (old, new) \<longrightarrow> valid_str old \<and> valid_str new)"

text \<open>The text that a list of edits makes, edit after edit.\<close>

definition apply_edit :: "string \<Rightarrow> string \<Rightarrow> string \<times> string \<Rightarrow> string" where
  "apply_edit indent s e =
     replace_first (normalize_whitespace (fst e) indent) (normalize_whitespace (snd e) indent) s"

lemma edit_loop_ok:
  assumes "valid_str s" "\<forall>e\<in>set edits. valid_edit e"
  shows "case collect_results edit_texts edits of
      Inl e \<Rightarrow> edit_loop indent s edits = Some (Inl e)
    | Inr texts \<Rightarrow> \<exists>diffs. edit_loop indent s edits =
        Some (Inr (foldl (apply_edit indent) s texts, diffs)) \<and> length diffs = length edits"
  using assms
proof (induction edits arbitrary: s)
  case (Cons e edits)
  show ?case
  proof (cases "edit_texts e")
    case (Inr texts)
    obtain old new where t: "texts = (old, new)" by (cases texts)
    with Inr Cons.prems(2) have v: "valid_str old" "valid_str new" by (auto simp: valid_edit_def)
    from edit_step_ok [OF Cons.prems(1) v] obtain d where
      d: "edit_step indent s texts = Some (apply_edit indent s texts, d)"
      "valid_str (apply_edit indent s texts)"
      by (auto simp: apply_edit_def t)
    from Cons.IH [OF d(2)] Cons.prems(2) Inr d(1) show ?thesis
      by (auto split: sum.splits)
  qed simp
qed simp

end
