(* ===== verification/Actions.thy ===== *)
theory Actions
  imports Beneath_Cap
begin

text \<open>
  How the tool handlers of \<open>src/actions/\<close> run: an action reads and changes the files and the
  cell that holds the sandbox, and ends with a value, with an error, or in a panic of its task.
  \<open>then_do\<close> is \<open>?\<close> on actions. An action runs from its first effect to its last; \<open>Steps\<close> cuts
  actions where other tasks and other processes may have their turn. The locale
  \<open>effect_order\<close> carries a relation between the files before and after through the
  combinators; it is interpreted by equality, and by \<open>changed_beneath\<close>.
\<close>

datatype 'a outcome = Done 'a | Failed mcs_error | Panicked

record 'd proc =
  disk :: os
  once :: "'d sandbox option"

type_synonym ('d, 'a) action = "'d proc \<Rightarrow> 'a outcome \<times> 'd proc"

text \<open>
  What the actions use of the crates \<open>cap-std\<close>, \<open>tokio\<close> and \<open>memmap2\<close>, and how the program
  was built: \<open>unwinds\<close> is false in the release profile of \<open>Cargo.toml\<close>, whose panics abort.
\<close>

record 'd runtime =
  cap :: "'d cap_std"
  join_text :: string
  mmap :: "node \<Rightarrow> io_error + u8 list"
  unwinds :: bool

definition give :: "'a \<Rightarrow> ('d, 'a) action" where
  "give a = (\<lambda>w. (Done a, w))"

definition failed :: "mcs_error \<Rightarrow> ('d, 'a) action" where
  "failed e = (\<lambda>w. (Failed e, w))"

definition panicked :: "('d, 'a) action" where
  "panicked = (\<lambda>w. (Panicked, w))"

fun outcome_of :: "'a result \<Rightarrow> 'a outcome" where
  "outcome_of (Inl e) = Failed e"
| "outcome_of (Inr a) = Done a"

definition lift :: "'a result \<Rightarrow> ('d, 'a) action" where
  "lift r = (\<lambda>w. (outcome_of r, w))"

definition then_do :: "('d, 'a) action \<Rightarrow> ('a \<Rightarrow> ('d, 'b) action) \<Rightarrow> ('d, 'b) action" where
  "then_do m f = (\<lambda>w.
     case m w of
       (Done a, w') \<Rightarrow> f a w'
     | (Failed e, w') \<Rightarrow> (Failed e, w')
     | (Panicked, w') \<Rightarrow> (Panicked, w'))"

text \<open>An action that only looks at the files, and one that changes them.\<close>

definition query :: "(os \<Rightarrow> 'a result) \<Rightarrow> ('d, 'a) action" where
  "query f = (\<lambda>w. (outcome_of (f (disk w)), w))"

definition update :: "(os \<Rightarrow> 'a result \<times> os) \<Rightarrow> ('d, 'a) action" where
  "update f = (\<lambda>w. case f (disk w) of (r, s') \<Rightarrow> (outcome_of r, w\<lparr>disk := s'\<rparr>))"

definition update_or_panic :: "(os \<Rightarrow> 'a result option \<times> os) \<Rightarrow> ('d, 'a) action" where
  "update_or_panic f = (\<lambda>w.
     case f (disk w) of
       (None, s') \<Rightarrow> (Panicked, w\<lparr>disk := s'\<rparr>)
     | (Some r, s') \<Rightarrow> (outcome_of r, w\<lparr>disk := s'\<rparr>))"

text \<open>\<open>config.sandbox()\<close>: builds the sandbox on the first call.\<close>

definition the_sandbox :: "'d runtime \<Rightarrow> config \<Rightarrow> ('d, 'd sandbox) action" where
  "the_sandbox rt cfg = (\<lambda>w.
     case config_sandbox (cap rt) (disk w) cfg (once w) of
       None \<Rightarrow> (Panicked, w)
     | Some (sb, c) \<Rightarrow> (Done sb, w\<lparr>once := c\<rparr>))"

text \<open>
  \<open>blocking(label, closure).await?\<close>: the panic of the closure is an error of the join, unless
  the program aborts on panics.
\<close>

definition run_blocking ::
    "'d runtime \<Rightarrow> string \<Rightarrow> (os \<Rightarrow> (string + 'a) option \<times> os) \<Rightarrow> ('d, 'a) action" where
  "run_blocking rt label f =
     update_or_panic (\<lambda>s. case f s of (r, s') \<Rightarrow>
       (if r = None \<and> \<not> unwinds rt then None else Some (blocking (join_text rt) label r), s'))"

definition blocking_read ::
    "'d runtime \<Rightarrow> string \<Rightarrow> (os \<Rightarrow> string + 'a) \<Rightarrow> ('d, 'a) action" where
  "blocking_read rt label f = run_blocking rt label (\<lambda>s. (Some (f s), s))"

text \<open>\<open>config.sandbox().resolve(path)?\<close> and \<open>resolve_path\<close>.\<close>

definition resolve_now :: "'d runtime \<Rightarrow> config \<Rightarrow> string \<Rightarrow> ('d, 'd resolved) action" where
  "resolve_now rt cfg p =
     then_do (the_sandbox rt cfg) (\<lambda>sb. query (\<lambda>s. resolve (cap rt) s sb p))"

definition resolve_path_now :: "'d runtime \<Rightarrow> config \<Rightarrow> string \<Rightarrow> ('d, path) action" where
  "resolve_path_now rt cfg p =
     then_do (the_sandbox rt cfg) (\<lambda>sb. query (\<lambda>s. resolve_path (cap rt) s sb p))"

definition resolve_destination_now :: "'d runtime \<Rightarrow> config \<Rightarrow> string \<Rightarrow> ('d, path) action" where
  "resolve_destination_now rt cfg p =
     then_do (the_sandbox rt cfg) (\<lambda>sb. query (\<lambda>s. resolve_destination_path (cap rt) s sb p))"

section \<open>Running actions\<close>

named_theorems act_simps \<open>how actions are run\<close>

lemma run_simps [act_simps]:
  "give a w = (Done a, w)"
  "failed e w = (Failed e, w)"
  "lift (Inr a) w = (Done a, w)"
  "lift (Inl e) w = (Failed e, w)"
  by (simp_all add: give_def failed_def lift_def)

lemma then_do_eq [act_simps]:
  "m w = (Done a, w') \<Longrightarrow> then_do m f w = f a w'"
  "m w = (Failed e, w') \<Longrightarrow> then_do m f w = (Failed e, w')"
  "m w = (Panicked, w') \<Longrightarrow> then_do m f w = (Panicked, w')"
  by (simp_all add: then_do_def)

lemma query_eq [act_simps]:
  "f (disk w) = Inr a \<Longrightarrow> query f w = (Done a, w)"
  "f (disk w) = Inl e \<Longrightarrow> query f w = (Failed e, w)"
  by (simp_all add: query_def)

lemma update_eq [act_simps]:
  "f (disk w) = (Inr a, s') \<Longrightarrow> update f w = (Done a, w\<lparr>disk := s'\<rparr>)"
  "f (disk w) = (Inl e, s') \<Longrightarrow> update f w = (Failed e, w\<lparr>disk := s'\<rparr>)"
  by (simp_all add: update_def)

lemma run_blocking_eq [act_simps]:
  "f (disk w) = (Some r, s') \<Longrightarrow>
     run_blocking rt label f w = (outcome_of (blocking (join_text rt) label (Some r)), w\<lparr>disk := s'\<rparr>)"
  by (simp add: run_blocking_def update_or_panic_def)

lemma blocking_read_eq [act_simps]:
  "blocking_read rt label f w = (outcome_of (blocking (join_text rt) label (Some (f (disk w)))), w)"
  by (simp add: blocking_read_def run_blocking_eq)

lemma the_sandbox_eq [act_simps]:
  "once w = Some sb \<Longrightarrow> the_sandbox rt cfg w = (Done sb, w)"
  by (simp add: the_sandbox_def config_sandbox_def)

lemma outcome_of_eq [result_simps]:
  "outcome_of r = Done a \<longleftrightarrow> r = Inr a"
  "outcome_of r = Failed e \<longleftrightarrow> r = Inl e"
  "outcome_of r = Panicked \<longleftrightarrow> False"
  by (cases r; simp)+

lemma then_do_Done:
  "then_do m f w = (Done b, w'') \<longleftrightarrow> (\<exists>a w'. m w = (Done a, w') \<and> f a w' = (Done b, w''))"
  by (auto simp: then_do_def split: prod.splits outcome.splits)

lemma then_do_assoc: "then_do (then_do m f) g = then_do m (\<lambda>a. then_do (f a) g)"
  by (auto simp: then_do_def fun_eq_iff split: prod.split outcome.split)

section \<open>Effects on the files\<close>

definition keeps :: "(os \<Rightarrow> os \<Rightarrow> bool) \<Rightarrow> ('d, 'a) action \<Rightarrow> bool" where
  "keeps R m = (\<forall>w. R (disk w) (disk (snd (m w))))"

definition at_state :: "(os \<Rightarrow> os \<Rightarrow> bool) \<Rightarrow> 'd proc \<Rightarrow> ('d, 'a) action \<Rightarrow> bool" where
  "at_state R w m = R (disk w) (disk (snd (m w)))"

locale effect_order =
  fixes R :: "os \<Rightarrow> os \<Rightarrow> bool"
  assumes refl: "R s s"
    and trans: "R s t \<Longrightarrow> R t u \<Longrightarrow> R s u"
begin

lemma keeps_give [intro, simp]: "keeps R (give a)"
  by (simp add: keeps_def give_def refl)

lemma keeps_failed [intro, simp]: "keeps R (failed e)"
  by (simp add: keeps_def failed_def refl)

lemma keeps_panicked [intro, simp]: "keeps R panicked"
  by (simp add: keeps_def panicked_def refl)

lemma keeps_lift [intro, simp]: "keeps R (lift r)"
  by (simp add: keeps_def lift_def refl)

lemma keeps_query [intro, simp]: "keeps R (query f)"
  by (simp add: keeps_def query_def refl)

lemma keeps_the_sandbox [intro, simp]: "keeps R (the_sandbox rt cfg)"
  by (simp add: keeps_def the_sandbox_def refl split: option.split)

lemma keeps_then_do [intro]:
  assumes "keeps R m" "\<And>a. keeps R (f a)"
  shows "keeps R (then_do m f)"
  unfolding keeps_def
proof
  fix w
  obtain x w' where m: "m w = (x, w')" by (cases "m w")
  then have r: "R (disk w) (disk w')" using assms(1) by (metis keeps_def snd_conv)
  show "R (disk w) (disk (snd (then_do m f w)))"
  proof (cases x)
    case (Done a)
    then have "R (disk w') (disk (snd (f a w')))" using assms(2) by (simp add: keeps_def)
    with r Done m show ?thesis by (simp add: then_do_def trans)
  qed (use m r in \<open>simp_all add: then_do_def\<close>)
qed

lemma keeps_update: "(\<And>s. R s (snd (f s))) \<Longrightarrow> keeps R (update f)"
  by (auto simp: keeps_def update_def split: prod.splits) (metis snd_conv)

lemma run_blocking_disk: "disk (snd (run_blocking rt label f w)) = snd (f (disk w))"
  by (simp add: run_blocking_def update_or_panic_def split: prod.splits option.splits)

lemma keeps_run_blocking: "(\<And>s. R s (snd (f s))) \<Longrightarrow> keeps R (run_blocking rt label f)"
  by (simp add: keeps_def run_blocking_disk)

lemma keeps_blocking_read [intro, simp]: "keeps R (blocking_read rt label f)"
  unfolding blocking_read_def by (rule keeps_run_blocking) (simp add: refl)

lemma keeps_resolve [intro, simp]:
  "keeps R (resolve_now rt cfg p)"
  "keeps R (resolve_path_now rt cfg p)"
  "keeps R (resolve_destination_now rt cfg p)"
  unfolding resolve_now_def resolve_path_now_def resolve_destination_now_def
  by (intro keeps_then_do keeps_the_sandbox keeps_query)+

text \<open>
  The same at one state, whose sandbox has been built: what the action read there is known to
  what follows it.
\<close>

lemma at_give: "at_state R w (give a)" and at_failed: "at_state R w (failed e)"
  by (simp_all add: at_state_def give_def failed_def refl)

lemma at_panicked: "at_state R w panicked"
  by (simp add: at_state_def panicked_def refl)

lemma at_keeps: "keeps R m \<Longrightarrow> at_state R w m"
  by (simp add: at_state_def keeps_def)

lemma at_lift: "(\<And>a. r = Inr a \<Longrightarrow> at_state R w (f a)) \<Longrightarrow> at_state R w (then_do (lift r) f)"
  by (cases r) (simp_all add: at_state_def then_do_def lift_def refl)

lemma at_query:
  "(\<And>a. g (disk w) = Inr a \<Longrightarrow> at_state R w (f a)) \<Longrightarrow> at_state R w (then_do (query g) f)"
  by (cases "g (disk w)") (simp_all add: at_state_def then_do_def query_def refl)

lemma at_sandbox:
  "once w = Some sb \<Longrightarrow> at_state R w (f sb) \<Longrightarrow> at_state R w (then_do (the_sandbox rt cfg) f)"
  by (simp add: at_state_def then_do_def the_sandbox_eq)

lemma at_resolve:
  assumes "once w = Some sb"
  shows "(\<And>r. resolve (cap rt) (disk w) sb p = Inr r \<Longrightarrow> at_state R w (f r)) \<Longrightarrow>
      at_state R w (then_do (resolve_now rt cfg p) f)"
    and "(\<And>q. resolve_path (cap rt) (disk w) sb p = Inr q \<Longrightarrow> at_state R w (g q)) \<Longrightarrow>
      at_state R w (then_do (resolve_path_now rt cfg p) g)"
    and "(\<And>q. resolve_destination_path (cap rt) (disk w) sb p = Inr q \<Longrightarrow> at_state R w (g q)) \<Longrightarrow>
      at_state R w (then_do (resolve_destination_now rt cfg p) g)"
  using assms
  by (auto simp: at_state_def then_do_def resolve_now_def resolve_path_now_def
      resolve_destination_now_def the_sandbox_eq query_def refl
      split: outcome.split prod.split) (auto simp: result_simps)

lemma at_then:
  assumes "R (disk w) (disk (snd (m w)))" "\<And>a. keeps R (f a)"
  shows "at_state R w (then_do m f)"
proof (cases "m w")
  case (Pair x w')
  then have "R (disk w) (disk w')" "\<And>a. R (disk w') (disk (snd (f a w')))"
    using assms by (simp_all add: keeps_def)
  then show ?thesis using Pair trans by (cases x) (simp_all add: at_state_def then_do_def)
qed

lemma at_update:
  assumes "\<And>r s'. g (disk w) = (r, s') \<Longrightarrow> R (disk w) s'" "\<And>a. keeps R (f a)"
  shows "at_state R w (then_do (update g) f)"
  using assms by (intro at_then) (auto simp: update_def split: prod.split)

lemma at_blocking:
  assumes "R (disk w) (snd (g (disk w)))" "\<And>a. keeps R (f a)"
  shows "at_state R w (then_do (run_blocking rt label g) f)"
  using assms by (intro at_then) (simp add: run_blocking_disk)

end

interpretation same: effect_order "(=)"
  by unfold_locales auto

interpretation within: effect_order "changed_beneath ls" for ls
  by unfold_locales (auto elim: changed_beneath_trans)

end
