(* ===== verification/Util.thy ===== *)
theory Util
  imports Actions
begin

text \<open>
  \<open>src/actions/util.rs\<close>: the output path of a transform tool, and hidden names. Its wrapper
  \<open>blocking\<close> is in \<open>Errors\<close> and \<open>Actions\<close>.
\<close>

datatype suffix = Add string | Strip string

fun derived_name :: "suffix \<Rightarrow> string \<Rightarrow> string" where
  "derived_name (Add ext) name = name @ ext"
| "derived_name (Strip ext) name = unwrap_or name (strip_suffix name ext)"

text \<open>The sibling of a source that is derived when no output is given.\<close>

definition derived_sibling :: "path \<Rightarrow> suffix \<Rightarrow> path" where
  "derived_sibling source suf =
     set_file_name source (derived_name suf (lossy (unwrap_or [] (file_name source))))"

definition derive_output ::
    "'d runtime \<Rightarrow> config \<Rightarrow> path \<Rightarrow> string option \<Rightarrow> suffix \<Rightarrow> ('d, path) action" where
  "derive_output rt cfg source explicit suf =
     (case explicit of
        Some out \<Rightarrow> resolve_destination_now rt cfg out
      | None \<Rightarrow> give (derived_sibling source suf))"

text \<open>\<open>is_hidden\<close> on the file name of a directory entry; a name that is no UTF-8 is not hidden.\<close>

definition is_hidden :: "string \<Rightarrow> bool" where
  "is_hidden name = (valid_str name \<and> starts_with name ''.'')"

lemma keeps_derive_output [intro, simp]: "keeps (=) (derive_output rt cfg source explicit suf)"
  by (simp add: derive_output_def split: option.split)

end
