(* ===== verification/Files.thy ===== *)
theory Files
  imports Text_Files Util
begin

text \<open>
  The handlers of \<open>src/actions/files.rs\<close>. The hash functions, \<open>hex\<close>, \<open>infer\<close>, the base64
  encoder and the content inspector are parameters.
\<close>

record hash_lib =
  sha256 :: "u8 list \<Rightarrow> u8 list"
  sha512 :: "u8 list \<Rightarrow> u8 list"
  md5 :: "u8 list \<Rightarrow> u8 list"
  blake3_hex :: "u8 list \<Rightarrow> string"
  hex_encode :: "u8 list \<Rightarrow> string"

record media_lib =
  infer_mime :: "u8 list \<Rightarrow> string option"
  base64 :: "u8 list \<Rightarrow> string"
  is_binary :: "u8 list \<Rightarrow> bool"

definition mmap_threshold :: nat where
  "mmap_threshold = 256 * 1024"

definition jpath :: "path \<Rightarrow> json" where
  "jpath p = JStr (lossy (path_text p))"

definition success_at :: "path \<Rightarrow> json" where
  "success_at p = obj [(''success'', JBool True), (''path'', jpath p)]"

definition not_a_file :: "string \<Rightarrow> mcs_error" where
  "not_a_file p = InvalidParams (''Path is not a file: '' @ p)"

definition too_large :: "nat \<Rightarrow> nat \<Rightarrow> string" where
  "too_large sz mx =
     ''File size '' @ show_nat sz @ '' exceeds maximum allowed size '' @ show_nat mx"

text \<open>\<open>File::open\<close>, and what is then read from the open file.\<close>

definition fs_open :: "os \<Rightarrow> path \<Rightarrow> string \<Rightarrow> string + node" where
  "fs_open s p what = map_err (cannot what) (fs_stat s p)"

definition open_lines :: "os \<Rightarrow> path \<Rightarrow> string + (io_error + string) list" where
  "open_lines s p =
     map_ok (\<lambda>n. case node_bytes n of Inl e \<Rightarrow> [Inl e] | Inr bs \<Rightarrow> buf_lines bs)
       (fs_open s p ''open file'')"

text \<open>The whole file: by \<open>std::fs::read\<close> below the threshold, by a memory map above it.\<close>

definition read_whole :: "'d runtime \<Rightarrow> os \<Rightarrow> path \<Rightarrow> nat \<Rightarrow> string + u8 list" where
  "read_whole rt s p file_size =
     (if file_size < mmap_threshold then map_err (cannot ''read file'') (fs_read s p)
      else and_then (fs_open s p ''open file'') (\<lambda>n. map_err (cannot ''mmap file'') (mmap rt n)))"

definition text_report :: "string \<Rightarrow> nat \<Rightarrow> nat \<Rightarrow> path \<Rightarrow> json" where
  "text_report content file_size lines p =
     obj [(''content'', JStr content), (''size'', jnat file_size), (''totalLines'', jnat lines),
          (''path'', jpath p)]"

definition clamped :: "int option \<Rightarrow> nat option" where
  "clamped v = map_option (\<lambda>i. nat (clamp 0 100000 i)) v"

definition read_text_file :: "'d runtime \<Rightarrow> config \<Rightarrow> json option \<Rightarrow> ('d, json) action" where
  "read_text_file rt cfg args =
     then_do (lift (get_str_arg args ''path'')) (\<lambda>p.
     let head = clamped (get_opt_i64 args ''head''); tail = clamped (get_opt_i64 args ''tail'') in
     if head \<noteq> None \<and> tail \<noteq> None then
       failed (InvalidParams ''Cannot specify both head and tail simultaneously'')
     else
       then_do (resolve_now rt cfg p) (\<lambda>r.
       then_do (query (\<lambda>s. if path_exists s (canonical r) then Inr ()
         else Inl (PathNotFound (''Path does not exist: '' @ p)))) (\<lambda>u.
       then_do (query (\<lambda>s. resolved_metadata (cap rt) s r)) (\<lambda>meta.
       if \<not> cap_is_file meta then failed (not_a_file p)
       else if cap_len meta > max_file_size cfg then
         failed (FilesystemError (too_large (cap_len meta) (max_file_size cfg)))
       else
         (case (head, tail) of
            (Some h, _) \<Rightarrow>
              then_do
                (blocking_read rt ''read_text_file'' (\<lambda>s.
                   and_then (open_lines s (canonical r)) (head_loop h 0)))
                (\<lambda>(ls, count).
                  give (text_report (str_join [newline] ls) (cap_len meta) count (canonical r)))
          | (None, Some t) \<Rightarrow>
              then_do
                (run_blocking rt ''read_text_file'' (\<lambda>s.
                   (case open_lines s (canonical r) of
                      Inl e \<Rightarrow> Some (Inl e)
                    | Inr lines \<Rightarrow> tail_lines t lines, s)))
                (\<lambda>(count, ls).
                  give (text_report (str_join [newline] ls) (cap_len meta) count (canonical r)))
          | (None, None) \<Rightarrow>
              then_do
                (blocking_read rt ''read_text_file'' (\<lambda>s.
                   map_ok from_utf8_lossy (read_whole rt s (canonical r) (cap_len meta))))
                (\<lambda>content.
                  give (text_report content (cap_len meta) (length (str_lines content))
                          (canonical r))))))))"

definition media_report :: "media_lib \<Rightarrow> u8 list \<Rightarrow> nat \<Rightarrow> path \<Rightarrow> json" where
  "media_report lib bs file_size p =
     (let mime = unwrap_or ''application/octet-stream'' (infer_mime lib bs);
          kind = (if starts_with mime ''image/'' then ''image''
                  else if starts_with mime ''audio/'' then ''audio'' else []) in
      if kind = [] then
        obj [(''content'', JArr [obj [(''type'', JStr ''text''),
               (''text'', JStr (''Binary file ('' @ mime @ '', '' @ show_nat file_size
                  @ '' bytes); base64 data in structuredContent.data''))]]),
             (''structuredContent'', obj [
               (''data'', JStr (base64 lib bs)), (''mimeType'', JStr mime),
               (''detectedType'', JStr (if is_binary lib bs then ''application/octet-stream''
                                     else ''text/plain'')),
               (''size'', jnat file_size), (''path'', jpath p)]),
             (''isError'', JBool False)]
      else
        obj [(''content'', JArr [obj [(''type'', JStr kind), (''data'', JStr (base64 lib bs)),
               (''mimeType'', JStr mime)]]),
             (''isError'', JBool False)])"

definition read_media_file ::
    "'d runtime \<Rightarrow> media_lib \<Rightarrow> config \<Rightarrow> json option \<Rightarrow> ('d, json) action" where
  "read_media_file rt lib cfg args =
     then_do (lift (get_str_arg args ''path'')) (\<lambda>p.
     then_do (resolve_now rt cfg p) (\<lambda>r.
     then_do (query (\<lambda>s. resolved_metadata (cap rt) s r)) (\<lambda>meta.
     if \<not> cap_is_file meta then failed (not_a_file p)
     else if cap_len meta > max_file_size cfg then
       failed (FilesystemError (too_large (cap_len meta) (max_file_size cfg)))
     else
       then_do
         (blocking_read rt ''read_media_file'' (\<lambda>s. read_whole rt s (canonical r) (cap_len meta)))
         (\<lambda>bs. give (media_report lib bs (cap_len meta) (canonical r))))))"

definition write_file :: "'d runtime \<Rightarrow> config \<Rightarrow> json option \<Rightarrow> ('d, json) action" where
  "write_file rt cfg args =
     then_do (lift (get_str_arg args ''path'')) (\<lambda>p.
     then_do (lift (get_str_arg args ''content'')) (\<lambda>content.
     then_do (resolve_now rt cfg p) (\<lambda>r.
     then_do (update (resolved_write (cap rt) r (as_bytes content))) (\<lambda>u.
     give (success_at (canonical r))))))"

definition edit_file :: "'d runtime \<Rightarrow> config \<Rightarrow> json option \<Rightarrow> ('d, json) action" where
  "edit_file rt cfg args =
     then_do (lift (get_str_arg args ''path'')) (\<lambda>p.
     then_do (lift (get_edits_arg args)) (\<lambda>edits.
     let dry_run = unwrap_or False (get_opt_bool args ''dryRun'') in
     then_do (resolve_now rt cfg p) (\<lambda>r.
     then_do (query (\<lambda>s. resolved_metadata (cap rt) s r)) (\<lambda>meta.
     if cap_len meta > max_file_size cfg then
       failed (FilesystemError (too_large (cap_len meta) (max_file_size cfg)))
     else
       then_do (query (\<lambda>s. resolved_read_to_string (cap rt) s r)) (\<lambda>content.
       case edit_loop (detect_indent content) content edits of
         None \<Rightarrow> panicked
       | Some res \<Rightarrow>
           then_do (lift res) (\<lambda>(text, diffs).
           then_do
             (if dry_run then give () else update (resolved_write (cap rt) r (as_bytes text)))
             (\<lambda>u. give (obj [(''success'', JBool (\<not> dry_run)), (''dryRun'', JBool dry_run),
                    (''edits'', JArr diffs), (''path'', jpath (canonical r))]))))))))"

definition create_directory :: "'d runtime \<Rightarrow> config \<Rightarrow> json option \<Rightarrow> ('d, json) action" where
  "create_directory rt cfg args =
     then_do (lift (get_str_arg args ''path'')) (\<lambda>p.
     then_do (resolve_now rt cfg p) (\<lambda>r.
     then_do (update (resolved_create_dir_all (cap rt) r)) (\<lambda>u.
     give (success_at (canonical r)))))"

text \<open>The frame of \<open>move_file\<close>, \<open>copy_file\<close> and \<open>create_symlink\<close>: both ends are checked first.\<close>

definition two_path_tool ::
    "'d runtime \<Rightarrow> config \<Rightarrow> json option \<Rightarrow> string \<Rightarrow>
     ('d sandbox \<Rightarrow> string \<Rightarrow> string \<Rightarrow> ('d, unit) action) \<Rightarrow> ('d, json) action" where
  "two_path_tool rt cfg args second_name operate =
     then_do (lift (get_str_arg args ''source'')) (\<lambda>source.
     then_do (lift (get_str_arg args second_name)) (\<lambda>dest.
     then_do (resolve_path_now rt cfg source) (\<lambda>valid_source.
     then_do (resolve_destination_now rt cfg dest) (\<lambda>valid_dest.
     then_do (the_sandbox rt cfg) (\<lambda>sb.
     then_do (operate sb source dest) (\<lambda>u.
     give (obj [(''success'', JBool True), (''source'', jpath valid_source),
                (second_name, jpath valid_dest)])))))))"

definition move_file :: "'d runtime \<Rightarrow> config \<Rightarrow> json option \<Rightarrow> ('d, json) action" where
  "move_file rt cfg args =
     two_path_tool rt cfg args ''destination''
       (\<lambda>sb src dst. update_or_panic (sandbox_rename (cap rt) sb src dst))"

definition copy_file :: "'d runtime \<Rightarrow> config \<Rightarrow> json option \<Rightarrow> ('d, json) action" where
  "copy_file rt cfg args =
     two_path_tool rt cfg args ''destination''
       (\<lambda>sb src dst. then_do (update (sandbox_copy sb src dst)) (\<lambda>n. give ()))"

definition create_symlink :: "'d runtime \<Rightarrow> config \<Rightarrow> json option \<Rightarrow> ('d, json) action" where
  "create_symlink rt cfg args =
     two_path_tool rt cfg args ''linkPath''
       (\<lambda>sb src link. update (sandbox_create_symlink sb src link))"

definition delete_file :: "'d runtime \<Rightarrow> config \<Rightarrow> json option \<Rightarrow> ('d, json) action" where
  "delete_file rt cfg args =
     then_do (lift (get_str_arg args ''path'')) (\<lambda>p.
     then_do (resolve_now rt cfg p) (\<lambda>r.
     then_do (query (\<lambda>s. resolved_metadata (cap rt) s r)) (\<lambda>meta.
     if \<not> cap_is_file meta then failed (not_a_file p)
     else
       then_do (update (resolved_remove_file (cap rt) r)) (\<lambda>u.
       give (success_at (canonical r))))))"

definition delete_directory :: "'d runtime \<Rightarrow> config \<Rightarrow> json option \<Rightarrow> ('d, json) action" where
  "delete_directory rt cfg args =
     then_do (lift (get_str_arg args ''path'')) (\<lambda>p.
     let recursive = unwrap_or False (get_opt_bool args ''recursive'') in
     then_do (resolve_now rt cfg p) (\<lambda>r.
     then_do
       (update (if recursive then resolved_remove_dir_all (cap rt) r
                else resolved_remove_dir (cap rt) r)) (\<lambda>u.
     give (obj [(''success'', JBool True), (''path'', jpath (canonical r)),
                (''recursive'', JBool recursive)]))))"

definition info_report :: "path \<Rightarrow> cap_meta \<Rightarrow> json" where
  "info_report p meta =
     obj [(''path'', jpath p),
          (''type'', JStr (if cap_is_dir meta then ''directory''
                         else if cap_is_symlink meta then ''symlink'' else ''file'')),
          (''size'', jnat (cap_len meta)),
          (''permissions'', JStr (show_octal (cap_mode meta mod 512))),
          (''created'', unwrap_or JNull (cap_created meta)),
          (''modified'', unwrap_or JNull (cap_modified meta)),
          (''accessed'', unwrap_or JNull (cap_accessed meta)),
          (''readonly'', JBool (cap_readonly meta))]"

definition get_file_info :: "'d runtime \<Rightarrow> config \<Rightarrow> json option \<Rightarrow> ('d, json) action" where
  "get_file_info rt cfg args =
     then_do (lift (get_str_arg args ''path'')) (\<lambda>p.
     then_do (resolve_now rt cfg p) (\<lambda>r.
     then_do (query (\<lambda>s. resolved_metadata (cap rt) s r)) (\<lambda>meta.
     give (info_report (canonical r) meta))))"

definition list_allowed_directories :: "config \<Rightarrow> json option \<Rightarrow> ('d, json) action" where
  "list_allowed_directories cfg args =
     give (obj [(''directories'', jstrs (allowed_directories cfg))])"

definition hash_bytes :: "hash_lib \<Rightarrow> string \<Rightarrow> u8 list \<Rightarrow> string + string" where
  "hash_bytes lib alg bs =
     (if alg = ''sha256'' then Inr (hex_encode lib (sha256 lib bs))
      else if alg = ''sha512'' then Inr (hex_encode lib (sha512 lib bs))
      else if alg = ''md5'' then Inr (hex_encode lib (md5 lib bs))
      else if alg = ''blake3'' then Inr (blake3_hex lib bs)
      else Inl (''Unsupported hash algorithm: '' @ alg))"

text \<open>The closure of \<open>hash_file\<close>.\<close>

definition hash_of_file ::
    "'d runtime \<Rightarrow> hash_lib \<Rightarrow> string \<Rightarrow> path \<Rightarrow> nat \<Rightarrow> os \<Rightarrow> string + string \<times> nat" where
  "hash_of_file rt lib alg p max_size s =
     and_then (map_err (cannot ''get metadata'') (fs_stat s p)) (\<lambda>n.
     let sz = node_len s n in
     if sz > max_size then Inl (too_large sz max_size)
     else
       map_ok (\<lambda>h. (h, sz))
         (and_then
           (if sz < mmap_threshold then map_err (cannot ''read file for hashing'') (fs_read s p)
            else and_then (fs_open s p ''open file for hashing'') (\<lambda>n.
                   map_err (cannot ''mmap file'') (mmap rt n)))
           (hash_bytes lib alg)))"

definition hash_file ::
    "'d runtime \<Rightarrow> hash_lib \<Rightarrow> config \<Rightarrow> json option \<Rightarrow> ('d, json) action" where
  "hash_file rt lib cfg args =
     then_do (lift (get_str_arg args ''path'')) (\<lambda>p.
     let algorithm = unwrap_or ''sha256'' (get_opt_str args ''algorithm'') in
     then_do (resolve_now rt cfg p) (\<lambda>r.
     then_do (query (\<lambda>s.
       if (case resolved_metadata (cap rt) s r of Inl e \<Rightarrow> False | Inr meta \<Rightarrow> cap_is_file meta)
       then Inr () else Inl (not_a_file p))) (\<lambda>u.
     then_do
       (blocking_read rt ''Hash'' (hash_of_file rt lib algorithm (canonical r) (max_file_size cfg)))
       (\<lambda>(hash, sz). give (obj [(''path'', jpath (canonical r)), (''algorithm'', JStr algorithm),
                                (''hash'', JStr hash)])))))"

definition set_permissions :: "'d runtime \<Rightarrow> config \<Rightarrow> json option \<Rightarrow> ('d, json) action" where
  "set_permissions rt cfg args =
     then_do (lift (get_str_arg args ''path'')) (\<lambda>p.
     then_do (lift (get_str_arg args ''mode'')) (\<lambda>mode_str.
     then_do (resolve_now rt cfg p) (\<lambda>r.
     then_do (lift (ok_or
       (InvalidParams (''Invalid mode: '' @ mode_str @ ''. Use octal format (e.g. 644, 755)''))
       (unsigned_from_str_radix 8 (2 ^ 32 - 1) mode_str))) (\<lambda>mode.
     then_do (update (resolved_set_permissions (cap rt) r mode)) (\<lambda>u.
     give (obj [(''success'', JBool True), (''path'', jpath (canonical r)),
                (''mode'', JStr mode_str)]))))))"

text \<open>The closure of \<open>read_file_range\<close>; the size is compared as an \<open>i64\<close>.\<close>

definition read_range ::
    "path \<Rightarrow> nat \<Rightarrow> nat \<Rightarrow> nat \<Rightarrow> os \<Rightarrow> string + string \<times> int" where
  "read_range p offset len max_size s =
     and_then (map_err (cannot ''get file metadata'') (fs_stat s p)) (\<lambda>n.
     let file_size = as_signed (node_len s n) in
     if int offset \<ge> file_size then
       Inl (''Offset '' @ show_nat offset @ '' exceeds file size '' @ show_int file_size)
     else
       (let actual = range_length offset len (node_len s n) in
        if actual > max_size then
          Inl (''Requested range '' @ show_nat actual @ '' exceeds maximum allowed size ''
               @ show_nat max_size)
        else
          and_then (fs_open s p ''open file'') (\<lambda>n.
          and_then (map_err (cannot ''read range'') (node_bytes n)) (\<lambda>bs.
          Inr (from_utf8_lossy (take actual (drop offset bs)), as_signed actual)))))"

definition read_file_range :: "'d runtime \<Rightarrow> config \<Rightarrow> json option \<Rightarrow> ('d, json) action" where
  "read_file_range rt cfg args =
     then_do (lift (get_str_arg args ''path'')) (\<lambda>p.
     then_do (lift (get_i64_arg args ''offset'')) (\<lambda>offset.
     then_do (lift (get_i64_arg args ''length'')) (\<lambda>len.
     if offset < 0 \<or> len < 0 then
       failed (InvalidParams ''offset and length must be non-negative'')
     else
       then_do (resolve_path_now rt cfg p) (\<lambda>valid_path.
       then_do
         (blocking_read rt ''read_file_range''
           (read_range valid_path (nat offset) (nat len) (max_file_size cfg)))
         (\<lambda>(content, n).
           give (obj [(''content'', JStr content), (''offset'', JInt offset), (''length'', JInt n),
                      (''path'', jpath valid_path)]))))))"

end
