(* ===== verification/File_Effects.thy ===== *)
theory File_Effects
  imports Files
begin

text \<open>
  What the handlers of \<open>Files\<close> do to the files: the reading tools nothing, the writing tools
  nothing outside the allowed roots.
\<close>

section \<open>Reading tools\<close>

lemma reading_blocking: "keeps (=) (run_blocking rt label (\<lambda>s. (f s, s)))"
  by (rule same.keeps_run_blocking) simp

lemma reading_tools_keep [simp]:
  "keeps (=) (read_text_file rt cfg args)"
  "keeps (=) (read_media_file rt media cfg args)"
  "keeps (=) (get_file_info rt cfg args)"
  "keeps (=) (list_allowed_directories cfg args)"
  "keeps (=) (hash_file rt hashes cfg args)"
  "keeps (=) (read_file_range rt cfg args)"
  by (auto simp: read_text_file_def read_media_file_def get_file_info_def list_allowed_directories_def
      hash_file_def read_file_range_def Let_def intro!: same.keeps_then_do reading_blocking
      split: option.split prod.split)

section \<open>Writing tools\<close>

text \<open>
  An action stays inside the allowed roots of a state: nothing changes at a location parallel
  to all of them.
\<close>

definition inside :: "(os \<Rightarrow> 'd \<Rightarrow> loc) \<Rightarrow> 'd sandbox \<Rightarrow> 'd proc \<Rightarrow> ('d, 'a) action \<Rightarrow> bool" where
  "inside at sb w m = at_state (changed_beneath (root_locs at (disk w) sb)) w m"

lemma same_within: "keeps (=) m \<Longrightarrow> keeps (changed_beneath ls) m"
  by (auto simp: keeps_def)

lemma inside_resolved:
  assumes "cap_beneath at (cap rt)" "sane (disk w)" "roots_at at (disk w) sb"
    and "resolve (cap rt) (disk w) sb p = Inr r" "changed_below (at (disk w) (dir r)) (disk w) s'"
  shows "changed_beneath (root_locs at (disk w) sb) (disk w) s'"
proof -
  obtain l where "canonical r = abs_path l" using resolve_canonical [OF assms(2,4)] by blast
  from resolve_root [OF assms(4,3,1) this] obtain k where
    "k \<in> root_locs at (disk w) sb" "at (disk w) (dir r) = k" by blast
  with assms(5) show ?thesis by (auto intro: changed_below_beneath)
qed

lemma inside_update:
  assumes "cap_beneath at (cap rt)" "sane (disk w)" "roots_at at (disk w) sb"
    and "resolve (cap rt) (disk w) sb p = Inr r"
    and "\<And>x s'. g (disk w) = (x, s') \<Longrightarrow> changed_below (at (disk w) (dir r)) (disk w) s'"
    and "\<And>a. keeps (=) (f a)"
  shows "inside at sb w (then_do (update g) f)"
  unfolding inside_def
  by (rule within.at_update [OF inside_resolved [OF assms(1-4)] same_within [OF assms(6)]])
    (rule assms(5))

lemmas inside_rules = within.at_lift within.at_query within.at_resolve(1)

lemma write_file_inside:
  assumes "cap_beneath at (cap rt)" "sane (disk w)" "roots_at at (disk w) sb" "once w = Some sb"
  shows "inside at sb w (write_file rt cfg args)"
  unfolding write_file_def inside_def
  by (intro within.at_lift within.at_resolve(1) [OF assms(4)]
      inside_update [OF assms(1-3), unfolded inside_def])
    (auto intro: write_changed [OF assms(1)])

lemma simple_tools_inside:
  assumes "cap_beneath at (cap rt)" "sane (disk w)" "roots_at at (disk w) sb" "once w = Some sb"
  shows "inside at sb w (create_directory rt cfg args)"
    and "inside at sb w (delete_file rt cfg args)"
    and "inside at sb w (delete_directory rt cfg args)"
    and "inside at sb w (set_permissions rt cfg args)"
proof -
  note up = inside_update [OF assms(1-3), unfolded inside_def]
    and res = within.at_resolve(1) [OF assms(4)] and ops = resolved_ops_changed [OF assms(1)]
  show "inside at sb w (create_directory rt cfg args)"
    unfolding create_directory_def inside_def
    by (intro within.at_lift res up) (auto intro: ops)
  show "inside at sb w (delete_file rt cfg args)"
    unfolding delete_file_def inside_def
    by (intro within.at_lift res within.at_query)
      (auto intro!: up intro: ops within.at_failed)
  show "inside at sb w (delete_directory rt cfg args)"
    unfolding delete_directory_def inside_def Let_def
    by (intro within.at_lift res up) (auto intro: ops split: if_splits)
  show "inside at sb w (set_permissions rt cfg args)"
    unfolding set_permissions_def inside_def
    by (intro within.at_lift res up) (auto intro: ops)
qed

lemma edit_file_inside:
  assumes "cap_beneath at (cap rt)" "sane (disk w)" "roots_at at (disk w) sb" "once w = Some sb"
  shows "inside at sb w (edit_file rt cfg args)"
proof -
  note up = inside_update [OF assms(1-3), unfolded inside_def]
    and res = within.at_resolve(1) [OF assms(4)]
  have last: "at_state (changed_beneath (root_locs at (disk w) sb)) w
      (then_do (if dry then give () else update (resolved_write (cap rt) r bs)) (\<lambda>u. give j))"
    if "resolve (cap rt) (disk w) sb p = Inr r" for dry r bs j p
  proof (cases dry)
    case False
    have "at_state (changed_beneath (root_locs at (disk w) sb)) w
        (then_do (update (resolved_write (cap rt) r bs)) (\<lambda>u. give j))"
      by (rule up [OF that]) (auto intro: write_changed [OF assms(1)])
    with False show ?thesis by simp
  qed (simp add: at_state_def then_do_def give_def)
  show ?thesis
    unfolding edit_file_def inside_def Let_def
    by (intro within.at_lift res within.at_query)
      (auto intro!: within.at_failed within.at_panicked within.at_query within.at_lift intro: last
        split: option.split)
qed

text \<open>The tools on two paths: both ends were resolved in the files that the operation sees.\<close>

lemma two_path_inside:
  assumes "once w = Some sb"
    and "\<And>src dst r1 r2. resolve (cap rt) (disk w) sb src = Inr r1 \<Longrightarrow>
      resolve (cap rt) (disk w) sb dst = Inr r2 \<Longrightarrow>
      at_state (changed_beneath ls) w (operate sb src dst)"
  shows "at_state (changed_beneath ls) w (two_path_tool rt cfg args name operate)"
proof -
  have then_give: "at_state (changed_beneath ls) w (then_do m (\<lambda>u. give j))"
    if "at_state (changed_beneath ls) w m" for m :: "('a, unit) action" and j :: json
    using that by (auto simp: at_state_def then_do_def give_def split: prod.split outcome.split)
  show ?thesis
    unfolding two_path_tool_def
    by (intro within.at_lift within.at_resolve(2,3) [OF assms(1)] within.at_sandbox [OF assms(1)] then_give)
      (auto simp: resolve_path_def resolve_destination_path_def result_simps intro: assms(2))
qed

lemma two_path_tools_inside:
  assumes "cap_beneath at (cap rt)" "sane (disk w)" "roots_at at (disk w) sb" "once w = Some sb"
  shows "inside at sb w (move_file rt cfg args)"
    and "inside at sb w (create_symlink rt cfg args)"
    and "\<not> sb_follow sb \<Longrightarrow> inside at sb w (copy_file rt cfg args)"
  unfolding inside_def move_file_def create_symlink_def copy_file_def
  by (rule two_path_inside [OF assms(4)];
      auto simp: at_state_def update_or_panic_def update_def then_do_def give_def
        split: prod.split option.split sum.split outcome.split
        dest: sandbox_rename_changed [OF assms(2,1,3)] sandbox_create_symlink_changed [OF assms(2,1,3)]
          sandbox_copy_changed [OF assms(2,1,3)])+

end
