(* ===== verification/File_Properties.thy ===== *)
theory File_Properties
  imports File_Effects
begin

text \<open>The properties of the single-file tools, with their witnesses.\<close>

section \<open>The small world as a running process\<close>

definition demo_runtime :: "loc runtime" where
  "demo_runtime = \<lparr>cap = beneath_cap, join_text = ''panicked'', mmap = node_bytes, unwinds = True\<rparr>"

definition demo_proc :: "loc proc" where
  "demo_proc = \<lparr>disk = demo_os, once = Some demo_sandbox\<rparr>"

lemma demo_runtime_contract: "cap_beneath (\<lambda>s h. h) (cap demo_runtime)"
  by (simp add: demo_runtime_def beneath_cap_contract)

lemma demo_proc_simps [simp]: "disk demo_proc = demo_os" "once demo_proc = Some demo_sandbox"
  by (simp_all add: demo_proc_def)

section \<open>Helper lemmas\<close>

lemma range_length_eq:
  "offset \<le> n \<Longrightarrow> n \<le> u64_max \<Longrightarrow> range_length offset len n = min len (n - offset)"
  by (auto simp: range_length_def sat_add_def)

lemma walk_create: "walk t f False k l cs = Inr m \<Longrightarrow> walk t f True k l cs = Inr m"
  by (induction t f False k l cs rule: walk.induct) (auto split: option.splits node.splits if_splits)

lemma resolve_loc_create: "resolve_loc s f False p = Inr m \<Longrightarrow> resolve_loc s f True p = Inr m"
  by (auto simp: resolve_loc_def walk_create split: if_splits option.splits)

lemma lookup_put_node_file:
  "lookup (tree s) l = Some (FileNode bs) \<Longrightarrow> lookup (tree (put_node s l (Some n))) l = Some n"
proof (cases l rule: rev_cases)
  case (snoc k m)
  assume l: "lookup (tree s) l = Some (FileNode bs)"
  then obtain es where "lookup (tree s) k = Some (DirNode es)"
    using lookup_above [of "tree s" k m "[]"] snoc by auto
  then show ?thesis using lookup_update_same snoc by (simp add: put_node_def)
qed (simp add: put_node_def)

lemma fs_copy_self:
  assumes "resolve_loc s True False p = Inr l" "lookup (tree s) l = Some (FileNode bs)"
  shows "\<exists>s'. fs_copy s p p = (Inr 0, s') \<and> lookup (tree s') l = Some (FileNode [])"
proof -
  let ?s1 = "put_node s l (Some (FileNode []))"
  have c: "fs_create s p = (Inr l, ?s1)"
    using assms resolve_loc_create [OF assms(1)] by (simp add: fs_create_def)
  have s1: "lookup (tree ?s1) l = Some (FileNode [])" by (rule lookup_put_node_file [OF assms(2)])
  then have "lookup (tree (fs_write_loc ?s1 l [])) l = Some (FileNode [])"
    unfolding fs_write_loc_def by (rule lookup_put_node_file)
  with assms c s1 show ?thesis by (auto simp: fs_copy_def)
qed

lemma from_utf8_lossy_valid: "valid_str (from_utf8_lossy bs)"
  by (simp add: valid_str_def from_utf8_lossy_def utf8_lossy_valid)

section \<open>The writing tools stay inside the allowed roots\<close>

text \<open>
  C5: no tool that writes single files changes anything outside the allowed directories,
  whatever its arguments and however it ends: every location that is not below, or above, an
  allowed root is as before. For \<open>copy_file\<close>, which writes through \<open>std::fs\<close>, this holds when
  symbolic links are not followed.
\<close>

theorem writing_tools_contained:
  assumes "cap_beneath at (cap rt)" "sane (disk w)" "roots_at at (disk w) sb" "once w = Some sb"
    and "handler \<in> {write_file, edit_file, create_directory, delete_file, delete_directory,
            set_permissions, move_file, create_symlink} \<or> handler = copy_file \<and> \<not> sb_follow sb"
  shows "changed_beneath (root_locs at (disk w) sb) (disk w) (disk (snd (handler rt cfg args w)))"
  using assms(5) write_file_inside [OF assms(1-4)] edit_file_inside [OF assms(1-4)]
    simple_tools_inside [OF assms(1-4)] two_path_tools_inside [OF assms(1-4)]
  by (auto simp: inside_def at_state_def)

theorem writing_tools_contained_witness:
  "changed_beneath {[''srv'']} demo_os
     (disk (snd (write_file demo_runtime demo_config
        (Some (obj [(''path'', JStr ''sub/b.txt''), (''content'', JStr ''x'')])) demo_proc)))"
  using writing_tools_contained [OF demo_runtime_contract, of demo_proc demo_sandbox write_file
      demo_config "Some (obj [(''path'', JStr ''sub/b.txt''), (''content'', JStr ''x'')])"]
  by (simp add: demo_sane demo_roots_at demo_root_locs)

section \<open>Edits\<close>

text \<open>
  C27: \<open>edit_file\<close> never panics on character boundaries. When every edit names its text, it
  writes the text that results from replacing, edit after edit, the first occurrence of the
  old text by the new text (both with the file's indentation), and an edit whose text is not
  found changes nothing; when an edit has no text, it fails and writes nothing.
\<close>

theorem edit_file_refines:
  assumes "once w = Some sb"
    and "get_str_arg args ''path'' = Inr p" "get_edits_arg args = Inr edits"
    and "\<forall>e\<in>set edits. valid_edit e" "get_opt_bool args ''dryRun'' \<noteq> Some True"
    and "resolve (cap rt) (disk w) sb p = Inr r"
    and "resolved_metadata (cap rt) (disk w) r = Inr meta" "cap_len meta \<le> max_file_size cfg"
    and "resolved_read_to_string (cap rt) (disk w) r = Inr content"
  shows "case collect_results edit_texts edits of
      Inl e \<Rightarrow> edit_file rt cfg args w = (Failed e, w)
    | Inr texts \<Rightarrow> \<exists>diffs. length diffs = length edits \<and>
        edit_file rt cfg args w =
          then_do (update (resolved_write (cap rt) r
              (as_bytes (foldl (apply_edit (detect_indent content)) content texts))))
            (\<lambda>u. give (obj [(''success'', JBool True), (''dryRun'', JBool False),
                            (''edits'', JArr diffs), (''path'', jpath (canonical r))])) w"
proof -
  have dry: "unwrap_or False (get_opt_bool args ''dryRun'') = False"
    using assms(5) by (cases "get_opt_bool args ''dryRun''") auto
  have run: "edit_file rt cfg args w =
      (case edit_loop (detect_indent content) content edits of
         None \<Rightarrow> panicked
       | Some res \<Rightarrow> then_do (lift res) (\<lambda>(text, diffs).
           then_do (update (resolved_write (cap rt) r (as_bytes text)))
             (\<lambda>u. give (obj [(''success'', JBool True), (''dryRun'', JBool False),
                    (''edits'', JArr diffs), (''path'', jpath (canonical r))])))) w"
    using assms(1-3,6-9) dry
    by (simp add: edit_file_def then_do_def lift_def query_def resolve_now_def the_sandbox_eq Let_def
        split: option.split)
  have "valid_str content"
    using assms(9) by (auto simp: resolved_read_to_string_def result_simps from_utf8_lossy_valid)
  then show ?thesis
    using edit_loop_ok [OF _ assms(4), of content "detect_indent content"] run
    by (auto simp: then_do_def lift_def split: sum.splits)
qed

definition demo_edits :: "json option" where
  "demo_edits = Some (obj [(''path'', JStr ''notes.txt''),
     (''edits'', JArr [obj [(''oldText'', JStr ''ell''), (''newText'', JStr ''ipp'')]])])"

definition demo_edit :: json where
  "demo_edit = obj [(''oldText'', JStr ''ell''), (''newText'', JStr ''ipp'')]"

definition demo_notes :: "loc resolved" where
  "demo_notes = \<lparr>dir = [''srv''], rel = [Normal ''notes.txt''], requested = ''notes.txt'',
     canonical = abs_path [''srv'', ''notes.txt'']\<rparr>"

lemma demo_edit_facts:
  "get_str_arg demo_edits ''path'' = Inr ''notes.txt''"
  "get_edits_arg demo_edits = Inr [demo_edit]"
  "get_opt_bool demo_edits ''dryRun'' \<noteq> Some True"
  "edit_texts demo_edit = Inr (''ell'', ''ipp'')"
  "valid_str ''ell''" "valid_str ''ipp''"
  "foldl (apply_edit (detect_indent ''hello'')) ''hello'' [(''ell'', ''ipp'')] = ''hippo''"
  by code_simp+

lemma demo_notes_facts:
  "resolve (cap demo_runtime) (disk demo_proc) demo_sandbox ''notes.txt'' = Inr demo_notes"
  "resolved_metadata (cap demo_runtime) (disk demo_proc) demo_notes = Inr (meta_of demo_os (FileNode hello))"
  "cap_len (meta_of demo_os (FileNode hello)) \<le> max_file_size demo_config"
  "resolved_read_to_string (cap demo_runtime) (disk demo_proc) demo_notes = Inr ''hello''"
proof -
  show "cap_len (meta_of demo_os (FileNode hello)) \<le> max_file_size demo_config"
    by (simp add: meta_of_def hello_def as_bytes_def demo_config_def config_new_def)
qed code_simp+

theorem edit_file_refines_witness:
  "\<exists>diffs. length diffs = 1 \<and>
     edit_file demo_runtime demo_config demo_edits demo_proc =
       then_do (update (resolved_write (cap demo_runtime) demo_notes (as_bytes ''hippo'')))
         (\<lambda>u. give (obj [(''success'', JBool True), (''dryRun'', JBool False),
                         (''edits'', JArr diffs), (''path'', jpath (canonical demo_notes))])) demo_proc"
proof -
  have v: "\<forall>e\<in>set [demo_edit]. valid_edit e" by (simp add: valid_edit_def demo_edit_facts)
  have t: "collect_results edit_texts [demo_edit] = Inr [(''ell'', ''ipp'')]"
    by (simp add: demo_edit_facts)
  from edit_file_refines [OF demo_proc_simps(2) demo_edit_facts(1,2) v demo_edit_facts(3) demo_notes_facts]
  show ?thesis unfolding t sum.case demo_edit_facts(7) by simp
qed

section \<open>Reading\<close>

text \<open>
  C28: reading the tail of a text of valid lines through the ring buffer yields the last lines,
  oldest first, and the number of all lines.
\<close>

theorem tail_keeps_last_lines:
  assumes "0 < t"
  shows "tail_lines t (map Inr ls) = Some (Inr (length ls, drop (length ls - t) ls))"
  using assms by (rule tail_lines_ok)

theorem tail_keeps_last_lines_witness:
  "tail_lines 2 (map Inr [''a'', ''b'', ''c'']) = Some (Inr (3, [''b'', ''c'']))"
  using tail_keeps_last_lines [of 2 "[''a'', ''b'', ''c'']"] by simp

text \<open>
  C40: a tail that is not positive, of a file with at least one line, panics on that line: the
  ring buffer of capacity zero is indexed. The call fails with the error of a dead task, and
  when the program is built to abort on panics, as its release profile says, it ends the server.
\<close>

theorem tail_zero_panics:
  assumes "i \<le> 0" "once w = Some sb"
    and "get_str_arg args ''path'' = Inr p" "get_opt_i64 args ''tail'' = Some i"
    and "get_opt_i64 args ''head'' = None"
    and "resolve (cap rt) (disk w) sb p = Inr r" "path_exists (disk w) (canonical r)"
    and "resolved_metadata (cap rt) (disk w) r = Inr meta"
    and "cap_is_file meta" "cap_len meta \<le> max_file_size cfg"
    and "open_lines (disk w) (canonical r) = Inr (Inr l # ls)"
  shows "read_text_file rt cfg args w =
    (if unwinds rt then Failed (FilesystemError (''read_text_file task failed: '' @ join_text rt))
     else Panicked, w)"
  using assms tail_lines_zero [of l ls]
  by (simp add: read_text_file_def clamped_def clamp_def then_do_def lift_def query_def
      resolve_now_def the_sandbox_eq Let_def run_blocking_def update_or_panic_def blocking_def)

theorem tail_zero_panics_witness:
  "fst (read_text_file (demo_runtime\<lparr>unwinds := False\<rparr>) demo_config
      (Some (obj [(''path'', JStr ''notes.txt''), (''tail'', JInt 0)])) demo_proc) = Panicked"
proof -
  let ?rt = "demo_runtime\<lparr>unwinds := False\<rparr>"
  let ?args = "Some (obj [(''path'', JStr ''notes.txt''), (''tail'', JInt 0)])"
  have "get_str_arg ?args ''path'' = Inr ''notes.txt''" "get_opt_i64 ?args ''tail'' = Some 0"
    "get_opt_i64 ?args ''head'' = None" "path_exists (disk demo_proc) (canonical demo_notes)"
    "open_lines (disk demo_proc) (canonical demo_notes) = Inr [Inr ''hello'']"
    "cap_is_file (meta_of demo_os (FileNode hello))" by code_simp+
  moreover have "cap ?rt = cap demo_runtime" "\<not> unwinds ?rt" by simp_all
  ultimately show ?thesis
    using tail_zero_panics [of 0 demo_proc demo_sandbox ?args "''notes.txt''" ?rt demo_notes
        "meta_of demo_os (FileNode hello)" demo_config "''hello''" "[]"] demo_notes_facts
    by simp
qed

text \<open>
  C29: \<open>read_file_range\<close> reads exactly the bytes from the offset on, at most as many as asked for
  and as the file has, and decodes them as UTF-8; an offset at or past the end and a range
  above the size limit are errors. The additions saturate, so no offset or length wraps.
\<close>

theorem read_range_exact:
  assumes "fs_stat s p = Inr (FileNode bs)" "length bs < 2 ^ 63"
  shows "read_range p offset len mx s =
    (let n = min len (length bs - offset) in
     if length bs \<le> offset then
       Inl (''Offset '' @ show_nat offset @ '' exceeds file size '' @ show_nat (length bs))
     else if n > mx then
       Inl (''Requested range '' @ show_nat n @ '' exceeds maximum allowed size '' @ show_nat mx)
     else Inr (from_utf8_lossy (take n (drop offset bs)), int n))"
proof -
  have s: "as_signed (length bs) = int (length bs)" using assms(2) by (simp add: as_signed_def)
  have r: "range_length offset len (length bs) = min len (length bs - offset)"
    if "offset \<le> length bs"
    using range_length_eq [OF that, of len] assms(2) by (simp add: u64_max_def)
  have n: "as_signed (min len (length bs - offset)) = int (min len (length bs - offset))"
    using assms(2) by (simp add: as_signed_def)
  show ?thesis
    using assms(1) r n
    by (auto simp: read_range_def s Let_def fs_open_def show_int_def not_le)
qed

theorem read_range_exact_witness:
  "read_range (abs_path [''srv'', ''notes.txt'']) 1 100 1048576 demo_os = Inr (''ello'', 4)"
proof -
  have f: "fs_stat demo_os (abs_path [''srv'', ''notes.txt'']) = Inr (FileNode hello)" by code_simp
  have l: "length hello = 5" by (simp add: hello_def as_bytes_def)
  have d: "from_utf8_lossy (drop (Suc 0) hello) = ''ello''" by code_simp
  from read_range_exact [OF f, of 1 100 1048576] show ?thesis by (simp add: l d)
qed

section \<open>Copies\<close>

text \<open>
  \<open>copy_file\<close> from a file to itself, which nothing rejects, empties the file: \<open>std::fs::copy\<close>
  truncates the destination before it reads the source, and reports zero bytes copied.
\<close>

lemma copy_onto_itself_empties:
  assumes "two_ends s sb p p = Inr (a, a, root, root)" "sb_follow sb \<or> check_symlinks_in_path s a"
    and "resolve_loc s True False a = Inr l" "lookup (tree s) l = Some (FileNode bs)"
  shows "\<exists>s'. sandbox_copy sb p p s = (Inr 0, s') \<and> lookup (tree s') l = Some (FileNode [])"
  using assms(1,2) fs_copy_self [OF assms(3,4)]
  by (auto simp: sandbox_copy_def symlinks_rejected_def)

text \<open>
  With \<open>--follow-symlinks\<close> a copy whose destination is a link without a target is accepted,
  because the path canonicalises against its parent, and creates the target of the link, which
  may lie outside every allowed directory.
\<close>

lemma copy_through_dangling_link_escapes:
  "sandbox_copy (demo_sandbox\<lparr>sb_follow := True\<rparr>) ''notes.txt'' ''gone'' demo_os =
     (Inr 5, put_node demo_os [''etc'', ''new''] (Some (FileNode hello)))"
proof -
  have "sandbox_copy (demo_sandbox\<lparr>sb_follow := True\<rparr>) ''notes.txt'' ''gone'' demo_os =
      map_fst_err (fs_error ''Cannot copy'')
        (fs_copy demo_os (abs_path [''srv'', ''notes.txt'']) (abs_path [''srv'', ''gone'']))"
    by code_simp
  also have "fs_copy demo_os (abs_path [''srv'', ''notes.txt'']) (abs_path [''srv'', ''gone'']) =
      (Inr 5, put_node (put_node demo_os [''etc'', ''new''] (Some (FileNode [])))
         [''etc'', ''new''] (Some (FileNode hello)))"
    by code_simp
  also have "put_node (put_node demo_os [''etc'', ''new''] (Some (FileNode [])))
         [''etc'', ''new''] (Some (FileNode hello)) =
       put_node demo_os [''etc'', ''new''] (Some (FileNode hello))"
    by (simp add: put_node_def demo_os_def)
  finally show ?thesis by simp
qed

end
