(* ===== verification/Dirs.thy ===== *)
theory Dirs
  imports Files
begin

text \<open>
  The handlers of \<open>src/actions/dirs.rs\<close>. The crates \<open>walkdir\<close>, \<open>globset\<close> and \<open>regex\<close> are the
  parameter \<open>walk_lib\<close>: a walk yields the entries that could be read, in its order, leaving out
  what the filter on names rejects; a pattern compiles to an error text or to a predicate.
  Counters of type \<open>u64\<close> wrap.
\<close>

record walk_entry =
  we_path :: path
  we_name :: string
  we_is_dir :: bool
  we_is_file :: bool
  we_len :: "nat option"

record walk_lib =
  walk_dir :: "os \<Rightarrow> bool \<Rightarrow> (string \<Rightarrow> bool) \<Rightarrow> path \<Rightarrow> walk_entry list"
  glob_new :: "string \<Rightarrow> string + (string \<Rightarrow> bool)"
  regex_new :: "string \<Rightarrow> string + (string \<Rightarrow> bool)"

definition add_u64 :: "nat \<Rightarrow> nat \<Rightarrow> nat" where
  "add_u64 a b = (a + b) mod 2 ^ 64"

section \<open>Listing\<close>

definition entry_line :: "string \<times> bool \<Rightarrow> string" where
  "entry_line e = (if snd e then ''[DIR]'' else ''[FILE]'') @ '' '' @ fst e"

definition list_directory :: "'d runtime \<Rightarrow> config \<Rightarrow> json option \<Rightarrow> ('d, json) action" where
  "list_directory rt cfg args =
     then_do (lift (get_str_arg args ''path'')) (\<lambda>p.
     then_do (resolve_now rt cfg p) (\<lambda>r.
     then_do (query (\<lambda>s. resolved_read_dir (cap rt) s r)) (\<lambda>entries.
     give (obj [(''entries'', jstrs (sort (map entry_line entries))),
                (''path'', jpath (canonical r))]))))"

text \<open>The loop of \<open>list_directory_with_sizes\<close>: entries, files, directories and their bytes.\<close>

definition size_entry :: "string \<Rightarrow> nat \<Rightarrow> json" where
  "size_entry name n =
     obj [(''name'', JStr name), (''type'', JStr ''file''), (''size'', jnat n),
          (''display'', JStr (''[FILE] '' @ name @ '' ('' @ show_nat n @ '' B)''))]"

definition dir_entry :: "string \<Rightarrow> json" where
  "dir_entry name =
     obj [(''name'', JStr name), (''type'', JStr ''dir''), (''display'', JStr (''[DIR] '' @ name))]"

fun sizes_loop :: "os \<Rightarrow> (string \<times> node) list \<Rightarrow> nat \<Rightarrow> nat \<Rightarrow> nat \<Rightarrow> json list \<times> nat \<times> nat \<times> nat" where
  "sizes_loop s [] files dirs bytes = ([], files, dirs, bytes)"
| "sizes_loop s ((n, c) # es) files dirs bytes =
     (let name = lossy n in
      if node_is_dir c then
        (case sizes_loop s es files (add_u64 dirs 1) bytes of (js, rest) \<Rightarrow> (dir_entry name # js, rest))
      else
        (let sz = node_len s c in
         case sizes_loop s es (add_u64 files 1) dirs (add_u64 bytes sz) of
           (js, rest) \<Rightarrow> (size_entry name sz # js, rest)))"

definition entry_size :: "json \<Rightarrow> nat" where
  "entry_size e = unwrap_or 0 (Option.bind (jget e ''size'') as_u64)"

definition entry_name :: "json \<Rightarrow> string" where
  "entry_name e = unwrap_or [] (Option.bind (jget e ''name'') as_str)"

definition sort_entries :: "string \<Rightarrow> json list \<Rightarrow> json list" where
  "sort_entries sort_by es =
     (if sort_by = ''size'' then sort_key (\<lambda>e. - int (entry_size e)) es
      else sort_key entry_name es)"

definition list_directory_with_sizes :: "'d runtime \<Rightarrow> config \<Rightarrow> json option \<Rightarrow> ('d, json) action" where
  "list_directory_with_sizes rt cfg args =
     then_do (lift (get_str_arg args ''path'')) (\<lambda>p.
     let sort_by = unwrap_or ''name'' (get_opt_str args ''sortBy'') in
     then_do (resolve_path_now rt cfg p) (\<lambda>valid_path.
     then_do
       (blocking_read rt ''Directory listing'' (\<lambda>s.
          map_ok (\<lambda>es. sizes_loop s es 0 0 0)
            (map_err (cannot ''read directory'') (fs_read_dir s valid_path))))
       (\<lambda>(entries, files, dirs, bytes).
     give (obj [(''entries'', JArr (sort_entries sort_by entries)),
                (''summary'', obj [(''totalFiles'', jnat files), (''totalDirectories'', jnat dirs),
                                 (''combinedSize'', jnat bytes)]),
                (''path'', jpath valid_path)]))))"

section \<open>Searching\<close>

definition search_limit :: nat where
  "search_limit = 100000"

text \<open>Patterns that do not compile are left out.\<close>

fun exclude_globs :: "walk_lib \<Rightarrow> string list \<Rightarrow> (string \<Rightarrow> bool) list" where
  "exclude_globs lib [] = []"
| "exclude_globs lib (p # ps) =
     (case glob_new lib p of Inl e \<Rightarrow> exclude_globs lib ps | Inr g \<Rightarrow> g # exclude_globs lib ps)"

definition excluded :: "(string \<Rightarrow> bool) list \<Rightarrow> string \<Rightarrow> bool" where
  "excluded globs name = list_ex (\<lambda>g. g name) globs"

definition relative_text :: "path \<Rightarrow> path \<Rightarrow> string" where
  "relative_text root p = lossy (path_text (unwrap_or p (path_strip_prefix p root)))"

definition visible :: "string \<Rightarrow> bool" where
  "visible name = (\<not> is_hidden name)"

fun search_loop ::
    "(string \<Rightarrow> bool) \<Rightarrow> (string \<Rightarrow> bool) list \<Rightarrow> path \<Rightarrow> nat \<Rightarrow> walk_entry list \<Rightarrow> string list" where
  "search_loop glob globs root count [] = []"
| "search_loop glob globs root count (e # es) =
     (if count \<ge> search_limit then []
      else
        (let relative = relative_text root (we_path e) in
         if excluded globs relative then search_loop glob globs root count es
         else if glob relative then
           lossy (path_text (we_path e)) # search_loop glob globs root (count + 1) es
         else search_loop glob globs root count es))"

definition search_files :: "'d runtime \<Rightarrow> walk_lib \<Rightarrow> config \<Rightarrow> json option \<Rightarrow> ('d, json) action" where
  "search_files rt lib cfg args =
     then_do (lift (get_str_arg args ''path'')) (\<lambda>p.
     then_do (lift (get_str_arg args ''pattern'')) (\<lambda>pattern.
     let excludes = unwrap_or [] (get_opt_str_array args ''excludePatterns'') in
     then_do (resolve_path_now rt cfg p) (\<lambda>root.
     then_do (lift (map_err (\<lambda>e. InvalidParams (''Invalid glob pattern: '' @ e)) (glob_new lib pattern)))
       (\<lambda>glob.
     then_do
       (blocking_read rt ''Search'' (\<lambda>s.
          Inr (search_loop glob (exclude_globs lib excludes) root 0
                 (walk_dir lib s (follow_symlinks (server cfg)) visible root))))
       (\<lambda>results.
     give (obj [(''results'', jstrs results), (''count'', jnat (length results)),
                (''pattern'', JStr pattern), (''path'', jpath root)]))))))"

definition binary_extensions :: "string list" where
  "binary_extensions =
     [''bin'', ''exe'', ''dll'', ''so'', ''dylib'', ''o'', ''class'', ''pyc'', ''jpg'', ''jpeg'', ''png'',
      ''gif'', ''bmp'', ''ico'', ''mp3'', ''mp4'', ''avi'', ''mov'', ''zip'', ''tar'', ''gz'', ''bz2'',
      ''xz'', ''zst'', ''7z'', ''rar'', ''pdf'', ''wasm'']"

definition is_binary_extension :: "string \<Rightarrow> bool" where
  "is_binary_extension ext = (ext \<in> set binary_extensions)"

definition grep_limit :: nat where
  "grep_limit = 100000"

text \<open>The lines of one file: a line that is no UTF-8 ends the file, a full result ends it too.\<close>

fun grep_lines ::
    "(string \<Rightarrow> bool) \<Rightarrow> path \<Rightarrow> nat \<Rightarrow> nat \<Rightarrow> (io_error + string) list \<Rightarrow> json list" where
  "grep_lines re p count idx [] = []"
| "grep_lines re p count idx (line # ls) =
     (case line of
        Inl e \<Rightarrow> []
      | Inr l \<Rightarrow>
          if count \<ge> grep_limit then []
          else if re l then
            obj [(''file'', jpath p), (''line'', jnat (idx + 1)), (''content'', JStr l)]
            # grep_lines re p (count + 1) (idx + 1) ls
          else grep_lines re p count (idx + 1) ls)"

definition utf8_extension :: "path \<Rightarrow> string" where
  \<comment> \<open>\<open>extension().and_then(to_str).unwrap_or("")\<close>\<close>
  "utf8_extension p = unwrap_or [] (filter_opt valid_str (extension p))"

fun grep_loop ::
    "os \<Rightarrow> (string \<Rightarrow> bool) \<Rightarrow> (string \<Rightarrow> bool) list \<Rightarrow> path \<Rightarrow> nat \<Rightarrow> nat \<Rightarrow> walk_entry list \<Rightarrow> json list" where
  "grep_loop s re globs root max_bytes count [] = []"
| "grep_loop s re globs root max_bytes count (e # es) =
     (if count \<ge> grep_limit then []
      else if \<not> we_is_file e \<or> excluded globs (relative_text root (we_path e))
        \<or> is_binary_extension (utf8_extension (we_path e))
        \<or> unwrap_or 0 (we_len e) > max_bytes then
        grep_loop s re globs root max_bytes count es
      else
        (case open_lines s (we_path e) of
           Inl err \<Rightarrow> grep_loop s re globs root max_bytes count es
         | Inr lines \<Rightarrow>
             (let hits = grep_lines re (we_path e) count 0 lines in
              hits @ grep_loop s re globs root max_bytes (count + length hits) es)))"

definition grep_files :: "'d runtime \<Rightarrow> walk_lib \<Rightarrow> config \<Rightarrow> json option \<Rightarrow> ('d, json) action" where
  "grep_files rt lib cfg args =
     then_do (lift (get_str_arg args ''path'')) (\<lambda>p.
     then_do (lift (get_str_arg args ''pattern'')) (\<lambda>pattern.
     then_do (resolve_path_now rt cfg p) (\<lambda>root.
     then_do (lift (map_err (\<lambda>e. InvalidParams (''Invalid regex pattern: '' @ e)) (regex_new lib pattern)))
       (\<lambda>re.
     let excludes = unwrap_or [] (get_opt_str_array args ''excludePatterns'') in
     then_do
       (blocking_read rt ''Grep'' (\<lambda>s.
          Inr (grep_loop s re (exclude_globs lib excludes) root (max_file_size cfg) 0
                 (walk_dir lib s (follow_symlinks (server cfg)) visible root))))
       (\<lambda>results.
     give (obj [(''results'', JArr results), (''count'', jnat (length results)),
                (''pattern'', JStr pattern)]))))))"

section \<open>Disk usage\<close>

fun usage_loop :: "walk_entry list \<Rightarrow> nat \<Rightarrow> nat \<Rightarrow> nat \<Rightarrow> nat \<times> nat \<times> nat" where
  "usage_loop [] bytes files dirs = (bytes, files, dirs)"
| "usage_loop (e # es) bytes files dirs =
     (if we_is_dir e then usage_loop es bytes files (add_u64 dirs 1)
      else (case (we_is_file e, we_len e) of
              (True, Some n) \<Rightarrow> usage_loop es (add_u64 bytes n) (add_u64 files 1) dirs
            | _ \<Rightarrow> usage_loop es bytes files dirs))"

definition get_disk_usage :: "'d runtime \<Rightarrow> walk_lib \<Rightarrow> config \<Rightarrow> json option \<Rightarrow> ('d, json) action" where
  "get_disk_usage rt lib cfg args =
     then_do (lift (get_str_arg args ''path'')) (\<lambda>p.
     then_do (resolve_path_now rt cfg p) (\<lambda>root.
     then_do
       (blocking_read rt ''Disk usage'' (\<lambda>s.
          Inr (usage_loop (walk_dir lib s (follow_symlinks (server cfg)) (\<lambda>n. True) root) 0 0 0)))
       (\<lambda>(bytes, files, dirs).
     give (obj [(''path'', jpath root), (''totalSize'', jnat bytes), (''fileCount'', jnat files),
                (''directoryCount'', jnat dirs)]))))"

section \<open>The directory tree\<close>

definition max_tree_depth :: nat where
  "max_tree_depth = 64"

definition max_tree_nodes :: nat where
  "max_tree_nodes = 100000"

text \<open>
  One call of \<open>build_tree\<close> up to its directory branch, which gets the name and the counter. The
  counter of nodes, a mutable reference in the source, is passed on and returned.
\<close>

definition tree_visit ::
    "os \<Rightarrow> (string \<Rightarrow> bool) list \<Rightarrow> path \<Rightarrow> path \<Rightarrow> nat \<Rightarrow> (string \<Rightarrow> nat \<Rightarrow> json \<times> nat) \<Rightarrow> json \<times> nat" where
  "tree_visit s globs root current nodes on_dir =
     (if excluded globs (relative_text root current) then (JNull, nodes)
      else
        (let n = nodes + 1 in
         if n > max_tree_nodes then (JNull, n)
         else
           (case fs_stat s current of
              Inl e \<Rightarrow> (JNull, n)
            | Inr node \<Rightarrow>
                (let name = lossy (unwrap_or [] (file_name current)) in
                 if node_is_dir node then on_dir name n
                 else if node_is_file node then
                   (obj [(''name'', JStr name), (''type'', JStr ''file'')], n)
                 else (JNull, n)))))"

definition directory_json :: "string \<Rightarrow> json list \<Rightarrow> json" where
  "directory_json name kids =
     obj [(''name'', JStr name), (''type'', JStr ''directory''), (''children'', JArr kids)]"

definition truncated_json :: "string \<Rightarrow> json" where
  "truncated_json name =
     obj [(''name'', JStr name), (''type'', JStr ''directory''), (''children'', JArr []),
          (''truncated'', JBool True)]"

text \<open>The loop over the entries of a directory; hidden names are skipped.\<close>

definition skipped :: "string \<Rightarrow> bool" where
  "skipped name = (valid_str name \<and> starts_with name ''.'' \<and> name \<noteq> ''.'')"

fun tree_children :: "(path \<Rightarrow> nat \<Rightarrow> json \<times> nat) \<Rightarrow> path \<Rightarrow> string list \<Rightarrow> nat \<Rightarrow> json list \<times> nat" where
  "tree_children build current [] nodes = ([], nodes)"
| "tree_children build current (name # names) nodes =
     (if skipped name then tree_children build current names nodes
      else
        (case build (join current [Normal name]) nodes of
           (child, n) \<Rightarrow>
             (case tree_children build current names n of
                (kids, n') \<Rightarrow> (if is_null child then kids else child # kids, n'))))"

text \<open>\<open>build_tree\<close> with the depth that is left, \<open>MAX_TREE_DEPTH - depth\<close>.\<close>

primrec build_tree :: "nat \<Rightarrow> os \<Rightarrow> (string \<Rightarrow> bool) list \<Rightarrow> path \<Rightarrow> path \<Rightarrow> nat \<Rightarrow> json \<times> nat" where
  "build_tree 0 s globs root current nodes =
     tree_visit s globs root current nodes (\<lambda>name n. (truncated_json name, n))"
| "build_tree (Suc room) s globs root current nodes =
     tree_visit s globs root current nodes (\<lambda>name n.
       case fs_read_dir s current of
         Inl e \<Rightarrow> (JNull, n)
       | Inr es \<Rightarrow>
           (case tree_children (build_tree room s globs root) current (map fst es) n of
              (kids, n') \<Rightarrow> (directory_json name kids, n')))"

definition directory_tree :: "'d runtime \<Rightarrow> walk_lib \<Rightarrow> config \<Rightarrow> json option \<Rightarrow> ('d, json) action" where
  "directory_tree rt lib cfg args =
     then_do (lift (get_str_arg args ''path'')) (\<lambda>p.
     let excludes = unwrap_or [] (get_opt_str_array args ''excludePatterns'') in
     then_do (resolve_path_now rt cfg p) (\<lambda>root.
     query (\<lambda>s. Inr (fst (build_tree max_tree_depth s (exclude_globs lib excludes) root root 0)))))"

section \<open>Facts\<close>

lemma directory_tools_keep [simp]:
  "keeps (=) (list_directory rt cfg args)"
  "keeps (=) (list_directory_with_sizes rt cfg args)"
  "keeps (=) (search_files rt lib cfg args)"
  "keeps (=) (grep_files rt lib cfg args)"
  "keeps (=) (get_disk_usage rt lib cfg args)"
  "keeps (=) (directory_tree rt lib cfg args)"
  by (auto simp: list_directory_def list_directory_with_sizes_def search_files_def grep_files_def
      get_disk_usage_def directory_tree_def Let_def intro!: same.keeps_then_do split: prod.split)

text \<open>The limits on results.\<close>

lemma search_loop_length: "count \<le> search_limit \<Longrightarrow> count + length (search_loop g gs root count es) \<le> search_limit"
proof (induction g gs root count es rule: search_loop.induct)
  case (2 g gs root count e es)
  then show ?case by (fastforce simp: Let_def)
qed simp

lemma grep_lines_length: "count \<le> grep_limit \<Longrightarrow> count + length (grep_lines re p count idx ls) \<le> grep_limit"
proof (induction re p count idx ls rule: grep_lines.induct)
  case (2 re p count idx line ls)
  then show ?case by (cases line) fastforce+
qed simp

lemma grep_loop_length:
  "count \<le> grep_limit \<Longrightarrow> count + length (grep_loop s re gs root mx count es) \<le> grep_limit"
proof (induction s re gs root mx count es rule: grep_loop.induct)
  case (2 s re gs root mx count e es)
  show ?case
    using "2.prems" "2.IH" grep_lines_length [OF "2.prems"]
    by (auto simp: Let_def add.assoc [symmetric] split: sum.split)
qed simp

lemma search_loop_filter:
  "count \<le> search_limit \<Longrightarrow> search_loop glob globs root count es =
     take (search_limit - count)
       (map (\<lambda>e. lossy (path_text (we_path e)))
         (filter (\<lambda>e. glob (relative_text root (we_path e)) \<and>
            \<not> excluded globs (relative_text root (we_path e))) es))"
proof (induction glob globs root count es rule: search_loop.induct)
  case (2 glob globs root count e es)
  show ?case
  proof (cases "count = search_limit")
    case False
    then have c: "Suc count \<le> search_limit" "search_limit - count = Suc (search_limit - Suc count)"
      using "2.prems" by auto
    then show ?thesis using "2.IH" "2.prems" False by (auto simp: Let_def)
  qed simp
qed simp

text \<open>The nodes of a tree, and that the budget bounds them.\<close>

fun tree_nodes :: "json \<Rightarrow> nat" where
  "tree_nodes (JObj m) = Suc (sum_list (map (\<lambda>e. tree_nodes (snd e)) m))"
| "tree_nodes (JArr cs) = sum_list (map tree_nodes cs)"
| "tree_nodes v = 0"

fun tree_depth :: "json \<Rightarrow> nat" where
  "tree_depth (JObj m) = Suc (Max (insert 0 (set (map (\<lambda>e. tree_depth (snd e)) m))))"
| "tree_depth (JArr cs) = Max (insert 0 (set (map tree_depth cs)))"
| "tree_depth v = 0"

lemma nodes_simps:
  "tree_nodes (obj [(''name'', JStr n), (''type'', JStr ''file'')]) = 1"
  "tree_nodes (truncated_json n) = 1"
  "tree_nodes (directory_json n cs) = Suc (sum_list (map tree_nodes cs))"
  by (simp_all add: obj_def truncated_json_def directory_json_def)

lemma depth_simps:
  "tree_depth (obj [(''name'', JStr n), (''type'', JStr ''file'')]) = 1"
  "tree_depth (truncated_json n) = 1"
  "tree_depth (directory_json n cs) = Suc (Max (insert 0 (set (map tree_depth cs))))"
  by (simp_all add: obj_def truncated_json_def directory_json_def)

text \<open>The invariant of the budget: the nodes that a call returns fit in what it adds to the counter.\<close>

definition in_budget :: "nat \<Rightarrow> nat \<times> nat \<Rightarrow> bool" where
  "in_budget n r = (n \<le> snd r \<and> fst r + min n max_tree_nodes \<le> min (snd r) max_tree_nodes)"

lemma tree_visit_budget:
  assumes "\<And>name m. m \<le> max_tree_nodes \<Longrightarrow>
      case on_dir name m of (v, m') \<Rightarrow> m \<le> m' \<and> tree_nodes v + m \<le> Suc (min m' max_tree_nodes)"
    and "tree_visit s globs root current n on_dir = (v, n')"
  shows "in_budget n (tree_nodes v, n')"
  using assms(2) assms(1) [of "Suc n" "lossy (unwrap_or [] (file_name current))"]
  by (auto simp: tree_visit_def Let_def in_budget_def nodes_simps split: if_splits sum.splits)

lemma tree_children_budget:
  assumes "\<And>p n v n'. build p n = (v, n') \<Longrightarrow> in_budget n (tree_nodes v, n')"
  shows "tree_children build current names n = (cs, n') \<Longrightarrow>
    in_budget n (sum_list (map tree_nodes cs), n')"
proof (induction names arbitrary: n cs n')
  case (Cons name names)
  show ?case
  proof (cases "skipped name")
    case False
    obtain v m where v: "build (join current [Normal name]) n = (v, m)"
      by (cases "build (join current [Normal name]) n")
    obtain ds m' where d: "tree_children build current names m = (ds, m')"
      by (cases "tree_children build current names m")
    have c: "cs = (if is_null v then ds else v # ds)" "n' = m'"
      using Cons.prems False v d by (auto split: prod.splits)
    have "sum_list (map tree_nodes cs) \<le> tree_nodes v + sum_list (map tree_nodes ds)"
      using c(1) by auto
    with assms [OF v] Cons.IH [OF d] c(2) show ?thesis by (auto simp: in_budget_def)
  qed (use Cons in auto)
qed (simp add: in_budget_def)

lemma build_tree_budget: "build_tree room s globs root current n = (v, n') \<Longrightarrow> in_budget n (tree_nodes v, n')"
proof (induction room arbitrary: current n v n')
  case 0
  then show ?case
    by (intro tree_visit_budget [OF _ 0 [simplified]]) (simp add: nodes_simps)
next
  case (Suc room)
  show ?case
  proof (rule tree_visit_budget [OF _ Suc.prems [simplified]])
    fix name m assume "m \<le> max_tree_nodes"
    show "case (case fs_read_dir s current of
            Inl e \<Rightarrow> (JNull, m)
          | Inr es \<Rightarrow> (case tree_children (build_tree room s globs root) current (map fst es) m of
              (kids, n') \<Rightarrow> (directory_json name kids, n'))) of
        (v, m') \<Rightarrow> m \<le> m' \<and> tree_nodes v + m \<le> Suc (min m' max_tree_nodes)"
    proof (cases "fs_read_dir s current")
      case (Inr es)
      obtain cs m' where c: "tree_children (build_tree room s globs root) current (map fst es) m = (cs, m')"
        by (cases "tree_children (build_tree room s globs root) current (map fst es) m")
      have "in_budget m (sum_list (map tree_nodes cs), m')"
        by (rule tree_children_budget [OF Suc.IH c])
      with \<open>m \<le> max_tree_nodes\<close> Inr c show ?thesis by (simp add: in_budget_def nodes_simps)
    qed (use \<open>m \<le> max_tree_nodes\<close> in simp)
  qed
qed

lemma tree_children_depth:
  assumes "\<And>p n. tree_depth (fst (build p n)) \<le> d"
  shows "tree_children build current names n = (cs, n') \<Longrightarrow> \<forall>c\<in>set cs. tree_depth c \<le> d"
proof (induction names arbitrary: n cs n')
  case (Cons name names)
  then show ?case
    using assms [of "join current [Normal name]" n]
    by (auto split: if_splits prod.splits)
qed simp

lemma build_tree_depth: "tree_depth (fst (build_tree room s globs root current n)) \<le> Suc room"
proof (induction room arbitrary: current n)
  case 0
  then show ?case
    by (auto simp: tree_visit_def Let_def depth_simps split: sum.split)
next
  case (Suc room)
  have "tree_depth (directory_json name cs) \<le> Suc (Suc room)"
    if "tree_children (build_tree room s globs root) current names m = (cs, m')" for name names m cs m'
    using tree_children_depth [OF Suc.IH that] by (auto simp: depth_simps)
  then show ?case
    by (auto simp: tree_visit_def Let_def depth_simps split: sum.split prod.split)
qed

end
