(* ===== verification/Dir_Properties.thy ===== *)
theory Dir_Properties
  imports Dirs File_Properties
begin

text \<open>The properties of the directory tools.\<close>

text \<open>
  C30: \<open>build_tree\<close>, called as \<open>directory_tree\<close> calls it, terminates on every tree, cyclic ones
  through links included, and its result has at most \<open>MAX_TREE_NODES\<close> nodes and at most
  \<open>MAX_TREE_DEPTH\<close> levels below the root.
\<close>

theorem directory_tree_bounded:
  "tree_nodes (fst (build_tree max_tree_depth s globs root root 0)) \<le> max_tree_nodes \<and>
   tree_depth (fst (build_tree max_tree_depth s globs root root 0)) \<le> Suc max_tree_depth"
proof -
  obtain v n where v: "build_tree max_tree_depth s globs root root 0 = (v, n)"
    by (cases "build_tree max_tree_depth s globs root root 0")
  from build_tree_budget [OF v] have "tree_nodes v \<le> max_tree_nodes"
    by (simp add: in_budget_def)
  with v build_tree_depth [of max_tree_depth s globs root root 0] show ?thesis by simp
qed

text \<open>
  C31: \<open>search_files\<close> returns the paths of the walked entries whose path relative to the root
  matches the pattern and no exclude pattern, in the order of the walk, cut off after
  \<open>SEARCH_LIMIT\<close> of them.
\<close>

theorem search_is_filter:
  "search_loop glob globs root 0 es =
     take search_limit
       (map (\<lambda>e. lossy (path_text (we_path e)))
         (filter (\<lambda>e. glob (relative_text root (we_path e)) \<and>
            \<not> excluded globs (relative_text root (we_path e))) es))"
  using search_loop_filter [of 0] by simp

lemma demo_stats:
  "fs_stat demo_os (abs_path [''srv'']) = Inr (DirNode [(''notes.txt'', FileNode hello),
     (''sub'', DirNode [(''a.txt'', FileNode [])]), (''out'', LinkNode (abs_path [''etc''])),
     (''gone'', LinkNode (abs_path [''etc'', ''new'']))])"
  "fs_stat demo_os (abs_path [''srv'', ''notes.txt'']) = Inr (FileNode hello)"
  "fs_stat demo_os (abs_path [''srv'', ''sub'']) = Inr (DirNode [(''a.txt'', FileNode [])])"
  "fs_stat demo_os (abs_path [''srv'', ''sub'', ''a.txt'']) = Inr (FileNode [])"
  "fs_stat demo_os (abs_path [''srv'', ''out'']) = Inr (DirNode [(''passwd'', FileNode [120])])"
  "fs_stat demo_os (abs_path [''srv'', ''out'', ''passwd'']) = Inr (FileNode [120])"
  "fs_stat demo_os (abs_path [''srv'', ''gone'']) = Inl NotFound"
  by code_simp+

lemma demo_dirs:
  "fs_read_dir demo_os (abs_path [''srv'']) =
     Inr [(''notes.txt'', FileNode hello), (''sub'', DirNode [(''a.txt'', FileNode [])]),
          (''out'', LinkNode (abs_path [''etc''])), (''gone'', LinkNode (abs_path [''etc'', ''new'']))]"
  "fs_read_dir demo_os (abs_path [''srv'', ''sub'']) = Inr [(''a.txt'', FileNode [])]"
  "fs_read_dir demo_os (abs_path [''srv'', ''out'']) = Inr [(''passwd'', FileNode [120])]"
  by code_simp+

lemma demo_skipped:
  "\<not> skipped ''notes.txt''" "\<not> skipped ''sub''" "\<not> skipped ''out''" "\<not> skipped ''gone''"
  "\<not> skipped ''a.txt''" "\<not> skipped ''passwd''"
  by code_simp+

lemma demo_names:
  "lossy ''srv'' = ''srv''" "lossy ''notes.txt'' = ''notes.txt''" "lossy ''sub'' = ''sub''"
  "lossy ''out'' = ''out''" "lossy ''gone'' = ''gone''" "lossy ''a.txt'' = ''a.txt''"
  "lossy ''passwd'' = ''passwd''"
  by code_simp+

lemma file_name_abs_path: "file_name (abs_path (ns @ [n])) = Some n"
  by simp

text \<open>
  \<open>directory_tree\<close> looks through symbolic links even when links are not to be followed: in
  the small world, whose configuration does not follow links, the tree of the allowed
  directory lists the file \<open>passwd\<close> of a directory outside of it.
\<close>

lemma directory_tree_follows_links:
  "follow_symlinks (server demo_config) = False \<and>
   fst (build_tree max_tree_depth demo_os [] (abs_path [''srv'']) (abs_path [''srv'']) 0) =
     directory_json ''srv''
       [obj [(''name'', JStr ''notes.txt''), (''type'', JStr ''file'')],
        directory_json ''sub'' [obj [(''name'', JStr ''a.txt''), (''type'', JStr ''file'')]],
        directory_json ''out'' [obj [(''name'', JStr ''passwd''), (''type'', JStr ''file'')]]]"
proof
  show "follow_symlinks (server demo_config) = False"
    by (simp add: demo_config_def config_new_def demo_server_def)
  have names: "file_name (abs_path [''srv'']) = Some ''srv''"
    "file_name (abs_path [''srv'', n]) = Some n" "file_name (abs_path [''srv'', m, n]) = Some n" for m n
    using file_name_abs_path [of "[]" "''srv''"] file_name_abs_path [of "[''srv'']" n]
      file_name_abs_path [of "[''srv'', m]" n] by simp_all
  have joins: "join (abs_path [''srv'']) [Normal n] = abs_path [''srv'', n]"
    "join (abs_path [''srv'', m]) [Normal n] = abs_path [''srv'', m, n]" for m n
    by (simp_all add: join_def abs_path_def)
  have nonnull: "is_null (obj m) = False" "is_null (directory_json n js) = False" for m n js
    by (simp_all add: obj_def directory_json_def)
  have "fst (build_tree (Suc (Suc (Suc room))) demo_os [] (abs_path [''srv'']) (abs_path [''srv'']) 0) =
     directory_json ''srv''
       [obj [(''name'', JStr ''notes.txt''), (''type'', JStr ''file'')],
        directory_json ''sub'' [obj [(''name'', JStr ''a.txt''), (''type'', JStr ''file'')]],
        directory_json ''out'' [obj [(''name'', JStr ''passwd''), (''type'', JStr ''file'')]]]" for room
    by (simp add: tree_visit_def excluded_def max_tree_nodes_def demo_stats demo_dirs demo_skipped
        demo_names names joins nonnull Let_def)
  from this [of 61] show "fst (build_tree max_tree_depth demo_os [] (abs_path [''srv'']) (abs_path [''srv'']) 0) =
     directory_json ''srv''
       [obj [(''name'', JStr ''notes.txt''), (''type'', JStr ''file'')],
        directory_json ''sub'' [obj [(''name'', JStr ''a.txt''), (''type'', JStr ''file'')]],
        directory_json ''out'' [obj [(''name'', JStr ''passwd''), (''type'', JStr ''file'')]]]"
    by (simp add: max_tree_depth_def)
qed

end
