(* ===== verification/Csv.thy ===== *)
theory Csv
  imports Files
begin

text \<open>
  The handlers of \<open>src/actions/csv.rs\<close>. The crate \<open>csv\<close> is the parameter \<open>csv_lib\<close>: the header
  record and the records of a text, the bytes of a record given the number of fields of the
  first record of the file (a writer that is not flexible refuses a record of another length),
  and the text of an I/O error. A writer that is dropped flushes what it has written. An index
  or a slice out of range panics: such a step returns an option.
\<close>

record csv_lib =
  csv_header :: "u8 list \<Rightarrow> string + string list"
  csv_records :: "u8 list \<Rightarrow> (string + string list) list"
  csv_record_bytes :: "nat option \<Rightarrow> string list \<Rightarrow> string + u8 list"
  csv_io_text :: "io_error \<Rightarrow> string"

record csv_data =
  headers :: "string list"
  column_map :: "string \<Rightarrow> nat option"
  rows :: "string list list"

section \<open>Reading and writing files\<close>

text \<open>\<open>headers.iter().enumerate().collect()\<close>: of equal names the last one counts.\<close>

fun index_columns :: "nat \<Rightarrow> string list \<Rightarrow> (string \<Rightarrow> nat option) \<Rightarrow> (string \<Rightarrow> nat option)" where
  "index_columns i [] m = m"
| "index_columns i (h # hs) m = index_columns (i + 1) hs (m(h \<mapsto> i))"

definition columns_of :: "string list \<Rightarrow> (string \<Rightarrow> nat option)" where
  "columns_of hs = index_columns 0 hs Map.empty"

definition parse_csv :: "csv_lib \<Rightarrow> u8 list \<Rightarrow> string + csv_data" where
  "parse_csv lib bs =
     and_then (map_err (\<lambda>e. ''Cannot read CSV headers: '' @ e) (csv_header lib bs)) (\<lambda>hs.
     and_then (collect_results (map_err (\<lambda>e. ''Cannot read CSV record: '' @ e)) (csv_records lib bs)) (\<lambda>rs.
     Inr \<lparr>headers = hs, column_map = columns_of hs, rows = rs\<rparr>))"

definition csv_mmap_threshold :: nat where
  "csv_mmap_threshold = 256 * 1024"

definition read_csv :: "'d runtime \<Rightarrow> csv_lib \<Rightarrow> path \<Rightarrow> nat \<Rightarrow> os \<Rightarrow> string + csv_data" where
  "read_csv rt lib p max_size s =
     and_then (fs_open s p ''open CSV'') (\<lambda>n.
     let file_size = node_len s n in
     if file_size > max_size then
       Inl (''CSV file size '' @ show_nat file_size @ '' exceeds maximum allowed size ''
            @ show_nat max_size)
     else if file_size < csv_mmap_threshold then
       and_then (map_err (cannot ''read CSV'') (fs_read s p)) (parse_csv lib)
     else and_then (map_err (cannot ''mmap CSV'') (mmap rt n)) (parse_csv lib))"

definition read_csv_file :: "'d runtime \<Rightarrow> csv_lib \<Rightarrow> path \<Rightarrow> nat \<Rightarrow> ('d, csv_data) action" where
  "read_csv_file rt lib p max_size = blocking_read rt ''CSV read'' (read_csv rt lib p max_size)"

text \<open>The rows written before the first error, and the error.\<close>

fun row_bytes :: "csv_lib \<Rightarrow> nat \<Rightarrow> string list list \<Rightarrow> (string + unit) \<times> u8 list" where
  "row_bytes lib n [] = (Inr (), [])"
| "row_bytes lib n (r # rs) =
     (case csv_record_bytes lib (Some n) r of
        Inl e \<Rightarrow> (Inl (''Cannot write row: '' @ e), [])
      | Inr bs \<Rightarrow> (case row_bytes lib n rs of (res, rest) \<Rightarrow> (res, bs @ rest)))"

definition csv_bytes :: "csv_lib \<Rightarrow> string list \<Rightarrow> string list list \<Rightarrow> (string + unit) \<times> u8 list" where
  "csv_bytes lib hs rs =
     (case csv_record_bytes lib None hs of
        Inl e \<Rightarrow> (Inl (''Cannot write headers: '' @ e), [])
      | Inr bs \<Rightarrow> (case row_bytes lib (length hs) rs of (res, rest) \<Rightarrow> (res, bs @ rest)))"

definition write_csv ::
    "csv_lib \<Rightarrow> path \<Rightarrow> string list \<Rightarrow> string list list \<Rightarrow> os \<Rightarrow> (string + unit) \<times> os" where
  "write_csv lib p hs rs s =
     (case fs_create s p of
        (Inl e, s1) \<Rightarrow> (Inl (''Cannot create CSV writer: '' @ csv_io_text lib e), s1)
      | (Inr l, s1) \<Rightarrow>
          (case csv_bytes lib hs rs of (res, bs) \<Rightarrow> (res, fs_write_loc s1 l bs)))"

definition write_csv_as ::
    "'d runtime \<Rightarrow> csv_lib \<Rightarrow> string \<Rightarrow> path \<Rightarrow> string list \<Rightarrow> string list list \<Rightarrow> ('d, unit) action" where
  "write_csv_as rt lib label p hs rs =
     run_blocking rt label (\<lambda>s. case write_csv lib p hs rs s of (r, s') \<Rightarrow> (Some r, s'))"

definition write_csv_file :: "'d runtime \<Rightarrow> csv_lib \<Rightarrow> path \<Rightarrow> csv_data \<Rightarrow> ('d, unit) action" where
  "write_csv_file rt lib p d = write_csv_as rt lib ''CSV write'' p (headers d) (rows d)"

section \<open>Columns and cells\<close>

definition find_column :: "csv_data \<Rightarrow> string \<Rightarrow> nat result" where
  "find_column d name =
     ok_or (InvalidParams (''Column not found: '' @ quoted name @ ''. Available: ''
             @ str_join '', '' (headers d)))
       (column_map d name)"

definition resolve_column :: "csv_data \<Rightarrow> json option \<Rightarrow> nat result" where
  "resolve_column d args =
     (case get_opt_str args ''column'' of
        Some name \<Rightarrow> find_column d name
      | None \<Rightarrow>
          (case get_opt_u64 args ''columnIndex'' of
             Some idx \<Rightarrow>
               if idx \<ge> length (headers d) then
                 Inl (InvalidParams (''Column index '' @ show_nat idx @ '' out of range (0..''
                        @ show_nat (length (headers d)) @ '')''))
               else Inr idx
           | None \<Rightarrow>
               Inl (InvalidParams (''Missing required: specify '' @ quoted ''column''
                      @ '' (name) or '' @ quoted ''columnIndex'' @ '' (number)''))))"

text \<open>Indexing, assignment, removal and slicing, which may panic.\<close>

definition index :: "'a list \<Rightarrow> nat \<Rightarrow> 'a option" where
  "index xs i = (if i < length xs then Some (xs ! i) else None)"

definition assign :: "'a list \<Rightarrow> nat \<Rightarrow> 'a \<Rightarrow> 'a list option" where
  "assign xs i v = (if i < length xs then Some (xs[i := v]) else None)"

definition remove_index :: "'a list \<Rightarrow> nat \<Rightarrow> ('a \<times> 'a list) option" where
  "remove_index xs i =
     (if i < length xs then Some (xs ! i, take i xs @ drop (Suc i) xs) else None)"

definition slice_of :: "'a list \<Rightarrow> nat \<Rightarrow> nat \<Rightarrow> 'a list option" where
  "slice_of xs a b = (if a \<le> b \<and> b \<le> length xs then Some (take (b - a) (drop a xs)) else None)"

definition cell :: "string list \<Rightarrow> nat \<Rightarrow> string" where
  \<comment> \<open>\<open>row.get(i).cloned().unwrap_or_default()\<close>\<close>
  "cell row i = unwrap_or [] (index row i)"

text \<open>\<open>Vec::resize(n, String::new())\<close>.\<close>

definition resize :: "nat \<Rightarrow> string list \<Rightarrow> string list" where
  "resize n row = take n row @ replicate (n - length row) []"

definition row_required :: "json option \<Rightarrow> nat result" where
  "row_required args =
     ok_or (InvalidParams (''Missing required: '' @ quoted ''row'')) (get_opt_u64 args ''row'')"

definition row_out_of_range :: "nat \<Rightarrow> csv_data \<Rightarrow> mcs_error" where
  "row_out_of_range i d =
     InvalidParams (''Row index '' @ show_nat i @ '' out of range. File has ''
       @ show_nat (length (rows d)) @ '' data rows (0..'' @ show_nat (length (rows d) - 1) @ '')'')"

section \<open>Edits\<close>

text \<open>
  An edit of a table returns the new table and what the report says of it; \<open>None\<close> is a panic.
  All tools that edit share the frame \<open>csv_edit\<close>: path, check, read, edit, write, report.
\<close>

type_synonym csv_edit_result = "(csv_data \<times> json_map) result option"

fun fill_row :: "(json \<Rightarrow> string) \<Rightarrow> csv_data \<Rightarrow> json_map \<Rightarrow> string list \<Rightarrow> string list result option" where
  "fill_row jt d [] row = Some (Inr row)"
| "fill_row jt d ((key, val) # m) row =
     (case find_column d key of
        Inl e \<Rightarrow> Some (Inl e)
      | Inr i \<Rightarrow>
          (case assign row i (val_as_string jt val) of
             None \<Rightarrow> None
           | Some row' \<Rightarrow> fill_row jt d m row'))"

definition row_of_item :: "(json \<Rightarrow> string) \<Rightarrow> csv_data \<Rightarrow> nat \<Rightarrow> json \<Rightarrow> string list result option" where
  "row_of_item jt d i item =
     (case as_object item of
        Some m \<Rightarrow> fill_row jt d m (replicate (length (headers d)) [])
      | None \<Rightarrow>
          (case as_array item of
             Some vs \<Rightarrow>
               (let row = map (val_as_string jt) vs in
                if length row \<noteq> length (headers d) then
                  Some (Inl (InvalidParams (''Row '' @ show_nat i @ '' has '' @ show_nat (length row)
                     @ '' values, expected '' @ show_nat (length (headers d)))))
                else Some (Inr row))
           | None \<Rightarrow> Some (Inl (InvalidParams (''Row '' @ show_nat i @ '' must be an object or array'')))))"

fun add_rows_loop :: "(json \<Rightarrow> string) \<Rightarrow> csv_data \<Rightarrow> nat \<Rightarrow> json list \<Rightarrow> csv_data result option" where
  "add_rows_loop jt d i [] = Some (Inr d)"
| "add_rows_loop jt d i (item # items) =
     (case row_of_item jt d i item of
        None \<Rightarrow> None
      | Some (Inl e) \<Rightarrow> Some (Inl e)
      | Some (Inr row) \<Rightarrow> add_rows_loop jt (d\<lparr>rows := rows d @ [row]\<rparr>) (i + 1) items)"

definition add_rows_from_args ::
    "(json \<Rightarrow> string) \<Rightarrow> json option \<Rightarrow> csv_data \<Rightarrow> (csv_data \<times> nat) result option" where
  "add_rows_from_args jt args d =
     (case arg args ''rows'' of
        None \<Rightarrow> Some (Inl (InvalidParams (''Missing required: '' @ quoted ''rows'')))
      | Some v \<Rightarrow>
          (case as_array v of
             None \<Rightarrow> Some (Inl (InvalidParams (quoted ''rows'' @ '' must be an array'')))
           | Some items \<Rightarrow>
               if items = [] then
                 Some (Inl (InvalidParams (quoted ''rows'' @ '' must be a non-empty array'')))
               else map_option (map_ok (\<lambda>d'. (d', length items))) (add_rows_loop jt d 0 items)))"

definition add_row_edit :: "(json \<Rightarrow> string) \<Rightarrow> json option \<Rightarrow> csv_data \<Rightarrow> csv_edit_result" where
  "add_row_edit jt args d =
     map_option (map_ok (\<lambda>(d', added).
         (d', [(''rowsAdded'', jnat added), (''totalRows'', jnat (length (rows d')))])))
       (add_rows_from_args jt args d)"

definition update_cell_at :: "csv_data \<Rightarrow> nat \<Rightarrow> nat \<Rightarrow> string \<Rightarrow> (csv_data \<times> string) option" where
  "update_cell_at d row_idx col_idx value =
     Option.bind (index (headers d) col_idx) (\<lambda>column_name.
     Option.bind (index (rows d) row_idx) (\<lambda>row.
     let row1 = (if col_idx \<ge> length row then resize (max (length (headers d)) (col_idx + 1)) row
                 else row) in
     Option.bind (assign row1 col_idx value) (\<lambda>row2.
     map_option (\<lambda>rs. (d\<lparr>rows := rs\<rparr>, column_name)) (assign (rows d) row_idx row2))))"

definition update_cell_edit :: "json option \<Rightarrow> csv_data \<Rightarrow> csv_edit_result" where
  "update_cell_edit args d =
     (case and_then (row_required args) (\<lambda>row_idx.
           and_then (get_str_arg args ''value'') (\<lambda>value.
           and_then (resolve_column d args) (\<lambda>col_idx. Inr (row_idx, value, col_idx)))) of
        Inl e \<Rightarrow> Some (Inl e)
      | Inr (row_idx, value, col_idx) \<Rightarrow>
          if row_idx \<ge> length (rows d) then Some (Inl (row_out_of_range row_idx d))
          else
            map_option (\<lambda>(d', column_name). Inr (d',
                [(''row'', jnat row_idx), (''column'', JStr column_name), (''value'', JStr value)]))
              (update_cell_at d row_idx col_idx value))"

definition remove_row_edit :: "json option \<Rightarrow> csv_data \<Rightarrow> csv_edit_result" where
  "remove_row_edit args d =
     (case row_required args of
        Inl e \<Rightarrow> Some (Inl e)
      | Inr row_idx \<Rightarrow>
          if row_idx \<ge> length (rows d) then Some (Inl (row_out_of_range row_idx d))
          else
            map_option (\<lambda>(r, rs). Inr (d\<lparr>rows := rs\<rparr>,
                [(''removedRowIndex'', jnat row_idx), (''totalRows'', jnat (length rs))]))
              (remove_index (rows d) row_idx))"

definition add_column :: "string \<Rightarrow> string \<Rightarrow> csv_data \<Rightarrow> csv_data" where
  "add_column column default_val d =
     d\<lparr>headers := headers d @ [column],
       column_map := (column_map d)(column \<mapsto> length (headers d)),
       rows := map (\<lambda>row. row @ [default_val]) (rows d)\<rparr>"

definition add_column_edit :: "json option \<Rightarrow> csv_data \<Rightarrow> csv_edit_result" where
  "add_column_edit args d =
     (case get_str_arg args ''column'' of
        Inl e \<Rightarrow> Some (Inl e)
      | Inr column \<Rightarrow>
          if column_map d column \<noteq> None then
            Some (Inl (InvalidParams (''Column already exists: '' @ quoted column)))
          else
            (let default_val = unwrap_or [] (get_opt_str args ''defaultValue'') in
             Some (Inr (add_column column default_val d,
               [(''column'', JStr column), (''defaultValue'', JStr default_val),
                (''totalRows'', jnat (length (rows d)))]))))"

definition remove_column :: "nat \<Rightarrow> csv_data \<Rightarrow> (string \<times> csv_data) option" where
  "remove_column col_idx d =
     map_option (\<lambda>(col_name, hs). (col_name,
         d\<lparr>headers := hs, column_map := columns_of hs,
           rows := map (\<lambda>row. if col_idx < length row
                             then take col_idx row @ drop (Suc col_idx) row else row) (rows d)\<rparr>))
       (remove_index (headers d) col_idx)"

definition remove_column_edit :: "json option \<Rightarrow> csv_data \<Rightarrow> csv_edit_result" where
  "remove_column_edit args d =
     (case resolve_column d args of
        Inl e \<Rightarrow> Some (Inl e)
      | Inr col_idx \<Rightarrow>
          map_option (\<lambda>(col_name, d'). Inr (d',
              [(''removedColumn'', JStr col_name), (''totalColumns'', jnat (length (headers d')))]))
            (remove_column col_idx d))"

definition rename_column :: "string \<Rightarrow> string \<Rightarrow> csv_data \<Rightarrow> csv_data option" where
  "rename_column old_name new_name d =
     Option.bind (column_map d old_name) (\<lambda>old_idx.
     map_option (\<lambda>hs. d\<lparr>headers := hs,
         column_map := ((column_map d)(old_name := None))(new_name \<mapsto> old_idx)\<rparr>)
       (assign (headers d) old_idx new_name))"

definition rename_column_edit :: "json option \<Rightarrow> csv_data \<Rightarrow> csv_edit_result" where
  "rename_column_edit args d =
     (case and_then (get_str_arg args ''oldName'') (\<lambda>old_name.
           and_then (get_str_arg args ''newName'') (\<lambda>new_name. Inr (old_name, new_name))) of
        Inl e \<Rightarrow> Some (Inl e)
      | Inr (old_name, new_name) \<Rightarrow>
          if column_map d old_name = None then
            Some (Inl (InvalidParams (''Column not found: '' @ quoted old_name)))
          else if column_map d new_name \<noteq> None \<and> old_name \<noteq> new_name then
            Some (Inl (InvalidParams (''Target column name already exists: '' @ quoted new_name)))
          else
            map_option (\<lambda>d'. Inr (d', [(''oldName'', JStr old_name), (''newName'', JStr new_name)]))
              (rename_column old_name new_name d))"

definition lift_opt :: "'a result option \<Rightarrow> ('d, 'a) action" where
  "lift_opt r = (case r of None \<Rightarrow> panicked | Some v \<Rightarrow> lift v)"

definition csv_edit ::
    "'d runtime \<Rightarrow> csv_lib \<Rightarrow> config \<Rightarrow> json option \<Rightarrow> (csv_data \<Rightarrow> csv_edit_result) \<Rightarrow> ('d, json) action" where
  "csv_edit rt lib cfg args edit =
     then_do (lift (get_str_arg args ''path'')) (\<lambda>p.
     then_do (resolve_path_now rt cfg p) (\<lambda>valid_path.
     then_do (read_csv_file rt lib valid_path (max_file_size cfg)) (\<lambda>d.
     then_do (lift_opt (edit d)) (\<lambda>(d', report).
     then_do (write_csv_file rt lib valid_path d') (\<lambda>u.
     give (obj ([(''success'', JBool True), (''path'', jpath valid_path)] @ report)))))))"

definition csv_add_row ::
    "'d runtime \<Rightarrow> csv_lib \<Rightarrow> (json \<Rightarrow> string) \<Rightarrow> config \<Rightarrow> json option \<Rightarrow> ('d, json) action" where
  "csv_add_row rt lib jt cfg args = csv_edit rt lib cfg args (add_row_edit jt args)"

definition csv_update_cell :: "'d runtime \<Rightarrow> csv_lib \<Rightarrow> config \<Rightarrow> json option \<Rightarrow> ('d, json) action" where
  "csv_update_cell rt lib cfg args = csv_edit rt lib cfg args (update_cell_edit args)"

definition csv_remove_row :: "'d runtime \<Rightarrow> csv_lib \<Rightarrow> config \<Rightarrow> json option \<Rightarrow> ('d, json) action" where
  "csv_remove_row rt lib cfg args = csv_edit rt lib cfg args (remove_row_edit args)"

definition csv_add_column :: "'d runtime \<Rightarrow> csv_lib \<Rightarrow> config \<Rightarrow> json option \<Rightarrow> ('d, json) action" where
  "csv_add_column rt lib cfg args = csv_edit rt lib cfg args (add_column_edit args)"

definition csv_remove_column :: "'d runtime \<Rightarrow> csv_lib \<Rightarrow> config \<Rightarrow> json option \<Rightarrow> ('d, json) action" where
  "csv_remove_column rt lib cfg args = csv_edit rt lib cfg args (remove_column_edit args)"

definition csv_rename_column :: "'d runtime \<Rightarrow> csv_lib \<Rightarrow> config \<Rightarrow> json option \<Rightarrow> ('d, json) action" where
  "csv_rename_column rt lib cfg args = csv_edit rt lib cfg args (rename_column_edit args)"

section \<open>Creating and reading\<close>

fun check_rows :: "nat \<Rightarrow> nat \<Rightarrow> string list list \<Rightarrow> unit result" where
  "check_rows n i [] = Inr ()"
| "check_rows n i (row # rs) =
     (if length row \<noteq> n then
        Inl (InvalidParams (''Row '' @ show_nat i @ '' has '' @ show_nat (length row)
           @ '' values, expected '' @ show_nat n))
      else check_rows n (i + 1) rs)"

definition jtable :: "string list list \<Rightarrow> json" where
  "jtable rs = JArr (map jstrs rs)"

definition csv_create ::
    "'d runtime \<Rightarrow> csv_lib \<Rightarrow> (json \<Rightarrow> string) \<Rightarrow> config \<Rightarrow> json option \<Rightarrow> ('d, json) action" where
  "csv_create rt lib jt cfg args =
     then_do (lift (get_str_arg args ''path'')) (\<lambda>p.
     then_do (resolve_destination_now rt cfg p) (\<lambda>valid_path.
     then_do (query (\<lambda>s.
       if path_exists s valid_path \<and> \<not> unwrap_or False (get_opt_bool args ''overwrite'') then
         Inl (FilesystemError (''File already exists: '' @ p @ ''. Set '' @ quoted ''overwrite''
                @ '': true to replace.''))
       else Inr ())) (\<lambda>u.
     then_do (lift (get_str_array args ''headers'')) (\<lambda>hs.
     if hs = [] then failed (InvalidParams (quoted ''headers'' @ '' must be a non-empty array''))
     else
       (let rs = unwrap_or [] (get_opt_str_array_of_arrays jt args ''rows'') in
        then_do (lift (check_rows (length hs) 0 rs)) (\<lambda>u.
        then_do (write_csv_as rt lib ''CSV'' valid_path hs rs) (\<lambda>u.
        give (obj [(''success'', JBool True), (''path'', jpath valid_path), (''headers'', jstrs hs),
                   (''rowsCreated'', jnat (length rs))]))))))))"

text \<open>The rows of a page, \<open>rows[start..end]\<close> as \<open>csv_read\<close> computes its bounds.\<close>

definition csv_page :: "csv_data \<Rightarrow> nat \<Rightarrow> nat \<Rightarrow> string list list option" where
  "csv_page d offset limit =
     slice_of (rows d) (min offset (length (rows d))) (min (sat_add offset limit) (length (rows d)))"

definition read_limit :: "json option \<Rightarrow> nat" where
  "read_limit args = min (unwrap_or u64_max (get_opt_u64 args ''limit'')) 10000"

definition csv_read_report :: "json option \<Rightarrow> csv_data \<Rightarrow> (string list \<times> string list list) result option" where
  "csv_read_report args d =
     (let offset = unwrap_or 0 (get_opt_u64 args ''offset'') in
      case get_opt_str_array args ''columns'' of
        Some cols \<Rightarrow>
          (case collect_results (find_column d) cols of
             Inl e \<Rightarrow> Some (Inl e)
           | Inr idxs \<Rightarrow>
               map_option (\<lambda>page. Inr (cols, map (\<lambda>row. map (cell row) idxs) page))
                 (csv_page d offset (read_limit args)))
      | None \<Rightarrow> map_option (\<lambda>page. Inr (headers d, page)) (csv_page d offset (read_limit args)))"

definition csv_read :: "'d runtime \<Rightarrow> csv_lib \<Rightarrow> config \<Rightarrow> json option \<Rightarrow> ('d, json) action" where
  "csv_read rt lib cfg args =
     then_do (lift (get_str_arg args ''path'')) (\<lambda>p.
     then_do (resolve_path_now rt cfg p) (\<lambda>valid_path.
     then_do (read_csv_file rt lib valid_path (max_file_size cfg)) (\<lambda>d.
     then_do (lift_opt (csv_read_report args d)) (\<lambda>(cols, page).
     give (obj [(''success'', JBool True), (''path'', jpath valid_path), (''headers'', jstrs cols),
                (''rows'', jtable page), (''totalRows'', jnat (length (rows d))),
                (''offset'', jnat (unwrap_or 0 (get_opt_u64 args ''offset''))),
                (''returnedRows'', jnat (length page))])))))"

definition check_range :: "nat \<Rightarrow> nat \<Rightarrow> nat option \<Rightarrow> unit result" where
  "check_range largest start end_opt =
     (case end_opt of
        None \<Rightarrow> Inr ()
      | Some e \<Rightarrow>
          if e < start then
            Inl (InvalidParams (''end ('' @ show_nat e @ '') must be >= start ('' @ show_nat start @ '')''))
          else if e - start > largest then
            Inl (InvalidParams (''Range too large: '' @ show_nat e @ '' - '' @ show_nat start @ '' = ''
                   @ show_nat (e - start) @ '' exceeds maximum of '' @ show_nat largest @ '' rows''))
          else Inr ())"

text \<open>\<open>rows.iter().skip(start).take(..)\<close>; without an end the caller's default is taken.\<close>

definition row_window :: "nat \<Rightarrow> nat option \<Rightarrow> nat \<Rightarrow> 'a list \<Rightarrow> 'a list" where
  "row_window start end_opt default_len rs =
     take (case end_opt of Some e \<Rightarrow> e - start | None \<Rightarrow> default_len) (drop start rs)"

definition csv_read_column_values_range ::
    "'d runtime \<Rightarrow> csv_lib \<Rightarrow> config \<Rightarrow> json option \<Rightarrow> ('d, json) action" where
  "csv_read_column_values_range rt lib cfg args =
     then_do (lift (get_str_arg args ''path'')) (\<lambda>p.
     then_do (resolve_path_now rt cfg p) (\<lambda>valid_path.
     then_do (lift (get_str_arg args ''column'')) (\<lambda>column.
     let start = unwrap_or 0 (get_opt_u64 args ''start''); end_opt = get_opt_u64 args ''end'' in
     then_do (lift (check_range 1000 start end_opt)) (\<lambda>u.
     then_do (read_csv_file rt lib valid_path (max_file_size cfg)) (\<lambda>d.
     then_do (lift (find_column d column)) (\<lambda>col_idx.
     let values = map (\<lambda>row. cell row col_idx) (row_window start end_opt u64_max (rows d)) in
     give (obj [(''success'', JBool True), (''path'', jpath valid_path), (''column'', JStr column),
                (''values'', jstrs values), (''start'', jnat start),
                (''end'', jnat (start + length values)), (''totalRows'', jnat (length (rows d)))])))))))"

definition csv_read_row_range :: "'d runtime \<Rightarrow> csv_lib \<Rightarrow> config \<Rightarrow> json option \<Rightarrow> ('d, json) action" where
  "csv_read_row_range rt lib cfg args =
     then_do (lift (get_str_arg args ''path'')) (\<lambda>p.
     then_do (resolve_path_now rt cfg p) (\<lambda>valid_path.
     let start = unwrap_or 0 (get_opt_u64 args ''start''); end_opt = get_opt_u64 args ''end'' in
     then_do (lift (check_range 100 start end_opt)) (\<lambda>u.
     then_do (read_csv_file rt lib valid_path (max_file_size cfg)) (\<lambda>d.
     let rs = row_window start end_opt 1 (rows d) in
     give (obj [(''success'', JBool True), (''path'', jpath valid_path), (''headers'', jstrs (headers d)),
                (''rows'', jtable rs), (''start'', jnat start), (''end'', jnat (start + length rs)),
                (''totalRows'', jnat (length (rows d)))])))))"

definition csv_select_column_range ::
    "'d runtime \<Rightarrow> csv_lib \<Rightarrow> config \<Rightarrow> json option \<Rightarrow> ('d, json) action" where
  "csv_select_column_range rt lib cfg args =
     then_do (lift (get_str_arg args ''path'')) (\<lambda>p.
     then_do (resolve_path_now rt cfg p) (\<lambda>valid_path.
     then_do (lift (get_str_array args ''columns'')) (\<lambda>columns.
     let start = unwrap_or 0 (get_opt_u64 args ''start''); end_opt = get_opt_u64 args ''end'' in
     if columns = [] then failed (InvalidParams (quoted ''columns'' @ '' must be a non-empty array''))
     else
       then_do (lift (check_range 100 start end_opt)) (\<lambda>u.
       then_do (read_csv_file rt lib valid_path (max_file_size cfg)) (\<lambda>d.
       then_do (lift (collect_results (find_column d) columns)) (\<lambda>idxs.
       let rs = map (\<lambda>row. map (cell row) idxs) (row_window start end_opt u64_max (rows d)) in
       give (obj [(''success'', JBool True), (''path'', jpath valid_path), (''columns'', jstrs columns),
                  (''rows'', jtable rs), (''start'', jnat start), (''end'', jnat (start + length rs)),
                  (''totalRows'', jnat (length (rows d)))])))))))"

end
