(* ===== verification/Csv_Properties.thy ===== *)
theory Csv_Properties
  imports Csv File_Properties
begin

text \<open>Facts on the CSV tables and the properties of the CSV tools.\<close>

section \<open>The invariant of a table\<close>

text \<open>The column map points at columns of that name.\<close>

definition csv_ok :: "csv_data \<Rightarrow> bool" where
  "csv_ok d = (\<forall>n i. column_map d n = Some i \<longrightarrow> i < length (headers d) \<and> headers d ! i = n)"

definition rectangular :: "csv_data \<Rightarrow> bool" where
  "rectangular d = (\<forall>row\<in>set (rows d). length row = length (headers d))"

lemma index_columns_Some:
  "index_columns i hs m n = Some j \<Longrightarrow>
     (i \<le> j \<and> j < i + length hs \<and> hs ! (j - i) = n) \<or> m n = Some j"
proof (induction i hs m rule: index_columns.induct)
  case (2 i h hs m)
  then have "index_columns (i + 1) hs (m(h \<mapsto> i)) n = Some j" by simp
  from "2.IH" [OF this] show ?case
  proof
    assume "i + 1 \<le> j \<and> j < i + 1 + length hs \<and> hs ! (j - (i + 1)) = n"
    then show ?thesis by (auto simp: nth_Cons')
  next
    assume "(m(h \<mapsto> i)) n = Some j"
    then show ?thesis by (auto split: if_splits)
  qed
qed simp

lemma columns_of_ok: "columns_of hs n = Some i \<Longrightarrow> i < length hs \<and> hs ! i = n"
  using index_columns_Some [of 0 hs Map.empty n i] by (simp add: columns_of_def)

lemma parse_csv_ok: "parse_csv lib bs = Inr d \<Longrightarrow> csv_ok d"
  by (auto simp: parse_csv_def result_simps csv_ok_def dest: columns_of_ok)

lemma find_column_ok: "csv_ok d \<Longrightarrow> find_column d n = Inr i \<Longrightarrow> i < length (headers d)"
  by (auto simp: find_column_def result_simps csv_ok_def)

lemma resolve_column_ok: "csv_ok d \<Longrightarrow> resolve_column d args = Inr i \<Longrightarrow> i < length (headers d)"
  by (auto simp: resolve_column_def split: option.splits if_splits dest: find_column_ok)

lemma column_map_inj: "csv_ok d \<Longrightarrow> column_map d m = Some i \<Longrightarrow> column_map d n = Some i \<Longrightarrow> m = n"
  unfolding csv_ok_def by metis

lemma fill_row_ok:
  "csv_ok d \<Longrightarrow> length row = length (headers d) \<Longrightarrow>
    \<exists>r. fill_row jt d m row = Some r \<and> (\<forall>row'. r = Inr row' \<longrightarrow> length row' = length (headers d))"
proof (induction jt d m row rule: fill_row.induct)
  case (2 jt d key val m row)
  show ?case
  proof (cases "find_column d key")
    case (Inr i)
    then have i: "assign row i (val_as_string jt val) = Some (row[i := val_as_string jt val])"
      using find_column_ok [OF "2.prems"(1) Inr] "2.prems"(2) by (simp add: assign_def)
    from "2.IH" [OF Inr i] "2.prems" Inr i show ?thesis by simp
  qed simp
qed simp

lemma row_of_item_ok:
  assumes "csv_ok d"
  shows "\<exists>r. row_of_item jt d i item = Some r \<and> (\<forall>row. r = Inr row \<longrightarrow> length row = length (headers d))"
  using fill_row_ok [OF assms, of "replicate (length (headers d)) []" jt]
  by (auto simp: row_of_item_def Let_def split: option.splits)

lemma add_rows_loop_ok:
  "csv_ok d \<Longrightarrow> \<exists>r. add_rows_loop jt d i items = Some r \<and> (\<forall>d'. r = Inr d' \<longrightarrow>
     headers d' = headers d \<and> column_map d' = column_map d \<and>
     (\<exists>new. rows d' = rows d @ new \<and> length new = length items \<and> (\<forall>row\<in>set new. length row = length (headers d))))"
proof (induction jt d i items rule: add_rows_loop.induct)
  case (2 jt d i item items)
  from row_of_item_ok [OF "2.prems"] obtain r where
    r: "row_of_item jt d i item = Some r" "\<And>row. r = Inr row \<Longrightarrow> length row = length (headers d)" by blast
  show ?case
  proof (cases r)
    case (Inr row)
    have ok: "csv_ok (d\<lparr>rows := rows d @ [row]\<rparr>)" using "2.prems" by (simp add: csv_ok_def)
    from "2.IH" [OF r(1) Inr ok] obtain r' where
      r': "add_rows_loop jt (d\<lparr>rows := rows d @ [row]\<rparr>) (i + 1) items = Some r'"
      "\<And>d'. r' = Inr d' \<Longrightarrow> headers d' = headers d \<and> column_map d' = column_map d \<and>
        (\<exists>new. rows d' = (rows d @ [row]) @ new \<and> length new = length items \<and>
          (\<forall>row\<in>set new. length row = length (headers d)))" by auto
    have "\<exists>new. rows d' = rows d @ new \<and> length new = length (item # items) \<and>
        (\<forall>row\<in>set new. length row = length (headers d))" if d': "r' = Inr d'" for d'
    proof -
      from r'(2) [OF d'] obtain new where "rows d' = (rows d @ [row]) @ new" "length new = length items"
        "\<forall>row\<in>set new. length row = length (headers d)" by blast
      with r(2) [OF Inr] show ?thesis by (intro exI [of _ "row # new"]) simp
    qed
    then have rows': "\<forall>d'. r' = Inr d' \<longrightarrow> headers d' = headers d \<and> column_map d' = column_map d \<and>
        (\<exists>new. rows d' = rows d @ new \<and> length new = length (item # items) \<and>
          (\<forall>row\<in>set new. length row = length (headers d)))"
      using r'(2) by blast
    have "add_rows_loop jt d i (item # items) = Some r'" using r(1) Inr r'(1) by simp
    with rows' show ?thesis by blast
  next
    case (Inl e)
    then show ?thesis using r(1) by simp
  qed
qed simp

section \<open>The edits\<close>

text \<open>An edit that does not panic, and keeps the column map right and a table rectangular.\<close>

definition good_edit :: "(csv_data \<Rightarrow> csv_edit_result) \<Rightarrow> csv_data \<Rightarrow> bool" where
  "good_edit edit d =
     (\<exists>r. edit d = Some r \<and> (\<forall>d' rep. r = Inr (d', rep) \<longrightarrow> csv_ok d' \<and>
        (rectangular d \<longrightarrow> rectangular d')))"

lemma add_row_edit_good:
  assumes "csv_ok d"
  shows "good_edit (add_row_edit jt args) d"
proof (cases "\<exists>items. arg args ''rows'' = Some (JArr items) \<and> items \<noteq> []")
  case True
  then obtain items where i: "arg args ''rows'' = Some (JArr items)" "items \<noteq> []" by blast
  from add_rows_loop_ok [OF assms, of jt 0 items] obtain r where
    r: "add_rows_loop jt d 0 items = Some r" "\<And>d'. r = Inr d' \<Longrightarrow>
      headers d' = headers d \<and> column_map d' = column_map d \<and>
      (\<exists>new. rows d' = rows d @ new \<and> length new = length items \<and>
        (\<forall>row\<in>set new. length row = length (headers d)))" by blast
  have ok: "csv_ok d' \<and> (rectangular d \<longrightarrow> rectangular d')" if "r = Inr d'" for d'
    using r(2) [OF that] assms by (auto simp: csv_ok_def rectangular_def)
  show ?thesis using i r(1)
    by (cases r) (auto simp: good_edit_def add_row_edit_def add_rows_from_args_def dest: ok)
next
  case False
  then have "\<exists>e. add_rows_from_args jt args d = Some (Inl e)"
    by (auto simp: add_rows_from_args_def split: option.split elim: as_array.elims)
  then show ?thesis by (auto simp: good_edit_def add_row_edit_def)
qed

lemma update_cell_edit_good:
  assumes "csv_ok d"
  shows "good_edit (update_cell_edit args) d"
proof (cases "and_then (row_required args) (\<lambda>row_idx. and_then (get_str_arg args ''value'') (\<lambda>value.
         and_then (resolve_column d args) (\<lambda>col_idx. Inr (row_idx, value, col_idx))))")
  case (Inr rvc)
  then obtain i v c where rvc: "rvc = (i, v, c)" "resolve_column d args = Inr c"
    by (auto simp: result_simps)
  have c: "c < length (headers d)" by (rule resolve_column_ok [OF assms rvc(2)])
  show ?thesis
  proof (cases "i < length (rows d)")
    case True
    let ?row = "rows d ! i"
    let ?row1 = "if c \<ge> length ?row then resize (max (length (headers d)) (c + 1)) ?row else ?row"
    have l: "c < length ?row1" by (auto simp: resize_def)
    have u: "update_cell_at d i c v =
        Some (d\<lparr>rows := (rows d)[i := ?row1[c := v]]\<rparr>, headers d ! c)"
      using True c l by (simp add: update_cell_at_def index_def assign_def Let_def)
    have "rectangular (d\<lparr>rows := (rows d)[i := ?row1[c := v]]\<rparr>)" if "rectangular d"
    proof -
      have "length ?row = length (headers d)" using that True by (simp add: rectangular_def)
      then have "?row1 = ?row" using c by simp
      then have "length (?row1[c := v]) = length (headers d)"
        using \<open>length ?row = length (headers d)\<close> by simp
      then show ?thesis using that
        by (auto simp: rectangular_def dest!: set_update_subset_insert [THEN subsetD])
    qed
    with u Inr rvc(1) True assms show ?thesis
      by (auto simp: good_edit_def update_cell_edit_def csv_ok_def)
  qed (use Inr rvc(1) in \<open>simp add: good_edit_def update_cell_edit_def\<close>)
qed (simp add: good_edit_def update_cell_edit_def)

lemma remove_row_edit_good:
  assumes "csv_ok d"
  shows "good_edit (remove_row_edit args) d"
  unfolding good_edit_def
  using assms
  by (auto simp: remove_row_edit_def remove_index_def csv_ok_def rectangular_def split: sum.split
      dest: in_set_takeD in_set_dropD)

lemma add_column_edit_good:
  assumes "csv_ok d"
  shows "good_edit (add_column_edit args) d"
  unfolding good_edit_def
  using assms
  by (auto simp: add_column_edit_def add_column_def csv_ok_def rectangular_def nth_append Let_def
      less_Suc_eq split: sum.split if_splits)

lemma remove_column_edit_good:
  assumes "csv_ok d"
  shows "good_edit (remove_column_edit args) d"
proof (cases "resolve_column d args")
  case (Inr c)
  then have c: "c < length (headers d)" by (rule resolve_column_ok [OF assms])
  then show ?thesis using Inr
    by (auto simp: good_edit_def remove_column_edit_def remove_column_def remove_index_def csv_ok_def rectangular_def
        dest: columns_of_ok)
qed (simp add: good_edit_def remove_column_edit_def)

lemma rename_column_edit_good:
  assumes "csv_ok d"
  shows "good_edit (rename_column_edit args) d"
  unfolding good_edit_def
  using assms column_map_inj [OF assms]
  by (auto simp: rename_column_edit_def rename_column_def csv_ok_def rectangular_def assign_def
      nth_list_update split: sum.split if_splits)

section \<open>Properties\<close>

text \<open>
  C32: on a table whose column map is right, as reading a file makes it, no edit of the CSV tools
  indexes out of range, whatever its arguments; the edited table has a right column map again,
  and a table whose rows all have the length of the header keeps that.
\<close>

theorem csv_edits_safe:
  assumes "parse_csv lib bs = Inr d0 \<and> d = d0 \<or> csv_ok d"
    and "edit \<in> {add_row_edit jt args, update_cell_edit args, remove_row_edit args,
           add_column_edit args, remove_column_edit args, rename_column_edit args}"
  shows "\<exists>r. edit d = Some r \<and> (\<forall>d' rep. r = Inr (d', rep) \<longrightarrow> csv_ok d' \<and>
    (rectangular d \<longrightarrow> rectangular d'))"
proof -
  have ok: "csv_ok d" using assms(1) parse_csv_ok by blast
  have "good_edit edit d"
    using assms(2) add_row_edit_good [OF ok] update_cell_edit_good [OF ok] remove_row_edit_good [OF ok]
      add_column_edit_good [OF ok] remove_column_edit_good [OF ok] rename_column_edit_good [OF ok]
    by auto
  then show ?thesis by (simp add: good_edit_def)
qed

definition demo_table :: csv_data where
  "demo_table = \<lparr>headers = [''id'', ''name''], column_map = columns_of [''id'', ''name''],
     rows = [[''1'', ''a''], [''2'', ''b'']]\<rparr>"

lemma demo_table_ok: "csv_ok demo_table"
  by (auto simp: csv_ok_def demo_table_def dest: columns_of_ok)

theorem csv_edits_safe_witness:
  "\<exists>r. update_cell_edit (Some (obj [(''row'', JInt 1), (''column'', JStr ''name''), (''value'', JStr ''c'')]))
      demo_table = Some r \<and> (\<forall>d' rep. r = Inr (d', rep) \<longrightarrow> csv_ok d' \<and>
        (rectangular demo_table \<longrightarrow> rectangular d'))"
  using demo_table_ok
  by (intro csv_edits_safe
      [of _ _ _ _ _ _ "Some (obj [(''row'', JInt 1), (''column'', JStr ''name''), (''value'', JStr ''c'')])"])
    auto

text \<open>
  C33: updating a cell changes that cell and no other (a missing cell of a short row counts as
  empty), and neither the header nor the number of rows.
\<close>

theorem update_cell_exact:
  assumes "update_cell_at d i c v = Some (d', name)"
  shows "headers d' = headers d \<and> length (rows d') = length (rows d) \<and> name = headers d ! c \<and>
    (\<forall>k < length (rows d). \<forall>j.
       cell (rows d' ! k) j = (if k = i \<and> j = c then v else cell (rows d ! k) j))"
proof -
  let ?row = "rows d ! i"
  let ?row1 = "if c \<ge> length ?row then resize (max (length (headers d)) (c + 1)) ?row else ?row"
  have i: "i < length (rows d)" and n: "name = headers d ! c"
    and d': "d' = d\<lparr>rows := (rows d)[i := ?row1[c := v]]\<rparr>"
    using assms by (auto simp: update_cell_at_def index_def assign_def Let_def Option.bind_eq_Some_conv
        split: if_splits)
  have "cell (?row1[c := v]) j = (if j = c then v else cell ?row j)" for j
    by (auto simp: cell_def index_def resize_def nth_append nth_list_update)
  with i n d' show ?thesis by (auto simp: nth_list_update)
qed

theorem update_cell_exact_witness:
  "\<exists>d'. update_cell_at demo_table 1 0 ''9'' = Some (d', ''id'') \<and> cell (rows d' ! 1) 0 = ''9'' \<and>
     cell (rows d' ! 1) 1 = ''b''"
proof -
  have "\<exists>d'. update_cell_at demo_table 1 0 ''9'' = Some (d', ''id'')"
    by (simp add: update_cell_at_def demo_table_def index_def assign_def)
  then obtain d' where d': "update_cell_at demo_table 1 0 ''9'' = Some (d', ''id'')" by blast
  have "length (rows demo_table) = 2" "cell (rows demo_table ! 1) 1 = ''b''"
    by (simp_all add: demo_table_def cell_def index_def)
  with d' update_cell_exact [OF d'] show ?thesis by simp
qed

text \<open>
  A page of \<open>csv_read\<close> is the rows from the offset on, at most as many as the limit; no
  offset or limit makes the slice panic, as the addition saturates.
\<close>

lemma csv_page_exact:
  assumes "length (rows d) \<le> u64_max"
  shows "csv_page d offset limit = Some (take limit (drop offset (rows d)))"
proof -
  let ?n = "length (rows d)"
  have "min offset ?n \<le> min (sat_add offset limit) ?n"
    using assms by (auto simp: sat_add_def)
  moreover have "take (min (sat_add offset limit) ?n - min offset ?n) (drop (min offset ?n) (rows d)) =
      take limit (drop offset (rows d))"
    using assms by (cases "offset \<le> ?n") (auto simp: sat_add_def min_def)
  ultimately show ?thesis by (simp add: csv_page_def slice_of_def)
qed

text \<open>
  Adding a column to a table with a row shorter than the header, which the flexible reader
  accepts, puts the default value into the first missing column of that row and leaves the
  new column of that row empty.
\<close>

lemma add_column_misplaces_default:
  assumes "row \<in> set (rows d)" "length row < length (headers d)"
  shows "\<exists>row'\<in>set (rows (add_column column v d)).
    cell row' (length row) = v \<and> cell row' (length (headers d)) = [] \<and>
    headers (add_column column v d) ! length (headers d) = column"
  using assms
  by (intro bexI [of _ "row @ [v]"]) (auto simp: add_column_def cell_def index_def)

text \<open>
  Writing a table with a row of another length than the header loses rows: the writer, which
  refuses such a record, has already emptied the file, and what the file holds afterwards is
  the header and the rows before that one.
\<close>

lemma ragged_write_truncates:
  assumes "fs_create s p = (Inr l, s1)"
    and "csv_record_bytes lib None hs = Inr hb"
    and "\<forall>r\<in>set good. csv_record_bytes lib (Some (length hs)) r = Inr (enc r)"
    and "csv_record_bytes lib (Some (length hs)) bad = Inl e"
  shows "write_csv lib p hs (good @ bad # rest) s =
    (Inl (''Cannot write row: '' @ e), fs_write_loc s1 l (hb @ concat (map enc good)))"
proof -
  have "row_bytes lib (length hs) (good @ bad # rest) =
      (Inl (''Cannot write row: '' @ e), concat (map enc good))"
    using assms(3,4) by (induction good) auto
  then show ?thesis using assms(1,2) by (simp add: write_csv_def csv_bytes_def)
qed

end
