(* ===== verification/Compress.thy ===== *)
theory Compress
  imports Dirs
begin

text \<open>
  The handlers of \<open>src/actions/compress.rs\<close>. The codecs and the \<open>tar\<close> crate are parameters: what
  an encoder makes of its input, what an encoder leaves in its file when it is dropped before it
  is finished, the chunks that a decoder hands to its writer, the bytes of an archive entry,
  the entries of an archive, and the unpacking of one. The percentage of \<open>compute_ratio\<close> is a
  float, whose text is a parameter.
\<close>

record codec =
  encoder_new :: "int \<Rightarrow> string + unit"
  encode :: "int \<Rightarrow> u8 list \<Rightarrow> u8 list"
  encoder_dropped :: "int \<Rightarrow> u8 list"
  decode_chunks :: "u8 list \<Rightarrow> u8 list list \<times> string option"

datatype archive_kind = GzipArchive | ZstdArchive | PlainArchive

record tar_entry =
  te_is_link :: bool
  te_path :: "string + path"
  te_size :: nat
  te_data :: "u8 list"

record tar_lib =
  tar_append_dir :: "os \<Rightarrow> path \<Rightarrow> path \<Rightarrow> (string + unit) \<times> u8 list"
  tar_set_path :: "path \<Rightarrow> string + unit"
  tar_append :: "path \<Rightarrow> nat \<Rightarrow> io_error + u8 list \<Rightarrow> (string + unit) \<times> u8 list"
  tar_sink :: "archive_kind \<Rightarrow> bool \<Rightarrow> u8 list \<Rightarrow> u8 list"
  tar_zstd_decoder :: "u8 list \<Rightarrow> string + unit"
  tar_entries :: "archive_kind \<Rightarrow> u8 list \<Rightarrow> string + (string + tar_entry) list"
  tar_unpack :: "tar_entry \<Rightarrow> path \<Rightarrow> os \<Rightarrow> (string + unit) \<times> os"

record compress_lib =
  gzip :: codec
  zstd :: codec
  tar_crate :: tar_lib
  buffered :: "u8 list \<Rightarrow> u8 list"
  percent :: "nat \<Rightarrow> nat \<Rightarrow> string"

section \<open>Compression of one file\<close>

text \<open>An open file is its location: what is read from it later is what is there by then.\<close>

definition open_at :: "os \<Rightarrow> path \<Rightarrow> io_error + loc" where
  "open_at s p = and_then (resolve_loc s True False p) (\<lambda>l. map_ok (\<lambda>n. l) (node_at s l))"

definition bytes_at :: "os \<Rightarrow> loc \<Rightarrow> io_error + u8 list" where
  "bytes_at s l = and_then (node_at s l) node_bytes"

definition compress_closure ::
    "codec \<Rightarrow> string \<Rightarrow> int \<Rightarrow> path \<Rightarrow> path \<Rightarrow> os \<Rightarrow> (string + nat \<times> nat) \<times> os" where
  "compress_closure c name level src dst s =
     (case and_then (map_err (cannot ''get source metadata'') (fs_stat s src)) (\<lambda>n.
           map_ok (\<lambda>l. (node_len s n, l)) (map_err (cannot ''open file'') (open_at s src))) of
        Inl e \<Rightarrow> (Inl e, s)
      | Inr (original_size, l) \<Rightarrow>
          (case fs_create s dst of
             (Inl e, s1) \<Rightarrow> (Inl (cannot ''create output file'' e), s1)
           | (Inr m, s1) \<Rightarrow>
               (case encoder_new c level of
                  Inl e \<Rightarrow> (Inl (''Cannot create '' @ name @ '' encoder: '' @ e), s1)
                | Inr u \<Rightarrow>
                    (case bytes_at s1 l of
                       Inl e \<Rightarrow> (Inl (name @ '' compression failed: '' @ io_text e),
                                 fs_write_loc s1 m (encoder_dropped c level))
                     | Inr bs \<Rightarrow>
                         (let out = encode c level bs in
                          (Inr (original_size, length out), fs_write_loc s1 m out))))))"

definition compute_ratio :: "compress_lib \<Rightarrow> nat \<Rightarrow> nat \<Rightarrow> json" where
  "compute_ratio lib original compressed =
     (if original > 0 then JFloat (percent lib original compressed) else JNull)"

definition differs :: "path \<Rightarrow> path \<Rightarrow> ('d, unit) action" where
  "differs out src =
     lift (if out = src then Inl (InvalidParams ''Output path must differ from source'') else Inr ())"

text \<open>\<open>compress_gzip\<close> and \<open>compress_zstd\<close> differ in the codec, its name, the suffix and the level.\<close>

definition compress_with ::
    "'d runtime \<Rightarrow> compress_lib \<Rightarrow> codec \<Rightarrow> string \<Rightarrow> string \<Rightarrow> int \<Rightarrow> int \<Rightarrow> int \<Rightarrow> config \<Rightarrow> json option \<Rightarrow>
     ('d, json) action" where
  "compress_with rt lib c name ext lo hi default_level cfg args =
     then_do (lift (get_str_arg args ''path'')) (\<lambda>p.
     let level = clamp lo hi (unwrap_or default_level (get_opt_i64 args ''level''));
         out = get_opt_str args ''output'' in
     then_do (resolve_path_now rt cfg p) (\<lambda>src.
     then_do (derive_output rt cfg src out (Add ext)) (\<lambda>dst.
     then_do (differs dst src) (\<lambda>u.
     then_do
       (run_blocking rt ''Compression'' (\<lambda>s.
          case compress_closure c name level src dst s of (r, s') \<Rightarrow> (Some r, s')))
       (\<lambda>(original_size, compressed_size).
     give (obj [(''success'', JBool True), (''source'', jpath src), (''output'', jpath dst),
                (''algorithm'', JStr name), (''level'', JInt level),
                (''originalSize'', jnat original_size), (''compressedSize'', jnat compressed_size),
                (''ratio'', compute_ratio lib original_size compressed_size)]))))))"

definition compress_gzip :: "'d runtime \<Rightarrow> compress_lib \<Rightarrow> config \<Rightarrow> json option \<Rightarrow> ('d, json) action" where
  "compress_gzip rt lib cfg args =
     compress_with rt lib (gzip lib) ''gzip'' ''.gz'' 0 9 6 cfg args"

definition compress_zstd :: "'d runtime \<Rightarrow> compress_lib \<Rightarrow> config \<Rightarrow> json option \<Rightarrow> ('d, json) action" where
  "compress_zstd rt lib cfg args =
     compress_with rt lib (zstd lib) ''zstd'' ''.zst'' 1 22 3 cfg args"

section \<open>Decompression with a limit\<close>

text \<open>\<open>AsyncLimitedWriter\<close>: the writer within, here the bytes it took, and the counter.\<close>

record limited =
  inner :: "u8 list"
  written :: nat
  limit :: nat

definition limited_new :: "nat \<Rightarrow> limited" where
  "limited_new n = \<lparr>inner = [], written = 0, limit = n\<rparr>"

definition limit_text :: "nat \<Rightarrow> string" where
  "limit_text n = ''Decompressed output exceeds maximum allowed size of '' @ show_nat n @ '' bytes''"

text \<open>\<open>poll_write\<close> when the writer within takes \<open>count\<close> of the bytes.\<close>

definition poll_write :: "limited \<Rightarrow> u8 list \<Rightarrow> nat \<Rightarrow> string + limited \<times> nat" where
  "poll_write w buf count =
     (let new_total = sat_add (written w) (length buf) in
      if new_total > limit w then Inl (limit_text (limit w))
      else
        (let n = min count (length buf) in
         Inr (w\<lparr>inner := inner w @ take n buf, written := written w + n\<rparr>, n)))"

text \<open>\<open>tokio::io::copy\<close> into the limited writer: each chunk is taken whole.\<close>

fun copy_limited :: "limited \<Rightarrow> u8 list list \<Rightarrow> string option \<Rightarrow> (string + nat) \<times> limited" where
  "copy_limited w [] err = ((case err of None \<Rightarrow> Inr (written w) | Some e \<Rightarrow> Inl e), w)"
| "copy_limited w (chunk # chunks) err =
     (case poll_write w chunk (length chunk) of
        Inl e \<Rightarrow> (Inl e, w)
      | Inr (w', n) \<Rightarrow> copy_limited w' chunks err)"

text \<open>
  What the handler does once the paths are known. After a failure the file holds what the
  buffered writer had handed on.
\<close>

definition decompress_to ::
    "compress_lib \<Rightarrow> codec \<Rightarrow> string \<Rightarrow> nat \<Rightarrow> path \<Rightarrow> path \<Rightarrow> os \<Rightarrow> nat result \<times> os" where
  "decompress_to lib c name max_out src dst s =
     (case open_at s src of
        Inl e \<Rightarrow> (Inl (FilesystemError (cannot ''open compressed file'' e)), s)
      | Inr l \<Rightarrow>
          (case fs_create s dst of
             (Inl e, s1) \<Rightarrow> (Inl (FilesystemError (cannot ''create output file'' e)), s1)
           | (Inr m, s1) \<Rightarrow>
               (case (case bytes_at s1 l of
                        Inl e \<Rightarrow> ([], Some (io_text e))
                      | Inr bs \<Rightarrow> decode_chunks c bs) of
                  (chunks, err) \<Rightarrow>
                    (case copy_limited (limited_new max_out) chunks err of
                       (Inl e, w) \<Rightarrow>
                         (Inl (FilesystemError (name @ '' decompression failed: '' @ e)),
                          fs_write_loc s1 m (buffered lib (inner w)))
                     | (Inr n, w) \<Rightarrow> (Inr n, fs_write_loc s1 m (inner w))))))"

definition decompress_with ::
    "'d runtime \<Rightarrow> compress_lib \<Rightarrow> codec \<Rightarrow> string \<Rightarrow> string \<Rightarrow> config \<Rightarrow> json option \<Rightarrow> ('d, json) action" where
  "decompress_with rt lib c name ext cfg args =
     then_do (lift (get_str_arg args ''path'')) (\<lambda>p.
     let out = get_opt_str args ''output'' in
     then_do (resolve_path_now rt cfg p) (\<lambda>src.
     then_do (derive_output rt cfg src out (Strip ext)) (\<lambda>dst.
     then_do (differs dst src) (\<lambda>u.
     then_do (update (decompress_to lib c name (max_decompressed_size cfg) src dst)) (\<lambda>n.
     give (obj [(''success'', JBool True), (''source'', jpath src), (''output'', jpath dst),
                (''algorithm'', JStr name), (''decompressedSize'', jnat n)]))))))"

definition decompress_gzip :: "'d runtime \<Rightarrow> compress_lib \<Rightarrow> config \<Rightarrow> json option \<Rightarrow> ('d, json) action" where
  "decompress_gzip rt lib cfg args = decompress_with rt lib (gzip lib) ''gzip'' ''.gz'' cfg args"

definition decompress_zstd :: "'d runtime \<Rightarrow> compress_lib \<Rightarrow> config \<Rightarrow> json option \<Rightarrow> ('d, json) action" where
  "decompress_zstd rt lib cfg args = decompress_with rt lib (zstd lib) ''zstd'' ''.zst'' cfg args"

section \<open>Making an archive\<close>

definition collect_tar_entries :: "walk_lib \<Rightarrow> path \<Rightarrow> bool \<Rightarrow> os \<Rightarrow> path list" where
  "collect_tar_entries wlib source follow s =
     (if path_is_dir s source then
        filter (\<lambda>p. p \<noteq> source) (map we_path (walk_dir wlib s follow visible source))
      else [source])"

definition kind_of_name :: "string \<Rightarrow> archive_kind" where
  "kind_of_name compression =
     (if compression = ''gzip'' \<or> compression = ''gz'' then GzipArchive
      else if compression = ''zstd'' \<or> compression = ''zst'' then ZstdArchive
      else PlainArchive)"

text \<open>One entry: the size that counts for it, and the bytes that reached the archive.\<close>

definition tar_add :: "tar_lib \<Rightarrow> os \<Rightarrow> path \<Rightarrow> path \<Rightarrow> (string + nat) \<times> u8 list" where
  "tar_add lib s source p =
     (let relative = unwrap_or p (path_strip_prefix p source) in
      if path_is_dir s p then
        (case tar_append_dir lib s relative p of (r, bs) \<Rightarrow>
           (map_ok (\<lambda>u. 0) (map_err (\<lambda>e. ''Cannot add directory to tar: '' @ e) r), bs))
      else
        (case and_then (map_err (cannot ''read file metadata'') (fs_stat s p)) (\<lambda>meta.
              and_then (fs_open s p ''open file for tar'') (\<lambda>n.
              map_ok (\<lambda>u. (meta, n))
                (map_err (\<lambda>e. ''Invalid tar path: '' @ e) (tar_set_path lib relative)))) of
           Inl e \<Rightarrow> (Inl e, [])
         | Inr (meta, n) \<Rightarrow>
             (case tar_append lib relative (node_len s meta) (node_bytes n) of (r, bs) \<Rightarrow>
                (map_ok (\<lambda>u. node_len s meta)
                   (map_err (\<lambda>e. ''Cannot add file to tar: '' @ e) r), bs))))"

fun tar_loop :: "tar_lib \<Rightarrow> os \<Rightarrow> path \<Rightarrow> path list \<Rightarrow> nat \<Rightarrow> (string + nat) \<times> u8 list" where
  "tar_loop lib s source [] total_size = (Inr total_size, [])"
| "tar_loop lib s source (p # ps) total_size =
     (case tar_add lib s source p of
        (Inl e, bs) \<Rightarrow> (Inl e, bs)
      | (Inr n, bs) \<Rightarrow>
          (case tar_loop lib s source ps (add_u64 total_size n) of (r, rest) \<Rightarrow> (r, bs @ rest)))"

text \<open>
  The archive as it is on disk once its writer is dropped: \<open>tar_sink\<close> takes the compression,
  whether \<open>into_inner\<close> was reached, and the bytes of the entries.
\<close>

definition create_tar_archive ::
    "compress_lib \<Rightarrow> path \<Rightarrow> path \<Rightarrow> path list \<Rightarrow> string \<Rightarrow> os \<Rightarrow> (string + nat \<times> nat) \<times> os" where
  "create_tar_archive lib source out entries compression s =
     (case fs_create s out of
        (Inl e, s1) \<Rightarrow> (Inl (cannot ''create tar file'' e), s1)
      | (Inr m, s1) \<Rightarrow>
          (case (if kind_of_name compression = ZstdArchive then encoder_new (zstd lib) 3 else Inr ()) of
             Inl e \<Rightarrow> (Inl (''Cannot create zstd encoder: '' @ e), s1)
           | Inr u \<Rightarrow>
               (case tar_loop (tar_crate lib) s1 source entries 0 of
                  (r, bs) \<Rightarrow>
                    (map_ok (\<lambda>total_size. (length entries, total_size)) r,
                     fs_write_loc s1 m (tar_sink (tar_crate lib) (kind_of_name compression) (is_ok r) bs)))))"

definition compress_tar ::
    "'d runtime \<Rightarrow> compress_lib \<Rightarrow> walk_lib \<Rightarrow> config \<Rightarrow> json option \<Rightarrow> ('d, json) action" where
  "compress_tar rt lib wlib cfg args =
     then_do (lift (get_str_arg args ''source'')) (\<lambda>source.
     then_do (lift (get_str_arg args ''output'')) (\<lambda>out.
     let compression = unwrap_or ''none'' (get_opt_str args ''compression'') in
     then_do (resolve_path_now rt cfg source) (\<lambda>src.
     then_do (resolve_destination_now rt cfg out) (\<lambda>dst.
     then_do (lift (if dst = src \<or> path_starts_with dst src then
         Inl (InvalidParams ''Output path must not be inside the source directory'') else Inr ())) (\<lambda>u.
     then_do
       (run_blocking rt ''Tar'' (\<lambda>s.
          case create_tar_archive lib src dst
                 (collect_tar_entries wlib src (follow_symlinks (server cfg)) s) compression s of
            (r, s') \<Rightarrow> (Some r, s')))
       (\<lambda>(entries, total_size).
     give (obj [(''success'', JBool True), (''source'', jpath src), (''output'', jpath dst),
                (''compression'', JStr compression), (''entries'', jnat entries),
                (''totalSize'', jnat total_size)])))))))"

section \<open>Extracting an archive\<close>

definition kind_of_magic :: "u8 list \<Rightarrow> archive_kind" where
  "kind_of_magic magic =
     (if take 3 magic = [0x1f, 0x8b, 0x08] then GzipArchive
      else if magic = [0x28, 0xb5, 0x2f, 0xfd] then ZstdArchive
      else PlainArchive)"

definition unsafe_path :: "path \<Rightarrow> bool" where
  "unsafe_path p = (is_absolute p \<or> list_ex (\<lambda>c. c = ParentDir) p)"

text \<open>The checks on one entry: where it goes, and the running total.\<close>

definition entry_target :: "path \<Rightarrow> nat \<Rightarrow> nat \<Rightarrow> tar_entry \<Rightarrow> string + path \<times> nat" where
  "entry_target out max_total total_size e =
     (if te_is_link e then
        Inl ''Tar archive contains symlink/hardlink entries, which are not allowed''
      else
        and_then (map_err (\<lambda>t. ''Cannot read entry path: '' @ t) (te_path e)) (\<lambda>p.
        if unsafe_path p then Inl (''Unsafe tar path: '' @ path_display p)
        else
          (let total_size' = sat_add total_size (te_size e) in
           if total_size' > max_total then
             Inl (''Tar extraction exceeds maximum allowed size of '' @ show_nat max_total @ '' bytes'')
           else Inr (join out p, total_size'))))"

definition make_parent :: "path \<Rightarrow> os \<Rightarrow> (string + unit) \<times> os" where
  "make_parent target s =
     (case parent target of
        None \<Rightarrow> (Inr (), s)
      | Some q \<Rightarrow>
          (case fs_create_dir_all s q of
             (r, s') \<Rightarrow> (map_err (cannot ''create parent directory'') r, s')))"

fun extract_loop ::
    "tar_lib \<Rightarrow> path \<Rightarrow> nat \<Rightarrow> nat \<Rightarrow> nat \<Rightarrow> (string + tar_entry) list \<Rightarrow> os \<Rightarrow> (string + nat \<times> nat) \<times> os" where
  "extract_loop lib out max_total extracted total_size [] s = (Inr (extracted, total_size), s)"
| "extract_loop lib out max_total extracted total_size (entry # es) s =
     (case and_then (map_err (\<lambda>t. ''Cannot read tar entry: '' @ t) entry) (\<lambda>e.
           map_ok (\<lambda>tt. (e, tt)) (entry_target out max_total total_size e)) of
        Inl e \<Rightarrow> (Inl e, s)
      | Inr (e, target, total_size') \<Rightarrow>
          (case make_parent target s of
             (Inl err, s1) \<Rightarrow> (Inl err, s1)
           | (Inr u, s1) \<Rightarrow>
               (case tar_unpack lib e target s1 of
                  (Inl err, s2) \<Rightarrow> (Inl (''Cannot unpack tar entry: '' @ err), s2)
                | (Inr u, s2) \<Rightarrow>
                    extract_loop lib out max_total (extracted + 1) total_size' es s2)))"

definition extract_tar_archive_streaming ::
    "tar_lib \<Rightarrow> path \<Rightarrow> path \<Rightarrow> nat \<Rightarrow> os \<Rightarrow> (string + nat \<times> nat) \<times> os" where
  "extract_tar_archive_streaming lib src out max_total s =
     (case fs_create_dir_all s out of
        (Inl e, s1) \<Rightarrow> (Inl (cannot ''create output directory'' e), s1)
      | (Inr u, s1) \<Rightarrow>
          (case and_then (fs_open s1 src ''open tar file'') (\<lambda>n.
                and_then (map_err (cannot ''read magic bytes'') (node_bytes n)) (\<lambda>bs.
                and_then (if length bs < 4 then Inl (cannot ''read magic bytes'' UnexpectedEof)
                          else Inr (kind_of_magic (take 4 bs))) (\<lambda>kind.
                and_then (if kind = ZstdArchive
                          then map_err (\<lambda>e. ''Cannot create zstd decoder: '' @ e) (tar_zstd_decoder lib bs)
                          else Inr ()) (\<lambda>u.
                map_err (\<lambda>e. ''Cannot read tar entries: '' @ e) (tar_entries lib kind bs))))) of
             Inl e \<Rightarrow> (Inl e, s1)
           | Inr entries \<Rightarrow> extract_loop lib out max_total 0 0 entries s1))"

definition decompress_tar :: "'d runtime \<Rightarrow> compress_lib \<Rightarrow> config \<Rightarrow> json option \<Rightarrow> ('d, json) action" where
  "decompress_tar rt lib cfg args =
     then_do (lift (get_str_arg args ''path'')) (\<lambda>p.
     then_do (lift (get_str_arg args ''outputDir'')) (\<lambda>output_dir.
     then_do (resolve_path_now rt cfg p) (\<lambda>src.
     then_do (resolve_destination_now rt cfg output_dir) (\<lambda>dst.
     then_do
       (run_blocking rt ''Extract'' (\<lambda>s.
          case extract_tar_archive_streaming (tar_crate lib) src dst (max_decompressed_size cfg) s of
            (r, s') \<Rightarrow> (Some r, s')))
       (\<lambda>(extracted, total_size).
     give (obj [(''success'', JBool True), (''source'', jpath src), (''outputDir'', jpath dst),
                (''extracted'', jnat extracted), (''totalSize'', jnat total_size)]))))))"

end
