(* ===== verification/Compress_Properties.thy ===== *)
theory Compress_Properties
  imports Compress Dir_Properties
begin

text \<open>The properties of the compression tools, with their witnesses.\<close>

section \<open>The limited copy\<close>

definition taken :: "limited \<Rightarrow> u8 list \<Rightarrow> limited" where
  "taken w bs = w\<lparr>inner := inner w @ bs, written := written w + length bs\<rparr>"

lemma taken_simps [simp]:
  "inner (taken w bs) = inner w @ bs" "written (taken w bs) = written w + length bs"
  "limit (taken w bs) = limit w" "taken w [] = w" "taken (taken w bs) cs = taken w (bs @ cs)"
  by (simp_all add: taken_def add.assoc)

lemma poll_write_whole:
  assumes "limit w < u64_max"
  shows "poll_write w buf (length buf) =
    (if written w + length buf \<le> limit w then Inr (taken w buf, length buf)
     else Inl (limit_text (limit w)))"
  using assms by (auto simp: poll_write_def sat_add_def taken_def Let_def)

text \<open>The copy takes every chunk, or stops in front of the first one that does not fit.\<close>

lemma copy_limited_all:
  assumes "limit w < u64_max" "written w + length (concat chunks) \<le> limit w"
  shows "copy_limited w chunks err =
    ((case err of None \<Rightarrow> Inr (written w + length (concat chunks)) | Some e \<Rightarrow> Inl e),
     taken w (concat chunks))"
  using assms
  by (induction w chunks err rule: copy_limited.induct)
    (auto simp: poll_write_whole add.assoc split: option.split)

lemma copy_limited_stops:
  assumes "limit w < u64_max" "written w \<le> limit w" "written w + length (concat chunks) > limit w"
  shows "\<exists>k < length chunks.
    copy_limited w chunks err = (Inl (limit_text (limit w)), taken w (concat (take k chunks))) \<and>
    written w + length (concat (take k chunks)) \<le> limit w"
  using assms
proof (induction chunks arbitrary: w)
  case (Cons chunk chunks)
  show ?case
  proof (cases "written w + length chunk \<le> limit w")
    case True
    with Cons.prems have "\<exists>k < length chunks.
        copy_limited (taken w chunk) chunks err =
          (Inl (limit_text (limit w)), taken (taken w chunk) (concat (take k chunks))) \<and>
        written (taken w chunk) + length (concat (take k chunks)) \<le> limit w"
      using Cons.IH [of "taken w chunk"] by simp
    then obtain k where k: "k < length chunks"
      "copy_limited (taken w chunk) chunks err =
         (Inl (limit_text (limit w)), taken (taken w chunk) (concat (take k chunks)))"
      "written (taken w chunk) + length (concat (take k chunks)) \<le> limit w" by blast
    show ?thesis
      using k True Cons.prems(1) by (intro exI [of _ "Suc k"]) (simp add: poll_write_whole)
  next
    case False
    then show ?thesis
      using Cons.prems(1,2) by (intro exI [of _ 0]) (simp add: poll_write_whole)
  qed
qed simp

text \<open>
  C34: decompression is safe against bombs and exact below the limit. When what the decoder
  yields has at most \<open>max_decompressed_size\<close> bytes, all of it is in the output and its length is
  returned, or the decoder's error is; when it has more, the tool fails and what it wrote before
  has at most that many bytes, and is a prefix of the decoder's output.
\<close>

theorem decompression_limited:
  assumes "max_out < u64_max" "open_at s src = Inr l" "fs_create s dst = (Inr m, s1)"
    and "bytes_at s1 l = Inr bs" "decode_chunks c bs = (chunks, err)"
  shows "if length (concat chunks) \<le> max_out
    then decompress_to lib c name max_out src dst s =
      (case err of
         None \<Rightarrow> (Inr (length (concat chunks)), fs_write_loc s1 m (concat chunks))
       | Some e \<Rightarrow> (Inl (FilesystemError (name @ '' decompression failed: '' @ e)),
                   fs_write_loc s1 m (buffered lib (concat chunks))))
    else \<exists>k < length chunks. length (concat (take k chunks)) \<le> max_out \<and>
      decompress_to lib c name max_out src dst s =
        (Inl (FilesystemError (name @ '' decompression failed: '' @ limit_text max_out)),
         fs_write_loc s1 m (buffered lib (concat (take k chunks))))"
proof (cases "length (concat chunks) \<le> max_out")
  case True
  with copy_limited_all [of "limited_new max_out" chunks err] assms show ?thesis
    by (simp add: decompress_to_def limited_new_def split: option.split)
next
  case False
  with assms(1) copy_limited_stops [of "limited_new max_out" chunks err]
  obtain k where "k < length chunks"
    "copy_limited (limited_new max_out) chunks err =
       (Inl (limit_text max_out), taken (limited_new max_out) (concat (take k chunks)))"
    "length (concat (take k chunks)) \<le> max_out"
    by (auto simp: limited_new_def)
  with False assms show ?thesis by (auto simp: decompress_to_def limited_new_def)
qed

section \<open>Libraries for the witnesses\<close>

text \<open>A codec that stores bytes as they are and decodes them one at a time.\<close>

definition store_codec :: codec where
  "store_codec = \<lparr>encoder_new = (\<lambda>level. Inr ()), encode = (\<lambda>level bs. bs),
     encoder_dropped = (\<lambda>level. [0]), decode_chunks = (\<lambda>bs. (map (\<lambda>b. [b]) bs, None))\<rparr>"

definition demo_entry :: "path \<Rightarrow> tar_entry" where
  "demo_entry p = \<lparr>te_is_link = False, te_path = Inr p, te_size = 1, te_data = [7]\<rparr>"

definition demo_unpack :: "tar_entry \<Rightarrow> path \<Rightarrow> os \<Rightarrow> (string + unit) \<times> os" where
  "demo_unpack e target s = (case fs_write s target (te_data e) of (r, s') \<Rightarrow> (map_err io_text r, s'))"

definition demo_tar :: "path list \<Rightarrow> tar_lib" where
  "demo_tar ps = \<lparr>tar_append_dir = (\<lambda>s p q. (Inr (), [])), tar_set_path = (\<lambda>p. Inr ()),
     tar_append = (\<lambda>p n bs. (Inr (), [])), tar_sink = (\<lambda>k ok bs. bs),
     tar_zstd_decoder = (\<lambda>bs. Inr ()), tar_entries = (\<lambda>k bs. Inr (map (\<lambda>p. Inr (demo_entry p)) ps)),
     tar_unpack = demo_unpack\<rparr>"

definition demo_lib :: "path list \<Rightarrow> compress_lib" where
  "demo_lib ps = \<lparr>gzip = store_codec, zstd = store_codec, tar_crate = demo_tar ps,
     buffered = (\<lambda>bs. bs), percent = (\<lambda>m n. ''100.0'')\<rparr>"

theorem decompression_limited_witness:
  "\<exists>k < 5. length (concat (take k (map (\<lambda>b. [b]) hello))) \<le> 3 \<and>
    decompress_to (demo_lib []) store_codec ''gzip'' 3 (abs_path [''srv'', ''notes.txt''])
        (abs_path [''srv'', ''big'']) demo_os =
      (Inl (FilesystemError (''gzip decompression failed: '' @ limit_text 3)),
       fs_write_loc (put_node demo_os [''srv'', ''big''] (Some (FileNode []))) [''srv'', ''big'']
         (concat (take k (map (\<lambda>b. [b]) hello))))"
proof -
  have e: "open_at demo_os (abs_path [''srv'', ''notes.txt'']) = Inr [''srv'', ''notes.txt'']"
    "fs_create demo_os (abs_path [''srv'', ''big'']) =
       (Inr [''srv'', ''big''], put_node demo_os [''srv'', ''big''] (Some (FileNode [])))"
    "bytes_at (put_node demo_os [''srv'', ''big''] (Some (FileNode []))) [''srv'', ''notes.txt''] = Inr hello"
    by code_simp+
  have n: "(3::nat) < u64_max" by (simp add: u64_max_def)
  have d: "decode_chunks store_codec hello = (map (\<lambda>b. [b]) hello, None)"
    by (simp add: store_codec_def)
  have len: "length (concat (map (\<lambda>b. [b]) hello)) = 5" "length (map (\<lambda>b. [b]) hello) = 5"
    by (simp_all add: hello_def as_bytes_def)
  from decompression_limited [OF n e d, of "demo_lib []" "''gzip''"] show ?thesis
    unfolding len by (simp add: demo_lib_def)
qed

section \<open>Extraction\<close>

text \<open>What an archive entry must be for the extraction to go on.\<close>

definition harmless :: "path \<Rightarrow> string + tar_entry \<Rightarrow> bool" where
  "harmless out entry = (\<exists>e p. entry = Inr e \<and> \<not> te_is_link e \<and> te_path e = Inr p \<and>
     \<not> is_absolute p \<and> ParentDir \<notin> set p \<and> path_starts_with (join out p) out)"

definition archive_size :: "string + tar_entry \<Rightarrow> nat" where
  "archive_size entry = (case entry of Inl e \<Rightarrow> 0 | Inr e \<Rightarrow> te_size e)"

lemma join_relative: "\<not> is_absolute p \<Longrightarrow> path_starts_with (join out p) out"
  by (simp add: join_def path_starts_with_def)

lemma entry_target_ok:
  assumes "entry_target out max_total n e = Inr (target, n')" "max_total < u64_max"
  shows "harmless out (Inr e) \<and> n' = n + te_size e \<and> n' \<le> max_total \<and>
    (\<exists>p. te_path e = Inr p \<and> target = join out p)"
proof -
  have "n' = sat_add n (te_size e)" "n' \<le> max_total" "\<not> te_is_link e"
    "\<exists>p. te_path e = Inr p \<and> \<not> unsafe_path p \<and> target = join out p"
    using assms(1) by (auto simp: entry_target_def result_simps Let_def split: if_splits)
  with assms(2) show ?thesis
    by (auto simp: harmless_def sat_add_def unsafe_path_def list_ex_iff join_relative)
qed

lemma extract_loop_Cons_ok:
  assumes "extract_loop lib out max_total k n (entry # es) s = (Inr r, s')"
  obtains e target n' s2 where "entry = Inr e" "entry_target out max_total n e = Inr (target, n')"
    "extract_loop lib out max_total (k + 1) n' es s2 = (Inr r, s')"
  using assms by (auto simp: result_simps split: sum.splits prod.splits)

lemma extract_loop_ok:
  "extract_loop lib out max_total k n es s = (Inr (k', n'), s') \<Longrightarrow> max_total < u64_max \<Longrightarrow>
   n \<le> max_total \<Longrightarrow>
   k' = k + length es \<and> n' = n + sum_list (map archive_size es) \<and> n' \<le> max_total \<and>
   (\<forall>e\<in>set es. harmless out e)"
proof (induction es arbitrary: k n s)
  case (Cons entry es)
  from Cons.prems(1) obtain e target n1 s2 where
    e: "entry = Inr e" "entry_target out max_total n e = Inr (target, n1)"
      "extract_loop lib out max_total (k + 1) n1 es s2 = (Inr (k', n'), s')"
    by (rule extract_loop_Cons_ok)
  from entry_target_ok [OF e(2) Cons.prems(2)] Cons.IH [OF e(3) Cons.prems(2)] e(1)
  show ?case by (auto simp: archive_size_def)
qed simp


definition demo_archive :: tar_lib where
  "demo_archive = demo_tar [[Normal ''sub'', Normal ''x'']]"

lemma demo_archive_run:
  "fs_create_dir_all demo_os (abs_path [''srv'']) = (Inr (), demo_os)"
  "fs_create_dir_all demo_os (abs_path [''srv'', ''sub'']) = (Inr (), demo_os)"
  "fs_open demo_os (abs_path [''srv'', ''notes.txt'']) msg = Inr (FileNode hello)"
  "parent (abs_path [''srv'', ''sub'', ''x'']) = Some (abs_path [''srv'', ''sub''])"
  "demo_unpack (demo_entry [Normal ''sub'', Normal ''x'']) (abs_path [''srv'', ''sub'', ''x'']) demo_os =
     (Inr (), put_node demo_os [''srv'', ''sub'', ''x''] (Some (FileNode [7])))"
  "kind_of_magic (take 4 hello) = PlainArchive" "length hello = 5"
  by code_simp+

lemma demo_entry_target:
  "1 \<le> lim \<Longrightarrow> entry_target (abs_path [''srv'']) lim 0 (demo_entry [Normal n, Normal m]) =
     Inr (abs_path [''srv'', n, m], 1)"
  by (simp add: entry_target_def demo_entry_def unsafe_path_def sat_add_def u64_max_def
      join_def abs_path_def Let_def)


definition demo_extract :: "json option" where
  "demo_extract = Some (obj [(''path'', JStr ''notes.txt''), (''outputDir'', JStr ''/srv'')])"

lemma demo_extract_facts:
  "get_str_arg demo_extract ''path'' = Inr ''notes.txt''"
  "get_str_arg demo_extract ''outputDir'' = Inr ''/srv''"
  "resolve_path beneath_cap demo_os demo_sandbox ''notes.txt'' = Inr (abs_path [''srv'', ''notes.txt''])"
  "resolve_destination_path beneath_cap demo_os demo_sandbox ''/srv'' = Inr (abs_path [''srv''])"
  by code_simp+

lemma demo_extract_run:
  "fs_create_dir_all demo_os (abs_path [''srv'']) = (Inr (), demo_os)"
  "fs_create_dir_all demo_os (abs_path [''srv'', ''out'']) = (Inr (), demo_os)"
  "fs_open demo_os (abs_path [''srv'', ''notes.txt'']) msg = Inr (FileNode hello)"
  "parent (abs_path [''srv'', ''out'', ''x'']) = Some (abs_path [''srv'', ''out''])"
  "demo_unpack (demo_entry [Normal ''out'', Normal ''x'']) (abs_path [''srv'', ''out'', ''x'']) demo_os =
     (Inr (), put_node demo_os [''etc'', ''x''] (Some (FileNode [7])))"
  "kind_of_magic (take 4 hello) = PlainArchive" "length hello = 5"
  by code_simp+

text \<open>
  Extraction follows a link that is already there. In the small world, which does not
  follow links, an archive with the entry \<open>out/x\<close> is unpacked into \<open>/srv\<close>, and the file
  appears in \<open>/etc\<close>.
\<close>

lemma extraction_follows_links:
  "\<exists>v. decompress_tar demo_runtime (demo_lib [[Normal ''out'', Normal ''x'']]) demo_config demo_extract demo_proc =
     (Done v, demo_proc\<lparr>disk := put_node demo_os [''etc'', ''x''] (Some (FileNode [7]))\<rparr>)"
proof -
  let ?lib = "demo_tar [[Normal ''out'', Normal ''x'']]"
  have t: "tar_entries ?lib k bs = Inr [Inr (demo_entry [Normal ''out'', Normal ''x''])]"
    "tar_unpack ?lib = demo_unpack" for k bs by (simp_all add: demo_tar_def)
  have "extract_tar_archive_streaming ?lib (abs_path [''srv'', ''notes.txt'']) (abs_path [''srv'']) lim demo_os =
      (Inr (1, 1), put_node demo_os [''etc'', ''x''] (Some (FileNode [7])))" if "1 \<le> lim" for lim
    using demo_extract_run demo_entry_target [OF that]
    by (simp add: extract_tar_archive_streaming_def t make_parent_def)
  moreover have "1 \<le> max_decompressed_size demo_config"
    by (simp add: demo_config_def config_new_def)
  ultimately show ?thesis
    using demo_extract_facts
    by (simp add: decompress_tar_def act_simps resolve_path_now_def resolve_destination_now_def
        demo_runtime_def run_blocking_def update_or_panic_def demo_lib_def blocking_def)
qed

section \<open>The derived output\<close>

definition demo_compress :: "json option" where
  "demo_compress = Some (obj [(''path'', JStr ''/srv'')])"

text \<open>
  The derived output path of an allowed directory lies beside it: \<open>compress_gzip\<close> on the
  directory \<open>/srv\<close> fails, but has by then created \<open>/srv.gz\<close>, outside every allowed directory.
\<close>

lemma compressing_a_root_escapes:
  "\<exists>e. compress_gzip demo_runtime (demo_lib []) demo_config demo_compress demo_proc =
     (Failed e, demo_proc\<lparr>disk := fs_write_loc (put_node demo_os [''srv.gz''] (Some (FileNode [])))
        [''srv.gz''] [0]\<rparr>)"
proof -
  have e: "get_str_arg demo_compress ''path'' = Inr ''/srv''"
    "get_opt_str demo_compress ''output'' = None"
    "resolve_path beneath_cap demo_os demo_sandbox ''/srv'' = Inr (abs_path [''srv''])"
    "derived_sibling (abs_path [''srv'']) (Add ''.gz'') = abs_path [''srv.gz'']"
    "abs_path [''srv.gz''] \<noteq> abs_path [''srv'']"
    "open_at demo_os (abs_path [''srv'']) = Inr [''srv'']"
    "fs_create demo_os (abs_path [''srv.gz'']) =
       (Inr [''srv.gz''], put_node demo_os [''srv.gz''] (Some (FileNode [])))"
    "bytes_at (put_node demo_os [''srv.gz''] (Some (FileNode []))) [''srv''] = Inl IsADirectory"
    by code_simp+
  have "encoder_new store_codec l = Inr ()" "encoder_dropped store_codec l = [0]" for l
    by (simp_all add: store_codec_def)
  with e show ?thesis
    by (simp add: compress_gzip_def compress_with_def act_simps resolve_path_now_def derive_output_def
        differs_def compress_closure_def demo_stats demo_runtime_def run_blocking_def update_or_panic_def blocking_def
        demo_lib_def Let_def)
qed

text \<open>The small world with a link beside the file \<open>notes.txt\<close> that leads out.\<close>

definition linked_os :: os where
  "linked_os = put_node demo_os [''srv'', ''notes.txt.gz''] (Some (LinkNode (abs_path [''etc'', ''new''])))"

text \<open>
  A derived output path is used without a check, so a link of that name is followed, also
  when links are not to be followed: with a link \<open>notes.txt.gz\<close> that leads out of the allowed
  directory, \<open>compress_gzip\<close> on \<open>notes.txt\<close> writes to the target of the link and reports success.
\<close>

lemma derived_output_follows_links:
  "follow_symlinks (server demo_config) = False \<and>
   (\<exists>v. compress_gzip demo_runtime (demo_lib []) demo_config
      (Some (obj [(''path'', JStr ''/srv/notes.txt'')])) (demo_proc\<lparr>disk := linked_os\<rparr>) =
     (Done v, demo_proc\<lparr>disk := fs_write_loc (put_node linked_os [''etc'', ''new''] (Some (FileNode [])))
        [''etc'', ''new''] hello\<rparr>))"
proof
  show "follow_symlinks (server demo_config) = False"
    by (simp add: demo_config_def config_new_def demo_server_def)
  let ?args = "Some (obj [(''path'', JStr ''/srv/notes.txt'')])"
  let ?src = "abs_path [''srv'', ''notes.txt'']" and ?dst = "abs_path [''srv'', ''notes.txt.gz'']"
  have e: "get_str_arg ?args ''path'' = Inr ''/srv/notes.txt''"
    "get_opt_str ?args ''output'' = None"
    "resolve_path beneath_cap linked_os demo_sandbox ''/srv/notes.txt'' = Inr ?src"
    "derived_sibling ?src (Add ''.gz'') = ?dst" "?dst \<noteq> ?src"
    "open_at linked_os ?src = Inr [''srv'', ''notes.txt'']"
    "fs_create linked_os ?dst =
       (Inr [''etc'', ''new''], put_node linked_os [''etc'', ''new''] (Some (FileNode [])))"
    "bytes_at (put_node linked_os [''etc'', ''new''] (Some (FileNode []))) [''srv'', ''notes.txt''] = Inr hello"
    "fs_stat linked_os ?src = Inr (FileNode hello)"
    by code_simp+
  have "encoder_new store_codec l = Inr ()" "encode store_codec l bs = bs" for l bs
    by (simp_all add: store_codec_def)
  with e show "\<exists>v. compress_gzip demo_runtime (demo_lib []) demo_config ?args (demo_proc\<lparr>disk := linked_os\<rparr>) =
     (Done v, demo_proc\<lparr>disk := fs_write_loc (put_node linked_os [''etc'', ''new''] (Some (FileNode [])))
        [''etc'', ''new''] hello\<rparr>)"
    by (simp add: compress_gzip_def compress_with_def act_simps resolve_path_now_def derive_output_def
        differs_def compress_closure_def demo_runtime_def run_blocking_def update_or_panic_def
        blocking_def demo_lib_def Let_def)
qed

end
