(* ===== verification/Crypto.thy ===== *)
theory Crypto
  imports Files
begin

text \<open>
  The handlers of \<open>src/actions/crypto.rs\<close> and the format of an encrypted file. The ciphers, the
  key encapsulation and \<open>hex\<close> are parameters; what the random generator draws in one call of a
  tool is the record \<open>draws\<close>. A panic for a nonce or a key of a wrong length cannot happen:
  both lengths are checked or fixed before.
\<close>

datatype cipher = Aes256Gcm | ChaCha20Poly1305

datatype kem = MlKem768 | MlKem1024

datatype key_error = WrongLength | WrongKey | WrongCiphertext

record crypto_lib =
  to_hex :: "u8 list \<Rightarrow> string"
  of_hex :: "string \<Rightarrow> string + u8 list"
  seal :: "cipher \<Rightarrow> u8 list \<Rightarrow> u8 list \<Rightarrow> u8 list \<Rightarrow> u8 list \<Rightarrow> string + u8 list"
  unseal :: "cipher \<Rightarrow> u8 list \<Rightarrow> u8 list \<Rightarrow> u8 list \<Rightarrow> u8 list \<Rightarrow> string + u8 list"
  keypair :: "kem \<Rightarrow> u8 list \<Rightarrow> u8 list \<times> u8 list"
  encapsulate :: "kem \<Rightarrow> u8 list \<Rightarrow> u8 list \<Rightarrow> key_error + u8 list \<times> u8 list"
  decapsulate :: "kem \<Rightarrow> u8 list \<Rightarrow> u8 list \<Rightarrow> key_error + u8 list"

record draws =
  key_draw :: "u8 list"
  nonce_draw :: "u8 list"
  kem_draw :: "u8 list"

section \<open>The file format\<close>

definition magic :: "u8 list" where
  "magic = as_bytes ''MCPE''"

definition version :: u8 where
  "version = 1"

definition nonce_size :: nat where
  "nonce_size = 12"

definition symmetric_key_size :: nat where
  "symmetric_key_size = 32"

definition header_base :: nat where
  "header_base = 8"

definition algo_aes256gcm :: u8 where
  "algo_aes256gcm = 1"

definition algo_chacha20 :: u8 where
  "algo_chacha20 = 2"

definition algo_mlkem768 :: u8 where
  "algo_mlkem768 = 5"

definition algo_mlkem1024 :: u8 where
  "algo_mlkem1024 = 6"

text \<open>\<open>(n as u16).to_be_bytes()\<close> and \<open>u16::from_be_bytes([a, b]) as usize\<close>.\<close>

definition to_be_bytes :: "nat \<Rightarrow> u8 list" where
  "to_be_bytes n = (let w = (of_nat n :: 16 word) in [ucast (drop_bit 8 w), ucast w])"

definition from_be_bytes :: "u8 \<Rightarrow> u8 \<Rightarrow> nat" where
  "from_be_bytes a b = unat (push_bit 8 (ucast a :: 16 word) + ucast b)"

definition build_header :: "u8 \<Rightarrow> u8 list \<Rightarrow> u8 list" where
  "build_header algo enc_key = magic @ [version, algo] @ to_be_bytes (length enc_key) @ enc_key"

definition parse_encrypted :: "u8 list \<Rightarrow> string + u8 \<times> u8 list \<times> u8 list \<times> u8 list" where
  "parse_encrypted bs =
     (if length bs < header_base + nonce_size + 1 then
        Inl ''File too small to be a valid encrypted file''
      else if take 4 bs \<noteq> magic then
        Inl (''Invalid magic bytes '' @ of_bytes [0xE2, 0x80, 0x94] @ '' not an MCPE encrypted file'')
      else if bs ! 4 \<noteq> version then Inl (''Unsupported version: '' @ show_nat (unat (bs ! 4)))
      else
        (let key_len = from_be_bytes (bs ! 6) (bs ! 7);
             header_total = header_base + key_len in
         if length bs < header_total + nonce_size + 1 then Inl ''File truncated''
         else Inr (bs ! 5, take key_len (drop header_base bs),
                   take nonce_size (drop header_total bs), drop (header_total + nonce_size) bs)))"

definition algorithm_to_id :: "string \<Rightarrow> u8 result" where
  "algorithm_to_id name =
     (if name = ''aes-256-gcm'' then Inr algo_aes256gcm
      else if name = ''chacha20-poly1305'' then Inr algo_chacha20
      else if name = ''kyber-768'' \<or> name = ''mlkem-768'' then Inr algo_mlkem768
      else if name = ''kyber-1024'' \<or> name = ''mlkem-1024'' then Inr algo_mlkem1024
      else Inl (InvalidParams (''Unsupported algorithm: '' @ name)))"

definition id_to_algorithm :: "u8 \<Rightarrow> string result" where
  "id_to_algorithm i =
     (if i = algo_aes256gcm then Inr ''aes-256-gcm''
      else if i = algo_chacha20 then Inr ''chacha20-poly1305''
      else if i = algo_mlkem768 then Inr ''mlkem-768''
      else if i = algo_mlkem1024 then Inr ''mlkem-1024''
      else Inl (InvalidParams (''Unknown algorithm ID: '' @ show_nat (unat i))))"

section \<open>Encryption of bytes\<close>

definition wrong_key_size :: "string \<Rightarrow> string" where
  "wrong_key_size unit_name = ''Key must be '' @ show_nat symmetric_key_size @ unit_name"

definition cipher_of :: "u8 \<Rightarrow> cipher" where
  "cipher_of algo = (if algo = algo_chacha20 then ChaCha20Poly1305 else Aes256Gcm)"

definition kem_of :: "u8 \<Rightarrow> kem" where
  "kem_of algo = (if algo = algo_mlkem768 then MlKem768 else MlKem1024)"

fun kem_name :: "kem \<Rightarrow> string" where
  "kem_name MlKem768 = ''ML-KEM-768''"
| "kem_name MlKem1024 = ''ML-KEM-1024''"

text \<open>What is authenticated beside the text: the header without its last two bytes.\<close>

definition aad_of :: "u8 \<Rightarrow> u8 list \<Rightarrow> u8 list" where
  "aad_of algo enc_key =
     (let header = build_header algo enc_key in take (length header - 2) header)"

definition key_of_hex :: "crypto_lib \<Rightarrow> string \<Rightarrow> string \<Rightarrow> string + u8 list" where
  "key_of_hex lib size_text hex =
     and_then (map_err (\<lambda>e. ''Invalid key hex: '' @ e) (of_hex lib hex)) (\<lambda>bs.
       if length bs \<noteq> symmetric_key_size then Inl (wrong_key_size size_text) else Inr bs)"

fun encrypt_label :: "cipher \<Rightarrow> string" where
  "encrypt_label ChaCha20Poly1305 = ''ChaCha20 encryption failed: ''"
| "encrypt_label Aes256Gcm = ''AES-256-GCM encryption failed: ''"

fun decrypt_label :: "cipher \<Rightarrow> string" where
  "decrypt_label ChaCha20Poly1305 = ''ChaCha20 decryption failed (wrong key or data): ''"
| "decrypt_label Aes256Gcm = ''AES-256-GCM decryption failed (wrong key or data): ''"

definition symmetric_encrypt ::
    "crypto_lib \<Rightarrow> draws \<Rightarrow> u8 list \<Rightarrow> string \<Rightarrow> u8 \<Rightarrow> string + u8 list \<times> u8 list" where
  "symmetric_encrypt lib rng plaintext key_hex algo =
     and_then (key_of_hex lib '' bytes'' key_hex) (\<lambda>key.
       map_ok (\<lambda>ct. (build_header algo [] @ nonce_draw rng, ct))
         (map_err (\<lambda>e. encrypt_label (cipher_of algo) @ e)
           (seal lib (cipher_of algo) key (nonce_draw rng) (aad_of algo []) plaintext)))"

definition symmetric_decrypt ::
    "crypto_lib \<Rightarrow> u8 list \<Rightarrow> string \<Rightarrow> u8 list \<Rightarrow> u8 \<Rightarrow> string + u8 list" where
  "symmetric_decrypt lib ct key_hex nonce algo =
     and_then (key_of_hex lib '' bytes'' key_hex) (\<lambda>key.
       map_err (\<lambda>e. decrypt_label (cipher_of algo) @ e)
         (unseal lib (cipher_of algo) key nonce (aad_of algo []) ct))"

fun public_key_text :: "kem \<Rightarrow> key_error \<Rightarrow> string" where
  "public_key_text k WrongLength = ''Invalid '' @ kem_name k @ '' public key length''"
| "public_key_text k _ = ''Invalid '' @ kem_name k @ '' public key''"

fun secret_key_text :: "kem \<Rightarrow> key_error \<Rightarrow> string" where
  "secret_key_text k WrongLength = ''Invalid '' @ kem_name k @ '' secret key length''"
| "secret_key_text k WrongKey = ''Invalid '' @ kem_name k @ '' secret key''"
| "secret_key_text k WrongCiphertext = ''Invalid ML-KEM ciphertext length''"

definition mlkem_encrypt ::
    "crypto_lib \<Rightarrow> draws \<Rightarrow> u8 list \<Rightarrow> u8 list \<Rightarrow> u8 \<Rightarrow> string + u8 list \<times> u8 list \<times> u8 list" where
  "mlkem_encrypt lib rng plaintext pub_key algo =
     and_then (map_err (public_key_text (kem_of algo)) (encapsulate lib (kem_of algo) pub_key (kem_draw rng)))
       (\<lambda>(ct, shared_secret).
       map_ok (\<lambda>body. (build_header algo ct @ nonce_draw rng, body, shared_secret))
         (map_err (\<lambda>e. ''AES encryption failed: '' @ e)
           (seal lib Aes256Gcm shared_secret (nonce_draw rng) (aad_of algo ct) plaintext)))"

definition mlkem_decrypt ::
    "crypto_lib \<Rightarrow> u8 list \<Rightarrow> u8 list \<Rightarrow> u8 list \<Rightarrow> u8 list \<Rightarrow> u8 \<Rightarrow> string + u8 list" where
  "mlkem_decrypt lib body enc_key nonce priv_key algo =
     and_then (map_err (secret_key_text (kem_of algo)) (decapsulate lib (kem_of algo) priv_key enc_key))
       (\<lambda>shared_secret.
       map_err (\<lambda>e. ''AES decryption failed: '' @ e)
         (unseal lib Aes256Gcm shared_secret nonce (aad_of algo enc_key) body))"

section \<open>The tools\<close>

definition write_encrypted :: "path \<Rightarrow> u8 list \<Rightarrow> u8 list \<Rightarrow> os \<Rightarrow> (string + unit) \<times> os" where
  "write_encrypted p header ct s =
     (case fs_create s p of
        (Inl e, s1) \<Rightarrow> (Inl (cannot ''create output'' e), s1)
      | (Inr l, s1) \<Rightarrow> (Inr (), fs_write_loc s1 l (header @ ct)))"

text \<open>The key that is given, read from a file or, on request, drawn.\<close>

definition choose_key ::
    "crypto_lib \<Rightarrow> string option \<Rightarrow> u8 list option \<Rightarrow> string + u8 list \<Rightarrow> string + u8 list" where
  "choose_key lib key_opt file_key otherwise =
     (case key_opt of
        Some k \<Rightarrow> key_of_hex lib '' hex bytes'' k
      | None \<Rightarrow> (case file_key of Some bs \<Rightarrow> Inr bs | None \<Rightarrow> otherwise))"

text \<open>Header and text of the encrypted file, and the key to be returned.\<close>

definition encrypt_bytes ::
    "crypto_lib \<Rightarrow> draws \<Rightarrow> u8 \<Rightarrow> string option \<Rightarrow> u8 list option \<Rightarrow> bool \<Rightarrow> string option \<Rightarrow> u8 list \<Rightarrow>
     string + (u8 list \<times> u8 list) \<times> string option" where
  "encrypt_bytes lib rng algo key_opt file_key gen pub_key_opt file_data =
     (if algo = algo_aes256gcm \<or> algo = algo_chacha20 then
        and_then (choose_key lib key_opt file_key
            (if gen then Inr (key_draw rng)
             else Inl (''No key provided. Use '' @ quoted ''key'' @ '', '' @ quoted ''keyFile''
                       @ '', or '' @ quoted ''generateKey: true''))) (\<lambda>key.
        map_ok (\<lambda>hc. (hc, if gen then Some (to_hex lib key) else None))
          (symmetric_encrypt lib rng file_data (to_hex lib key) algo))
      else if algo = algo_mlkem768 \<or> algo = algo_mlkem1024 then
        and_then (ok_or (''Missing required: '' @ quoted ''publicKey'') pub_key_opt) (\<lambda>pub_hex.
        and_then (map_err (\<lambda>e. ''Invalid public key hex: '' @ e) (of_hex lib pub_hex)) (\<lambda>pub_bytes.
        map_ok (\<lambda>(header, ct, sym_key). ((header, ct), None))
          (mlkem_encrypt lib rng file_data pub_bytes algo)))
      else Inl ''Unsupported algorithm'')"

definition decrypt_bytes ::
    "crypto_lib \<Rightarrow> u8 \<Rightarrow> u8 list \<Rightarrow> u8 list \<Rightarrow> u8 list \<Rightarrow> string option \<Rightarrow> u8 list option \<Rightarrow>
     string option \<Rightarrow> string + u8 list" where
  "decrypt_bytes lib algo enc_key nonce body key_opt file_key priv_key_opt =
     (if algo = algo_aes256gcm \<or> algo = algo_chacha20 then
        and_then (choose_key lib key_opt file_key
            (Inl (''No key provided. Use '' @ quoted ''key'' @ '' or '' @ quoted ''keyFile''))) (\<lambda>key.
        symmetric_decrypt lib body (to_hex lib key) nonce algo)
      else if algo = algo_mlkem768 \<or> algo = algo_mlkem1024 then
        and_then (ok_or (''Missing required: '' @ quoted ''privateKey'') priv_key_opt) (\<lambda>priv_hex.
        and_then (map_err (\<lambda>e. ''Invalid private key hex: '' @ e) (of_hex lib priv_hex)) (\<lambda>priv_bytes.
        mlkem_decrypt lib body enc_key nonce priv_bytes algo))
      else Inl ''Unsupported algorithm'')"

text \<open>\<open>std::fs::read_to_string\<close>, and the key in a key file.\<close>

definition fs_read_to_string :: "os \<Rightarrow> path \<Rightarrow> io_error + string" where
  "fs_read_to_string s p = and_then (fs_read s p) (\<lambda>bs. ok_or InvalidData (from_utf8 bs))"

definition key_in_file :: "crypto_lib \<Rightarrow> path \<Rightarrow> os \<Rightarrow> u8 list result" where
  "key_in_file lib p s =
     and_then (map_err (\<lambda>e. FilesystemError (cannot ''read key file'' e)) (fs_read_to_string s p))
       (\<lambda>content.
     and_then (map_err (\<lambda>e. InvalidParams (''Invalid key hex in file: '' @ e)) (of_hex lib (trim content)))
       (\<lambda>bs.
     if length bs \<noteq> symmetric_key_size then Inl (InvalidParams (wrong_key_size '' hex bytes''))
     else Inr bs))"

definition read_key_file ::
    "'d runtime \<Rightarrow> crypto_lib \<Rightarrow> config \<Rightarrow> string option \<Rightarrow> ('d, u8 list option) action" where
  "read_key_file rt lib cfg key_file_opt =
     (case key_file_opt of
        None \<Rightarrow> give None
      | Some kf \<Rightarrow>
          then_do (resolve_path_now rt cfg kf) (\<lambda>p.
          then_do (query (key_in_file lib p)) (\<lambda>bs. give (Some bs))))"

definition output_differs :: "path \<Rightarrow> path \<Rightarrow> ('d, unit) action" where
  "output_differs out src =
     lift (if out = src then Inl (InvalidParams ''Output must differ from source'') else Inr ())"

definition encrypt_file ::
    "'d runtime \<Rightarrow> crypto_lib \<Rightarrow> draws \<Rightarrow> config \<Rightarrow> json option \<Rightarrow> ('d, json) action" where
  "encrypt_file rt lib rng cfg args =
     then_do (lift (get_str_arg args ''path'')) (\<lambda>p.
     let algorithm = unwrap_or ''aes-256-gcm'' (get_opt_str args ''algorithm'');
         gen = unwrap_or False (get_opt_bool args ''generateKey'') in
     then_do (resolve_now rt cfg p) (\<lambda>r.
     then_do (query (\<lambda>s. resolved_metadata (cap rt) s r)) (\<lambda>meta.
     if \<not> cap_is_file meta then failed (InvalidParams (''Not a file: '' @ p))
     else if cap_len meta > max_file_size cfg then
       failed (FilesystemError (''File size '' @ show_nat (cap_len meta) @ '' exceeds max ''
                 @ show_nat (max_file_size cfg)))
     else
       then_do (derive_output rt cfg (canonical r) (get_opt_str args ''output'') (Add ''.enc'')) (\<lambda>out.
       then_do (output_differs out (canonical r)) (\<lambda>u.
       then_do (lift (algorithm_to_id algorithm)) (\<lambda>algo.
       then_do (query (\<lambda>s. resolved_read (cap rt) s r)) (\<lambda>file_data.
       then_do (read_key_file rt lib cfg (get_opt_str args ''keyFile'')) (\<lambda>file_key.
       then_do
         (run_blocking rt ''Encrypt'' (\<lambda>s.
            case encrypt_bytes lib rng algo (get_opt_str args ''key'') file_key gen
                   (get_opt_str args ''publicKey'') file_data of
              Inl e \<Rightarrow> (Some (Inl e), s)
            | Inr ((header, ct), returned) \<Rightarrow>
                (case write_encrypted out header ct s of
                   (r', s') \<Rightarrow> (Some (map_ok (\<lambda>u. returned) r'), s'))))
         (\<lambda>returned.
       let resp = obj [(''success'', JBool True), (''source'', jpath (canonical r)),
                       (''output'', jpath out), (''algorithm'', JStr algorithm)] in
       give (case returned of None \<Rightarrow> resp | Some k \<Rightarrow> set_key ''key'' (JStr k) resp))))))))))"

definition decrypt_file ::
    "'d runtime \<Rightarrow> crypto_lib \<Rightarrow> config \<Rightarrow> json option \<Rightarrow> ('d, json) action" where
  "decrypt_file rt lib cfg args =
     then_do (lift (get_str_arg args ''path'')) (\<lambda>p.
     then_do (resolve_now rt cfg p) (\<lambda>r.
     then_do (query (\<lambda>s. resolved_read (cap rt) s r)) (\<lambda>file_data.
     then_do (lift (map_err (\<lambda>e. InvalidParams (''Invalid encrypted file: '' @ e))
         (parse_encrypted file_data))) (\<lambda>(algo, enc_key, nonce, body).
     then_do (lift (id_to_algorithm algo)) (\<lambda>algorithm.
     then_do (derive_output rt cfg (canonical r) (get_opt_str args ''output'') (Strip ''.enc'')) (\<lambda>out.
     then_do (output_differs out (canonical r)) (\<lambda>u.
     then_do (read_key_file rt lib cfg (get_opt_str args ''keyFile'')) (\<lambda>file_key.
     then_do
       (blocking_read rt ''Decrypt'' (\<lambda>s.
          decrypt_bytes lib algo enc_key nonce body (get_opt_str args ''key'') file_key
            (get_opt_str args ''privateKey'')))
       (\<lambda>plain.
     then_do (resolve_now rt cfg (lossy (path_text out))) (\<lambda>r_out.
     then_do (update (resolved_write (cap rt) r_out plain)) (\<lambda>u.
     give (obj [(''success'', JBool True), (''source'', jpath (canonical r)),
                (''output'', jpath out), (''algorithm'', JStr algorithm),
                (''decryptedSize'', jnat (length plain))]))))))))))))"

record keygen_result =
  key :: "string option"
  public_key :: "string option"
  private_key :: "string option"

definition write_key :: "string \<Rightarrow> path \<Rightarrow> string \<Rightarrow> os \<Rightarrow> (string + unit) \<times> os" where
  "write_key what p text s =
     (case fs_write s p (as_bytes text) of (r, s') \<Rightarrow> (map_err (cannot what) r, s'))"

definition is_kem_algorithm :: "string \<Rightarrow> bool" where
  "is_kem_algorithm a = (a \<in> {''kyber-768'', ''kyber-1024'', ''mlkem-768'', ''mlkem-1024''})"

definition generate :: "crypto_lib \<Rightarrow> draws \<Rightarrow> string \<Rightarrow> path option \<Rightarrow> os \<Rightarrow> (string + keygen_result) \<times> os" where
  "generate lib rng alg out s =
     (if alg = ''aes-256'' then
        (let key_hex = to_hex lib (key_draw rng);
             res = \<lparr>key = Some key_hex, public_key = None, private_key = None\<rparr> in
         case out of
           None \<Rightarrow> (Inr res, s)
         | Some p \<Rightarrow>
             (case write_key ''write key file'' p key_hex s of (r, s1) \<Rightarrow> (map_ok (\<lambda>u. res) r, s1)))
      else if is_kem_algorithm alg then
        (case keypair lib (if alg = ''kyber-768'' \<or> alg = ''mlkem-768'' then MlKem768 else MlKem1024)
                (kem_draw rng) of
           (dk, ek) \<Rightarrow>
             (let pk_hex = to_hex lib ek; sk_hex = to_hex lib dk;
                  res = \<lparr>key = None, public_key = Some pk_hex, private_key = Some sk_hex\<rparr> in
              case out of
                None \<Rightarrow> (Inr res, s)
              | Some p \<Rightarrow>
                  (case write_key ''write secret key'' p sk_hex s of
                     (Inl e, s1) \<Rightarrow> (Inl e, s1)
                   | (Inr u, s1) \<Rightarrow>
                       (case write_key ''write public key'' (with_extension p ''pub'') pk_hex s1 of
                          (r, s2) \<Rightarrow> (map_ok (\<lambda>u. res) r, s2)))))
      else (Inl (''Unsupported key algorithm: '' @ alg), s))"

definition set_opt :: "string \<Rightarrow> string option \<Rightarrow> json \<Rightarrow> json" where
  "set_opt k v resp = (case v of None \<Rightarrow> resp | Some t \<Rightarrow> set_key k (JStr t) resp)"

definition keygen_report :: "string \<Rightarrow> path option \<Rightarrow> keygen_result \<Rightarrow> json" where
  "keygen_report algorithm out res =
     (let resp = set_opt ''privateKey'' (private_key res)
                   (set_opt ''publicKey'' (public_key res)
                     (set_opt ''key'' (key res)
                       (obj [(''success'', JBool True), (''algorithm'', JStr algorithm)]))) in
      case out of
        None \<Rightarrow> resp
      | Some p \<Rightarrow>
          if algorithm = ''aes-256'' then set_key ''keyFile'' (jpath p) resp
          else set_key ''publicKeyFile'' (jpath (with_extension p ''pub''))
                 (set_key ''privateKeyFile'' (jpath p) resp))"

definition generate_key ::
    "'d runtime \<Rightarrow> crypto_lib \<Rightarrow> draws \<Rightarrow> config \<Rightarrow> json option \<Rightarrow> ('d, json) action" where
  "generate_key rt lib rng cfg args =
     (let algorithm = unwrap_or ''aes-256'' (get_opt_str args ''algorithm'') in
      then_do
        (case get_opt_str args ''output'' of
           None \<Rightarrow> give None
         | Some out \<Rightarrow> then_do (resolve_destination_now rt cfg out) (\<lambda>p. give (Some p)))
        (\<lambda>out.
      then_do
        (run_blocking rt ''Key generation'' (\<lambda>s.
           case generate lib rng algorithm out s of (r, s') \<Rightarrow> (Some r, s')))
        (\<lambda>res. give (keygen_report algorithm out res))))"

end
