(* ===== verification/Crypto_Properties.thy ===== *)
theory Crypto_Properties
  imports Crypto Compress_Properties
begin

text \<open>
  The properties of the encryption tools: the format of encrypted files is parsed exactly,
  what was encrypted is decrypted by the matching key, and a case of \<open>generate_key\<close> that loses
  the secret key.
\<close>

section \<open>The length field\<close>

lemma u8_less: "unat (a :: u8) < 256"
  using unsigned_less [of a, where ?'a = nat] by simp

lemma unat_widened: "unat (ucast a :: 16 word) = unat (a :: u8)"
  using u8_less [of a] by (simp add: unsigned_ucast_eq take_bit_eq_mod)

lemma unat_high_byte: "unat (push_bit 8 (ucast a :: 16 word)) = 256 * unat (a :: u8)"
  unfolding unsigned_push_bit_eq unat_widened
  using u8_less [of a] by (simp add: take_bit_eq_mod push_bit_eq_mult)

lemma from_be_bytes_eq: "from_be_bytes a b = 256 * unat a + unat b"
proof -
  have "256 * unat a + unat b < 65536" using u8_less [of a] u8_less [of b] by presburger
  then show ?thesis
    by (simp add: from_be_bytes_def unat_plus_if' unat_high_byte unat_widened)
qed

lemma from_be_bytes_less: "from_be_bytes a b < 65536"
  using u8_less [of a] u8_less [of b] unfolding from_be_bytes_eq by presburger

lemma unat_to_be_bytes:
  assumes "n < 65536"
  shows "map unat (to_be_bytes n) = [n div 256, n mod 256]"
proof -
  have w: "unat (of_nat n :: 16 word) = n" using assms by (simp add: unat_of_nat)
  have "unat (ucast (drop_bit 8 (of_nat n :: 16 word)) :: u8) = n div 256 mod 256"
    unfolding unsigned_ucast_eq unat_drop_bit_eq w by (simp add: take_bit_eq_mod drop_bit_eq_div)
  then have high: "unat (ucast (drop_bit 8 (of_nat n :: 16 word)) :: u8) = n div 256"
    using assms by simp
  have low: "unat (ucast (of_nat n :: 16 word) :: u8) = n mod 256"
    by (simp add: unsigned_ucast_eq w take_bit_eq_mod)
  show ?thesis unfolding to_be_bytes_def Let_def by (simp only: list.map high low)
qed

lemma to_be_bytes_cases:
  assumes "n < 65536"
  obtains a b where "to_be_bytes n = [a, b]" "from_be_bytes a b = n"
proof -
  from unat_to_be_bytes [OF assms] obtain a b where
    "to_be_bytes n = [a, b]" "unat a = n div 256" "unat b = n mod 256"
    by (auto simp: map_eq_Cons_conv)
  with that show thesis by (simp add: from_be_bytes_eq)
qed

lemma to_from_be_bytes: "to_be_bytes (from_be_bytes a b) = [a, b]"
proof -
  have "map unat (to_be_bytes (from_be_bytes a b)) = map unat [a, b]"
    using unat_to_be_bytes [OF from_be_bytes_less [of a b]] u8_less [of a] u8_less [of b]
    by (simp add: from_be_bytes_eq)
  then show ?thesis by (auto simp: map_eq_Cons_conv word_unat_eq_iff)
qed

section \<open>The file format\<close>

lemma magic_eq: "magic = [77, 67, 80, 69]"
  by code_simp

lemmas format_simps = header_base_def nonce_size_def version_def magic_eq build_header_def

lemma parse_built:
  assumes "length k < 65536" "length n = 12" "b \<noteq> []"
  shows "parse_encrypted (build_header a k @ n @ b) = Inr (a, k, n, b)"
proof -
  obtain x y where xy: "to_be_bytes (length k) = [x, y]" "from_be_bytes x y = length k"
    using to_be_bytes_cases [OF assms(1)] .
  have "1 \<le> length b" using assms(3) by (cases b) auto
  then show ?thesis
    using assms(2,3) xy by (simp add: parse_encrypted_def format_simps Let_def eval_nat_numeral)
qed

lemma split_at_8:
  assumes "8 \<le> length bs"
  obtains a0 a1 a2 a3 a4 a5 a6 a7 r where "bs = a0 # a1 # a2 # a3 # a4 # a5 # a6 # a7 # r"
  using assms that by (auto simp: eval_nat_numeral Suc_le_length_iff)

lemma drop_past:
  assumes "bs = a0 # a1 # a2 # a3 # a4 # a5 # a6 # a7 # r"
  shows "drop (8 + m) bs = drop m r" "drop (20 + m) bs = drop (m + 12) r"
proof -
  have "drop (8 + m) bs = drop m (drop 8 bs)" for m by (simp only: drop_drop add.commute)
  moreover have "drop 8 bs = r" by (simp add: assms)
  ultimately have *: "drop (8 + m) bs = drop m r" for m by simp
  show "drop (8 + m) bs = drop m r" by (rule *)
  show "drop (20 + m) bs = drop (m + 12) r" using * [of "m + 12"] by (simp add: add.commute [of m])
qed

lemma parse_accepts:
  assumes "parse_encrypted bs = Inr (a, k, n, b)"
  shows "bs = build_header a k @ n @ b \<and> length k < 65536 \<and> length n = 12 \<and> b \<noteq> []"
proof -
  from assms have len: "21 \<le> length bs"
    by (auto simp: parse_encrypted_def format_simps split: if_splits)
  then have "8 \<le> length bs" by simp
  then obtain a0 a1 a2 a3 a4 a5 a6 a7 r where
    bs: "bs = a0 # a1 # a2 # a3 # a4 # a5 # a6 # a7 # r" by (rule split_at_8)
  let ?m = "from_be_bytes a6 a7"
  have at: "bs ! 4 = a4" "bs ! 5 = a5" "bs ! 6 = a6" "bs ! 7 = a7" "take 4 bs = [a0, a1, a2, a3]"
    "drop 8 bs = r" "length bs = 8 + length r" by (simp_all add: bs)
  from assms len have r: "?m + 13 \<le> length r" "[a0, a1, a2, a3] = magic" "a4 = version"
    "a = a5" "k = take ?m r" "n = take 12 (drop ?m r)" "b = drop (?m + 12) r"
    unfolding parse_encrypted_def Let_def header_base_def nonce_size_def at
    using drop_past [OF bs, of ?m] by (auto split: if_splits)
  have k: "length k = ?m" using r by simp
  have "length n = 12" "b \<noteq> []" using r(1,6,7) by simp_all
  moreover have "r = k @ n @ b" using r(5-7) by (metis append_take_drop_id drop_drop add.commute)
  moreover have "build_header a k = a0 # a1 # a2 # a3 # a4 # a5 # [a6, a7] @ k"
    unfolding build_header_def k to_from_be_bytes r(2) [symmetric] using r(3,4) by simp
  ultimately show ?thesis using k from_be_bytes_less [of a6 a7] bs by simp
qed

text \<open>
  C24: \<open>parse_encrypted\<close> is the exact inverse of the format that the server writes: it accepts a
  file with the four parts if and only if the file is the header of algorithm and key, then a
  nonce of 12 bytes, then a text that is not empty; no other file is accepted, and no field is
  read out of bounds.
\<close>

theorem parse_encrypted_exact:
  "parse_encrypted bs = Inr (algo, enc_key, nonce, body) \<longleftrightarrow>
     bs = build_header algo enc_key @ nonce @ body \<and> length enc_key < 2 ^ 16 \<and>
     length nonce = nonce_size \<and> body \<noteq> []"
  using parse_built [of enc_key nonce body algo] parse_accepts [of bs algo enc_key nonce body]
  by (auto simp: nonce_size_def)

section \<open>Encryption and decryption\<close>

text \<open>
  What the server relies on: \<open>hex\<close> decodes what it encoded, authenticated encryption adds a tag
  and is undone under the same key, nonce and associated data, and a key encapsulated for the
  public half of a pair is recovered by the other half from a ciphertext of bounded length.
\<close>

definition crypto_laws :: "crypto_lib \<Rightarrow> bool" where
  "crypto_laws lib =
     ((\<forall>bs. of_hex lib (to_hex lib bs) = Inr bs) \<and>
      (\<forall>c k n a m t. seal lib c k n a m = Inr t \<longrightarrow> t \<noteq> [] \<and> unseal lib c k n a t = Inr m) \<and>
      (\<forall>k seed r ct ss. encapsulate lib k (snd (keypair lib k seed)) r = Inr (ct, ss) \<longrightarrow>
         length ct < 2 ^ 16 \<and> decapsulate lib k (fst (keypair lib k seed)) ct = Inr ss))"

lemma crypto_lawsD:
  assumes "crypto_laws lib"
  shows "of_hex lib (to_hex lib bs) = Inr bs"
    and "seal lib c k n a m = Inr t \<Longrightarrow> t \<noteq> []"
    and "seal lib c k n a m = Inr t \<Longrightarrow> unseal lib c k n a t = Inr m"
    and "encapsulate lib kk (snd (keypair lib kk seed)) r = Inr (ct, ss) \<Longrightarrow>
      length ct < 2 ^ 16 \<and> decapsulate lib kk (fst (keypair lib kk seed)) ct = Inr ss"
  using assms by (auto simp: crypto_laws_def)

text \<open>
  The decrypting side has the right key: it resolves to the key that was used, it is the key
  that \<open>encrypt_file\<close> returned, or it is the private half of the pair.
\<close>

definition same_key ::
    "crypto_lib \<Rightarrow> draws \<Rightarrow> string option \<Rightarrow> u8 list option \<Rightarrow> bool \<Rightarrow>
     string option \<Rightarrow> u8 list option \<Rightarrow> bool" where
  "same_key lib rng key_opt file_key gen key_opt' file_key' =
     (\<exists>k. choose_key lib key_opt file_key (if gen then Inr (key_draw rng) else Inl []) = Inr k \<and>
          choose_key lib key_opt' file_key' (Inl []) = Inr k)"

definition key_halves :: "crypto_lib \<Rightarrow> u8 \<Rightarrow> string option \<Rightarrow> string option \<Rightarrow> bool" where
  "key_halves lib algo pub priv =
     (\<exists>seed. pub = Some (to_hex lib (snd (keypair lib (kem_of algo) seed))) \<and>
             priv = Some (to_hex lib (fst (keypair lib (kem_of algo) seed))))"

lemma choose_key_otherwise:
  "choose_key lib k f (Inl e) = Inr b \<Longrightarrow> choose_key lib k f (Inl e') = Inr b"
  by (auto simp: choose_key_def split: option.splits)

lemma choose_key_otherwise_if:
  "choose_key lib k f (if gen then x else Inl e) = Inr b \<Longrightarrow>
   choose_key lib k f (if gen then x else Inl e') = Inr b"
  by (cases gen) (auto intro: choose_key_otherwise)

lemma key_of_hex_eq:
  "key_of_hex lib t h = Inr k \<longleftrightarrow> of_hex lib h = Inr k \<and> length k = symmetric_key_size"
  by (auto simp: key_of_hex_def result_simps split: if_splits)

lemma symmetric_roundtrip:
  assumes laws: "crypto_laws lib" and "length (nonce_draw rng) = 12"
    and enc: "symmetric_encrypt lib rng m (to_hex lib k) algo = Inr (header, ct)"
  shows "parse_encrypted (header @ ct) = Inr (algo, [], nonce_draw rng, ct) \<and>
    symmetric_decrypt lib ct (to_hex lib k) (nonce_draw rng) algo = Inr m \<and>
    length k = symmetric_key_size"
proof -
  from enc obtain k' where k': "key_of_hex lib '' bytes'' (to_hex lib k) = Inr k'"
    "seal lib (cipher_of algo) k' (nonce_draw rng) (aad_of algo []) m = Inr ct"
    "header = build_header algo [] @ nonce_draw rng"
    by (auto simp: symmetric_encrypt_def result_simps)
  have "ct \<noteq> []" by (rule crypto_lawsD(2) [OF laws k'(2)])
  with assms(2) have "parse_encrypted (header @ ct) = Inr (algo, [], nonce_draw rng, ct)"
    using parse_built [of "[]" "nonce_draw rng" ct algo] k'(3) by simp
  moreover have "k' = k" "length k = symmetric_key_size"
    using k'(1) crypto_lawsD(1) [OF laws, of k] by (simp_all add: key_of_hex_eq)
  ultimately show ?thesis
    using k'(1) crypto_lawsD(3) [OF laws k'(2)] by (simp add: symmetric_decrypt_def)
qed

lemma mlkem_roundtrip:
  assumes laws: "crypto_laws lib" and "length (nonce_draw rng) = 12"
    and enc: "mlkem_encrypt lib rng m (snd (keypair lib (kem_of algo) seed)) algo = Inr (header, body, ss)"
  shows "\<exists>ct. parse_encrypted (header @ body) = Inr (algo, ct, nonce_draw rng, body) \<and>
    mlkem_decrypt lib body ct (nonce_draw rng) (fst (keypair lib (kem_of algo) seed)) algo = Inr m"
proof -
  from enc obtain ct where ct:
    "encapsulate lib (kem_of algo) (snd (keypair lib (kem_of algo) seed)) (kem_draw rng) = Inr (ct, ss)"
    "seal lib Aes256Gcm ss (nonce_draw rng) (aad_of algo ct) m = Inr body"
    "header = build_header algo ct @ nonce_draw rng"
    by (auto simp: mlkem_encrypt_def result_simps split: prod.splits)
  have "body \<noteq> []" by (rule crypto_lawsD(2) [OF laws ct(2)])
  with assms(2) crypto_lawsD(4) [OF laws ct(1)]
  have "parse_encrypted (header @ body) = Inr (algo, ct, nonce_draw rng, body)"
    using parse_built [of ct "nonce_draw rng" body algo] ct(3) by simp
  moreover have "mlkem_decrypt lib body ct (nonce_draw rng) (fst (keypair lib (kem_of algo) seed)) algo = Inr m"
    using crypto_lawsD(4) [OF laws ct(1)] crypto_lawsD(3) [OF laws ct(2)] by (simp add: mlkem_decrypt_def)
  ultimately show ?thesis by blast
qed

lemma encrypt_symmetric:
  assumes "algo = algo_aes256gcm \<or> algo = algo_chacha20"
    and "encrypt_bytes lib rng algo key_opt file_key gen pub file_data = Inr ((header, ct), returned)"
  shows "\<exists>k. choose_key lib key_opt file_key (if gen then Inr (key_draw rng) else Inl []) = Inr k \<and>
    symmetric_encrypt lib rng file_data (to_hex lib k) algo = Inr (header, ct) \<and>
    returned = (if gen then Some (to_hex lib k) else None)"
  using assms(2) unfolding encrypt_bytes_def if_P [OF assms(1)] and_then_eq_Inr map_ok_eq_Inr
  by (elim exE conjE) (intro exI conjI, erule choose_key_otherwise_if, simp_all)

lemma algos_apart: "algo_mlkem768 \<noteq> algo_aes256gcm" "algo_mlkem768 \<noteq> algo_chacha20"
  "algo_mlkem1024 \<noteq> algo_aes256gcm" "algo_mlkem1024 \<noteq> algo_chacha20"
  by (simp_all add: algo_mlkem768_def algo_mlkem1024_def algo_aes256gcm_def algo_chacha20_def)

lemma encrypt_kem:
  assumes "\<not> (algo = algo_aes256gcm \<or> algo = algo_chacha20)"
    and "encrypt_bytes lib rng algo key_opt file_key gen pub file_data = Inr ((header, ct), returned)"
  shows "(algo = algo_mlkem768 \<or> algo = algo_mlkem1024) \<and>
    (\<exists>h bs ss. pub = Some h \<and> of_hex lib h = Inr bs \<and>
       mlkem_encrypt lib rng file_data bs algo = Inr (header, ct, ss))"
proof -
  have kem: "algo = algo_mlkem768 \<or> algo = algo_mlkem1024"
    using assms by (auto simp: encrypt_bytes_def split: if_splits)
  with assms show ?thesis
    by (auto simp: encrypt_bytes_def result_simps algos_apart split: prod.splits)
qed

text \<open>The key of the encryption is chosen again with the same key, or with the one returned.\<close>

lemma chosen_again:
  assumes "crypto_laws lib" "choose_key lib key_opt file_key (if gen then Inr (key_draw rng) else Inl []) = Inr k"
    and "returned = (if gen then Some (to_hex lib k) else None)" "length k = symmetric_key_size"
    and "same_key lib rng key_opt file_key gen key_opt' file_key' \<or> gen \<and> key_opt' = returned"
  shows "choose_key lib key_opt' file_key' (Inl e) = Inr k"
proof (cases "same_key lib rng key_opt file_key gen key_opt' file_key'")
  case True
  then obtain k' where "choose_key lib key_opt file_key (if gen then Inr (key_draw rng) else Inl []) = Inr k'"
    and k': "choose_key lib key_opt' file_key' (Inl []) = Inr k'" unfolding same_key_def by blast
  then have "k' = k" using assms(2) by simp
  then show ?thesis using choose_key_otherwise [OF k'] by simp
next
  case False
  with assms(3,5) have "key_opt' = Some (to_hex lib k)" by simp
  then show ?thesis using assms(4) crypto_lawsD(1) [OF assms(1), of k] by (simp add: choose_key_def key_of_hex_eq)
qed

text \<open>
  C23: what \<open>encrypt_file\<close> writes, \<open>decrypt_file\<close> reads back: the file parses, and with the same
  key, the returned key or the private key of the pair it decrypts to the bytes that were
  encrypted, for each of the four algorithms.
\<close>

theorem encrypt_decrypt:
  assumes "crypto_laws lib" "length (nonce_draw rng) = nonce_size"
    and "encrypt_bytes lib rng algo key_opt file_key gen pub file_data = Inr ((header, ct), returned)"
    and "if algo = algo_aes256gcm \<or> algo = algo_chacha20
      then same_key lib rng key_opt file_key gen key_opt' file_key' \<or> gen \<and> key_opt' = returned
      else key_halves lib algo pub priv"
  shows "\<exists>enc_key nonce body. parse_encrypted (header @ ct) = Inr (algo, enc_key, nonce, body) \<and>
    decrypt_bytes lib algo enc_key nonce body key_opt' file_key' priv = Inr file_data"
proof (cases "algo = algo_aes256gcm \<or> algo = algo_chacha20")
  case True
  from encrypt_symmetric [OF True assms(3)]
  obtain k where k: "choose_key lib key_opt file_key (if gen then Inr (key_draw rng) else Inl []) = Inr k"
    "symmetric_encrypt lib rng file_data (to_hex lib k) algo = Inr (header, ct)"
    "returned = (if gen then Some (to_hex lib k) else None)" by blast
  note sym = symmetric_roundtrip [OF assms(1) _ k(2)]
  have n: "length (nonce_draw rng) = 12" using assms(2) by (simp add: nonce_size_def)
  note key = assms(4) [unfolded if_P [OF True]]
  have chosen: "choose_key lib key_opt' file_key' (Inl e) = Inr k" for e
    using chosen_again [OF assms(1) k(1,3) _ key] sym [OF n] by simp
  have "decrypt_bytes lib algo [] (nonce_draw rng) ct key_opt' file_key' priv = Inr file_data"
    unfolding decrypt_bytes_def if_P [OF True] chosen using sym [OF n] by simp
  with sym [OF n] show ?thesis by blast
next
  case False
  then obtain seed where seed: "pub = Some (to_hex lib (snd (keypair lib (kem_of algo) seed)))"
    "priv = Some (to_hex lib (fst (keypair lib (kem_of algo) seed)))"
    using assms(4) [unfolded if_not_P [OF False]] unfolding key_halves_def by blast
  from encrypt_kem [OF False assms(3)] obtain ss where
    kem: "algo = algo_mlkem768 \<or> algo = algo_mlkem1024" and
    enc: "mlkem_encrypt lib rng file_data (snd (keypair lib (kem_of algo) seed)) algo = Inr (header, ct, ss)"
    using seed(1) crypto_lawsD(1) [OF assms(1)] by fastforce
  have n: "length (nonce_draw rng) = 12" using assms(2) by (simp add: nonce_size_def)
  from mlkem_roundtrip [OF assms(1) n enc] obtain c where
    c: "parse_encrypted (header @ ct) = Inr (algo, c, nonce_draw rng, ct)"
      "mlkem_decrypt lib ct c (nonce_draw rng) (fst (keypair lib (kem_of algo) seed)) algo = Inr file_data"
    by blast
  have "decrypt_bytes lib algo c (nonce_draw rng) ct key_opt' file_key' priv = Inr file_data"
    unfolding decrypt_bytes_def if_not_P [OF False] if_P [OF kem] seed(2)
    using c(2) crypto_lawsD(1) [OF assms(1)] by simp
  with c(1) show ?thesis by blast
qed

section \<open>A library for the witnesses\<close>

definition demo_crypto :: crypto_lib where
  "demo_crypto = \<lparr>to_hex = of_bytes, of_hex = (\<lambda>s. Inr (as_bytes s)),
     seal = (\<lambda>c k n a m. Inr (0 # m)), unseal = (\<lambda>c k n a t. Inr (tl t)),
     keypair = (\<lambda>k seed. (1 # seed, seed)), encapsulate = (\<lambda>k ek r. Inr ([9], ek)),
     decapsulate = (\<lambda>k dk ct. Inr (tl dk))\<rparr>"

definition demo_draws :: draws where
  "demo_draws = \<lparr>key_draw = replicate 32 7, nonce_draw = replicate 12 0, kem_draw = [5]\<rparr>"

lemma demo_crypto_laws: "crypto_laws demo_crypto"
  by (simp add: crypto_laws_def demo_crypto_def)

theorem encrypt_decrypt_witness:
  "\<exists>enc_key nonce body.
     parse_encrypted ((build_header algo_aes256gcm [] @ replicate 12 0) @ 0 # hello) =
       Inr (algo_aes256gcm, enc_key, nonce, body) \<and>
     decrypt_bytes demo_crypto algo_aes256gcm enc_key nonce body (Some (of_bytes (replicate 32 7))) None None =
       Inr hello"
proof (rule encrypt_decrypt [OF demo_crypto_laws])
  show "length (nonce_draw demo_draws) = nonce_size"
    by (simp add: demo_draws_def nonce_size_def)
  show "encrypt_bytes demo_crypto demo_draws algo_aes256gcm None None True None hello =
      Inr ((build_header algo_aes256gcm [] @ replicate 12 0, 0 # hello), Some (of_bytes (replicate 32 7)))"
    by code_simp
qed simp

section \<open>A lost secret key\<close>

definition demo_keygen :: "json option" where
  "demo_keygen = Some (obj [(''algorithm'', JStr ''mlkem-768''), (''output'', JStr ''k.pub'')])"

lemma demo_keygen_facts:
  "get_opt_str demo_keygen ''algorithm'' = Some ''mlkem-768''"
  "get_opt_str demo_keygen ''output'' = Some ''k.pub''"
  "resolve_destination_path beneath_cap demo_os demo_sandbox ''k.pub'' = Inr (abs_path [''srv'', ''k.pub''])"
  "with_extension (abs_path [''srv'', ''k.pub'']) ''pub'' = abs_path [''srv'', ''k.pub'']"
  "is_kem_algorithm ''mlkem-768''"
  by code_simp+

lemma write_demo_key:
  "fs_write demo_os (abs_path [''srv'', ''k.pub'']) bs =
     (Inr (), put_node (put_node demo_os [''srv'', ''k.pub''] (Some (FileNode [])))
        [''srv'', ''k.pub''] (Some (FileNode bs)))"
  by code_simp

lemma write_demo_key_again:
  "fst (fs_write (put_node (put_node demo_os [''srv'', ''k.pub''] (Some (FileNode [])))
        [''srv'', ''k.pub''] (Some (FileNode bs))) (abs_path [''srv'', ''k.pub'']) cs) = Inr ()"
  "lookup (tree (snd (fs_write (put_node (put_node demo_os [''srv'', ''k.pub''] (Some (FileNode [])))
        [''srv'', ''k.pub''] (Some (FileNode bs))) (abs_path [''srv'', ''k.pub'']) cs)))
     [''srv'', ''k.pub''] = Some (FileNode cs)"
  by code_simp+

text \<open>
  \<open>generate_key\<close> for a key pair writes the public key beside the private key, under the
  extension \<open>pub\<close>. When the output already has that extension the two files are one, and the
  public key overwrites the private key, while the answer names the file as the private key's.
\<close>

lemma generate_key_loses_secret:
  "\<exists>resp w. generate_key demo_runtime lib rng demo_config demo_keygen demo_proc = (Done resp, w) \<and>
     jget resp ''privateKeyFile'' = Some (JStr ''/srv/k.pub'') \<and>
     lookup (tree (disk w)) [''srv'', ''k.pub''] =
       Some (FileNode (as_bytes (to_hex lib (snd (keypair lib MlKem768 (kem_draw rng))))))"
proof -
  obtain dk ek where key: "keypair lib MlKem768 (kem_draw rng) = (dk, ek)" by fastforce
  define s1 where "s1 = put_node (put_node demo_os [''srv'', ''k.pub''] (Some (FileNode [])))
      [''srv'', ''k.pub''] (Some (FileNode (as_bytes (to_hex lib dk))))"
  obtain s2 where s2: "fs_write s1 (abs_path [''srv'', ''k.pub'']) (as_bytes (to_hex lib ek)) = (Inr (), s2)"
    "lookup (tree s2) [''srv'', ''k.pub''] = Some (FileNode (as_bytes (to_hex lib ek)))"
    using write_demo_key_again [of "as_bytes (to_hex lib dk)" "as_bytes (to_hex lib ek)"]
    unfolding s1_def by (metis prod.collapse)
  have gen: "generate lib rng ''mlkem-768'' (Some (abs_path [''srv'', ''k.pub''])) demo_os =
      (Inr \<lparr>key = None, public_key = Some (to_hex lib ek), private_key = Some (to_hex lib dk)\<rparr>, s2)"
    using s2(1) key demo_keygen_facts
    by (simp add: generate_def write_key_def write_demo_key s1_def [symmetric] Let_def)
  have shown: "jpath (abs_path [''srv'', ''k.pub'']) = JStr ''/srv/k.pub''" by code_simp
  show ?thesis
    using s2(2) gen demo_keygen_facts
    by (simp add: generate_key_def Let_def act_simps resolve_destination_now_def demo_runtime_def
        run_blocking_def update_or_panic_def keygen_report_def set_opt_def jget_set_key shown key obj_def is_object_def)
qed

end
