(* ===== verification/Resources.thy ===== *)
theory Resources
  imports Dirs "HOL-Library.Option_ord" "HOL-Library.Signed_Division"
begin

text \<open>
  \<open>src/resources/mod.rs\<close>: the resources of the server. Parameters are the walk of \<open>walkdir\<close>
  under a filter on paths, the modification times, which the model of the files does not have,
  and the files under \<open>app/ui\<close> that \<open>browser_html\<close> puts together. A \<open>PathBuf\<close>
  made from a URI is kept as its text, which is all that is done with it.
\<close>

record res_lib =
  walk_paths :: "os \<Rightarrow> bool \<Rightarrow> (path \<Rightarrow> bool) \<Rightarrow> path \<Rightarrow> walk_entry list"
  modified_at :: "os \<Rightarrow> path \<Rightarrow> nat option"
  index_html :: string
  style_css :: string
  app_js :: string

text \<open>\<open>browser_html\<close>: the page, with its style and its script put in.\<close>

definition browser_html :: "res_lib \<Rightarrow> string" where
  "browser_html lib =
     str_replace ''/*__APP_SCRIPT__*/'' (app_js lib)
       (str_replace ''/*__APP_STYLE__*/'' (style_css lib) (index_html lib))"

definition ui_resource_uri :: string where
  "ui_resource_uri = ''ui://filesystem/browser-v1.html''"

definition ui_resource_mime :: string where
  "ui_resource_mime = ''text/html;profile=mcp-app''"

definition page_size :: nat where
  "page_size = 250"

definition max_listed_files :: nat where
  "max_listed_files = 10000"

definition preview_bytes :: nat where
  "preview_bytes = 8 * 1024"

section \<open>File URIs\<close>

definition is_ascii_alphanumeric :: "u8 \<Rightarrow> bool" where
  "is_ascii_alphanumeric b =
     (48 \<le> b \<and> b \<le> 57 \<or> 65 \<le> b \<and> b \<le> 90 \<or> 97 \<le> b \<and> b \<le> 122)"

definition unescaped :: "u8 \<Rightarrow> bool" where
  "unescaped b = (is_ascii_alphanumeric b \<or> b \<in> set (as_bytes ''-._~/:''))"

text \<open>A digit of \<open>{:02X}\<close>.\<close>

definition hex_upper :: "nat \<Rightarrow> u8" where
  "hex_upper n = of_nat (if n < 10 then 48 + n else 55 + n)"

definition percent_byte :: u8 where
  "percent_byte = 37"

definition encode_byte :: "u8 \<Rightarrow> u8 list" where
  "encode_byte b =
     (if unescaped b then [b]
      else [percent_byte, hex_upper (unat b div 16), hex_upper (unat b mod 16)])"

definition encode_uri_path :: "string \<Rightarrow> string" where
  "encode_uri_path value = of_bytes (concat (map encode_byte (as_bytes value)))"

text \<open>
  \<open>u8::from_str_radix(hex, 16)\<close> on two bytes. Bytes that are not UTF-8 fail with the same error.
\<close>

definition from_hex :: "u8 \<Rightarrow> u8 \<Rightarrow> u8 option" where
  "from_hex a b = map_option of_nat (unsigned_from_str_radix 16 255 (of_bytes [a, b]))"

fun decode_bytes :: "u8 list \<Rightarrow> u8 list result" where
  "decode_bytes [] = Inr []"
| "decode_bytes (c # bs) =
     (if c = percent_byte then
        (case bs of
           a # b # rest \<Rightarrow>
             and_then (ok_or (InvalidParams ''Invalid percent escape in resource URI'') (from_hex a b))
               (\<lambda>v. map_ok (\<lambda>vs. v # vs) (decode_bytes rest))
         | _ \<Rightarrow> Inl (InvalidParams ''Incomplete percent escape in resource URI''))
      else map_ok (\<lambda>vs. c # vs) (decode_bytes bs))"

definition decode_uri_path :: "string \<Rightarrow> string result" where
  "decode_uri_path value =
     and_then (decode_bytes (as_bytes value)) (\<lambda>bs.
       ok_or (InvalidParams ''Resource URI is not valid UTF-8'') (from_utf8 bs))"

definition backslash :: char where
  "backslash = char_of (92 :: nat)"

definition path_to_file_uri :: "path \<Rightarrow> string" where
  "path_to_file_uri p =
     (let rendered = str_replace [backslash] [slash] (lossy (path_text p));
          rendered = (if starts_with rendered [slash] then rendered else slash # rendered) in
      ''file://'' @ encode_uri_path rendered)"

definition file_uri_to_path :: "string \<Rightarrow> string result" where
  "file_uri_to_path uri =
     and_then (ok_or (InvalidParams ''Only file:// and ui:// resources are supported'')
         (strip_prefix uri ''file://'')) decode_uri_path"

section \<open>Dates\<close>

text \<open>Divisions of \<open>i64\<close> truncate.\<close>

definition civil_from_days :: "int \<Rightarrow> int \<times> int \<times> int" where
  "civil_from_days days =
     (let z = days + 719468;
          era = (if z \<ge> 0 then z else z - 146096) sdiv 146097;
          day_of_era = z - era * 146097;
          year_of_era =
            (day_of_era - day_of_era sdiv 1460 + day_of_era sdiv 36524 - day_of_era sdiv 146096) sdiv 365;
          year = year_of_era + era * 400;
          day_of_year = day_of_era - (365 * year_of_era + year_of_era sdiv 4 - year_of_era sdiv 100);
          month_prime = (5 * day_of_year + 2) sdiv 153;
          day = day_of_year - (153 * month_prime + 2) sdiv 5 + 1;
          month = month_prime + (if month_prime < 10 then 3 else -9);
          year = year + (if month \<le> 2 then 1 else 0) in
      (year, month, day))"

text \<open>\<open>{:0w}\<close> on an integer.\<close>

definition pad_int :: "nat \<Rightarrow> int \<Rightarrow> string" where
  "pad_int w i =
     (if i < 0 then (let s = show_nat (nat (- i)) in CHR ''-'' # replicate (w - 1 - length s) CHR ''0'' @ s)
      else (let s = show_nat (nat i) in replicate (w - length s) CHR ''0'' @ s))"

definition format_modified :: "nat \<Rightarrow> string" where
  "format_modified secs =
     (let seconds = as_signed secs;
          days = seconds div 86400;
          seconds_of_day = seconds mod 86400;
          hour = seconds_of_day sdiv 3600;
          minute = (seconds_of_day smod 3600) sdiv 60;
          second = seconds_of_day smod 60 in
      case civil_from_days days of (year, month, day) \<Rightarrow>
        pad_int 4 year @ ''-'' @ pad_int 2 month @ ''-'' @ pad_int 2 day @ ''T'' @
        pad_int 2 hour @ '':'' @ pad_int 2 minute @ '':'' @ pad_int 2 second @ ''Z'')"

section \<open>Kinds of content\<close>

definition mime_by_extension :: "(string \<times> string) list" where
  "mime_by_extension =
    [(''md'', ''text/markdown''), (''markdown'', ''text/markdown''), (''txt'', ''text/plain''),
     (''log'', ''text/plain''), (''json'', ''application/json''), (''csv'', ''text/csv''),
     (''html'', ''text/html''), (''htm'', ''text/html''), (''css'', ''text/css''),
     (''js'', ''text/javascript''), (''mjs'', ''text/javascript''), (''rs'', ''text/x-rust''),
     (''toml'', ''application/toml''), (''yaml'', ''application/yaml''), (''yml'', ''application/yaml''),
     (''xml'', ''application/xml''), (''svg'', ''image/svg+xml''), (''png'', ''image/png''),
     (''jpg'', ''image/jpeg''), (''jpeg'', ''image/jpeg''), (''gif'', ''image/gif''),
     (''webp'', ''image/webp''), (''pdf'', ''application/pdf'')]"

definition detect_mime :: "media_lib \<Rightarrow> path \<Rightarrow> u8 list \<Rightarrow> string" where
  "detect_mime lib p bs =
     (case infer_mime lib bs of
        Some m \<Rightarrow> m
      | None \<Rightarrow>
          (case map_of mime_by_extension
                  (to_ascii_lowercase (unwrap_or [] (filter_opt valid_str (extension p)))) of
             Some m \<Rightarrow> m
           | None \<Rightarrow> if \<not> is_binary lib bs then ''text/plain'' else ''application/octet-stream''))"

definition is_text :: "media_lib \<Rightarrow> string \<Rightarrow> u8 list \<Rightarrow> bool" where
  "is_text lib mime bs =
     (starts_with mime ''text/''
      \<or> mime \<in> {''application/json'', ''application/xml'', ''application/toml'', ''application/yaml'',
                ''image/svg+xml''}
      \<or> \<not> is_binary lib bs)"

definition preview :: "media_lib \<Rightarrow> u8 list \<Rightarrow> string \<Rightarrow> json" where
  "preview lib bs mime =
     (if \<not> is_text lib mime bs then JNull
      else JStr (concat (take 2000 (str_chars (from_utf8_lossy (take preview_bytes bs))))))"

section \<open>Listing\<close>

definition absolute_path :: "os \<Rightarrow> string \<Rightarrow> path" where
  "absolute_path s p =
     (let q = path_of p in
      if is_absolute q then q else join (unwrap_or [] (ok (current_dir s))) q)"

text \<open>The filter of the walk: no component below the root starts with a dot.\<close>

definition hidden_below :: "path \<Rightarrow> path \<Rightarrow> bool" where
  "hidden_below p root =
     (case path_strip_prefix p root of
        None \<Rightarrow> False
      | Some below_root \<Rightarrow>
          list_ex (\<lambda>c. let n = component_text c in
                     valid_str n \<and> starts_with n ''.'' \<and> n \<noteq> ''.'') below_root)"

definition canonical_roots :: "os \<Rightarrow> string list \<Rightarrow> path list result" where
  "canonical_roots s allowed =
     collect_results (\<lambda>root.
       map_err (\<lambda>e. FilesystemError (''Cannot canonicalize allowed directory ''
                  @ path_display (absolute_path s root) @ '': '' @ io_text e))
         (canonicalize s (absolute_path s root))) allowed"

text \<open>The file that an entry of the walk stands for, if it is listed.\<close>

definition listed_path :: "os \<Rightarrow> bool \<Rightarrow> path list \<Rightarrow> walk_entry \<Rightarrow> path option" where
  "listed_path s follow bases e =
     (if \<not> we_is_file e then None
      else if follow then
        filter_opt (\<lambda>p. list_ex (\<lambda>allowed. path_starts_with p allowed) bases) (ok (canonicalize s (we_path e)))
      else Some (we_path e))"

definition file_descriptor :: "media_lib \<Rightarrow> res_lib \<Rightarrow> os \<Rightarrow> path \<Rightarrow> nat \<Rightarrow> json" where
  "file_descriptor media lib s p file_size =
     (let sample = take preview_bytes (unwrap_or [] (ok (fs_read s p)));
          mime = detect_mime media p sample;
          modified = map_option format_modified (modified_at lib s p);
          name = (case file_name p of Some n \<Rightarrow> lossy n | None \<Rightarrow> lossy (path_text p)) in
      obj [(''uri'', JStr (path_to_file_uri p)), (''name'', JStr name), (''title'', JStr name),
           (''description'', JStr (''Sandboxed file '' @ path_display p)), (''mimeType'', JStr mime),
           (''size'', jnat file_size),
           (''annotations'', obj [
              (''audience'', JArr [JStr ''user'', JStr ''assistant'']),
              (''priority'', JFloat ''0.5''),
              (''lastModified'', jopt JStr modified)]),
           (''_meta'', obj [(''preview'', preview media sample mime)])])"

fun scan_loop ::
    "media_lib \<Rightarrow> res_lib \<Rightarrow> os \<Rightarrow> bool \<Rightarrow> path list \<Rightarrow> nat \<Rightarrow> walk_entry list \<Rightarrow> json list" where
  "scan_loop media lib s follow bases n [] = []"
| "scan_loop media lib s follow bases n (e # es) =
     (if n \<ge> max_listed_files then []
      else (case Option.bind (listed_path s follow bases e)
                   (\<lambda>p. map_option (\<lambda>m. (p, m)) (ok (fs_stat s p))) of
              None \<Rightarrow> scan_loop media lib s follow bases n es
            | Some (p, m) \<Rightarrow>
                file_descriptor media lib s p (node_len s m)
                  # scan_loop media lib s follow bases (n + 1) es))"

definition scan_resources ::
    "media_lib \<Rightarrow> res_lib \<Rightarrow> string list \<Rightarrow> bool \<Rightarrow> os \<Rightarrow> json list result" where
  "scan_resources media lib allowed follow s =
     map_ok
       (\<lambda>bases. scan_loop media lib s follow bases 0
          (concat (map (\<lambda>root. walk_paths lib s follow (\<lambda>p. \<not> hidden_below p root) root) bases)))
       (canonical_roots s allowed)"

definition ui_csp :: json where
  "ui_csp = obj [(''ui'', obj [
     (''prefersBorder'', JBool True),
     (''csp'', obj [(''connectDomains'', JArr []), (''resourceDomains'', JArr [])])])]"

definition ui_resource_descriptor :: json where
  "ui_resource_descriptor =
     obj [(''uri'', JStr ui_resource_uri), (''name'', JStr ''filesystem-browser''),
          (''title'', JStr ''Filesystem Browser''),
          (''description'', JStr ''Interactive file browser and preview component for ChatGPT.''),
          (''mimeType'', JStr ui_resource_mime),
          (''annotations'', obj [(''audience'', JArr [JStr ''user'']), (''priority'', JFloat ''1.0'')]),
          (''_meta'', ui_csp)]"

text \<open>\<open>str::parse::<usize>\<close>.\<close>

definition parse_usize :: "string \<Rightarrow> nat option" where
  "parse_usize s = unsigned_from_str_radix 10 u64_max s"

definition str_param :: "json option \<Rightarrow> string \<Rightarrow> string option" where
  "str_param args k = Option.bind (Option.bind args (\<lambda>p. jget p k)) as_str"

definition uri_key :: "json \<Rightarrow> string option" where
  "uri_key r = Option.bind (jget r ''uri'') as_str"

definition page_of :: "json list \<Rightarrow> nat \<Rightarrow> json result" where
  "page_of resources cursor =
     (if cursor > length resources then
        Inl (InvalidParams ''resources/list cursor is outside the result set'')
      else
        (let last = min (cursor + page_size) (length resources);
             result = obj [(''resources'', JArr (take (last - cursor) (drop cursor resources)))] in
         Inr (if last < length resources then set_key ''nextCursor'' (JStr (show_nat last)) result
              else result)))"

definition list_resources ::
    "media_lib \<Rightarrow> res_lib \<Rightarrow> config \<Rightarrow> json option \<Rightarrow> ('d, json) action" where
  "list_resources media lib cfg params =
     then_do (lift (ok_or (InvalidParams ''resources/list cursor must be an integer'')
       (parse_usize (unwrap_or ''0'' (str_param params ''cursor''))))) (\<lambda>cursor.
     then_do (query (scan_resources media lib (allowed_directories cfg) (follow_symlinks (server cfg))))
       (\<lambda>found.
     lift (page_of (ui_resource_descriptor # sort_key uri_key found) cursor)))"

section \<open>Reading\<close>

definition resource_content :: "media_lib \<Rightarrow> string \<Rightarrow> string \<Rightarrow> u8 list \<Rightarrow> json \<Rightarrow> json" where
  "resource_content media uri mime bs meta =
     (if is_text media mime bs then
        obj [(''uri'', JStr uri), (''mimeType'', JStr mime), (''text'', JStr (from_utf8_lossy bs)),
             (''_meta'', meta)]
      else
        obj [(''uri'', JStr uri), (''mimeType'', JStr mime), (''blob'', JStr (base64 media bs)),
             (''_meta'', meta)])"

definition ui_contents :: "res_lib \<Rightarrow> json" where
  "ui_contents lib =
     obj [(''contents'', JArr [obj [
        (''uri'', JStr ui_resource_uri), (''mimeType'', JStr ui_resource_mime),
        (''text'', JStr (browser_html lib)), (''_meta'', ui_csp)]])]"

definition read_resource ::
    "'d runtime \<Rightarrow> media_lib \<Rightarrow> res_lib \<Rightarrow> config \<Rightarrow> json option \<Rightarrow> ('d, json) action" where
  "read_resource rt media lib cfg params =
     then_do (lift (ok_or (InvalidParams (''Missing resources/read '' @ quoted ''uri'' @ '' parameter''))
       (str_param params ''uri''))) (\<lambda>uri.
     if uri = ui_resource_uri then give (ui_contents lib)
     else
       then_do (lift (file_uri_to_path uri)) (\<lambda>p.
       then_do (resolve_now rt cfg p) (\<lambda>r.
       then_do (query (\<lambda>s. resolved_metadata (cap rt) s r)) (\<lambda>metadata.
       if \<not> cap_is_file metadata then
         failed (InvalidParams (''Resource URI does not identify a regular file: '' @ uri))
       else if cap_len metadata > max_file_size cfg then
         failed (FilesystemError (''Resource size '' @ show_nat (cap_len metadata)
           @ '' exceeds maximum allowed size '' @ show_nat (max_file_size cfg)))
       else
         then_do (query (\<lambda>s. resolved_read (cap rt) s r)) (\<lambda>bs.
         then_do (query (\<lambda>s. Inr (map_option format_modified
             (Option.bind (ok (fs_stat s (canonical r))) (\<lambda>m. modified_at lib s (canonical r))))))
           (\<lambda>modified.
         let mime = detect_mime media (canonical r) bs;
             meta = obj [(''size'', jnat (cap_len metadata)), (''modifiedTime'', jopt JStr modified),
                         (''preview'', preview media bs mime)] in
         give (obj [(''contents'', JArr [resource_content media uri mime bs meta])])))))))"

definition templates :: json where
  "templates =
     obj [(''resourceTemplates'', JArr [obj [
       (''uriTemplate'', JStr ''file:///{path}''), (''name'', JStr ''filesystem-file''),
       (''title'', JStr ''Sandboxed filesystem file''),
       (''description'', JStr (''A file inside one of the server'' @ [CHR 0x27] @ ''s allowed directories.'')),
       (''mimeType'', JStr ''application/octet-stream'')]])]"

lemma resources_keep [simp]:
  "keeps (=) (list_resources media lib cfg params)"
  "keeps (=) (read_resource rt media lib cfg params)"
  by (auto simp: list_resources_def read_resource_def Let_def intro!: same.keeps_then_do)

end
