(* ===== verification/Calendar.thy ===== *)
theory Calendar
  imports Resources
begin

text \<open>
  The dates of \<open>civil_from_days\<close> against the calendar: the specification counts days with the
  rule of the leap years, the code computes with eras of 400 years that begin in March. A day
  is a triple of the era, the year of the era and the day of the year; the lemmas show what
  the code computes from it, and that its successor is the next date.
\<close>

section \<open>The specification\<close>

definition leap_year :: "int \<Rightarrow> bool" where
  "leap_year y = (y mod 4 = 0 \<and> y mod 100 \<noteq> 0 \<or> y mod 400 = 0)"

definition month_length :: "int \<Rightarrow> int \<Rightarrow> int" where
  "month_length y m =
     (if m = 2 then (if leap_year y then 29 else 28)
      else if m = 4 \<or> m = 6 \<or> m = 9 \<or> m = 11 then 30 else 31)"

fun next_date :: "int \<times> int \<times> int \<Rightarrow> int \<times> int \<times> int" where
  "next_date (y, m, d) =
     (if d < month_length y m then (y, m, d + 1)
      else if m < 12 then (y, m + 1, 1) else (y + 1, 1, 1))"

section \<open>Days as the code counts them\<close>

definition year_start :: "int \<Rightarrow> int" where
  "year_start y = 365 * y + y div 4 - y div 100"

definition year_days :: "int \<Rightarrow> int" where
  "year_days y = (if leap_year (y + 1) then 366 else 365)"

definition valid_day :: "int \<Rightarrow> int \<Rightarrow> int \<Rightarrow> bool" where
  "valid_day e y d = (0 \<le> e \<and> 0 \<le> y \<and> y < 400 \<and> 0 \<le> d \<and> d < year_days y)"

definition year_estimate :: "int \<Rightarrow> int" where
  "year_estimate d = d - d div 1460 + d div 36524 - d div 146096"

definition month_prime :: "int \<Rightarrow> int" where
  "month_prime d = (5 * d + 2) div 153"

definition month_of :: "int \<Rightarrow> int" where
  "month_of d = month_prime d + (if month_prime d < 10 then 3 else -9)"

definition date_of :: "int \<Rightarrow> int \<Rightarrow> int \<Rightarrow> int \<times> int \<times> int" where
  "date_of e y d =
     (y + e * 400 + (if month_of d \<le> 2 then 1 else 0), month_of d, d - (153 * month_prime d + 2) div 5 + 1)"

lemma sdiv_nonneg: "0 \<le> a \<Longrightarrow> 0 < b \<Longrightarrow> a sdiv b = a div (b :: int)"
  by (simp add: signed_divide_int_def sgn_if)

text \<open>The estimate grows with the day.\<close>

lemma div_grows_less:
  assumes "x \<le> y" "0 < n"
  shows "y div n - x div n \<le> y - (x :: int)"
proof -
  have "y \<le> x + (y - x) * n"
    using mult_left_mono [of 1 n "y - x"] assms by (simp add: mult.commute)
  then have "y div n \<le> (x + (y - x) * n) div n" using assms(2) by (rule zdiv_mono1)
  then show ?thesis using assms(2) by simp
qed

lemma quarter_grows: "p \<le> q \<Longrightarrow> p - p div 4 \<le> q - q div (4 :: int)"
  by presburger

lemma year_estimate_mono:
  assumes "x \<le> y"
  shows "year_estimate x \<le> year_estimate y"
proof -
  have q: "d div 146096 = d div 36524 div 4" for d :: int
    using zdiv_zmult2_eq [of 4 d 36524] by simp
  have "x div 36524 \<le> y div 36524" using assms by (simp add: zdiv_mono1)
  from quarter_grows [OF this] div_grows_less [OF assms, of 1460] show ?thesis
    by (simp add: year_estimate_def q)
qed

text \<open>Facts that hold for every year of an era, or for every day of a year, by evaluation.\<close>

lemma era_checks:
  "list_all (\<lambda>y. year_estimate (year_start y) div 365 = y \<and>
     year_estimate (year_start y + year_days y - 1) div 365 = y \<and>
     0 \<le> year_start y \<and> year_start y + year_days y \<le> 146097) [0..399]"
  by code_simp

lemma start_checks:
  "list_all (\<lambda>y. year_start (y + 1) = year_start y + year_days y) [0..398]"
  by code_simp

definition day_check :: "int \<Rightarrow> bool" where
  "day_check d =
     (let m = month_of d; k = d - (153 * month_prime d + 2) div 5 + 1;
          m' = month_of (d + 1); k' = d + 1 - (153 * month_prime (d + 1) + 2) div 5 + 1 in
      1 \<le> m \<and> m \<le> 12 \<and>
      (if m = 2 then m' = 2 \<and> k' = k + 1 \<and> k < 29 \<and> (k = 28 \<longleftrightarrow> d = 364)
       else if k < month_length 1 m then m' = m \<and> k' = k + 1
       else k' = 1 \<and> m' = (if m < 12 then m + 1 else 1)))"

lemma day_checks: "list_all day_check [0..364]"
  by code_simp

lemma upto_check: "list_all P [0..n] \<Longrightarrow> 0 \<le> y \<Longrightarrow> y \<le> n \<Longrightarrow> P y"
  by (simp add: list_all_iff)

lemma era_check:
  assumes "0 \<le> y" "y < 400"
  shows "year_estimate (year_start y) div 365 = y"
    "year_estimate (year_start y + year_days y - 1) div 365 = y"
    "0 \<le> year_start y" "year_start y + year_days y \<le> 146097"
  using upto_check [OF era_checks, of y] assms by simp_all

section \<open>What the code computes\<close>

lemma estimate_in_year:
  assumes "valid_day e y d"
  shows "year_estimate (year_start y + d) div 365 = y" "0 \<le> year_estimate (year_start y + d)"
proof -
  from assms have y: "0 \<le> y" "y < 400" and d: "0 \<le> d" "d \<le> year_days y - 1"
    by (auto simp: valid_day_def)
  have lower: "year_estimate (year_start y) \<le> year_estimate (year_start y + d)"
    using d(1) by (intro year_estimate_mono) simp
  have upper: "year_estimate (year_start y + d) \<le> year_estimate (year_start y + year_days y - 1)"
    using d(2) by (intro year_estimate_mono) simp
  from zdiv_mono1 [OF lower, of 365] zdiv_mono1 [OF upper, of 365] era_check [OF y]
  show "year_estimate (year_start y + d) div 365 = y" by simp
  then have "0 \<le> year_estimate (year_start y + d) div 365" using y(1) by simp
  then show "0 \<le> year_estimate (year_start y + d)" by (simp add: pos_imp_zdiv_nonneg_iff)
qed

lemma civil_by_parts:
  assumes "0 \<le> z" "z sdiv 146097 = e" "z - e * 146097 = doe"
    and "(doe - doe sdiv 1460 + doe sdiv 36524 - doe sdiv 146096) sdiv 365 = y"
    and "doe - (365 * y + y sdiv 4 - y sdiv 100) = d"
    and "(5 * d + 2) sdiv 153 = month_prime d"
    and "(153 * month_prime d + 2) sdiv 5 = (153 * month_prime d + 2) div 5"
  shows "civil_from_days (z - 719468) = date_of e y d"
proof -
  have "z - 719468 + 719468 = z" by simp
  then show ?thesis
    unfolding civil_from_days_def Let_def by (simp only: assms if_True date_of_def month_of_def)
qed

lemma date_computed:
  assumes "valid_day e y d"
  shows "civil_from_days (146097 * e + (year_start y + d) - 719468) = date_of e y d"
proof (rule civil_by_parts)
  let ?doe = "year_start y + d"
  from assms have y: "0 \<le> y" "y < 400" and e: "0 \<le> e" and d: "0 \<le> d" "d < year_days y"
    by (auto simp: valid_day_def)
  note era = era_check [OF y] and est = estimate_in_year [OF assms]
  have doe: "0 \<le> ?doe" "?doe < 146097" using era(3,4) d by linarith+
  then show z: "0 \<le> 146097 * e + ?doe" using e by simp
  have "(146097 * e + ?doe) div 146097 = e"
    using doe by (simp add: div_add_self1 add.commute)
  with z show "(146097 * e + ?doe) sdiv 146097 = e" by (simp add: sdiv_nonneg)
  show "146097 * e + ?doe - e * 146097 = ?doe" by simp
  show "(?doe - ?doe sdiv 1460 + ?doe sdiv 36524 - ?doe sdiv 146096) sdiv 365 = y"
    using doe est by (simp add: sdiv_nonneg year_estimate_def)
  show "?doe - (365 * y + y sdiv 4 - y sdiv 100) = d"
    using y by (simp add: sdiv_nonneg year_start_def)
  show "(5 * d + 2) sdiv 153 = month_prime d"
    using d by (simp add: sdiv_nonneg month_prime_def)
  show "(153 * month_prime d + 2) sdiv 5 = (153 * month_prime d + 2) div 5"
    using d by (simp add: sdiv_nonneg month_prime_def pos_imp_zdiv_nonneg_iff)
qed

section \<open>The next day\<close>

lemma leap_year_era: "leap_year (y + e * 400) = leap_year y"
proof -
  have "(y + e * 100 * 4) mod 4 = y mod 4" "(y + e * 4 * 100) mod 100 = y mod 100"
    "(y + e * 400) mod 400 = y mod 400" by (rule mod_mult_self1)+
  then show ?thesis by (simp add: leap_year_def mult.commute)
qed

lemma last_days: "month_of 364 = 2" "month_of 365 = 2" "month_of 0 = 3"
  "date_of e y 364 = (y + e * 400 + 1, 2, 28)" "date_of e y 365 = (y + e * 400 + 1, 2, 29)"
  "date_of e y 0 = (y + e * 400, 3, 1)"
  by (simp_all add: month_of_def month_prime_def date_of_def)

lemma next_within_year:
  assumes "valid_day e y d" "d + 1 < year_days y"
  shows "next_date (date_of e y d) = date_of e y (d + 1)"
proof -
  have d: "0 \<le> d" "d \<le> 364" using assms by (auto simp: valid_day_def year_days_def split: if_splits)
  have len: "month_length a m = month_length 1 m" if "m \<noteq> 2" for a m
    using that by (simp add: month_length_def)
  have feb: "d - (153 * month_prime d + 2) div 5 + 1 < month_length (y + e * 400 + 1) 2" if "month_of d = 2"
  proof (cases "d = 364")
    case True
    then have "leap_year (y + 1)" using assms(2) by (auto simp: year_days_def split: if_splits)
    then have "leap_year (y + e * 400 + 1)" using leap_year_era [of "y + 1" e] by (simp add: ac_simps)
    with True show ?thesis by (simp add: month_length_def month_prime_def)
  next
    case False
    with that upto_check [OF day_checks d] show ?thesis
      by (auto simp: day_check_def Let_def month_length_def)
  qed
  define m where "m = month_of d"
  define k where "k = d - (153 * month_prime d + 2) div 5 + 1"
  define m' where "m' = month_of (d + 1)"
  define k' where "k' = d + 1 - (153 * month_prime (d + 1) + 2) div 5 + 1"
  have dates: "date_of e y d = (y + e * 400 + (if m \<le> 2 then 1 else 0), m, k)"
    "date_of e y (d + 1) = (y + e * 400 + (if m' \<le> 2 then 1 else 0), m', k')"
    by (simp_all add: date_of_def m_def k_def m'_def k'_def)
  have check: "1 \<le> m" "m \<le> 12" "if m = 2 then m' = 2 \<and> k' = k + 1
     else if k < month_length 1 m then m' = m \<and> k' = k + 1
     else k' = 1 \<and> m' = (if m < 12 then m + 1 else 1)"
    using upto_check [OF day_checks d]
    unfolding day_check_def Let_def m_def k_def m'_def k'_def by (simp_all split: if_splits)
  show ?thesis
  proof (cases "m = 2")
    case True
    then show ?thesis using check feb by (simp add: dates m_def [symmetric] k_def [symmetric])
  next
    case False
    then have "month_length (y + e * 400 + b) m = month_length 1 m" for b by (rule len)
    from this [of 0] this [of 1] False check show ?thesis unfolding dates by (auto split: if_splits)
  qed
qed

lemma next_year:
  assumes "valid_day e y d" "d + 1 = year_days y"
  shows "next_date (date_of e y d) = date_of e (y + 1) 0"
proof -
  have leap: "leap_year (y + e * 400 + 1) = leap_year (y + 1)"
    using leap_year_era [of "y + 1" e] by (simp add: ac_simps)
  show ?thesis
  proof (cases "leap_year (y + 1)")
    case True
    then have "d = 365" using assms(2) by (simp add: year_days_def)
    with leap True show ?thesis by (simp add: last_days month_length_def)
  next
    case False
    then have "d = 364" using assms(2) by (simp add: year_days_def)
    with leap False show ?thesis by (simp add: last_days month_length_def)
  qed
qed

text \<open>The day after a valid day is valid, and has the next number and the next date.\<close>

lemma next_valid:
  assumes "valid_day e y d"
  obtains e' y' d' where "valid_day e' y' d'"
    "146097 * e' + year_start y' + d' = 146097 * e + year_start y + d + 1"
    "date_of e' y' d' = next_date (date_of e y d)"
proof (cases "d + 1 < year_days y")
  case True
  with assms have "valid_day e y (d + 1)" by (simp add: valid_day_def)
  with that next_within_year [OF assms True] show thesis by simp
next
  case False
  with assms have last: "d + 1 = year_days y" by (simp add: valid_day_def)
  have pos: "0 < year_days k" for k by (simp add: year_days_def)
  show thesis
  proof (cases "y = 399")
    case True
    have "valid_day (e + 1) 0 0" using assms pos [of 0] by (simp add: valid_day_def)
    moreover have "146097 * (e + 1) + year_start 0 + 0 = 146097 * e + year_start y + d + 1"
      using last True by (simp add: year_start_def year_days_def leap_year_def)
    moreover have "date_of (e + 1) 0 0 = next_date (date_of e y d)"
      using next_year [OF assms last] True by (simp add: last_days)
    ultimately show thesis by (rule that)
  next
    case False
    with assms have y: "0 \<le> y" "y \<le> 398" by (auto simp: valid_day_def)
    then have "valid_day e (y + 1) 0" using assms pos [of "y + 1"] by (simp add: valid_day_def)
    with that [of e "y + 1" 0] next_year [OF assms last] upto_check [OF start_checks y] last
    show thesis by simp
  qed
qed

text \<open>
  C37: \<open>civil_from_days\<close> is the Gregorian calendar: the date it computes for the \<open>n\<close>-th day after
  the epoch is the one reached from the first of January 1970 by stepping \<open>n\<close> times to the next
  date, with the leap years of the calendar.
\<close>

theorem civil_from_days_calendar:
  "civil_from_days (int n) = (next_date ^^ n) (1970, 1, 1)"
proof -
  have "\<exists>e y d. valid_day e y d \<and> 146097 * e + year_start y + d = int n + 719468 \<and>
    date_of e y d = (next_date ^^ n) (1970, 1, 1)"
  proof (induction n)
    case 0
    have "valid_day 4 369 306" by (simp add: valid_day_def year_days_def leap_year_def)
    moreover have "date_of 4 369 306 = (1970, 1, 1)"
      by (simp add: date_of_def month_of_def month_prime_def)
    ultimately show ?case by (intro exI [of _ 4] exI [of _ 369] exI [of _ 306]) (simp add: year_start_def)
  next
    case (Suc n)
    then obtain e y d where "valid_day e y d" "146097 * e + year_start y + d = int n + 719468"
      "date_of e y d = (next_date ^^ n) (1970, 1, 1)" by blast
    then have day: "valid_day e y d" and num: "146097 * e + year_start y + d = int n + 719468"
      and date: "date_of e y d = (next_date ^^ n) (1970, 1, 1)" by simp_all
    from day obtain e' y' d' where "valid_day e' y' d'"
      "146097 * e' + year_start y' + d' = 146097 * e + year_start y + d + 1"
      "date_of e' y' d' = next_date (date_of e y d)" by (rule next_valid)
    with num date show ?case by (intro exI [of _ e'] exI [of _ y'] exI [of _ d']) simp
  qed
  then obtain e y d where "valid_day e y d" "146097 * e + year_start y + d = int n + 719468"
    "date_of e y d = (next_date ^^ n) (1970, 1, 1)" by blast
  with date_computed [of e y d] show ?thesis by (simp add: add.assoc)
qed

end
