(* ===== verification/Resource_Properties.thy ===== *)
theory Resource_Properties
  imports Calendar Beneath_Cap
begin

text \<open>
  The properties of the resources: URIs of files go back to their paths, the pages of a listing
  cover it, and a listing is bounded and stays below the allowed directories.
\<close>

section \<open>URIs\<close>

lemma of_char_of_u8: "of_char (char_of_u8 (of_nat m)) = m mod (256 :: nat)"
  by (simp add: char_of_u8_def unat_of_nat)

lemma hex_check:
  assumes "d < 16"
  shows "to_digit 16 (char_of_u8 (hex_upper d)) = Some d" "char_of_u8 (hex_upper d) \<noteq> CHR ''+''"
proof -
  have c: "of_char (char_of_u8 (hex_upper d)) = (if d < 10 then 48 + d else 55 + d)"
    using assms unfolding hex_upper_def of_char_of_u8 by simp
  then show "to_digit 16 (char_of_u8 (hex_upper d)) = Some d"
    using assms by (auto simp: to_digit_def filter_opt_def)
  show "char_of_u8 (hex_upper d) \<noteq> CHR ''+''"
  proof
    assume "char_of_u8 (hex_upper d) = CHR ''+''"
    then have "of_char (char_of_u8 (hex_upper d)) = (43 :: nat)" by simp
    with c show False by (simp split: if_splits)
  qed
qed

lemma from_hex_upper: "from_hex (hex_upper (unat b div 16)) (hex_upper (unat b mod 16)) = Some b"
proof -
  have b: "unat b < 256" using unsigned_less [of b, where ?'a = nat] by simp
  then have "unat b div 16 < 16" "unat b mod 16 < 16" by simp_all
  with b hex_check show ?thesis by (simp add: from_hex_def unsigned_from_str_radix_def)
qed

lemma escape_escaped: "\<not> unescaped percent_byte"
  by code_simp

lemma decode_encode_byte: "decode_bytes (encode_byte b @ bs) = map_ok (\<lambda>vs. b # vs) (decode_bytes bs)"
  using escape_escaped
  by (auto simp: encode_byte_def from_hex_upper simp del: of_nat_unat)

lemma decode_encode: "decode_bytes (concat (map encode_byte bs)) = Inr bs"
  by (induction bs) (auto simp: decode_encode_byte)

lemma decode_encode_uri: "valid_str s \<Longrightarrow> decode_uri_path (encode_uri_path s) = Inr s"
  by (simp add: decode_uri_path_def encode_uri_path_def decode_encode from_utf8_def valid_str_def)

lemma str_replace_absent: "c \<notin> set s \<Longrightarrow> str_replace [c] q s = s"
  by (induction s) auto

text \<open>
  C38: the URI of an absolute path is read back as that path, whatever bytes it has, provided
  that it is valid UTF-8 and has no backslash.
\<close>

theorem file_uri_roundtrip:
  assumes "is_absolute p" "valid_str (path_text p)" "backslash \<notin> set (path_text p)"
  shows "file_uri_to_path (path_to_file_uri p) = Inr (path_text p)"
proof -
  from assms(1) obtain cs where "p = RootDir # cs" by (cases p rule: is_absolute.cases) auto
  then have "starts_with (path_text p) [slash]" by (simp add: starts_with_def)
  with assms(2,3) have "path_to_file_uri p = ''file://'' @ encode_uri_path (path_text p)"
    by (simp add: path_to_file_uri_def str_replace_absent)
  then show ?thesis
    using decode_encode_uri [OF assms(2)] by (simp add: file_uri_to_path_def strip_prefix_def)
qed

theorem file_uri_roundtrip_witness:
  "file_uri_to_path (path_to_file_uri (abs_path [''tmp'', ''data folder'', ''100%.md''])) =
     Inr ''/tmp/data folder/100%.md''"
proof -
  let ?p = "abs_path [''tmp'', ''data folder'', ''100%.md'']"
  have p: "is_absolute ?p" "valid_str (path_text ?p)" "backslash \<notin> set (path_text ?p)"
    "path_text ?p = ''/tmp/data folder/100%.md''" by code_simp+
  from file_uri_roundtrip [OF p(1-3)] p(4) show ?thesis by simp
qed

text \<open>
  The URI of a path with a backslash, which is a character of a name on Unix, is the URI of
  another path: of a file and of a file in a directory.
\<close>

lemma backslash_uri_collides:
  "path_to_file_uri (abs_path [''a'' @ [backslash] @ ''b'']) = path_to_file_uri (abs_path [''a'', ''b'']) \<and>
   abs_path [''a'' @ [backslash] @ ''b''] \<noteq> abs_path [''a'', ''b'']"
  by code_simp

section \<open>Pages\<close>

lemma parse_show_usize: "n \<le> u64_max \<Longrightarrow> parse_usize (show_nat n) = Some n"
  by (simp add: parse_usize_def show_nat_def unsigned_from_str_radix_digits)

text \<open>A client that follows the cursors, for at most the given number of requests.\<close>

fun follow_pages :: "nat \<Rightarrow> json list \<Rightarrow> string \<Rightarrow> json list option" where
  "follow_pages 0 rs cursor = None"
| "follow_pages (Suc k) rs cursor =
     Option.bind (parse_usize cursor) (\<lambda>n.
     Option.bind (ok (page_of rs n)) (\<lambda>v.
     Option.bind (Option.bind (jget v ''resources'') as_array) (\<lambda>page.
     case Option.bind (jget v ''nextCursor'') as_str of
       None \<Rightarrow> Some page
     | Some next_cursor \<Rightarrow> map_option ((@) page) (follow_pages k rs next_cursor))))"

lemma page_fields:
  assumes "n \<le> length rs"
  shows "\<exists>v. page_of rs n = Inr v \<and> jget v ''resources'' = Some (JArr (take page_size (drop n rs))) \<and>
    jget v ''nextCursor'' =
      (if n + page_size < length rs then Some (JStr (show_nat (n + page_size))) else None)"
proof (cases "n + page_size < length rs")
  case True
  then show ?thesis by (simp add: page_of_def Let_def jget_set_key)
next
  case False
  then have "take (length rs - n) (drop n rs) = take page_size (drop n rs)" by simp
  with False assms show ?thesis by (simp add: page_of_def Let_def min_def)
qed

lemma follow_from:
  "length rs - n < k * page_size \<Longrightarrow> n \<le> length rs \<Longrightarrow> length rs \<le> u64_max \<Longrightarrow>
     follow_pages k rs (show_nat n) = Some (drop n rs)"
proof (induction k arbitrary: n)
  case (Suc k)
  obtain v where v: "page_of rs n = Inr v" "jget v ''resources'' = Some (JArr (take page_size (drop n rs)))"
    "jget v ''nextCursor'' =
       (if n + page_size < length rs then Some (JStr (show_nat (n + page_size))) else None)"
    using page_fields [OF Suc.prems(2)] by blast
  have n: "parse_usize (show_nat n) = Some n" using Suc.prems by (intro parse_show_usize) simp
  show ?case
  proof (cases "n + page_size < length rs")
    case True
    then have "follow_pages k rs (show_nat (n + page_size)) = Some (drop (n + page_size) rs)"
      using Suc.prems by (intro Suc.IH) auto
    moreover have "take page_size (drop n rs) @ drop (n + page_size) rs = drop n rs"
      by (metis add.commute append_take_drop_id drop_drop)
    ultimately show ?thesis using n v True by simp
  qed (use n v in simp)
qed simp

text \<open>
  C39: paging ends and is complete: a client that starts without a cursor and follows
  \<open>nextCursor\<close> gets every resource once, in order, after at most one request for each page.
\<close>

theorem paging_complete:
  assumes "length rs \<le> u64_max"
  shows "follow_pages (length rs div page_size + 1) rs ''0'' = Some rs"
proof -
  have "length rs < (length rs div page_size + 1) * page_size"
    using dividend_less_div_times [of page_size "length rs"] by (simp add: page_size_def)
  moreover have "''0'' = show_nat 0" by code_simp
  ultimately show ?thesis
    using follow_from [of rs 0 "length rs div page_size + 1"] assms by (simp del: follow_pages.simps)
qed

theorem paging_complete_witness: "follow_pages 1 [ui_resource_descriptor] ''0'' = Some [ui_resource_descriptor]"
  using paging_complete [of "[ui_resource_descriptor]"] by (simp add: u64_max_def page_size_def)

section \<open>The scan\<close>

lemma scan_loop_length: "length (scan_loop media lib s follow bs n es) \<le> max_listed_files - n"
proof (induction es arbitrary: n)
  case (Cons e es)
  from Cons.IH [of n] Cons.IH [of "n + 1"] show ?case by (auto split: option.split)
qed simp

lemma scan_loop_listed:
  "d \<in> set (scan_loop media lib s follow bs n es) \<Longrightarrow>
     \<exists>e\<in>set es. \<exists>p m. listed_path s follow bs e = Some p \<and> fs_stat s p = Inr m \<and>
       d = file_descriptor media lib s p (node_len s m)"
  by (induction media lib s follow bs n es rule: scan_loop.induct)
    (auto simp: bind_eq_Some_conv result_simps split: option.splits if_splits)

text \<open>
  C26: a listing has at most \<open>max_listed_files\<close> files, and each of them lies below one of the
  canonical allowed directories, when links are followed whatever the walk yields, and else
  when it yields what is below its root.
\<close>

theorem scan_bounded_and_contained:
  assumes "scan_resources media lib allowed follow s = Inr ds" "canonical_roots s allowed = Inr bases"
    and "follow \<or> (\<forall>f root. \<forall>e\<in>set (walk_paths lib s follow f root). path_starts_with (we_path e) root)"
  shows "length ds \<le> max_listed_files \<and>
    (\<forall>d\<in>set ds. \<exists>p. jget d ''uri'' = Some (JStr (path_to_file_uri p)) \<and>
      (\<exists>root\<in>set bases. path_starts_with p root))"
proof -
  let ?es = "concat (map (\<lambda>root. walk_paths lib s follow (\<lambda>p. \<not> hidden_below p root) root) bases)"
  have ds: "ds = scan_loop media lib s follow bases 0 ?es"
    using assms(1,2) by (simp add: scan_resources_def)
  have "\<exists>p. jget d ''uri'' = Some (JStr (path_to_file_uri p)) \<and> (\<exists>root\<in>set bases. path_starts_with p root)"
    if in_ds: "d \<in> set ds" for d
  proof -
    obtain e p m where e: "e \<in> set ?es" "listed_path s follow bases e = Some p"
      and d: "d = file_descriptor media lib s p (node_len s m)"
      using scan_loop_listed [OF in_ds [unfolded ds]] by auto
    have "\<exists>root\<in>set bases. path_starts_with p root"
    proof (cases follow)
      case True
      then show ?thesis using e(2) by (auto simp: listed_path_def result_simps list_ex_iff split: if_splits)
    next
      case False
      then show ?thesis using e assms(3) by (auto simp: listed_path_def split: if_splits)
    qed
    then show ?thesis unfolding d by (auto simp: file_descriptor_def Let_def)
  qed
  then show ?thesis using scan_loop_length [of media lib s follow bases 0 ?es] ds by simp
qed

definition demo_walk :: res_lib where
  "demo_walk = \<lparr>walk_paths = (\<lambda>s f h root.
       [\<lparr>we_path = root @ [Normal ''notes.txt''], we_name = ''notes.txt'', we_is_dir = False,
         we_is_file = True, we_len = Some 5\<rparr>]),
     modified_at = (\<lambda>s p. None), index_html = [], style_css = [], app_js = []\<rparr>"

theorem scan_bounded_and_contained_witness:
  "\<exists>ds media. scan_resources media demo_walk [''/srv''] False demo_os = Inr ds \<and>
     length ds \<le> max_listed_files \<and>
     (\<forall>d\<in>set ds. \<exists>p. jget d ''uri'' = Some (JStr (path_to_file_uri p)) \<and>
        path_starts_with p (abs_path [''srv'']))"
proof -
  have bases: "canonical_roots demo_os [''/srv''] = Inr [abs_path [''srv'']]" by code_simp
  fix media
  obtain ds where ds: "scan_resources media demo_walk [''/srv''] False demo_os = Inr ds"
    by (simp add: scan_resources_def bases)
  have "\<forall>f root. \<forall>e\<in>set (walk_paths demo_walk demo_os False f root). path_starts_with (we_path e) root"
    by (simp add: demo_walk_def path_starts_with_def)
  with scan_bounded_and_contained [OF ds bases] ds show ?thesis by auto
qed

end
