(* ===== verification/Protocol.thy ===== *)
theory Protocol
  imports Json Errors
begin

text \<open>
  \<open>src/protocol.rs\<close>: JSON-RPC requests and responses, the reading of a request from a JSON value
  and the JSON that the derived serialization makes of a response, which leaves out the fields
  marked \<open>skip_serializing_if\<close> and prints a missing id as \<open>null\<close>.
\<close>

record json_rpc_request =
  jsonrpc :: string
  rpc_method :: string
  params :: "json option"
  rpc_id :: "json option"

record json_rpc_error =
  code :: int
  message :: string
  data :: "json option"

record json_rpc_response =
  resp_jsonrpc :: string
  resp_result :: "json option"
  resp_error :: "json_rpc_error option"
  resp_id :: "json option"

definition dquote :: char where
  "dquote = char_of (34 :: nat)"

definition valid_id :: "json \<Rightarrow> bool" where
  "valid_id v = (is_string v \<or> is_number v \<or> is_null v)"

definition from_value :: "json \<Rightarrow> mcs_error + json_rpc_request" where
  "from_value value =
     and_then (ok_or (InvalidRequest ''request must be a JSON object'') (as_object value)) (\<lambda>m.
     if map_of m ''jsonrpc'' \<noteq> Some (JStr ''2.0'') then
       Inl (InvalidRequest (''jsonrpc must be '' @ [dquote] @ ''2.0'' @ [dquote]))
     else
       and_then (ok_or (InvalidRequest ''method must be a non-empty string'')
         (filter_opt (\<lambda>s. s \<noteq> []) (Option.bind (map_of m ''method'') as_str))) (\<lambda>name.
       case map_of m ''id'' of
         Some v \<Rightarrow>
           if \<not> valid_id v then Inl (InvalidRequest ''id must be a string, number, or null'')
           else Inr \<lparr>jsonrpc = ''2.0'', rpc_method = name, params = map_of m ''params'', rpc_id = Some v\<rparr>
       | None \<Rightarrow>
           Inr \<lparr>jsonrpc = ''2.0'', rpc_method = name, params = map_of m ''params'', rpc_id = None\<rparr>))"

definition rpc_success :: "json option \<Rightarrow> json \<Rightarrow> json_rpc_response" where
  "rpc_success i v =
     \<lparr>resp_jsonrpc = ''2.0'', resp_result = Some v, resp_error = None, resp_id = i\<rparr>"

definition rpc_error :: "json option \<Rightarrow> int \<Rightarrow> string \<Rightarrow> json_rpc_response" where
  "rpc_error i c text =
     \<lparr>resp_jsonrpc = ''2.0'', resp_result = None,
      resp_error = Some \<lparr>code = c, message = text, data = None\<rparr>, resp_id = i\<rparr>"

definition opt_field :: "string \<Rightarrow> json option \<Rightarrow> json_map" where
  "opt_field k v = (case v of None \<Rightarrow> [] | Some x \<Rightarrow> [(k, x)])"

definition error_value :: "json_rpc_error \<Rightarrow> json" where
  "error_value e =
     obj ([(''code'', JInt (code e)), (''message'', JStr (message e))] @ opt_field ''data'' (data e))"

definition response_value :: "json_rpc_response \<Rightarrow> json" where
  "response_value r =
     obj ([(''jsonrpc'', JStr (resp_jsonrpc r))]
          @ opt_field ''result'' (resp_result r)
          @ opt_field ''error'' (map_option error_value (resp_error r))
          @ [(''id'', jopt (\<lambda>v. v) (resp_id r))])"

section \<open>Laws\<close>

lemma from_value_Inr:
  "from_value v = Inr r \<longleftrightarrow>
     jget v ''jsonrpc'' = Some (JStr ''2.0'') \<and>
     (\<exists>name. name \<noteq> [] \<and> jget v ''method'' = Some (JStr name) \<and>
       (\<forall>i. jget v ''id'' = Some i \<longrightarrow> valid_id i) \<and>
       r = \<lparr>jsonrpc = ''2.0'', rpc_method = name, params = jget v ''params'', rpc_id = jget v ''id''\<rparr>)"
proof -
  have str: "as_str j = Some s \<longleftrightarrow> j = JStr s" for j s by (cases j) auto
  show ?thesis
    by (cases v; cases "jget v ''id''")
      (auto simp: from_value_def result_simps bind_eq_Some_conv str split: if_splits)
qed

lemma from_value_error: "from_value v = Inl e \<Longrightarrow> \<exists>s. e = InvalidRequest s"
  by (cases v) (auto simp: from_value_def result_simps split: option.splits if_splits)

text \<open>A response has exactly one of a result and an error.\<close>

lemma response_value_fields:
  "jget (response_value (rpc_success i v)) ''result'' = Some v"
  "jget (response_value (rpc_success i v)) ''error'' = None"
  "jget (response_value (rpc_error i c t)) ''result'' = None"
  "jget (response_value (rpc_error i c t)) ''error'' =
     Some (obj [(''code'', JInt c), (''message'', JStr t)])"
  "jget (response_value (rpc_success i v)) ''id'' = Some (jopt (\<lambda>v. v) i)"
  "jget (response_value (rpc_error i c t)) ''id'' = Some (jopt (\<lambda>v. v) i)"
  by (simp_all add: response_value_def rpc_success_def rpc_error_def opt_field_def error_value_def)

end
