(* ===== verification/Server.thy ===== *)
theory Server
  imports Crypto Compress Csv Resources Protocol
begin

text \<open>
  \<open>src/server.rs\<close>: the descriptors of the tools, the dispatch of requests and tool calls, and
  the server on standard input and output. The record \<open>env\<close> gathers the parameters of the
  components, the parsing and printing of JSON (\<open>serde_json\<close>), the descriptors of \<open>tools.json\<close>
  and the fields of the package. What one request draws from the random generator, and
  whether its timeout fires, is its \<open>turn\<close>; a timeout drops the request where it stands, so
  the state after it is a value of the turn.
\<close>

record 'd env =
  rt :: "'d runtime"
  hash_fns :: hash_lib
  media :: media_lib
  walker :: walk_lib
  csvs :: csv_lib
  codecs :: compress_lib
  ciphers :: crypto_lib
  res :: res_lib
  json_text :: "json \<Rightarrow> string"
  json_parse :: "u8 list \<Rightarrow> string + json"
  tool_defs :: "json list"
  package :: "string \<Rightarrow> string"

record 'd turn =
  rng :: draws
  late :: "'d proc option"

section \<open>Descriptors\<close>

text \<open>
  \<open>human_title\<close>. Names of tools are ASCII; the first character is raised by ASCII, and a
  character outside of it is left as it is.
\<close>

definition title_part :: "string \<Rightarrow> string" where
  "title_part part =
     (case str_chars part of [] \<Rightarrow> [] | c # cs \<Rightarrow> map ascii_upper c @ concat cs)"

definition human_title :: "string \<Rightarrow> string" where
  "human_title name = str_join '' '' (map title_part (str_split CHR ''_'' name))"

definition has_browser_ui :: "string \<Rightarrow> bool" where
  "has_browser_ui name =
     (name \<in> {''list_allowed_directories'', ''list_directory'', ''list_directory_with_sizes'',
              ''directory_tree'', ''search_files'', ''read_text_file'', ''read_media_file'', ''csv_read''})"

definition read_only_hint :: "string \<Rightarrow> bool" where
  "read_only_hint name =
     (starts_with name ''read'' \<or> starts_with name ''list'' \<or> starts_with name ''search''
      \<or> starts_with name ''grep''
      \<or> name \<in> {''get_file_info'', ''get_disk_usage'', ''hash_file'', ''directory_tree'',
                ''generate_key'', ''csv_read'', ''csv_read_column_values_range'',
                ''csv_read_row_range'', ''csv_select_column_range''})"

definition destructive_hint :: "string \<Rightarrow> bool" where
  "destructive_hint name =
     (name \<in> {''write_file'', ''edit_file'', ''move_file'', ''delete_file'', ''delete_directory'',
              ''set_permissions'', ''decompress_tar'', ''csv_update_cell'', ''csv_remove_row'',
              ''csv_remove_column'', ''csv_rename_column''})"

definition idempotent_hint :: "string \<Rightarrow> bool" where
  "idempotent_hint name = (name \<in> {''write_file'', ''create_directory'', ''set_permissions''})"

text \<open>Changes the value of a key if it is an object (\<open>get_mut\<close>, \<open>as_object_mut\<close>).\<close>

definition on_object :: "string \<Rightarrow> (json_map \<Rightarrow> json_map) \<Rightarrow> json_map \<Rightarrow> json_map" where
  "on_object k f m =
     (case Option.bind (map_of m k) as_object of None \<Rightarrow> m | Some inner_map \<Rightarrow> map_insert k (JObj (f inner_map)) m)"

definition ellipsis :: string where
  "ellipsis = of_bytes [0xE2, 0x80, 0xA6]"

definition merge_app_meta :: "json_map \<Rightarrow> json_map" where
  "merge_app_meta m =
     on_object ''_meta''
       (map_insert ''openai/toolInvocation/invoked'' (JStr ''Filesystem view ready.'')
        \<circ> map_insert ''openai/toolInvocation/invoking'' (JStr (''Reading the filesystem'' @ ellipsis))
        \<circ> map_insert ''openai/outputTemplate'' (JStr ui_resource_uri)
        \<circ> map_insert ''ui'' (obj [(''resourceUri'', JStr ui_resource_uri),
                                 (''visibility'', JArr [JStr ''model'', JStr ''app''])]))
       (or_insert ''_meta'' (obj []) m)"

definition add_hints :: "string \<Rightarrow> json_map \<Rightarrow> json_map" where
  "add_hints name =
     or_insert ''idempotentHint'' (JBool (idempotent_hint name))
     \<circ> or_insert ''destructiveHint'' (JBool (destructive_hint name))
     \<circ> or_insert ''openWorldHint'' (JBool False)
     \<circ> or_insert ''readOnlyHint'' (JBool (read_only_hint name))"

definition enhance_tool_descriptor :: "json \<Rightarrow> json" where
  "enhance_tool_descriptor descriptor =
     (case as_object descriptor of
        None \<Rightarrow> descriptor
      | Some m0 \<Rightarrow>
          (let name = unwrap_or [] (Option.bind (map_of m0 ''name'') as_str);
               m1 = or_insert ''title'' (JStr (human_title name)) m0;
               m2 = or_insert ''outputSchema''
                      (obj [(''type'', JStr ''object''), (''additionalProperties'', JBool True)]) m1;
               m3 = on_object ''annotations'' (add_hints name) (or_insert ''annotations'' (obj []) m2) in
           JObj (if has_browser_ui name then merge_app_meta m3 else m3)))"

definition available_descriptors :: "json list \<Rightarrow> tool_category list \<Rightarrow> json list" where
  "available_descriptors defs categories =
     map enhance_tool_descriptor
       (filter (\<lambda>d. case Option.bind (jget d ''name'') as_str of
                   None \<Rightarrow> False | Some name \<Rightarrow> is_tool_available name categories) defs)"

definition build_tools_list_response :: "'d env \<Rightarrow> tool_category list \<Rightarrow> u8 list" where
  "build_tools_list_response env categories =
     as_bytes (json_text env (obj [(''tools'', JArr (available_descriptors (tool_defs env) categories))]))"

section \<open>Tool calls\<close>

definition put_meta :: "json_map \<Rightarrow> json_map" where
  "put_meta m =
     on_object ''_meta''
       (map_insert ''openai/outputTemplate'' (JStr ui_resource_uri)
        \<circ> map_insert ''ui'' (obj [(''resourceUri'', JStr ui_resource_uri)]))
       (or_insert ''_meta'' (obj []) m)"

definition text_content :: "string \<Rightarrow> json" where
  "text_content t = JArr [obj [(''type'', JStr ''text''), (''text'', JStr t)]]"

definition call_result :: "'d env \<Rightarrow> json \<Rightarrow> json" where
  "call_result env v =
     (if (case jget v ''content'' of None \<Rightarrow> False | Some c \<Rightarrow> is_array c) then
        (if jget v ''isError'' = None then set_key ''isError'' (JBool False) v else v)
      else if is_object v then
        obj [(''content'', text_content (json_text env v)), (''structuredContent'', v),
             (''isError'', JBool False)]
      else
        obj [(''content'', text_content (json_text env v)), (''isError'', JBool False)])"

definition tool_success :: "'d env \<Rightarrow> string \<Rightarrow> json \<Rightarrow> json" where
  "tool_success env name v =
     (let result = call_result env v in
      if has_browser_ui name then
        (case result of JObj m \<Rightarrow> JObj (put_meta m) | j \<Rightarrow> j)
      else result)"

definition tool_error :: "string \<Rightarrow> json" where
  "tool_error msg = obj [(''content'', text_content msg), (''isError'', JBool True)]"

definition handlers ::
    "'d env \<Rightarrow> draws \<Rightarrow> config \<Rightarrow> json option \<Rightarrow> (string \<times> ('d, json) action) list" where
  "handlers env r cfg args =
    [(''read_text_file'', read_text_file (rt env) cfg args),
     (''read_media_file'', read_media_file (rt env) (media env) cfg args),
     (''write_file'', write_file (rt env) cfg args),
     (''edit_file'', edit_file (rt env) cfg args),
     (''create_directory'', create_directory (rt env) cfg args),
     (''list_directory'', list_directory (rt env) cfg args),
     (''list_directory_with_sizes'', list_directory_with_sizes (rt env) cfg args),
     (''move_file'', move_file (rt env) cfg args),
     (''copy_file'', copy_file (rt env) cfg args),
     (''delete_file'', delete_file (rt env) cfg args),
     (''delete_directory'', delete_directory (rt env) cfg args),
     (''search_files'', search_files (rt env) (walker env) cfg args),
     (''directory_tree'', directory_tree (rt env) (walker env) cfg args),
     (''get_file_info'', get_file_info (rt env) cfg args),
     (''list_allowed_directories'', list_allowed_directories cfg args),
     (''hash_file'', hash_file (rt env) (hash_fns env) cfg args),
     (''grep_files'', grep_files (rt env) (walker env) cfg args),
     (''set_permissions'', set_permissions (rt env) cfg args),
     (''get_disk_usage'', get_disk_usage (rt env) (walker env) cfg args),
     (''create_symlink'', create_symlink (rt env) cfg args),
     (''read_file_range'', read_file_range (rt env) cfg args),
     (''compress_gzip'', compress_gzip (rt env) (codecs env) cfg args),
     (''decompress_gzip'', decompress_gzip (rt env) (codecs env) cfg args),
     (''compress_zstd'', compress_zstd (rt env) (codecs env) cfg args),
     (''decompress_zstd'', decompress_zstd (rt env) (codecs env) cfg args),
     (''compress_tar'', compress_tar (rt env) (codecs env) (walker env) cfg args),
     (''decompress_tar'', decompress_tar (rt env) (codecs env) cfg args),
     (''encrypt_file'', encrypt_file (rt env) (ciphers env) r cfg args),
     (''decrypt_file'', decrypt_file (rt env) (ciphers env) cfg args),
     (''generate_key'', generate_key (rt env) (ciphers env) r cfg args),
     (''csv_create'', csv_create (rt env) (csvs env) (json_text env) cfg args),
     (''csv_read'', csv_read (rt env) (csvs env) cfg args),
     (''csv_add_row'', csv_add_row (rt env) (csvs env) (json_text env) cfg args),
     (''csv_update_cell'', csv_update_cell (rt env) (csvs env) cfg args),
     (''csv_remove_row'', csv_remove_row (rt env) (csvs env) cfg args),
     (''csv_add_column'', csv_add_column (rt env) (csvs env) cfg args),
     (''csv_remove_column'', csv_remove_column (rt env) (csvs env) cfg args),
     (''csv_rename_column'', csv_rename_column (rt env) (csvs env) cfg args),
     (''csv_read_column_values_range'', csv_read_column_values_range (rt env) (csvs env) cfg args),
     (''csv_read_row_range'', csv_read_row_range (rt env) (csvs env) cfg args),
     (''csv_select_column_range'', csv_select_column_range (rt env) (csvs env) cfg args)]"

definition dispatch ::
    "'d env \<Rightarrow> draws \<Rightarrow> config \<Rightarrow> string \<Rightarrow> json option \<Rightarrow> ('d, json) action" where
  "dispatch env r cfg name args =
     (case map_of (handlers env r cfg args) name of
        Some m \<Rightarrow> m
      | None \<Rightarrow> failed (MethodNotFound name))"

text \<open>The error of a tool becomes a result; a panic stays one.\<close>

definition as_tool_result :: "'d env \<Rightarrow> string \<Rightarrow> ('d, json) action \<Rightarrow> ('d, json) action" where
  "as_tool_result env name m = (\<lambda>w.
     case m w of
       (Done v, w') \<Rightarrow> (Done (tool_success env name v), w')
     | (Failed e, w') \<Rightarrow> (Done (tool_error (error_text e)), w')
     | (Panicked, w') \<Rightarrow> (Panicked, w'))"

definition handle_tools_call ::
    "'d env \<Rightarrow> draws \<Rightarrow> config \<Rightarrow> json_rpc_request \<Rightarrow> ('d, json) action" where
  "handle_tools_call env r cfg req =
     then_do (lift (ok_or (InvalidParams (''Missing '' @ quoted ''name'' @ '' parameter''))
       (str_param (params req) ''name''))) (\<lambda>name.
     if \<not> is_tool_available name (enabled (server cfg)) then failed (MethodNotFound name)
     else if access_mode (server cfg) = ReadOnly \<and> is_write_tool name then
       give (tool_error (''Operation '' @ quoted name @ '' is not allowed in read-only mode''))
     else
       as_tool_result env name
         (dispatch env r cfg name (Option.bind (params req) (\<lambda>p. jget p ''arguments''))))"

section \<open>Requests\<close>

definition supported_protocol_versions :: "string list" where
  "supported_protocol_versions = [''2025-11-25'', ''2025-06-18'', ''2025-03-26'', ''2024-11-05'']"

definition latest_protocol_version :: string where
  "latest_protocol_version = ''2025-11-25''"

definition is_supported_protocol_version :: "string \<Rightarrow> bool" where
  "is_supported_protocol_version v = List.member supported_protocol_versions v"

definition server_instructions :: string where
  "server_instructions =
     ''Sandboxed filesystem MCP App Server. All file paths and file:// resources are restricted to ''
     @ ''the configured allowed directories. Use list_allowed_directories before browsing. ''
     @ ''Read-oriented tools can render the interactive filesystem browser. Tool results contain ''
     @ ''human-readable content and structuredContent; failures use isError=true so the model can ''
     @ ''correct arguments. Destructive, write, crypto, compression, and CSV tools remain opt-in ''
     @ ''by category.''"

definition negotiated_version :: "json option \<Rightarrow> string" where
  "negotiated_version ps =
     unwrap_or latest_protocol_version
       (filter_opt is_supported_protocol_version (str_param ps ''protocolVersion''))"

definition handle_initialize :: "'d env \<Rightarrow> json_rpc_request \<Rightarrow> json" where
  "handle_initialize env req =
     obj [(''protocolVersion'', JStr (negotiated_version (params req))),
          (''capabilities'', obj [
             (''tools'', obj [(''listChanged'', JBool False)]),
             (''resources'', obj [(''subscribe'', JBool False), (''listChanged'', JBool False)])]),
          (''serverInfo'', obj [
             (''name'', JStr ''mcp-filesystem''), (''title'', JStr ''Filesystem MCP App Server''),
             (''version'', JStr (package env ''CARGO_PKG_VERSION'')),
             (''homepage'', JStr (package env ''CARGO_PKG_HOMEPAGE'')),
             (''repository'', JStr (package env ''CARGO_PKG_REPOSITORY'')),
             (''license'', JStr (package env ''CARGO_PKG_LICENSE''))]),
          (''instructions'', JStr server_instructions)]"

definition handle_tools_list :: "'d env \<Rightarrow> config \<Rightarrow> json result" where
  "handle_tools_list env cfg =
     map_err JsonError (json_parse env (build_tools_list_response env (enabled (server cfg))))"

definition process_request ::
    "'d env \<Rightarrow> draws \<Rightarrow> config \<Rightarrow> json_rpc_request \<Rightarrow> ('d, json) action" where
  "process_request env r cfg req =
     (let m = rpc_method req in
      if m = ''initialize'' then give (handle_initialize env req)
      else if m = ''tools/list'' then lift (handle_tools_list env cfg)
      else if m = ''tools/call'' then handle_tools_call env r cfg req
      else if m = ''prompts/list'' then give (obj [(''prompts'', JArr [])])
      else if m = ''resources/list'' then list_resources (media env) (res env) cfg (params req)
      else if m = ''resources/read'' then read_resource (rt env) (media env) (res env) cfg (params req)
      else if m = ''resources/templates/list'' then give templates
      else if m = ''ping'' then give JNull
      else if starts_with m ''notifications/'' then give JNull
      else failed (MethodNotFound m))"

definition timeout_error :: "config \<Rightarrow> mcs_error" where
  "timeout_error cfg =
     FilesystemError (''Request timed out after '' @ show_nat (request_timeout (server cfg)) @ ''s'')"

text \<open>\<open>tokio::time::timeout\<close>: the action ran to its end, or was dropped in the state of the turn.\<close>

definition with_timeout :: "'d proc option \<Rightarrow> config \<Rightarrow> ('d, 'a) action \<Rightarrow> ('d, 'a) action" where
  "with_timeout late_state cfg m = (\<lambda>w.
     case late_state of None \<Rightarrow> m w | Some w' \<Rightarrow> (Failed (timeout_error cfg), w'))"

text \<open>The response to a request: \<open>process_request_http\<close>, and the same in \<open>process_one_line\<close>.\<close>

definition respond ::
    "'d env \<Rightarrow> 'd turn \<Rightarrow> config \<Rightarrow> json_rpc_request \<Rightarrow> ('d, json_rpc_response) action" where
  "respond env t cfg req = (\<lambda>w.
     case with_timeout (late t) cfg (process_request env (rng t) cfg req) w of
       (Done v, w') \<Rightarrow> (Done (rpc_success (rpc_id req) v), w')
     | (Failed e, w') \<Rightarrow> (Done (rpc_error (rpc_id req) (error_code e) (error_text e)), w')
     | (Panicked, w') \<Rightarrow> (Panicked, w'))"

definition parse_error :: "string \<Rightarrow> json_rpc_response" where
  "parse_error msg =
     (let e = ParseError msg in rpc_error None (error_code e) (error_text e))"

definition parse_request :: "'d env \<Rightarrow> string \<Rightarrow> string + json_rpc_request" where
  "parse_request env line =
     (let trimmed = trim line in
      if trimmed = [] then Inl ''Empty request''
      else
        and_then (map_err (\<lambda>e. error_text (ParseError e)) (json_parse env (as_bytes trimmed)))
          (\<lambda>v. map_err error_text (from_value v)))"

definition response_line :: "'d env \<Rightarrow> json_rpc_response \<Rightarrow> u8 list" where
  "response_line env resp = as_bytes (json_text env (response_value resp)) @ [10]"

text \<open>What one line makes the server write.\<close>

definition process_one_line ::
    "'d env \<Rightarrow> 'd turn \<Rightarrow> config \<Rightarrow> string \<Rightarrow> ('d, u8 list) action" where
  "process_one_line env t cfg line =
     (case parse_request env line of
        Inl e \<Rightarrow> give (response_line env (parse_error e))
      | Inr req \<Rightarrow>
          then_do (respond env t cfg req) (\<lambda>resp.
            give (if rpc_id req = None then [] else response_line env resp)))"

definition oversize_error :: "'d env \<Rightarrow> nat \<Rightarrow> u8 list" where
  "oversize_error env max_bytes =
     (let e = InvalidParams (''Request exceeds maximum size of '' @ show_nat max_bytes @ '' bytes'') in
      response_line env (rpc_error None (error_code e) (error_text e)))"

section \<open>Lines of bounded length\<close>

text \<open>
  A reader is what its buffer will be filled with, in turn: a chunk of bytes or an error. An
  empty chunk, and the end of the list, is the end of the input.
\<close>

datatype line_read = Line string | Eof | TooLong

type_synonym reader = "(io_error + u8 list) list"

definition newline_byte :: u8 where
  "newline_byte = 10"

fun position :: "u8 \<Rightarrow> u8 list \<Rightarrow> nat option" where
  "position b [] = None"
| "position b (c # cs) = (if c = b then Some 0 else map_option Suc (position b cs))"

definition finish :: "u8 list \<Rightarrow> line_read" where
  "finish buf = Line (case from_utf8 buf of Some s \<Rightarrow> s | None \<Rightarrow> from_utf8_lossy buf)"

definition at_end :: "u8 list \<Rightarrow> line_read" where
  "at_end buf = (if buf = [] then Eof else finish buf)"

text \<open>\<open>consume(n)\<close> on the first chunk.\<close>

definition consume :: "nat \<Rightarrow> u8 list \<Rightarrow> reader \<Rightarrow> reader" where
  "consume n available r = (if drop n available = [] then r else Inr (drop n available) # r)"

fun read_line_capped :: "nat \<Rightarrow> u8 list \<Rightarrow> reader \<Rightarrow> (io_error + line_read) \<times> reader" where
  "read_line_capped max_len buf [] = (Inr (at_end buf), [])"
| "read_line_capped max_len buf (Inl e # r) = (Inl e, r)"
| "read_line_capped max_len buf (Inr available # r) =
     (if available = [] then (Inr (at_end buf), r)
      else (case position newline_byte available of
              Some i \<Rightarrow>
                (if length buf + i + 1 > max_len then (Inr TooLong, consume (i + 1) available r)
                 else (Inr (finish (buf @ take (i + 1) available)), consume (i + 1) available r))
            | None \<Rightarrow>
                (if length buf + length available > max_len then (Inr TooLong, r)
                 else read_line_capped max_len (buf @ available) r)))"

section \<open>The server on standard input and output\<close>

fun chunk_size :: "io_error + u8 list \<Rightarrow> nat" where
  "chunk_size (Inl e) = 1"
| "chunk_size (Inr bs) = Suc (length bs)"

definition reader_size :: "reader \<Rightarrow> nat" where
  "reader_size r = sum_list (map chunk_size r)"

lemma reader_size_simps [simp]:
  "reader_size [] = 0" "reader_size (c # r) = chunk_size c + reader_size r"
  by (simp_all add: reader_size_def)

lemma consume_size: "available \<noteq> [] \<Longrightarrow> reader_size (consume (Suc n) available r) < Suc (length available) + reader_size r"
  by (cases available) (auto simp: consume_def)

lemma read_line_size:
  "read_line_capped max_len buf r = (out, r') \<Longrightarrow> r \<noteq> [] \<Longrightarrow> reader_size r' < reader_size r"
proof (induction max_len buf r arbitrary: out r' rule: read_line_capped.induct)
  case (3 max_len buf available r)
  show ?case
  proof (cases "r = []")
    case True
    with 3 consume_size [of available _ r] show ?thesis
      by (auto split: if_splits option.splits)
  next
    case False
    with 3 consume_size [of available _ r] show ?thesis
      by (auto split: if_splits option.splits dest!: "3.IH")
  qed
qed auto

lemma read_line_decreases:
  "read_line_capped max_len [] r = (Inr (Line l), r') \<Longrightarrow> reader_size r' < reader_size r"
  by (cases "r = []") (auto simp: at_end_def dest: read_line_size)

text \<open>
  \<open>run_stdio\<close>: what it writes, whether it ended by a panic, and the final state. Turn \<open>i\<close> is
  that of the \<open>i\<close>-th line.
\<close>

function run_stdio ::
    "'d env \<Rightarrow> config \<Rightarrow> (nat \<Rightarrow> 'd turn) \<Rightarrow> nat \<Rightarrow> reader \<Rightarrow> 'd proc \<Rightarrow> u8 list \<times> bool \<times> 'd proc" where
  "run_stdio env cfg turns i r w =
     (case read_line_capped (max_request_bytes (server cfg)) [] r of
        (Inr (Line line), r') \<Rightarrow>
          (case process_one_line env (turns i) cfg line w of
             (Done out, w') \<Rightarrow>
               (case run_stdio env cfg turns (i + 1) r' w' of (rest, end_state) \<Rightarrow> (out @ rest, end_state))
           | (Failed e, w') \<Rightarrow> ([], False, w')
           | (Panicked, w') \<Rightarrow> ([], True, w'))
      | (Inr TooLong, r') \<Rightarrow> (oversize_error env (max_request_bytes (server cfg)), False, w)
      | (Inr Eof, r') \<Rightarrow> ([], False, w)
      | (Inl e, r') \<Rightarrow> ([], False, w))"
  by pat_completeness auto
termination
  by (relation "measure (\<lambda>(env, cfg, turns, i, r, w). reader_size r)")
    (auto dest: read_line_decreases [OF sym] intro: read_line_decreases)

declare run_stdio.simps [simp del]

section \<open>Tokens\<close>

definition token_matches :: "'d env \<Rightarrow> string \<Rightarrow> string \<Rightarrow> bool" where
  "token_matches env presented expected =
     (let p = trim presented;
          p = trim (unwrap_or p (strip_prefix p ''Bearer '')) in
      sha256 (hash_fns env) (as_bytes p) = sha256 (hash_fns env) (as_bytes expected))"

end
