(* ===== verification/Server_Effects.thy ===== *)
theory Server_Effects
  imports Server File_Effects
begin

text \<open>
  What a request does to the files: the tools that the registry calls reading tools do
  nothing to them, and in read-only mode no other tool is reached.
\<close>

section \<open>The table of handlers\<close>

lemma handlers_names: "map fst (handlers env r cfg args) = map tool_name all_tools"
  by (simp add: handlers_def all_tools_def)

lemma handlers_distinct: "distinct (map fst (handlers env r cfg args))"
  by (simp only: handlers_names all_tools_distinct)

lemma handler_of_tool:
  assumes "t \<in> set all_tools"
  obtains m where "map_of (handlers env r cfg args) (tool_name t) = Some m"
proof -
  have "tool_name t \<in> fst ` set (handlers env r cfg args)"
    using assms by (metis handlers_names image_eqI list.set_map)
  then show thesis using that by (auto dest: weak_map_of_SomeI)
qed

lemma handler_name:
  assumes "map_of (handlers env r cfg args) name = Some m"
  obtains t where "t \<in> set all_tools" "tool_name t = name"
proof -
  have "name \<in> fst ` set (handlers env r cfg args)"
    using assms by (force dest: map_of_SomeD)
  then have "name \<in> tool_name ` set all_tools" by (metis handlers_names list.set_map)
  then show thesis using that by blast
qed

lemma csv_reading_keep [simp]:
  "keeps (=) (csv_read run lib cfg args)"
  "keeps (=) (csv_read_column_values_range run lib cfg args)"
  "keeps (=) (csv_read_row_range run lib cfg args)"
  "keeps (=) (csv_select_column_range run lib cfg args)"
  by (auto simp: csv_read_def csv_read_column_values_range_def csv_read_row_range_def
      csv_select_column_range_def read_csv_file_def lift_opt_def Let_def
      intro!: same.keeps_then_do split: option.split prod.split)

lemma write_tools:
  "\<forall>n\<in>{''write_file'', ''edit_file'', ''create_directory'', ''move_file'', ''copy_file'',
     ''delete_file'', ''delete_directory'', ''set_permissions'', ''create_symlink'',
     ''compress_gzip'', ''decompress_gzip'', ''compress_zstd'', ''decompress_zstd'',
     ''compress_tar'', ''decompress_tar'', ''encrypt_file'', ''decrypt_file'', ''generate_key'',
     ''csv_create'', ''csv_add_row'', ''csv_update_cell'', ''csv_remove_row'', ''csv_add_column'',
     ''csv_remove_column'', ''csv_rename_column''}. is_write_tool n"
  by (simp add: is_write_tool_def lookup_tool_def all_tools_def)

lemma reading_handlers_keep:
  "\<forall>(n, m)\<in>set (handlers env r cfg args). is_write_tool n \<or> keeps (=) m"
  using write_tools by (simp add: handlers_def)

lemma dispatch_keeps: "\<not> is_write_tool name \<Longrightarrow> keeps (=) (dispatch env r cfg name args)"
  using reading_handlers_keep [of env r cfg args]
  by (auto simp: dispatch_def split: option.split dest!: map_of_SomeD)

section \<open>Requests\<close>

lemma as_tool_result_disk: "disk (snd (as_tool_result env name m w)) = disk (snd (m w))"
  by (simp add: as_tool_result_def split: prod.split outcome.split)

lemma keeps_as_tool_result: "keeps R m \<Longrightarrow> keeps R (as_tool_result env name m)"
  by (simp add: keeps_def as_tool_result_disk)

lemma tools_call_keeps:
  assumes "access_mode (server cfg) = ReadOnly"
  shows "keeps (=) (handle_tools_call env r cfg req)"
  using assms
  by (auto simp: handle_tools_call_def intro!: same.keeps_then_do keeps_as_tool_result dispatch_keeps)

lemma process_request_keeps:
  assumes "access_mode (server cfg) = ReadOnly"
  shows "keeps (=) (process_request env r cfg req)"
  by (simp add: process_request_def Let_def tools_call_keeps [OF assms])

text \<open>
  A turn is \<open>orderly\<close> for a relation when a request that was dropped left the files in a state
  so related to the one it began in.
\<close>

definition orderly :: "(os \<Rightarrow> os \<Rightarrow> bool) \<Rightarrow> 'd turn \<Rightarrow> os \<Rightarrow> bool" where
  "orderly R t s = (\<forall>w. late t = Some w \<longrightarrow> R s (disk w))"

lemma respond_disk:
  "disk (snd (respond env t cfg req w)) =
     (case late t of None \<Rightarrow> disk (snd (process_request env (rng t) cfg req w)) | Some w' \<Rightarrow> disk w')"
  by (simp add: respond_def with_timeout_def split: option.split prod.split outcome.split)

lemma respond_at:
  assumes "orderly R t (disk w)" "at_state R w (process_request env (rng t) cfg req)"
  shows "R (disk w) (disk (snd (respond env t cfg req w)))"
  using assms by (simp add: respond_disk orderly_def at_state_def split: option.split)

lemma process_line_disk:
  "disk (snd (process_one_line env t cfg line w)) =
     (case parse_request env line of
        Inl e \<Rightarrow> disk w | Inr req \<Rightarrow> disk (snd (respond env t cfg req w)))"
  by (simp add: process_one_line_def then_do_def give_def split: sum.split prod.split outcome.split)

lemma read_only_line:
  assumes "access_mode (server cfg) = ReadOnly" "orderly (=) t (disk w)"
  shows "disk (snd (process_one_line env t cfg line w)) = disk w"
proof -
  have "disk (snd (respond env t cfg req w)) = disk w" for req
    using respond_at [where R = "(=)", OF assms(2)] same.at_keeps [OF process_request_keeps [OF assms(1)]]
    by metis
  then show ?thesis by (simp add: process_line_disk split: sum.split)
qed

lemma stdio_invariant:
  assumes "P w"
    and "\<And>i line w. P w \<Longrightarrow> P (snd (process_one_line env (turns i) cfg line w))"
  shows "P (snd (snd (run_stdio env cfg turns i r w)))"
  using assms
proof (induction env cfg turns i r w rule: run_stdio.induct)
  case (1 env cfg turns i r w)
  have step: "P (snd (process_one_line env (turns i) cfg line w))" for line
    using 1 by blast
  show ?case
  proof (cases "read_line_capped (max_request_bytes (server cfg)) [] r")
    case (Pair a r')
    show ?thesis
    proof (cases "\<exists>line out w'. a = Inr (Line line) \<and> process_one_line env (turns i) cfg line w = (Done out, w')")
      case True
      then obtain line out w' where a: "a = Inr (Line line)"
        and l: "process_one_line env (turns i) cfg line w = (Done out, w')" by blast
      have "P w'" using step [of line] l by simp
      then have "P (snd (snd (run_stdio env cfg turns (i + 1) r' w')))"
        by (rule "1.IH" [OF Pair [symmetric] a refl l [symmetric] refl _ "1.prems"(2)])
      then show ?thesis using Pair a l
        by (auto simp: run_stdio.simps [of _ _ _ _ r] split: prod.split)
    next
      case False
      have "P w'" if "a = Inr (Line line)" "process_one_line env (turns i) cfg line w = (x, w')" for line x w'
        using step [of line] that by simp
      with False Pair "1.prems"(1) show ?thesis
        unfolding run_stdio.simps [of _ _ _ _ r]
        by (cases a rule: sum.exhaust; cases "projr a") (auto split: prod.split outcome.split)
    qed
  qed
qed

end
