(* ===== verification/Std_Effects.thy ===== *)
theory Std_Effects
  imports File_Effects Csv Compress Crypto
begin

text \<open>
  The tools that write through \<open>std::fs\<close> at a path the sandbox has accepted: when links are
  not followed they change nothing outside the allowed roots either.
\<close>

section \<open>Steps that leave the process as it is\<close>

definition stays :: "'d proc \<Rightarrow> ('d, 'a) action \<Rightarrow> bool" where
  "stays w m = (snd (m w) = w)"

lemma stays_basic [intro, simp]:
  "stays w (give a)" "stays w (failed e)" "stays w panicked" "stays w (lift r)" "stays w (query f)"
  by (simp_all add: stays_def give_def failed_def panicked_def lift_def query_def)

lemma stays_then_do [intro]:
  assumes "stays w m" "\<And>a. stays w (f a)"
  shows "stays w (then_do m f)"
  using assms by (auto simp: stays_def then_do_def split: prod.split outcome.split)

lemma stays_blocking_read [intro, simp]: "stays w (blocking_read rt label f)"
  by (simp add: stays_def blocking_read_eq)

lemma stays_resolve [intro, simp]:
  assumes "once w = Some sb"
  shows "stays w (resolve_now rt cfg p)" "stays w (resolve_path_now rt cfg p)"
    "stays w (resolve_destination_now rt cfg p)"
  using assms
  by (simp_all add: stays_def resolve_now_def resolve_path_now_def resolve_destination_now_def
      then_do_def the_sandbox_eq query_def)

lemma stays_derive_output: "once w = Some sb \<Longrightarrow> stays w (derive_output rt cfg src out suf)"
  by (simp add: derive_output_def split: option.split)

lemma stays_read_key_file: "once w = Some sb \<Longrightarrow> stays w (read_key_file rt lib cfg kf)"
  by (auto simp: read_key_file_def split: option.split)

context effect_order
begin

lemma at_stays:
  assumes "stays w m" "\<And>a. fst (m w) = Done a \<Longrightarrow> at_state R w (f a)"
  shows "at_state R w (then_do m f)"
  using assms
  by (cases "m w"; cases "fst (m w)") (auto simp: at_state_def then_do_def stays_def refl)

end

section \<open>Writing at one path\<close>

definition writes_at :: "path \<Rightarrow> (os \<Rightarrow> 'a \<times> os) \<Rightarrow> bool" where
  "writes_at p f = (\<forall>s l. p = abs_path l \<longrightarrow> no_link (tree s) l \<longrightarrow> changed_below l s (snd (f s)))"

lemma writes_at_map: "writes_at p f \<Longrightarrow> writes_at p (\<lambda>s. case f s of (r, s') \<Rightarrow> (g r, s'))"
  by (simp add: writes_at_def split: prod.splits) (metis snd_conv)

text \<open>What creates a file and then writes it, or not.\<close>

lemma created_changed:
  fixes s :: os
  assumes "no_link (tree s) l" "fs_create s (abs_path l) = (x, s1)"
    and "s' = s1 \<or> (\<exists>m bs. x = Inr m \<and> s' = fs_write_loc s1 m bs)"
  shows "changed_below l s s'"
proof -
  note c = fs_create_changed [OF assms(1,2)]
  show ?thesis
  proof (cases "s' = s1")
    case False
    then obtain m bs where "x = Inr m" "s' = fs_write_loc s1 m bs" using assms(3) by blast
    moreover from this(1) have "m = l" by (rule c(2))
    ultimately show ?thesis using c(1) put_node_changed changed_below_trans
      unfolding fs_write_loc_def by blast
  qed (use c(1) in simp)
qed

lemma writes_at_create:
  assumes "\<And>s. snd (f s) = s \<or> (\<exists>x s1. fs_create s p = (x, s1) \<and>
      (snd (f s) = s1 \<or> (\<exists>m bs. x = Inr m \<and> snd (f s) = fs_write_loc s1 m bs)))"
  shows "writes_at p f"
  unfolding writes_at_def
proof (intro allI impI)
  fix s :: os and l
  assume l: "p = abs_path l" "no_link (tree s) l"
  show "changed_below l s (snd (f s))"
  proof (cases "snd (f s) = s")
    case False
    then obtain x s1 where "fs_create s p = (x, s1)"
      "snd (f s) = s1 \<or> (\<exists>m bs. x = Inr m \<and> snd (f s) = fs_write_loc s1 m bs)"
      using assms [of s] by blast
    with created_changed l show ?thesis by blast
  qed simp
qed

lemma write_csv_at: "writes_at p (write_csv lib p hs rs)"
  by (rule writes_at_create) (auto simp: write_csv_def split: prod.split sum.split)

lemma compress_closure_at: "writes_at dst (compress_closure c name level src dst)"
  by (rule writes_at_create)
    (auto simp: compress_closure_def Let_def split: prod.split sum.split; blast)

lemma decompress_to_at: "writes_at dst (decompress_to lib c name n src dst)"
  by (rule writes_at_create) (auto simp: decompress_to_def split: prod.split sum.split; blast)

lemma create_tar_at: "writes_at out (\<lambda>s. create_tar_archive lib src out (es s) compression s)"
  by (rule writes_at_create) (auto simp: create_tar_archive_def split: prod.split sum.split; blast)

lemma write_encrypted_at: "writes_at p (write_encrypted p header ct)"
  by (rule writes_at_create) (auto simp: write_encrypted_def split: prod.split sum.split)

section \<open>Accepted paths\<close>

lemma accepted_path:
  assumes "cap_beneath at (cap rt)" "sane (disk w)" "roots_at at (disk w) sb" "\<not> sb_follow sb"
    and "resolve_path (cap rt) (disk w) sb p = Inr q \<or> resolve_destination_path (cap rt) (disk w) sb p = Inr q"
  obtains l k where "q = abs_path l" "no_link (tree (disk w)) l" "k \<in> root_locs at (disk w) sb" "prefix k l"
proof -
  obtain r where r: "resolve (cap rt) (disk w) sb p = Inr r" "q = canonical r"
    using assms(5) by (auto simp: resolve_path_def resolve_destination_path_def result_simps)
  note l = resolve_no_follow(1,2) [OF assms(2,4) r(1)]
  from resolve_root [OF r(1) assms(3,1) l(1)] l r(2) show thesis by (auto intro: that)
qed

lemma std_write_beneath:
  assumes "cap_beneath at (cap rt)" "sane (disk w)" "roots_at at (disk w) sb" "\<not> sb_follow sb"
    and "resolve_path (cap rt) (disk w) sb p = Inr q \<or> resolve_destination_path (cap rt) (disk w) sb p = Inr q"
    and "writes_at q f"
  shows "changed_beneath (root_locs at (disk w) sb) (disk w) (snd (f (disk w)))"
proof -
  obtain l k where l: "q = abs_path l" "no_link (tree (disk w)) l" "k \<in> root_locs at (disk w) sb" "prefix k l"
    using accepted_path [OF assms(1-5)] by blast
  then have "changed_below l (disk w) (snd (f (disk w)))" using assms(6) by (simp add: writes_at_def)
  then show ?thesis using l(3,4) by (rule changed_below_beneath)
qed

lemma at_std_write:
  assumes "cap_beneath at (cap rt)" "sane (disk w)" "roots_at at (disk w) sb" "\<not> sb_follow sb"
    and "resolve_path (cap rt) (disk w) sb p = Inr q \<or> resolve_destination_path (cap rt) (disk w) sb p = Inr q"
    and "writes_at q f" "\<And>a. keeps (=) (g a)"
  shows "at_state (changed_beneath (root_locs at (disk w) sb)) w (then_do (update f) g)"
  using std_write_beneath [OF assms(1-6)] same_within [OF assms(7)]
  by (intro within.at_update) auto

lemma at_std_blocking:
  assumes "cap_beneath at (cap rt)" "sane (disk w)" "roots_at at (disk w) sb" "\<not> sb_follow sb"
    and "resolve_path (cap rt) (disk w) sb p = Inr q \<or> resolve_destination_path (cap rt) (disk w) sb p = Inr q"
    and "writes_at q f" "\<And>a. keeps (=) (g a)"
  shows "at_state (changed_beneath (root_locs at (disk w) sb)) w (then_do (run_blocking rt label f) g)"
  using std_write_beneath [OF assms(1-6)] same_within [OF assms(7)] by (rule within.at_blocking)

section \<open>The CSV tools\<close>

lemma csv_edit_inside:
  assumes "cap_beneath at (cap rt)" "sane (disk w)" "roots_at at (disk w) sb" "once w = Some sb"
    and "\<not> sb_follow sb"
  shows "inside at sb w (csv_edit rt lib cfg args edit)"
  unfolding inside_def csv_edit_def read_csv_file_def write_csv_file_def write_csv_as_def lift_opt_def
  by (intro within.at_lift within.at_resolve(2) [OF assms(4)] within.at_stays)
    (auto split: option.split prod.split
      intro!: within.at_panicked at_std_blocking [OF assms(1-3,5)] writes_at_map write_csv_at
        within.at_lift)

lemma csv_create_inside:
  assumes "cap_beneath at (cap rt)" "sane (disk w)" "roots_at at (disk w) sb" "once w = Some sb"
    and "\<not> sb_follow sb"
  shows "inside at sb w (csv_create rt lib jt cfg args)"
  unfolding inside_def csv_create_def write_csv_as_def Let_def
  by (intro within.at_lift within.at_resolve(3) [OF assms(4)] within.at_query)
    (auto intro!: within.at_failed within.at_lift at_std_blocking [OF assms(1-3,5)] writes_at_map write_csv_at)

lemma csv_tools_inside:
  assumes "cap_beneath at (cap rt)" "sane (disk w)" "roots_at at (disk w) sb" "once w = Some sb"
    and "\<not> sb_follow sb"
  shows "inside at sb w (csv_create rt lib jt cfg args)"
    and "inside at sb w (csv_add_row rt lib jt cfg args)"
    and "inside at sb w (csv_update_cell rt lib cfg args)"
    and "inside at sb w (csv_remove_row rt lib cfg args)"
    and "inside at sb w (csv_add_column rt lib cfg args)"
    and "inside at sb w (csv_remove_column rt lib cfg args)"
    and "inside at sb w (csv_rename_column rt lib cfg args)"
  by (simp_all add: csv_create_inside [OF assms] csv_edit_inside [OF assms] csv_add_row_def
      csv_update_cell_def csv_remove_row_def csv_add_column_def csv_remove_column_def csv_rename_column_def)

section \<open>The tools with an output file\<close>

text \<open>An output that is given is validated; one that is derived is not.\<close>

lemma explicit_output:
  assumes "once w = Some sb" "fst (derive_output rt cfg src (Some out) suf w) = Done q"
  shows "resolve_destination_path (cap rt) (disk w) sb out = Inr q"
  using assms
  by (auto simp: derive_output_def resolve_destination_now_def then_do_def the_sandbox_eq query_def
      result_simps)

lemma compress_inside:
  assumes "cap_beneath at (cap rt)" "sane (disk w)" "roots_at at (disk w) sb" "once w = Some sb"
    and "\<not> sb_follow sb" "get_opt_str args ''output'' = Some out"
  shows "inside at sb w (compress_with rt lib c name ext lo hi lvl cfg args)"
    and "inside at sb w (decompress_with rt lib c name suf cfg args)"
  unfolding inside_def compress_with_def decompress_with_def Let_def assms(6) differs_def
  by (intro within.at_lift within.at_resolve(2) [OF assms(4)]
      within.at_stays [OF stays_derive_output [OF assms(4)]];
    (drule explicit_output [OF assms(4)])?;
    force intro!: at_std_blocking [OF assms(1-3,5)] at_std_write [OF assms(1-3,5)] writes_at_map
      compress_closure_at decompress_to_at split: prod.split)+

lemma compress_tar_inside:
  assumes "cap_beneath at (cap rt)" "sane (disk w)" "roots_at at (disk w) sb" "once w = Some sb"
    and "\<not> sb_follow sb"
  shows "inside at sb w (compress_tar rt lib wlib cfg args)"
  unfolding inside_def compress_tar_def Let_def
  by (intro within.at_lift within.at_resolve(2,3) [OF assms(4)])
    (auto intro!: at_std_blocking [OF assms(1-3,5) disjI2] writes_at_map create_tar_at split: prod.split)

lemma encrypt_file_inside:
  assumes "cap_beneath at (cap rt)" "sane (disk w)" "roots_at at (disk w) sb" "once w = Some sb"
    and "\<not> sb_follow sb" "get_opt_str args ''output'' = Some out"
  shows "inside at sb w (encrypt_file rt lib rng cfg args)"
proof -
  have writes: "writes_at q (\<lambda>s. case encrypt_bytes lib rng a k fk gen pk d of
        Inl e \<Rightarrow> (Some (Inl e), s)
      | Inr ((header, ct), returned) \<Rightarrow>
          (case write_encrypted q header ct s of (r', s') \<Rightarrow> (Some (map_ok (\<lambda>u. returned) r'), s')))"
    for q a k fk gen pk d
    using write_encrypted_at
    by (auto simp: writes_at_def split: sum.split prod.split) (metis snd_conv)
  show ?thesis
    unfolding inside_def encrypt_file_def Let_def assms(6) output_differs_def
    by (intro within.at_lift within.at_resolve(1) [OF assms(4)] within.at_query)
      (auto intro!: within.at_failed within.at_lift within.at_query
          within.at_stays [OF stays_derive_output [OF assms(4)]]
          within.at_stays [OF stays_read_key_file [OF assms(4)]]
          at_std_blocking [OF assms(1-3,5)] writes
        dest!: explicit_output [OF assms(4)])
qed

text \<open>\<open>decrypt_file\<close> resolves its output again and writes through the handle.\<close>

lemma at_resolved_write:
  fixes w :: "'d proc" and at :: "os \<Rightarrow> 'd \<Rightarrow> loc"
  assumes "cap_beneath at (cap rt)" "sane (disk w)" "roots_at at (disk w) sb"
    and "resolve (cap rt) (disk w) sb p = Inr r" "\<And>a. keeps (=) (f a)"
  shows "at_state (changed_beneath (root_locs at (disk w) sb)) w
    (then_do (update (resolved_write (cap rt) r bs)) f)"
  by (rule inside_update [OF assms(1-4), unfolded inside_def])
    (use write_changed [OF assms(1)] assms(5) in blast)+

lemma decrypt_file_inside:
  assumes "cap_beneath at (cap rt)" "sane (disk w)" "roots_at at (disk w) sb" "once w = Some sb"
  shows "inside at sb w (decrypt_file rt lib cfg args)"
  unfolding inside_def decrypt_file_def Let_def output_differs_def
  by (intro within.at_lift within.at_resolve(1) [OF assms(4)] within.at_query)
    (auto intro!: within.at_lift within.at_query within.at_resolve(1) [OF assms(4)]
        within.at_stays [OF stays_derive_output [OF assms(4)]]
        within.at_stays [OF stays_read_key_file [OF assms(4)]]
        within.at_stays [OF stays_blocking_read]
        at_resolved_write [OF assms(1-3)]
      split: prod.split)

lemma transform_tools_inside:
  assumes "cap_beneath at (cap rt)" "sane (disk w)" "roots_at at (disk w) sb" "once w = Some sb"
    and "\<not> sb_follow sb" "get_opt_str args ''output'' = Some out"
  shows "inside at sb w (compress_gzip rt lib cfg args)"
    and "inside at sb w (compress_zstd rt lib cfg args)"
    and "inside at sb w (decompress_gzip rt lib cfg args)"
    and "inside at sb w (decompress_zstd rt lib cfg args)"
    and "inside at sb w (encrypt_file rt clib rng cfg args)"
  unfolding compress_gzip_def compress_zstd_def decompress_gzip_def decompress_zstd_def
  by (rule compress_inside [OF assms] encrypt_file_inside [OF assms])+

end
