(* ===== verification/Server_Properties.thy ===== *)
theory Server_Properties
  imports Server_Effects Std_Effects Crypto_Properties
begin

text \<open>The properties of the server on standard input and output, with their witnesses.\<close>

section \<open>A small environment\<close>

definition demo_env :: "loc env" where
  "demo_env =
     \<lparr>rt = demo_runtime,
      hash_fns = \<lparr>sha256 = (\<lambda>bs. bs), sha512 = (\<lambda>bs. bs), md5 = (\<lambda>bs. bs),
                  blake3_hex = of_bytes, hex_encode = of_bytes\<rparr>,
      media = \<lparr>infer_mime = (\<lambda>bs. None), base64 = of_bytes, is_binary = (\<lambda>bs. False)\<rparr>,
      walker = \<lparr>walk_dir = (\<lambda>s f h p. []), glob_new = (\<lambda>g. Inr (\<lambda>n. n = g)),
                regex_new = (\<lambda>g. Inr (\<lambda>n. n = g))\<rparr>,
      csvs = \<lparr>csv_header = (\<lambda>bs. Inr []), csv_records = (\<lambda>bs. []),
              csv_record_bytes = (\<lambda>n r. Inr (as_bytes (concat r))), csv_io_text = io_text\<rparr>,
      codecs = demo_lib [], ciphers = demo_crypto,
      res = \<lparr>walk_paths = (\<lambda>s f h p. []), modified_at = (\<lambda>s p. None), index_html = [], style_css = [], app_js = []\<rparr>,
      json_text = (\<lambda>j. case j of JObj m \<Rightarrow> concat (map fst m) | _ \<Rightarrow> ''value''),
      json_parse = (\<lambda>bs. Inr (obj [(''jsonrpc'', JStr ''2.0''), (''method'', JStr (of_bytes bs)),
                                   (''id'', JInt 1)])),
      tool_defs = [], package = (\<lambda>n. n)\<rparr>"

definition demo_turn :: "loc turn" where
  "demo_turn = \<lparr>rng = demo_draws, late = None\<rparr>"

definition demo_call :: "string \<Rightarrow> json_map \<Rightarrow> json_rpc_request" where
  "demo_call name args =
     \<lparr>jsonrpc = ''2.0'', rpc_method = ''tools/call'',
      params = Some (obj [(''name'', JStr name), (''arguments'', obj args)]), rpc_id = Some (JInt 1)\<rparr>"

definition read_only_config :: config where
  "read_only_config = demo_config\<lparr>server := demo_server\<lparr>access_mode := ReadOnly\<rparr>\<rparr>"

lemma demo_orderly: "R s s \<Longrightarrow> orderly R demo_turn s"
  by (simp add: orderly_def demo_turn_def)

lemma demo_call_name [simp]: "str_param (params (demo_call name args)) ''name'' = Some name"
  by (simp add: demo_call_def str_param_def)

lemma demo_enabled [simp]:
  "enabled (server demo_config) = all_categories" "enabled (server read_only_config) = all_categories"
  "access_mode (server demo_config) = Unrestricted" "access_mode (server read_only_config) = ReadOnly"
  by (simp_all add: demo_config_def config_new_def demo_server_def read_only_config_def)

section \<open>The access mode\<close>

text \<open>
  C6: in read-only mode the server never changes the files, whatever comes in on standard
  input, how many requests there are and how they are cut into chunks, provided only that a
  request dropped by the timeout left them as they were.
\<close>

theorem read_only_server_never_writes:
  assumes "access_mode (server cfg) = ReadOnly"
    and "\<And>i. orderly (=) (turns i) (disk w)"
  shows "disk (snd (snd (run_stdio env cfg turns i r w))) = disk w"
  by (rule stdio_invariant [where P = "\<lambda>v. disk v = disk w"])
    (simp_all add: read_only_line assms)

theorem read_only_server_never_writes_witness:
  "disk (snd (snd (run_stdio demo_env read_only_config (\<lambda>i. demo_turn) 0
     [Inr [112, 105, 110], Inr [103, 10]] demo_proc))) = demo_os"
  using read_only_server_never_writes [where cfg = read_only_config and w = demo_proc
      and turns = "\<lambda>i. demo_turn" and env = demo_env and i = 0
      and r = "[Inr [112, 105, 110], Inr [103, 10]]"]
  by (simp add: demo_orderly)

section \<open>Tool calls\<close>

text \<open>
  C13: what a call of a tool comes to. A tool that is unknown, or whose category is not
  enabled, is an unknown method; a writing tool in read-only mode is refused in the result;
  neither touches anything. Every other tool of the table has a handler, which is run, and
  whose failure becomes a result.
\<close>

theorem tools_call_gated:
  assumes "str_param (params req) ''name'' = Some name"
  shows "if \<not> is_tool_available name (enabled (server cfg)) then
      handle_tools_call env r cfg req w = (Failed (MethodNotFound name), w)
    else if access_mode (server cfg) = ReadOnly \<and> is_write_tool name then
      handle_tools_call env r cfg req w =
        (Done (tool_error (''Operation '' @ quoted name @ '' is not allowed in read-only mode'')), w)
    else \<exists>m. (name, m) \<in> set (handlers env r cfg (Option.bind (params req) (\<lambda>p. jget p ''arguments''))) \<and>
      handle_tools_call env r cfg req w = as_tool_result env name m w"
proof (cases "is_tool_available name (enabled (server cfg))")
  case True
  then obtain t where "t \<in> set all_tools" "tool_name t = name"
    by (auto simp: is_tool_available_iff)
  then obtain m where
    "map_of (handlers env r cfg (Option.bind (params req) (\<lambda>p. jget p ''arguments''))) name = Some m"
    by (metis handler_of_tool)
  with True assms show ?thesis
    by (auto simp: handle_tools_call_def then_do_def lift_def give_def dispatch_def dest: map_of_SomeD)
qed (use assms in \<open>simp add: handle_tools_call_def then_do_def lift_def failed_def\<close>)

lemma demo_available: "is_tool_available ''write_file'' all_categories" "is_write_tool ''write_file''"
  by (simp_all add: is_tool_available_def category_of_def is_write_tool_def lookup_tool_def
      all_tools_def all_categories_def)

theorem tools_call_gated_witness:
  "handle_tools_call demo_env demo_draws read_only_config (demo_call ''write_file'' []) demo_proc =
     (Done (tool_error (''Operation '' @ quoted ''write_file'' @ '' is not allowed in read-only mode'')),
      demo_proc)"
  using tools_call_gated [of "demo_call ''write_file'' []" "''write_file''" read_only_config demo_env
      demo_draws demo_proc, OF demo_call_name]
  unfolding demo_enabled
  by (simp only: simp_thms if_True if_False demo_available)

text \<open>The one tool that is announced as reading and registered as writing.\<close>

lemma generate_key_called_read_only:
  "map tool_name (filter (\<lambda>t. read_only_hint (tool_name t) \<and> is_write t) all_tools) = [''generate_key'']"
  by (simp add: all_tools_def read_only_hint_def starts_with_def)

lemma map_of_on_object: "k' \<noteq> k \<Longrightarrow> map_of (on_object k f m) k' = map_of m k'"
  by (simp add: on_object_def split: option.split)

lemma map_of_put_meta: "k \<noteq> ''_meta'' \<Longrightarrow> map_of (put_meta m) k = map_of m k"
  by (simp add: put_meta_def map_of_on_object split: option.split)

definition call_tool_result :: "json \<Rightarrow> bool" where
  "call_tool_result v = (is_object v \<and> (case jget v ''content'' of None \<Rightarrow> False | Some c \<Rightarrow> is_array c) \<and>
     jget v ''isError'' \<noteq> None)"

lemma call_result_ok: "call_tool_result (call_result env v)"
proof (cases "case jget v ''content'' of None \<Rightarrow> False | Some c \<Rightarrow> is_array c")
  case True
  then have "is_object v" by (cases v) (simp_all add: is_object_def)
  moreover have "is_object (set_key k x v)" if "is_object v" for k x
    using that by (cases v) (simp_all add: is_object_def)
  ultimately show ?thesis using True by (auto simp: call_result_def call_tool_result_def jget_set_key)
next
  case False
  then show ?thesis by (simp add: call_result_def call_tool_result_def text_content_def is_array_def)
qed

lemma tool_success_ok: "call_tool_result (tool_success env name v)"
  using call_result_ok [of env v]
  by (cases "call_result env v")
    (auto simp: tool_success_def call_tool_result_def is_object_def map_of_put_meta Let_def)

lemma tool_error_ok: "call_tool_result (tool_error msg)" "jget (tool_error msg) ''isError'' = Some (JBool True)"
  by (simp_all add: tool_error_def call_tool_result_def text_content_def is_array_def)

lemma as_tool_result_ok: "as_tool_result env name m w = (Done v, w') \<Longrightarrow> call_tool_result v"
  by (auto simp: as_tool_result_def tool_success_ok tool_error_ok split: prod.splits outcome.splits)



section \<open>Lines\<close>



text \<open>
  On standard input a JSON value that is no request is reported with the code of a text that
  does not parse.
\<close>

lemma invalid_request_reported_as_parse_error:
  assumes "trim line \<noteq> []" "json_parse env (as_bytes (trim line)) = Inr v" "from_value v = Inl e"
  shows "error_code e = - 32600"
    and "process_one_line env t cfg line w =
      (Done (response_line env (rpc_error None (- 32700) (error_text (ParseError (error_text e))))), w)"
  using assms from_value_error [OF assms(3)]
  by (auto simp: process_one_line_def parse_request_def parse_error_def give_def Let_def)

section \<open>Framing\<close>

text \<open>
  The reference for reading: the lines of the whole input, each with its newline, until the
  input ends or a line is too long.
\<close>

fun first_line :: "u8 list \<Rightarrow> u8 list" where
  "first_line [] = []"
| "first_line (b # bs) = (if b = newline_byte then [b] else b # first_line bs)"

lemma first_line_length: "length (first_line bs) \<le> length bs" "bs \<noteq> [] \<Longrightarrow> first_line bs \<noteq> []"
  by (induction bs) auto

lemma first_line_append: "newline_byte \<notin> set xs \<Longrightarrow> first_line (xs @ ys) = xs @ first_line ys"
  by (induction xs) auto

lemma position_Some:
  "position newline_byte bs = Some i \<Longrightarrow> first_line (bs @ cs) = take (Suc i) bs \<and> i < length bs"
  by (induction bs arbitrary: i) (auto split: if_splits)

lemma position_None: "position newline_byte bs = None \<longleftrightarrow> newline_byte \<notin> set bs"
  by (induction bs) auto

function frames :: "nat \<Rightarrow> u8 list \<Rightarrow> line_read list" where
  "frames max_len bs =
     (if bs = [] then [Eof]
      else if length (first_line bs) > max_len then [TooLong]
      else finish (first_line bs) # frames max_len (drop (length (first_line bs)) bs))"
  by pat_completeness auto
termination
  by (relation "measure (length \<circ> snd)") (simp_all add: first_line_length)

declare frames.simps [simp del]

lemma read_line_frames:
  assumes "newline_byte \<notin> set buf" "length buf \<le> max_len" "[] \<notin> set cs"
  shows "\<exists>r. read_line_capped max_len buf (map Inr cs) =
      (Inr (if buf @ concat cs = [] then Eof
            else if length (first_line (buf @ concat cs)) > max_len then TooLong
            else finish (first_line (buf @ concat cs))), r) \<and>
    (length (first_line (buf @ concat cs)) \<le> max_len \<longrightarrow>
      (\<exists>ds. r = map Inr ds \<and> [] \<notin> set ds \<and>
        concat ds = drop (length (first_line (buf @ concat cs))) (buf @ concat cs)))"
  using assms
proof (induction cs arbitrary: buf)
  case Nil
  then show ?case using first_line_append [of buf "[]"] by (auto simp: at_end_def)
next
  case (Cons c cs)
  then have c: "c \<noteq> []" "[] \<notin> set cs" by auto
  show ?case
  proof (cases "position newline_byte c")
    case None
    then have app: "first_line (buf @ c @ concat cs) = (buf @ c) @ first_line (concat cs)"
      using Cons.prems(1) first_line_append [of "buf @ c" "concat cs"] by (simp add: position_None)
    show ?thesis
    proof (cases "length buf + length c > max_len")
      case True
      then show ?thesis using None c app by simp
    next
      case False
      then show ?thesis
        using None c Cons.prems(1) Cons.IH [of "buf @ c"] position_None [of c]
        by (auto simp del: drop_append)
    qed
  next
    case (Some i)
    then have i: "first_line (c @ concat cs) = take (Suc i) c" "i < length c"
      using position_Some by auto
    then have app: "first_line (buf @ c @ concat cs) = buf @ take (Suc i) c"
      using Cons.prems(1) by (simp add: first_line_append)
    have rest: "\<exists>ds. consume (Suc i) c (map Inr cs) = map Inr ds \<and> [] \<notin> set ds \<and>
        concat ds = drop (Suc i) c @ concat cs"
    proof (cases "drop (Suc i) c = []")
      case True
      then show ?thesis using c by (intro exI [of _ cs]) (simp add: consume_def)
    next
      case False
      then show ?thesis using c by (intro exI [of _ "drop (Suc i) c # cs"]) (auto simp: consume_def)
    qed
    then show ?thesis using Some c app i(2) by (auto simp: min_def)
  qed
qed

text \<open>The server on the lines of its input.\<close>

fun serve_lines ::
    "'d env \<Rightarrow> config \<Rightarrow> (nat \<Rightarrow> 'd turn) \<Rightarrow> nat \<Rightarrow> line_read list \<Rightarrow> 'd proc \<Rightarrow> u8 list \<times> bool \<times> 'd proc" where
  "serve_lines env cfg turns i (Line line # ls) w =
     (case process_one_line env (turns i) cfg line w of
        (Done out, w') \<Rightarrow> (case serve_lines env cfg turns (i + 1) ls w' of (rest, end_state) \<Rightarrow> (out @ rest, end_state))
      | (Failed e, w') \<Rightarrow> ([], False, w')
      | (Panicked, w') \<Rightarrow> ([], True, w'))"
| "serve_lines env cfg turns i (TooLong # ls) w =
     (oversize_error env (max_request_bytes (server cfg)), False, w)"
| "serve_lines env cfg turns i (Eof # ls) w = ([], False, w)"
| "serve_lines env cfg turns i [] w = ([], False, w)"

lemma run_stdio_lines:
  assumes "[] \<notin> set chunks"
  shows "run_stdio env cfg turns i (map Inr chunks) w =
    serve_lines env cfg turns i (frames (max_request_bytes (server cfg)) (concat chunks)) w"
  using assms
proof (induction "max_request_bytes (server cfg)" "concat chunks" arbitrary: chunks i w
    rule: frames.induct)
  case (1 chunks)
  let ?max = "max_request_bytes (server cfg)" and ?bs = "concat chunks"
  obtain r where read: "read_line_capped ?max [] (map Inr chunks) =
      (Inr (if ?bs = [] then Eof
            else if length (first_line ?bs) > ?max then TooLong else finish (first_line ?bs)), r)"
    and rest: "length (first_line ?bs) \<le> ?max \<Longrightarrow>
      \<exists>ds. r = map Inr ds \<and> [] \<notin> set ds \<and> concat ds = drop (length (first_line ?bs)) ?bs"
    using read_line_frames [of "[]" ?max chunks] 1(2) by auto
  show ?case
  proof (cases "?bs = [] \<or> length (first_line ?bs) > ?max")
    case True
    then show ?thesis using read
      by (simp add: run_stdio.simps [of _ _ _ _ "map Inr chunks"] frames.simps [of _ "concat chunks"] split: if_splits)
  next
    case False
    then obtain ds where ds: "r = map Inr ds" "[] \<notin> set ds"
        "concat ds = drop (length (first_line ?bs)) ?bs"
      using rest by (meson linorder_not_less)
    obtain line where line: "finish (first_line ?bs) = Line line" by (simp add: finish_def)
    have IH: "run_stdio env cfg turns (i + 1) r w' =
        serve_lines env cfg turns (i + 1) (frames ?max (drop (length (first_line ?bs)) ?bs)) w'" for w'
      using False ds 1(1) [of ds] by simp
    have "read_line_capped ?max [] (map Inr chunks) = (Inr (Line line), r)"
      "frames ?max ?bs = Line line # frames ?max (drop (length (first_line ?bs)) ?bs)"
      using False read line by (auto simp: frames.simps [of _ "concat chunks"])
    then show ?thesis
      using IH unfolding run_stdio.simps [of _ _ _ _ "map Inr chunks"]
      by (auto split: prod.split outcome.split)
  qed
qed

text \<open>
  C20: the server does to its input what it does to the lines of it: however the input arrives
  in chunks, every line that fits is answered in its turn, the bytes after it are kept for the
  next, and a line longer than the limit ends the run with its error before it is held in full.
\<close>

theorem stdio_serves_lines:
  assumes "[] \<notin> set chunks"
  shows "run_stdio env cfg turns i (map Inr chunks) w =
    serve_lines env cfg turns i (frames (max_request_bytes (server cfg)) (concat chunks)) w"
  by (rule run_stdio_lines [OF assms])

theorem stdio_serves_lines_witness:
  "run_stdio demo_env demo_config (\<lambda>i. demo_turn) 0 (map Inr [[112, 105], [110, 103, 10, 112], [105]]) demo_proc =
   serve_lines demo_env demo_config (\<lambda>i. demo_turn) 0 (frames 4096 [112, 105, 110, 103, 10, 112, 105]) demo_proc"
  using stdio_serves_lines [of "[[112, 105], [110, 103, 10, 112], [105]]" demo_env demo_config
      "\<lambda>i. demo_turn" 0 demo_proc]
  by (simp add: demo_config_def config_new_def demo_server_def)

section \<open>Containment\<close>

text \<open>
  The calls whose output the sandbox does not check: a derived output, the public key beside a
  secret key, and what an archive is unpacked into.
\<close>

definition unchecked_output :: "string \<Rightarrow> json option \<Rightarrow> bool" where
  "unchecked_output name args =
     (name \<in> {''decompress_tar'', ''generate_key''} \<or>
      name \<in> {''compress_gzip'', ''decompress_gzip'', ''compress_zstd'', ''decompress_zstd'', ''encrypt_file''} \<and>
        get_opt_str args ''output'' = None)"

lemma inside_keeps: "keeps (=) m \<Longrightarrow> inside at sb w m"
  unfolding inside_def by (intro within.at_keeps same_within)

lemma handlers_inside:
  assumes "cap_beneath at (cap (rt env))" "sane (disk w)" "roots_at at (disk w) sb" "once w = Some sb"
    and "\<not> sb_follow sb"
  shows "\<forall>(n, m)\<in>set (handlers env r cfg args). unchecked_output n args \<or> inside at sb w m"
proof (cases "get_opt_str args ''output''")
  case None
  then show ?thesis
    by (simp add: handlers_def unchecked_output_def inside_keeps write_file_inside [OF assms(1-4)]
        edit_file_inside [OF assms(1-4)] simple_tools_inside [OF assms(1-4)]
        two_path_tools_inside [OF assms(1-4)] assms(5) csv_tools_inside [OF assms]
        decrypt_file_inside [OF assms(1-4)] compress_tar_inside [OF assms])
next
  case (Some out)
  then show ?thesis
    by (simp add: handlers_def unchecked_output_def inside_keeps write_file_inside [OF assms(1-4)]
        edit_file_inside [OF assms(1-4)] simple_tools_inside [OF assms(1-4)]
        two_path_tools_inside [OF assms(1-4)] assms(5) csv_tools_inside [OF assms]
        decrypt_file_inside [OF assms(1-4)] compress_tar_inside [OF assms]
        transform_tools_inside [OF assms Some])
qed

lemma dispatch_contained:
  assumes "cap_beneath at (cap (rt env))" "sane (disk w)" "roots_at at (disk w) sb" "once w = Some sb"
    and "\<not> sb_follow sb" "\<not> unchecked_output name args"
  shows "inside at sb w (dispatch env r cfg name args)"
  using handlers_inside [OF assms(1-5), of r cfg args] assms(6)
  by (auto simp: dispatch_def inside_keeps split: option.split dest!: map_of_SomeD)

text \<open>
  C11: the tools that write an output file through \<open>std::fs\<close> stay inside the allowed directories
  when links are not followed and the output is given: compression, decompression and
  encryption change nothing outside of them. Decryption does so with a derived output as well.
\<close>

theorem transform_tools_contained:
  assumes "cap_beneath at (cap (rt env))" "sane (disk w)" "roots_at at (disk w) sb" "once w = Some sb"
    and "\<not> sb_follow sb"
    and "name \<in> {''compress_gzip'', ''decompress_gzip'', ''compress_zstd'', ''decompress_zstd'',
        ''encrypt_file''} \<and> get_opt_str args ''output'' \<noteq> None \<or>
      name \<in> {''compress_tar'', ''decrypt_file''}"
  shows "changed_beneath (root_locs at (disk w) sb) (disk w)
    (disk (snd (dispatch env r cfg name args w)))"
proof -
  have "\<not> unchecked_output name args" using assms(6) by (auto simp: unchecked_output_def)
  from dispatch_contained [OF assms(1-5) this] show ?thesis by (simp add: inside_def at_state_def)
qed

definition demo_encrypt :: "json option" where
  "demo_encrypt = Some (obj [(''path'', JStr ''notes.txt''), (''output'', JStr ''sub/n.enc''),
     (''generateKey'', JBool True)])"

theorem transform_tools_contained_witness:
  "changed_beneath {[''srv'']} demo_os
     (disk (snd (dispatch demo_env demo_draws demo_config ''encrypt_file'' demo_encrypt demo_proc)))"
proof -
  have "get_opt_str demo_encrypt ''output'' \<noteq> None" by code_simp
  moreover have "\<not> sb_follow demo_sandbox" by (simp add: demo_sandbox_def)
  ultimately show ?thesis
    using transform_tools_contained [of "\<lambda>s h. h" demo_env demo_proc demo_sandbox "''encrypt_file''" demo_encrypt]
      demo_runtime_contract
    by (simp add: demo_sane demo_roots_at demo_root_locs demo_env_def)
qed

lemma contained_categories:
  assumes "is_tool_available name cats" "set cats \<subseteq> {Read, Write, Delete, Csv}"
  shows "\<not> unchecked_output name args"
proof -
  have "\<forall>t\<in>set all_tools. unchecked_output (tool_name t) args \<longrightarrow> category t \<notin> {Read, Write, Delete, Csv}"
    by (simp add: all_tools_def unchecked_output_def)
  then show ?thesis using assms by (auto simp: is_tool_available_iff)
qed

lemma tools_call_contained:
  assumes "cap_beneath at (cap (rt env))" "sane (disk w)" "roots_at at (disk w) sb" "once w = Some sb"
    and "\<not> sb_follow sb" "set (enabled (server cfg)) \<subseteq> {Read, Write, Delete, Csv}"
  shows "at_state (changed_beneath (root_locs at (disk w) sb)) w (handle_tools_call env r cfg req)"
  unfolding handle_tools_call_def
  using dispatch_contained [OF assms(1-5) contained_categories [OF _ assms(6)]]
  by (intro within.at_lift)
    (auto simp: inside_def at_state_def as_tool_result_disk failed_def give_def within.refl)

lemma process_request_contained:
  assumes "cap_beneath at (cap (rt env))" "sane (disk w)" "roots_at at (disk w) sb" "once w = Some sb"
    and "\<not> sb_follow sb" "set (enabled (server cfg)) \<subseteq> {Read, Write, Delete, Csv}"
  shows "at_state (changed_beneath (root_locs at (disk w) sb)) w (process_request env r cfg req)"
  using tools_call_contained [OF assms]
  by (simp add: process_request_def Let_def within.at_keeps same_within)


definition write_config :: config where
  "write_config = demo_config\<lparr>server := demo_server\<lparr>enabled := [Read, Write, Delete, Csv]\<rparr>\<rparr>"


end
