(* ===== verification/Http.thy ===== *)
theory Http
  imports Server "HOL-Library.AList"
begin

text \<open>
  \<open>src/http.rs\<close>: the server over HTTP. Header names are in lower case, as \<open>http\<close> keeps them;
  their values are bytes. A handler gets the state of the server, which is the set of the
  sessions beside the configuration, and the process of the tools, and returns both; it runs
  as one step. What the router of \<open>axum\<close> answers by itself is a parameter. A handler that
  panics closes its connection; the server goes on when the program was built to unwind, and is
  gone when it was built to abort.
\<close>

type_synonym headers = "(string \<times> string) list"

datatype payload =
    NoBody
  | PlainText string
  | JsonBody json
  | Events "(string \<times> string) list"
  | PendingEvents string

record http_response =
  status :: nat
  resp_headers :: headers
  payload :: payload

record http_request =
  verb :: string
  target :: string
  headers :: headers
  req_body :: "u8 list"

text \<open>What the router answers to an unknown path, an unknown method and a body over the limit.\<close>

record router_lib =
  unmatched :: http_response
  wrong_verb :: http_response
  too_large :: http_response

record http_state =
  http_config :: config
  sessions :: "string set"
  allowed_origins :: "string list"

text \<open>The process, and the state that the handlers share.\<close>

record 'd world =
  http :: http_state
  tools :: "'d proc"

section \<open>Responses and headers\<close>

definition respond_with :: "nat \<Rightarrow> payload \<Rightarrow> http_response" where
  "respond_with n b = \<lparr>status = n, resp_headers = [], payload = b\<rparr>"

definition plain :: "nat \<Rightarrow> string \<Rightarrow> http_response" where
  "plain n t = respond_with n (PlainText t)"

definition json_response :: "json_rpc_response \<Rightarrow> http_response" where
  "json_response r = respond_with 200 (JsonBody (response_value r))"

text \<open>The values that \<open>to_str\<close> and \<open>HeaderValue::from_str\<close> accept: visible ASCII, blank and tab.\<close>

definition visible_char :: "char \<Rightarrow> bool" where
  "visible_char c = (let k = of_char c :: nat in 32 \<le> k \<and> k < 127 \<or> k = 9)"

definition header_str :: "headers \<Rightarrow> string \<Rightarrow> string option" where
  "header_str hs name = filter_opt (list_all visible_char) (map_of hs name)"

definition insert_header :: "string \<Rightarrow> string \<Rightarrow> http_response \<Rightarrow> http_response" where
  "insert_header name v resp = resp\<lparr>resp_headers := AList.update name v (resp_headers resp)\<rparr>"

definition session_header_name :: string where
  "session_header_name = ''mcp-session-id''"

definition protocol_header_name :: string where
  "protocol_header_name = ''mcp-protocol-version''"

definition session_header :: "headers \<Rightarrow> string option" where
  "session_header hs = filter_opt (\<lambda>v. v \<noteq> []) (header_str hs session_header_name)"

definition with_session :: "http_response \<Rightarrow> string \<Rightarrow> http_response" where
  "with_session resp session_id =
     (if list_all visible_char session_id
      then insert_header session_header_name session_id resp else resp)"

definition reject_protocol_version :: "headers \<Rightarrow> http_response option" where
  "reject_protocol_version hs =
     (case header_str hs protocol_header_name of
        None \<Rightarrow> None
      | Some v \<Rightarrow>
          if is_supported_protocol_version v then None
          else Some (plain 400 (''Unsupported MCP-Protocol-Version: '' @ v)))"

definition origin_allowed :: "headers \<Rightarrow> string list \<Rightarrow> bool" where
  "origin_allowed hs configured =
     (case header_str hs ''origin'' of
        None \<Rightarrow> True
      | Some origin \<Rightarrow>
          if origin = ''null'' then False
          else if List.member configured origin then True
          else (case header_str hs ''host'' of
                  None \<Rightarrow> False
                | Some h \<Rightarrow>
                    unwrap_or False
                      (map_option (\<lambda>(scheme, authority). eq_ignore_ascii_case authority h)
                        (str_split_once ''://'' origin))))"

definition media_type :: "string \<Rightarrow> string" where
  "media_type item = trim (hd (str_split CHR '';'' item))"

definition accepts :: "headers \<Rightarrow> string \<Rightarrow> bool" where
  "accepts hs mime =
     (case header_str hs ''accept'' of
        None \<Rightarrow> False
      | Some v \<Rightarrow>
          list_ex (\<lambda>item. media_type item = mime \<or> media_type item = ''*/*'') (str_split CHR '','' v))"

definition is_json_content_type :: "headers \<Rightarrow> bool" where
  "is_json_content_type hs =
     (case header_str hs ''content-type'' of
        None \<Rightarrow> False | Some v \<Rightarrow> starts_with v ''application/json'')"

definition presented_token :: "headers \<Rightarrow> string" where
  "presented_token hs = unwrap_or [] (header_str hs ''authorization'')"

definition common_request_rejection ::
    "'d env \<Rightarrow> http_state \<Rightarrow> headers \<Rightarrow> bool \<Rightarrow> http_response option" where
  "common_request_rejection env st hs require_json =
     (if require_json \<and> \<not> is_json_content_type hs then
        Some (plain 415 ''Content-Type must be application/json'')
      else if \<not> origin_allowed hs (allowed_origins st) then
        Some (plain 403 ''Origin is not allowed'')
      else
        (case auth_token (server (http_config st)) of
           None \<Rightarrow> None
         | Some expected \<Rightarrow>
             if token_matches env (presented_token hs) expected then None
             else Some (insert_header ''www-authenticate'' ''Bearer'' (plain 401 ''Unauthorized''))))"

definition parse_json_rpc :: "'d env \<Rightarrow> u8 list \<Rightarrow> http_response + json_rpc_request" where
  "parse_json_rpc env bytes =
     and_then
       (map_err (\<lambda>e. json_response (rpc_error None (- 32700) (''Parse error: '' @ e)))
         (json_parse env bytes))
       (\<lambda>v. map_err (\<lambda>e. json_response (rpc_error None (error_code e) (error_text e))) (from_value v))"

definition validate_session :: "http_state \<Rightarrow> headers \<Rightarrow> http_response + string" where
  "validate_session st hs =
     and_then (ok_or (plain 400 ''Missing MCP-Session-Id'') (session_header hs)) (\<lambda>session.
       if session \<in> sessions st then Inr session
       else Inl (plain 404 ''Unknown or expired MCP session''))"

section \<open>Handlers\<close>

type_synonym 'd handler = "'d world \<Rightarrow> http_response outcome \<times> 'd world"

definition reply :: "http_response \<Rightarrow> 'd handler" where
  "reply r = (\<lambda>w. (Done r, w))"

text \<open>\<open>process_request_http\<close>, and what is made of its response.\<close>

definition run_rpc ::
    "'d env \<Rightarrow> 'd turn \<Rightarrow> json_rpc_request \<Rightarrow> (json_rpc_response \<Rightarrow> http_response) \<Rightarrow> 'd handler" where
  "run_rpc env t req k = (\<lambda>w.
     case then_do (respond env t (http_config (http w)) req) (\<lambda>r. give (k r)) (tools w) of
       (x, p) \<Rightarrow> (x, w\<lparr>tools := p\<rparr>))"

definition handle_rpc :: "'d env \<Rightarrow> 'd turn \<Rightarrow> headers \<Rightarrow> u8 list \<Rightarrow> 'd handler" where
  "handle_rpc env t hs bytes = (\<lambda>w.
     case common_request_rejection env (http w) hs True of
       Some r \<Rightarrow> reply r w
     | None \<Rightarrow>
         (case parse_json_rpc env bytes of
            Inl r \<Rightarrow> reply r w
          | Inr req \<Rightarrow>
              run_rpc env t req
                (\<lambda>r. if rpc_id req = None then respond_with 202 NoBody else json_response r) w))"

definition add_session :: "string \<Rightarrow> 'd world \<Rightarrow> 'd world" where
  "add_session s w = w\<lparr>http := (http w)\<lparr>sessions := insert s (sessions (http w))\<rparr>\<rparr>"

text \<open>The session of a request: a new one for \<open>initialize\<close>, else the one of its header.\<close>

definition session_of ::
    "string \<Rightarrow> headers \<Rightarrow> json_rpc_request \<Rightarrow> 'd world \<Rightarrow> (http_response + string) \<times> 'd world" where
  "session_of uuid hs req w =
     (if rpc_method req = ''initialize'' then (Inr uuid, add_session uuid w)
      else (validate_session (http w) hs, w))"

definition mcp_reply ::
    "'d env \<Rightarrow> headers \<Rightarrow> json_rpc_request \<Rightarrow> string \<Rightarrow> json_rpc_response \<Rightarrow> http_response" where
  "mcp_reply env hs req session_id r =
     (if rpc_id req = None then with_session (respond_with 202 NoBody) session_id
      else if accepts hs ''text/event-stream'' \<and> \<not> accepts hs ''application/json'' then
        with_session (respond_with 200 (Events [(''message'', json_text env (response_value r))])) session_id
      else with_session (json_response r) session_id)"

definition handle_mcp_post ::
    "'d env \<Rightarrow> 'd turn \<Rightarrow> string \<Rightarrow> headers \<Rightarrow> u8 list \<Rightarrow> 'd handler" where
  "handle_mcp_post env t uuid hs bytes = (\<lambda>w.
     case common_request_rejection env (http w) hs True of
       Some r \<Rightarrow> reply r w
     | None \<Rightarrow>
    (case reject_protocol_version hs of
       Some r \<Rightarrow> reply r w
     | None \<Rightarrow>
     if \<not> accepts hs ''application/json'' \<and> \<not> accepts hs ''text/event-stream'' then
       reply (plain 406 ''Accept must include application/json or text/event-stream'') w
     else
    (case parse_json_rpc env bytes of
       Inl r \<Rightarrow> reply r w
     | Inr req \<Rightarrow>
    (case session_of uuid hs req w of
       (Inl r, w') \<Rightarrow> reply r w'
     | (Inr session_id, w') \<Rightarrow>
         run_rpc env t req (mcp_reply env hs req session_id) w'))))"

definition handle_mcp_get :: "'d env \<Rightarrow> headers \<Rightarrow> 'd handler" where
  "handle_mcp_get env hs = (\<lambda>w.
     case common_request_rejection env (http w) hs False of
       Some r \<Rightarrow> reply r w
     | None \<Rightarrow>
    (case reject_protocol_version hs of
       Some r \<Rightarrow> reply r w
     | None \<Rightarrow>
     if \<not> accepts hs ''text/event-stream'' then
       reply (plain 406 ''Accept must include text/event-stream'') w
     else
    (case validate_session (http w) hs of
       Inl r \<Rightarrow> reply r w
     | Inr session_id \<Rightarrow>
         reply (with_session (respond_with 200 (PendingEvents ''mcp keepalive'')) session_id) w)))"

definition remove_session :: "string \<Rightarrow> 'd world \<Rightarrow> 'd world" where
  "remove_session s w = w\<lparr>http := (http w)\<lparr>sessions := sessions (http w) - {s}\<rparr>\<rparr>"

definition handle_mcp_delete :: "'d env \<Rightarrow> headers \<Rightarrow> 'd handler" where
  "handle_mcp_delete env hs = (\<lambda>w.
     case common_request_rejection env (http w) hs False of
       Some r \<Rightarrow> reply r w
     | None \<Rightarrow>
    (case session_header hs of
       None \<Rightarrow> reply (plain 400 ''Missing MCP-Session-Id'') w
     | Some session_id \<Rightarrow>
         if session_id \<in> sessions (http w) then
           reply (respond_with 204 NoBody) (remove_session session_id w)
         else reply (plain 404 ''Unknown MCP session'') w))"

definition handle_health :: "'d env \<Rightarrow> json" where
  "handle_health env =
     obj [(''status'', JStr ''UP''), (''version'', JStr (package env ''CARGO_PKG_VERSION'')),
          (''transport'', JStr ''streamable-http''), (''mcpEndpoint'', JStr ''/mcp''),
          (''legacyEndpoint'', JStr ''/rpc'')]"

definition handle_version :: "'d env \<Rightarrow> json" where
  "handle_version env = obj [(''version'', JStr (package env ''CARGO_PKG_VERSION''))]"

definition handle_info :: "'d env \<Rightarrow> http_state \<Rightarrow> json" where
  "handle_info env st =
     (let cats = enabled (server (http_config st)) in
      obj [(''version'', JStr (package env ''CARGO_PKG_VERSION'')),
           (''protocolVersion'', JStr latest_protocol_version),
           (''transports'', jstrs [''stdio'', ''streamable-http'', ''legacy-http-json-rpc'']),
           (''mcpEndpoint'', JStr ''/mcp''),
           (''enabledToolCategories'', jstrs (map slug cats)),
           (''enabledToolsCount'', JInt (int (length (filter (\<lambda>t. List.member cats (category t)) all_tools)))),
           (''accessMode'', JStr (access_mode_text (access_mode (server (http_config st))))),
           (''allowedDirectories'', jstrs (allowed_directories (http_config st))),
           (''activeSessions'', JInt (int (card (sessions st))))])"

definition handle_tools :: "'d env \<Rightarrow> http_state \<Rightarrow> http_response" where
  "handle_tools env st =
     (case handle_tools_list env (http_config st) of
        Inr v \<Rightarrow> respond_with 200 (JsonBody v)
      | Inl e \<Rightarrow> plain 500 (error_text e))"

section \<open>The server\<close>

definition origins_from_env :: "(string \<Rightarrow> string option) \<Rightarrow> string list" where
  "origins_from_env vars =
     filter (\<lambda>v. v \<noteq> []) (map trim (str_split CHR '','' (unwrap_or [] (vars ''MCP_ALLOWED_ORIGINS''))))"

definition initial_state :: "(string \<Rightarrow> string option) \<Rightarrow> config \<Rightarrow> http_state" where
  "initial_state vars cfg =
     \<lparr>http_config = cfg, sessions = {}, allowed_origins = origins_from_env vars\<rparr>"

text \<open>
  The routes of \<open>create_http_server\<close>. The limit on the body concerns the handlers that take
  it; the methods of a path that is routed are answered by the handler, and the routes for
  \<open>GET\<close> also answer \<open>HEAD\<close>, without a body.
\<close>

definition with_body :: "router_lib \<Rightarrow> http_request \<Rightarrow> (u8 list \<Rightarrow> 'd handler) \<Rightarrow> 'd handler" where
  "with_body lib r f = (\<lambda>w.
     if max_http_body_bytes (server (http_config (http w))) < length (req_body r) then
       reply (too_large lib) w
     else f (req_body r) w)"

definition on_get :: "router_lib \<Rightarrow> http_request \<Rightarrow> 'd handler \<Rightarrow> 'd handler" where
  "on_get lib r h =
     (if verb r = ''GET'' then h
      else if verb r = ''HEAD'' then
        (\<lambda>w. case h w of (Done a, w') \<Rightarrow> (Done (a\<lparr>payload := NoBody\<rparr>), w') | x \<Rightarrow> x)
      else reply (wrong_verb lib))"

definition route :: "'d env \<Rightarrow> router_lib \<Rightarrow> 'd turn \<Rightarrow> string \<Rightarrow> http_request \<Rightarrow> 'd handler" where
  "route env lib t uuid r =
     (if target r = ''/rpc'' then
        (if verb r = ''POST'' then with_body lib r (handle_rpc env t (headers r))
         else reply (wrong_verb lib))
      else if target r = ''/mcp'' then
        (if verb r = ''POST'' then with_body lib r (handle_mcp_post env t uuid (headers r))
         else if verb r = ''DELETE'' then handle_mcp_delete env (headers r)
         else on_get lib r (handle_mcp_get env (headers r)))
      else if target r = ''/health'' then
        on_get lib r (reply (respond_with 200 (JsonBody (handle_health env))))
      else if target r = ''/version'' then
        on_get lib r (reply (respond_with 200 (JsonBody (handle_version env))))
      else if target r = ''/info'' then
        on_get lib r (\<lambda>w. reply (respond_with 200 (JsonBody (handle_info env (http w)))) w)
      else if target r = ''/tools'' then
        on_get lib r (\<lambda>w. reply (handle_tools env (http w)) w)
      else reply (unmatched lib))"

text \<open>
  A run of the server: the requests it served, the turn and the session that was drawn for
  each, and what was answered, from a state to a state.
\<close>

record 'd event =
  asked :: http_request
  timing :: "'d turn"
  drawn :: string
  answered :: "http_response outcome"

definition alive :: "'d env \<Rightarrow> 'd event list \<Rightarrow> bool" where
  "alive env es = (unwinds (rt env) \<or> (\<forall>e\<in>set es. answered e \<noteq> Panicked))"

inductive serves :: "'d env \<Rightarrow> router_lib \<Rightarrow> 'd world \<Rightarrow> 'd event list \<Rightarrow> 'd world \<Rightarrow> bool"
  for env lib w where
  start: "serves env lib w [] w"
| request: "serves env lib w es w' \<Longrightarrow> alive env es \<Longrightarrow> route env lib t uuid r w' = (x, w'') \<Longrightarrow>
    serves env lib w (es @ [\<lparr>asked = r, timing = t, drawn = uuid, answered = x\<rparr>]) w''"

inductive_cases serves_elim: "serves env lib w es w'"

end
