(* ===== verification/Http_Properties.thy ===== *)
theory Http_Properties
  imports Http Server_Properties
begin

text \<open>
  The properties of the server over HTTP, on runs of any length: the token, the sessions and
  the access mode.
\<close>

lemmas handler_defs =
  handle_rpc_def handle_mcp_post_def handle_mcp_get_def handle_mcp_delete_def reply_def
  with_body_def on_get_def

text \<open>A relation between states that every request respects is respected by every run.\<close>

lemma serves_relation:
  assumes "serves env lib w es w'" "R w w"
    and "\<And>v e x v'. e \<in> set es \<Longrightarrow> R w v \<Longrightarrow>
      route env lib (timing e) (drawn e) (asked e) v = (x, v') \<Longrightarrow> R w v'"
  shows "R w w'"
  using assms
proof (induction rule: serves.induct)
  case start
  then show ?case by simp
next
  case (request es v t uuid r x v')
  let ?e = "\<lparr>asked = r, timing = t, drawn = uuid, answered = x\<rparr>"
  have "R w v"
  proof (rule request.IH [OF request.prems(1)])
    fix u e y u'
    assume "e \<in> set es" "R w u" "route env lib (timing e) (drawn e) (asked e) u = (y, u')"
    then show "R w u'" using request.prems(2) [of e u y u'] by simp
  qed
  then show ?case using request.prems(2) [of ?e v x v'] request.hyps(3) by simp
qed

section \<open>The token\<close>

text \<open>The routes that ask for the token do nothing without it.\<close>

definition has_token :: "'d env \<Rightarrow> http_state \<Rightarrow> http_request \<Rightarrow> bool" where
  "has_token env st r =
     (case auth_token (server (http_config st)) of
        None \<Rightarrow> True | Some expected \<Rightarrow> token_matches env (presented_token (headers r)) expected)"

lemma rejection_without_token:
  "\<not> has_token env st r \<Longrightarrow> \<exists>resp. common_request_rejection env st (headers r) b = Some resp"
  by (auto simp: has_token_def common_request_rejection_def split: option.splits)

lemma route_without_token:
  assumes "\<not> has_token env (http w) r" "route env lib t uuid r w = (x, w')"
  shows "w' = w"
proof -
  obtain r1 where r1: "common_request_rejection env (http w) (headers r) True = Some r1"
    using rejection_without_token [OF assms(1)] by blast
  obtain r2 where r2: "common_request_rejection env (http w) (headers r) False = Some r2"
    using rejection_without_token [OF assms(1)] by blast
  show ?thesis
    using assms(2) unfolding route_def handler_defs
    by (auto simp: r1 r2 split: if_splits)
qed

text \<open>
  C15: when a token is configured, clients that do not present it change nothing, however many
  requests they make, to whatever path: no session is opened or closed, and no tool is run.
\<close>

theorem without_token_nothing_happens:
  assumes "serves env lib w es w'"
    and "\<forall>e\<in>set es. \<not> has_token env (http w) (asked e)"
  shows "w' = w"
proof -
  have "w = w'"
    by (rule serves_relation [where R = "\<lambda>a b. a = b", OF assms(1)])
      (use assms(2) in \<open>metis route_without_token\<close>)+
  then show ?thesis by simp
qed

section \<open>The sessions\<close>

text \<open>
  The protocol of the sessions, told from what was asked and answered alone: an accepted
  \<open>initialize\<close> opens the session that was drawn for it, and a \<open>DELETE\<close> answered with 204 closes
  the one of its header.
\<close>

definition posted :: "'d env \<Rightarrow> 'd event \<Rightarrow> json_rpc_request option" where
  "posted env e =
     (if target (asked e) = ''/mcp'' \<and> verb (asked e) = ''POST'' then ok (parse_json_rpc env (req_body (asked e)))
      else None)"

definition answered_with :: "nat set \<Rightarrow> 'd event \<Rightarrow> bool" where
  "answered_with ns e = (case answered e of Done resp \<Rightarrow> status resp \<in> ns | _ \<Rightarrow> False)"

definition opens :: "'d env \<Rightarrow> 'd event \<Rightarrow> bool" where
  "opens env e =
     (answered_with {200, 202} e \<and> map_option rpc_method (posted env e) = Some ''initialize'')"

definition closes :: "'d event \<Rightarrow> bool" where
  "closes e =
     (answered_with {204} e \<and> target (asked e) = ''/mcp'' \<and> verb (asked e) = ''DELETE'')"

definition session_step :: "'d env \<Rightarrow> string set \<Rightarrow> 'd event \<Rightarrow> string set" where
  "session_step env S e =
     (if opens env e then insert (drawn e) S
      else if closes e then (case session_header (headers (asked e)) of None \<Rightarrow> S | Some s \<Rightarrow> S - {s})
      else S)"

lemma with_session_status [simp]: "status (with_session resp s) = status resp"
  by (simp add: with_session_def insert_header_def)

lemma mcp_reply_status: "status (mcp_reply env hs req s r) \<in> {200, 202}"
  by (simp add: mcp_reply_def respond_with_def json_response_def)

lemma run_rpc_http: "http (snd (run_rpc env t req k w)) = http w"
  by (simp add: run_rpc_def split: prod.split)

lemma run_rpc_keeps_http: "run_rpc env t req k w = (x, w') \<Longrightarrow> http w' = http w"
  by (metis run_rpc_http snd_conv)

lemma run_rpc_done:
  "fst (run_rpc env t req k w) = Done resp \<Longrightarrow> \<exists>r. resp = k r"
  by (auto simp: run_rpc_def then_do_def give_def split: prod.splits outcome.splits)

lemma initialize_answers:
  assumes "rpc_method req = ''initialize''"
  shows "\<exists>resp. fst (run_rpc env t req k w) = Done resp"
  using assms
  by (auto simp: run_rpc_def then_do_def give_def respond_def with_timeout_def process_request_def
      split: prod.splits outcome.splits option.splits)

text \<open>The answers of the checks that come first.\<close>

lemma rejection_status:
  "common_request_rejection env st hs b = Some r \<Longrightarrow> status r \<in> {401, 403, 415}"
  by (auto simp: common_request_rejection_def plain_def respond_with_def insert_header_def
      split: if_splits option.splits)

lemma version_status: "reject_protocol_version hs = Some r \<Longrightarrow> status r = 400"
  by (auto simp: reject_protocol_version_def plain_def respond_with_def split: if_splits option.splits)

lemma session_status: "validate_session st hs = Inl r \<Longrightarrow> status r \<in> {400, 404}"
  by (auto simp: validate_session_def plain_def respond_with_def result_simps split: if_splits)

lemma validate_session_ok:
  "validate_session st hs = Inr s \<longleftrightarrow> session_header hs = Some s \<and> s \<in> sessions st"
  by (auto simp: validate_session_def result_simps split: if_splits)

text \<open>What a \<open>POST\<close> to \<open>/mcp\<close> does.\<close>

lemma mcp_post_cases:
  assumes "handle_mcp_post env t uuid hs bytes w = (x, w')"
  obtains (refused) resp where "x = Done resp" "w' = w"
      "status resp \<notin> {200, 202} \<or> (\<exists>r. parse_json_rpc env bytes = Inl r)"
  | (opened) req resp where "parse_json_rpc env bytes = Inr req" "rpc_method req = ''initialize''"
      "x = Done resp" "status resp \<in> {200, 202}" "http w' = http (add_session uuid w)"
  | (used) req s where "parse_json_rpc env bytes = Inr req" "rpc_method req \<noteq> ''initialize''"
      "session_header hs = Some s" "s \<in> sessions (http w)" "http w' = http w"
proof -
  consider (early) resp where "x = Done resp" "w' = w" "status resp \<notin> {200, 202}"
    | (unparsed) resp where "parse_json_rpc env bytes = Inl resp" "x = Done resp" "w' = w"
    | (run) req s v where "parse_json_rpc env bytes = Inr req" "session_of uuid hs req w = (Inr s, v)"
        "run_rpc env t req (mcp_reply env hs req s) v = (x, w')"
    using assms unfolding handle_mcp_post_def reply_def session_of_def
    by (auto dest!: rejection_status version_status session_status
        simp: plain_def respond_with_def split: option.splits if_splits sum.splits prod.splits)
  then show thesis
  proof cases
    case run
    have http: "http w' = http v" using run_rpc_http [of env t req _ v] run(3) by (metis snd_conv)
    show thesis
    proof (cases "rpc_method req = ''initialize''")
      case True
      then have v: "v = add_session uuid w" using run(2) by (auto simp: session_of_def)
      obtain resp where resp: "x = Done resp"
        using initialize_answers [OF True] run(3) by (metis fst_conv)
      then obtain r where "resp = mcp_reply env hs req s r"
        using run_rpc_done run(3) by (metis fst_conv)
      then have "status resp \<in> {200, 202}" by (simp only: mcp_reply_status)
      with True http v resp run(1) show thesis by (intro opened) auto
    next
      case False
      then show thesis
        using run(1,2) http by (intro used) (auto simp: session_of_def validate_session_ok)
    qed
  qed (auto intro: refused)
qed

lemma mcp_get_keeps: "handle_mcp_get env hs w = (x, w') \<Longrightarrow> w' = w"
  by (auto simp: handle_mcp_get_def reply_def split: option.splits if_splits sum.splits)

lemma mcp_delete_cases:
  assumes "handle_mcp_delete env hs w = (x, w')"
  obtains (refused) resp where "x = Done resp" "status resp \<noteq> 204" "w' = w"
  | (closed) s where "x = Done (respond_with 204 NoBody)" "session_header hs = Some s"
      "w' = remove_session s w"
  using assms unfolding handle_mcp_delete_def reply_def
  by (fastforce dest!: rejection_status simp: plain_def respond_with_def split: option.splits if_splits)

lemma rpc_http: "handle_rpc env t hs bytes w = (x, w') \<Longrightarrow> http w' = http w"
  by (auto simp: handle_rpc_def reply_def dest!: run_rpc_keeps_http split: option.splits sum.splits)

lemma on_get_keeps:
  assumes "on_get lib r h w = (x, w')" "\<And>y v. h w = (y, v) \<Longrightarrow> v = w"
  shows "w' = w"
  using assms by (auto simp: on_get_def reply_def split: if_splits prod.splits outcome.splits)

text \<open>The routes that can change the state, apart.\<close>

lemma route_cases:
  assumes "route env lib t uuid r w = (x, w')"
  obtains (rpc) "target r = ''/rpc''" "verb r = ''POST''"
      "handle_rpc env t (headers r) (req_body r) w = (x, w')"
  | (post) "target r = ''/mcp''" "verb r = ''POST''"
      "handle_mcp_post env t uuid (headers r) (req_body r) w = (x, w')"
  | (delete) "target r = ''/mcp''" "verb r = ''DELETE''" "handle_mcp_delete env (headers r) w = (x, w')"
  | (oversize) "verb r = ''POST''" "x = Done (too_large lib)" "w' = w"
  | (other) "\<not> (target r = ''/mcp'' \<and> verb r \<in> {''POST'', ''DELETE''})" "w' = w"
proof -
  have "w' = w" if "on_get lib r h w = (x, w')" "\<And>y v. h w = (y, v) \<Longrightarrow> v = w" for h
    using on_get_keeps that by metis
  note get = this and mget = mcp_get_keeps
  show thesis
  proof (cases "target r \<in> {''/rpc'', ''/mcp''}")
    case True
    then show thesis using assms get [OF _ mget] that
      unfolding route_def with_body_def by (auto simp: reply_def split: if_splits)
  next
    case False
    then have "w' = w" using assms get
      unfolding route_def by (auto simp: reply_def split: if_splits)
    with False show thesis by (intro other) auto
  qed
qed

lemma route_sessions:
  assumes "route env lib t uuid r w = (x, w')" "status (too_large lib) = 413"
  shows "sessions (http w') =
    session_step env (sessions (http w)) \<lparr>asked = r, timing = t, drawn = uuid, answered = x\<rparr>"
  using assms(1)
proof (cases rule: route_cases)
  case rpc
  then show ?thesis using rpc_http [OF rpc(3)]
    by (simp add: session_step_def opens_def closes_def posted_def)
next
  case post
  from post(3) show ?thesis
    by (cases rule: mcp_post_cases)
      (use post in \<open>auto simp: session_step_def opens_def closes_def posted_def answered_with_def add_session_def\<close>)
next
  case delete
  from delete(3) show ?thesis
    by (cases rule: mcp_delete_cases)
      (use delete in \<open>auto simp: session_step_def opens_def closes_def posted_def answered_with_def
        remove_session_def respond_with_def\<close>)
next
  case oversize
  then show ?thesis using assms(2)
    by (simp add: session_step_def opens_def closes_def answered_with_def)
next
  case other
  then show ?thesis by (auto simp: session_step_def opens_def closes_def posted_def)
qed

lemma serves_sessions:
  assumes "serves env lib w es w'" "status (too_large lib) = 413"
  shows "sessions (http w') = foldl (session_step env) (sessions (http w)) es"
  using assms by (induction rule: serves.induct) (simp_all add: route_sessions)

text \<open>
  C19: the set of sessions the server keeps is the one told by the protocol from what was asked
  and answered: opened by \<open>initialize\<close>, closed by \<open>DELETE\<close>, and by nothing else.
\<close>

theorem sessions_refine_protocol:
  assumes "serves env lib w es w'" "status (too_large lib) = 413"
  shows "sessions (http w') = foldl (session_step env) (sessions (http w)) es"
  by (rule serves_sessions [OF assms])

inductive_cases serves_snoc: "serves env lib w (es @ [e]) w'"

lemma serves_split:
  assumes "serves env lib w (es @ e # fs) w'"
  obtains v v' where "serves env lib w es v"
    "route env lib (timing e) (drawn e) (asked e) v = (answered e, v')"
  using assms
proof (induction fs arbitrary: w' thesis rule: rev_induct)
  case Nil
  then show ?case by (auto elim!: serves_snoc)
next
  case (snoc f fs)
  have "serves env lib w ((es @ e # fs) @ [f]) w'" using snoc.prems(2) by simp
  then obtain u where "serves env lib w (es @ e # fs) u" by (rule serves_snoc) blast
  then show ?case using snoc.IH snoc.prems(1) by blast
qed

text \<open>
  In every run from the start, a request on \<open>/mcp\<close> other than \<open>initialize\<close> that is accepted
  carries a session that an accepted \<open>initialize\<close> opened before and that no \<open>DELETE\<close> has closed
  since.
\<close>

lemma requests_need_live_session:
  assumes "serves env lib w (es @ e # fs) w'" "status (too_large lib) = 413"
    and "sessions (http w) = {}"
    and "posted env e = Some req" "rpc_method req \<noteq> ''initialize''" "answered_with {200, 202} e"
  shows "\<exists>s. session_header (headers (asked e)) = Some s \<and> s \<in> foldl (session_step env) {} es"
proof -
  obtain v v' where run: "serves env lib w es v"
    and step: "route env lib (timing e) (drawn e) (asked e) v = (answered e, v')"
    using serves_split [OF assms(1)] by blast
  have live: "sessions (http v) = foldl (session_step env) {} es"
    using serves_sessions [OF run assms(2)] assms(3) by simp
  have e: "target (asked e) = ''/mcp''" "verb (asked e) = ''POST''"
    "parse_json_rpc env (req_body (asked e)) = Inr req"
    using assms(4) by (auto simp: posted_def result_simps split: if_splits sum.splits)
  from step show ?thesis
  proof (cases rule: route_cases)
    case post
    from post(3) show ?thesis
      by (cases rule: mcp_post_cases) (use e assms(5,6) live in \<open>auto simp: answered_with_def\<close>)
  qed (use e assms(2,6) in \<open>auto simp: answered_with_def\<close>)
qed

section \<open>The access mode\<close>

lemma run_rpc_tools: "tools (snd (run_rpc env t req k w)) = snd (respond env t (http_config (http w)) req (tools w))"
  by (simp add: run_rpc_def then_do_def give_def split: prod.split outcome.split)

lemma run_rpc_state: "run_rpc env t req k w = (x, w') \<Longrightarrow>
    http w' = http w \<and> tools w' = snd (respond env t (http_config (http w)) req (tools w))"
  by (metis run_rpc_http run_rpc_tools snd_conv)

text \<open>A request reaches the tools through \<open>process_request_http\<close> alone, and never the configuration.\<close>

lemma route_tools:
  assumes "route env lib t uuid r w = (x, w')"
  shows "http_config (http w') = http_config (http w) \<and>
    (tools w' = tools w \<or>
     (\<exists>req. tools w' = snd (respond env t (http_config (http w)) req (tools w))))"
  using assms
proof (cases rule: route_cases)
  case rpc
  then show ?thesis
    by (auto simp: handle_rpc_def reply_def dest!: run_rpc_state split: option.splits sum.splits)
next
  case post
  then show ?thesis
    by (auto simp: handle_mcp_post_def reply_def session_of_def add_session_def
        dest!: run_rpc_state
        split: option.splits if_splits sum.splits prod.splits)
next
  case delete
  from delete(3) show ?thesis
    by (cases rule: mcp_delete_cases) (auto simp: remove_session_def)
qed auto

section \<open>A small run\<close>

definition demo_router :: router_lib where
  "demo_router = \<lparr>unmatched = respond_with 404 NoBody, wrong_verb = respond_with 405 NoBody,
     too_large = plain 413 ''length limit exceeded''\<rparr>"

definition demo_world :: "config \<Rightarrow> loc world" where
  "demo_world cfg = \<lparr>http = initial_state (\<lambda>v. None) cfg, tools = demo_proc\<rparr>"

definition guarded_config :: config where
  "guarded_config = demo_config\<lparr>server := demo_server\<lparr>access_mode := ReadOnly, auth_token := Some ''secret''\<rparr>\<rparr>"

definition demo_post :: "string \<Rightarrow> headers \<Rightarrow> string \<Rightarrow> http_request" where
  "demo_post path hs meth =
     \<lparr>verb = ''POST'', target = path,
      headers = [(''content-type'', ''application/json''), (''accept'', ''application/json'')] @ hs,
      req_body = as_bytes meth\<rparr>"

definition demo_event :: "string \<Rightarrow> http_request \<Rightarrow> http_response \<Rightarrow> loc event" where
  "demo_event uuid r resp = \<lparr>asked = r, timing = demo_turn, drawn = uuid, answered = Done resp\<rparr>"

lemma demo_serves1:
  "route env lib demo_turn uuid r w = (Done resp, w') \<Longrightarrow>
     serves env lib w [demo_event uuid r resp] w'"
  using serves.request [OF serves.start] by (fastforce simp: demo_event_def alive_def)

lemma demo_serves2:
  "route env lib demo_turn u1 r1 w = (Done resp1, w1) \<Longrightarrow> route env lib demo_turn u2 r2 w1 = (Done resp2, w2) \<Longrightarrow>
     serves env lib w [demo_event u1 r1 resp1, demo_event u2 r2 resp2] w2"
  using serves.request [OF demo_serves1] by (fastforce simp: demo_event_def alive_def)

lemma demo_parse [simp]:
  "parse_json_rpc demo_env (as_bytes meth) =
     (if meth = [] then Inl (json_response (rpc_error None (- 32600) (error_text (InvalidRequest ''method must be a non-empty string''))))
      else Inr \<lparr>jsonrpc = ''2.0'', rpc_method = meth, params = None, rpc_id = Some (JInt 1)\<rparr>)"
  by (simp add: parse_json_rpc_def demo_env_def from_value_def obj_def valid_id_def)

lemma demo_post_simps [simp]:
  "verb (demo_post path hs meth) = ''POST''" "target (demo_post path hs meth) = path"
  "req_body (demo_post path hs meth) = as_bytes meth"
  by (simp_all add: demo_post_def)

lemma demo_world_simps [simp]:
  "http_config (http (demo_world cfg)) = cfg" "sessions (http (demo_world cfg)) = {}"
  "disk (tools (demo_world cfg)) = demo_os"
  by (simp_all add: demo_world_def initial_state_def)

lemma guarded_simps [simp]:
  "auth_token (server guarded_config) = Some ''secret''" "access_mode (server guarded_config) = ReadOnly"
  "max_http_body_bytes (server guarded_config) = 4096"
  by (simp_all add: guarded_config_def demo_server_def)

definition in_session :: headers where
  "in_session = [(''mcp-session-id'', ''s1'')]"

lemma demo_header_str [simp]:
  "header_str (headers (demo_post path hs meth)) ''content-type'' = Some ''application/json''"
  "header_str (headers (demo_post path hs meth)) ''accept'' = Some ''application/json''"
  "header_str (headers (demo_post path [] meth)) ''authorization'' = None"
  "header_str (headers (demo_post path in_session meth)) ''mcp-session-id'' = Some ''s1''"
  "header_str (headers (demo_post path [] meth)) ''origin'' = None"
  "header_str (headers (demo_post path in_session meth)) ''origin'' = None"
  "header_str (headers (demo_post path [] meth)) ''mcp-protocol-version'' = None"
  "header_str (headers (demo_post path in_session meth)) ''mcp-protocol-version'' = None"
proof -
  have "list_all visible_char ''application/json''" "list_all visible_char ''s1''" by code_simp+
  then show
    "header_str (headers (demo_post path hs meth)) ''content-type'' = Some ''application/json''"
    "header_str (headers (demo_post path hs meth)) ''accept'' = Some ''application/json''"
    "header_str (headers (demo_post path [] meth)) ''authorization'' = None"
    "header_str (headers (demo_post path in_session meth)) ''mcp-session-id'' = Some ''s1''"
    "header_str (headers (demo_post path [] meth)) ''origin'' = None"
    "header_str (headers (demo_post path in_session meth)) ''origin'' = None"
    "header_str (headers (demo_post path [] meth)) ''mcp-protocol-version'' = None"
    "header_str (headers (demo_post path in_session meth)) ''mcp-protocol-version'' = None"
    by (simp_all add: header_str_def demo_post_def in_session_def del: list.pred_inject)
qed

lemma demo_accepts [simp]: "accepts (headers (demo_post path hs meth)) ''application/json''"
proof -
  have "list_ex (\<lambda>item. media_type item = ''application/json'' \<or> media_type item = ''*/*'')
      (str_split CHR '','' ''application/json'')" by code_simp
  then show ?thesis by (simp add: accepts_def)
qed

lemma demo_checks [simp]:
  "is_json_content_type (headers (demo_post path hs meth))"
  "origin_allowed (headers (demo_post path [] meth)) os"
  "origin_allowed (headers (demo_post path in_session meth)) os"
  "reject_protocol_version (headers (demo_post path [] meth)) = None"
  "reject_protocol_version (headers (demo_post path in_session meth)) = None"
  "presented_token (headers (demo_post path [] meth)) = []"
  "session_header (headers (demo_post path in_session meth)) = Some ''s1''"
  by (simp_all add: is_json_content_type_def starts_with_def origin_allowed_def reject_protocol_version_def
      presented_token_def session_header_def session_header_name_def protocol_header_name_def)

lemma demo_no_token: "\<not> token_matches demo_env [] ''secret''"
  by (simp add: token_matches_def demo_env_def strip_prefix_def)

lemma demo_rejected:
  "common_request_rejection demo_env (http (demo_world guarded_config)) (headers (demo_post ''/rpc'' [] ''ping'')) True =
     Some (insert_header ''www-authenticate'' ''Bearer'' (plain 401 ''Unauthorized''))"
  by (simp add: common_request_rejection_def demo_no_token)

lemma demo_route_rpc:
  "route demo_env demo_router demo_turn u (demo_post ''/rpc'' [] ''ping'') (demo_world guarded_config) =
     (Done (insert_header ''www-authenticate'' ''Bearer'' (plain 401 ''Unauthorized'')), demo_world guarded_config)"
  by (simp add: route_def with_body_def handle_rpc_def demo_rejected reply_def as_bytes_def)

theorem without_token_nothing_happens_witness:
  "\<exists>es w'. es \<noteq> [] \<and> serves demo_env demo_router (demo_world guarded_config) es w' \<and>
     w' = demo_world guarded_config"
proof -
  note run = demo_serves1 [OF demo_route_rpc [of "''s1''"]]
  from without_token_nothing_happens [OF run] run show ?thesis
    by (auto simp: has_token_def demo_event_def demo_no_token)
qed

text \<open>A session is opened, and used.\<close>

lemma demo_run_rpc:
  "rpc_method req = ''initialize'' \<Longrightarrow>
     run_rpc demo_env demo_turn req k w = (Done (k (rpc_success (rpc_id req) (handle_initialize demo_env req))), w)"
  "rpc_method req = ''ping'' \<Longrightarrow>
     run_rpc demo_env demo_turn req k w = (Done (k (rpc_success (rpc_id req) JNull)), w)"
  by (simp_all add: run_rpc_def then_do_def give_def respond_def with_timeout_def demo_turn_def
      process_request_def)

lemma demo_config_simps [simp]:
  "auth_token (server demo_config) = None" "max_http_body_bytes (server demo_config) = 4096"
  by (simp_all add: demo_config_def config_new_def demo_server_def)

lemma demo_initialize:
  "\<exists>resp. status resp \<in> {200, 202} \<and>
     route demo_env demo_router demo_turn ''s1'' (demo_post ''/mcp'' [] ''initialize'') (demo_world demo_config) =
       (Done resp, add_session ''s1'' (demo_world demo_config))"
  using mcp_reply_status
  by (simp add: route_def with_body_def handle_mcp_post_def common_request_rejection_def
      session_of_def demo_run_rpc del: as_bytes_simps(1,2))

lemma demo_ping:
  "\<exists>resp. status resp \<in> {200, 202} \<and>
     route demo_env demo_router demo_turn ''s2'' (demo_post ''/mcp'' in_session ''ping'')
       (add_session ''s1'' (demo_world demo_config)) =
       (Done resp, add_session ''s1'' (demo_world demo_config))"
  using mcp_reply_status
  by (simp add: route_def with_body_def handle_mcp_post_def common_request_rejection_def
      session_of_def demo_run_rpc add_session_def validate_session_def del: as_bytes_simps(1,2))

lemma demo_router_status: "status (too_large demo_router) = 413"
  by (simp add: demo_router_def plain_def respond_with_def)

lemma demo_session_run:
  obtains r1 r2 where "status r1 \<in> {200, 202}" "status r2 \<in> {200, 202}"
    "serves demo_env demo_router (demo_world demo_config)
       ([demo_event ''s1'' (demo_post ''/mcp'' [] ''initialize'') r1]
        @ demo_event ''s2'' (demo_post ''/mcp'' in_session ''ping'') r2 # [])
       (add_session ''s1'' (demo_world demo_config))"
  using demo_initialize demo_ping demo_serves2 by (metis append_Cons append_Nil)

theorem sessions_refine_protocol_witness:
  "\<exists>e1 e2. {''s1''} = foldl (session_step demo_env) {} [e1, e2] \<and> opens demo_env e1"
proof -
  obtain r1 r2 where st: "status r1 \<in> {200, 202}" and run: "serves demo_env demo_router (demo_world demo_config)
       ([demo_event ''s1'' (demo_post ''/mcp'' [] ''initialize'') r1]
        @ demo_event ''s2'' (demo_post ''/mcp'' in_session ''ping'') r2 # [])
       (add_session ''s1'' (demo_world demo_config))"
    using demo_session_run by metis
  have "opens demo_env (demo_event ''s1'' (demo_post ''/mcp'' [] ''initialize'') r1)"
    using st by (simp add: opens_def answered_with_def posted_def demo_event_def del: as_bytes_simps(1,2))
  then show ?thesis
    using sessions_refine_protocol [OF run demo_router_status]
    by (auto simp: add_session_def)
qed

section \<open>Gaps\<close>

text \<open>
  The overview of the server, with the allowed directories and the number of sessions, is
  given to clients without the token.
\<close>

lemma info_needs_no_token:
  "route env lib t uuid \<lparr>verb = ''GET'', target = ''/info'', headers = hs, req_body = []\<rparr> w =
     (Done (respond_with 200 (JsonBody (handle_info env (http w)))), w)"
  by (simp add: route_def on_get_def reply_def)

text \<open>
  A page of a host that resolves to the server is of the same origin for it, whatever host
  that is, as the origin is compared with the \<open>Host\<close> the client sent.
\<close>

lemma any_host_is_same_origin:
  assumes "map_of hs ''host'' = Some h" "map_of hs ''origin'' = Some (''http://'' @ h)" "list_all visible_char h"
  shows "origin_allowed hs configured"
proof -
  have "str_split_once ''://'' (''http://'' @ h) = Some (''http'', h)"
    by (simp add: str_split_once_def)
  moreover have "list_all visible_char ''http://''" by code_simp
  ultimately show ?thesis using assms
    by (simp add: origin_allowed_def header_str_def eq_ignore_ascii_case_def)
qed

end
