(* ===== verification/Panics.thy ===== *)
theory Panics
  imports Std_Effects Csv_Properties Resources
begin

text \<open>
  Panics. A request is \<open>safe\<close> in a state whose sandbox has been built, or can be: its action
  does not panic, neither by itself nor in a blocking task, and leaves such a state. The
  handlers are safe with two exceptions that their lemmas name: \<open>read_text_file\<close> with a tail
  of zero, and \<open>edit_file\<close> when the texts of the edits are not valid UTF-8, which the strings
  of parsed JSON are.
\<close>

section \<open>States and actions\<close>

definition ready :: "'d runtime \<Rightarrow> config \<Rightarrow> 'd proc \<Rightarrow> bool" where
  "ready rt cfg w = (config_sandbox (cap rt) (disk w) cfg (once w) \<noteq> None)"

definition safe_at :: "'d runtime \<Rightarrow> config \<Rightarrow> 'd proc \<Rightarrow> ('d, 'a) action \<Rightarrow> bool" where
  "safe_at rt cfg w m = (ready rt cfg w \<longrightarrow> fst (m w) \<noteq> Panicked \<and> ready rt cfg (snd (m w)))"

text \<open>Once the sandbox has been built, the state stays ready whatever happens to the files.\<close>

definition filled :: "'d proc \<Rightarrow> bool" where
  "filled w = (once w \<noteq> None)"

lemma filled_ready [simp]: "filled w \<Longrightarrow> ready rt cfg w"
  by (auto simp: filled_def ready_def config_sandbox_def)

lemma filled_update [simp]: "filled (w\<lparr>disk := s\<rparr>) = filled w"
  by (simp add: filled_def)

text \<open>The state after the configuration has been asked for the sandbox.\<close>

definition asked :: "'d proc \<Rightarrow> 'd sandbox \<Rightarrow> 'd proc \<Rightarrow> bool" where
  "asked w sb w' = (w' = w\<lparr>once := Some sb\<rparr> \<and> (\<forall>sb'. once w = Some sb' \<longrightarrow> sb' = sb))"

lemma asked_filled: "asked w sb w' \<Longrightarrow> filled w'"
  by (simp add: asked_def filled_def)

lemma safe_basic [intro, simp]:
  "safe_at rt cfg w (give a)" "safe_at rt cfg w (failed e)" "safe_at rt cfg w (lift r)"
  "safe_at rt cfg w (query f)" "safe_at rt cfg w (blocking_read rt' label g)"
  by (simp_all add: safe_at_def act_simps lift_def query_def result_simps give_def failed_def)

lemma safe_then:
  assumes "safe_at rt cfg w m" "\<And>a w'. m w = (Done a, w') \<Longrightarrow> safe_at rt cfg w' (f a)"
  shows "safe_at rt cfg w (then_do m f)"
  using assms
  by (cases "m w"; cases "fst (m w)") (auto simp: safe_at_def then_do_def)

lemma safe_lift: "(\<And>a. r = Inr a \<Longrightarrow> safe_at rt cfg w (f a)) \<Longrightarrow> safe_at rt cfg w (then_do (lift r) f)"
  by (rule safe_then, simp) (auto simp: lift_def result_simps)

lemma safe_query:
  "(\<And>a. g (disk w) = Inr a \<Longrightarrow> safe_at rt cfg w (f a)) \<Longrightarrow> safe_at rt cfg w (then_do (query g) f)"
  by (rule safe_then, simp) (auto simp: query_def result_simps)

lemma safe_reading:
  "(\<And>a. safe_at rt cfg w (f a)) \<Longrightarrow> safe_at rt cfg w (then_do (blocking_read rt' label g) f)"
  by (rule safe_then, simp) (auto simp: blocking_read_eq)

lemma safe_read_value:
  assumes "\<And>a. g (disk w) = Inr a \<Longrightarrow> safe_at rt cfg w (f a)"
  shows "safe_at rt cfg w (then_do (blocking_read rt' label g) f)"
  using assms
  by (intro safe_then, simp) (auto simp: blocking_read_eq result_simps blocking_def)

lemma the_sandbox_ready:
  assumes "ready rt cfg w"
  shows "\<exists>sb w'. the_sandbox rt cfg w = (Done sb, w') \<and> asked w sb w'"
  using assms
  by (cases w) (auto simp: ready_def the_sandbox_def config_sandbox_def asked_def split: option.splits sum.splits)

lemma safe_sandbox:
  assumes "\<And>w' sb. filled w' \<Longrightarrow> asked w sb w' \<Longrightarrow> safe_at rt cfg w' (f sb)"
  shows "safe_at rt cfg w (then_do (the_sandbox rt cfg) f)"
proof (cases "ready rt cfg w")
  case True
  then obtain sb w' where "the_sandbox rt cfg w = (Done sb, w')" "asked w sb w'"
    using the_sandbox_ready by blast
  with assms [OF asked_filled] show ?thesis by (simp add: safe_at_def then_do_def asked_filled)
qed (simp add: safe_at_def)

lemma then_do_give [simp]: "then_do (give a) f = f a"
  by (simp add: then_do_def give_def)

lemma safe_resolve:
  assumes "\<And>w' sb r. filled w' \<Longrightarrow> asked w sb w' \<Longrightarrow> resolve (cap rt) (disk w) sb p = Inr r \<Longrightarrow>
      safe_at rt cfg w' (f r)"
  shows "safe_at rt cfg w (then_do (resolve_now rt cfg p) f)"
  unfolding resolve_now_def then_do_assoc
  by (intro safe_sandbox safe_query) (auto simp: asked_def intro: assms)

lemma safe_resolve_path:
  assumes "\<And>w' sb r. filled w' \<Longrightarrow> asked w sb w' \<Longrightarrow> resolve (cap rt) (disk w) sb p = Inr r \<Longrightarrow>
      safe_at rt cfg w' (f (canonical r))"
  shows "safe_at rt cfg w (then_do (resolve_path_now rt cfg p) f)"
    and "safe_at rt cfg w (then_do (resolve_destination_now rt cfg p) f)"
  unfolding resolve_path_now_def resolve_destination_now_def then_do_assoc
  by (intro safe_sandbox safe_query; auto simp: resolve_path_def resolve_destination_path_def
      result_simps asked_def intro: assms)+

text \<open>What changes the files comes after the first look at the sandbox.\<close>

lemma safe_update:
  assumes "filled w" "\<And>w' a. filled w' \<Longrightarrow> safe_at rt cfg w' (f a)"
  shows "safe_at rt cfg w (then_do (update g) f)"
  using assms by (intro safe_then) (auto simp: safe_at_def update_def result_simps split: prod.splits)

lemma safe_blocking:
  assumes "filled w" "\<And>s. fst (g s) \<noteq> None" "\<And>w' a. filled w' \<Longrightarrow> safe_at rt cfg w' (f a)"
  shows "safe_at rt cfg w (then_do (run_blocking rt' label g) f)"
  using assms(1,3) assms(2) [of "disk w"]
  by (intro safe_then; cases "g (disk w)")
    (auto simp: safe_at_def run_blocking_def update_or_panic_def result_simps split: prod.splits)

lemma safe_lift_opt:
  "x \<noteq> None \<Longrightarrow> (\<And>a. x = Some (Inr a) \<Longrightarrow> safe_at rt cfg w (f a)) \<Longrightarrow>
    safe_at rt cfg w (then_do (lift_opt x) f)"
  by (auto simp: lift_opt_def intro!: safe_lift)

lemma safe_if:
  "(b \<Longrightarrow> safe_at rt cfg w m) \<Longrightarrow> (\<not> b \<Longrightarrow> safe_at rt cfg w n) \<Longrightarrow> safe_at rt cfg w (if b then m else n)"
  by simp

lemma safe_pair:
  "(\<And>a b. x = (a, b) \<Longrightarrow> safe_at rt cfg w (f a b)) \<Longrightarrow> safe_at rt cfg w (case x of (a, b) \<Rightarrow> f a b)"
  by (cases x) simp

lemmas safe_steps = safe_lift safe_query safe_reading safe_sandbox safe_resolve safe_resolve_path

section \<open>Reading tools\<close>

lemma tail_loop_some:
  "ring_inv r \<Longrightarrow> 0 < rcapacity r \<Longrightarrow>
    \<exists>x. tail_loop n r ls = Some x \<and> (\<forall>m r'. x = Inr (m, r') \<longrightarrow> ring_inv r')"
proof (induction ls arbitrary: n r)
  case (Cons line ls)
  show ?case
  proof (cases line)
    case (Inr l)
    obtain r' where "ring_push r l = Some r'" "ring_inv r'" "rcapacity r' = rcapacity r"
      using ring_queue.put_last [OF Cons.prems, of l] by blast
    with Cons.IH [of r' "n + 1"] Cons.prems(2) Inr show ?thesis by simp
  qed simp
qed simp

lemma tail_lines_some:
  assumes "0 < t"
  shows "\<exists>x. tail_lines t ls = Some x"
proof -
  have "ring_inv (ring_new t)" "0 < rcapacity (ring_new t)"
    using assms by (simp_all add: ring_queue.new_inv ring_queue.new_limit)
  from tail_loop_some [OF this, of 0 ls] obtain x where
    "tail_loop 0 (ring_new t) ls = Some x" "\<forall>m r'. x = Inr (m, r') \<longrightarrow> ring_inv r'" by blast
  then show ?thesis
    by (cases x) (auto simp: tail_lines_def ring_queue.drain_items)
qed

lemma read_text_file_safe:
  assumes "clamped (get_opt_i64 args ''tail'') \<noteq> Some 0"
  shows "safe_at rt cfg w (read_text_file rt cfg args)"
  using assms unfolding read_text_file_def Let_def
  by (auto split: option.split intro!: safe_steps safe_blocking tail_lines_some split: sum.split)

lemma reading_tools_safe [intro, simp]:
  "safe_at rt cfg w (read_media_file rt media cfg args)"
  "safe_at rt cfg w (list_directory rt cfg args)"
  "safe_at rt cfg w (list_directory_with_sizes rt cfg args)"
  "safe_at rt cfg w (search_files rt wlib cfg args)"
  "safe_at rt cfg w (directory_tree rt wlib cfg args)"
  "safe_at rt cfg w (get_file_info rt cfg args)"
  "safe_at rt cfg w (list_allowed_directories cfg args)"
  "safe_at rt cfg w (hash_file rt hash cfg args)"
  "safe_at rt cfg w (grep_files rt wlib cfg args)"
  "safe_at rt cfg w (get_disk_usage rt wlib cfg args)"
  "safe_at rt cfg w (read_file_range rt cfg args)"
  by (auto simp: read_media_file_def list_directory_def list_directory_with_sizes_def search_files_def
      directory_tree_def get_file_info_def list_allowed_directories_def hash_file_def grep_files_def
      get_disk_usage_def read_file_range_def Let_def intro!: safe_steps split: prod.split)

lemma resources_safe [intro, simp]:
  "safe_at rt cfg w (list_resources media lib cfg ps)"
  "safe_at rt cfg w (read_resource rt media lib cfg ps)"
  by (auto simp: list_resources_def read_resource_def Let_def intro!: safe_steps)

section \<open>Writing tools\<close>

text \<open>The strings of a value that \<open>serde_json\<close> has parsed are valid UTF-8.\<close>

fun valid_json :: "json \<Rightarrow> bool" where
  "valid_json (JStr s) = valid_str s"
| "valid_json (JArr vs) = (\<forall>v\<in>set vs. valid_json v)"
| "valid_json (JObj m) = (\<forall>(k, v)\<in>set m. valid_json v)"
| "valid_json v = True"

lemma valid_jget: "valid_json v \<Longrightarrow> jget v k = Some u \<Longrightarrow> valid_json u"
  by (cases v) (auto dest: map_of_SomeD)

lemma valid_as_str: "valid_json v \<Longrightarrow> as_str v = Some s \<Longrightarrow> valid_str s"
  by (cases v) auto

lemma valid_as_array: "valid_json v \<Longrightarrow> as_array v = Some vs \<Longrightarrow> u \<in> set vs \<Longrightarrow> valid_json u"
  by (cases v) auto

lemma valid_field: "valid_json v \<Longrightarrow> jget v k = Some u \<Longrightarrow> as_str u = Some s \<Longrightarrow> valid_str s"
  by (blast intro: valid_as_str valid_jget)

lemma valid_json_edit: "valid_json e \<Longrightarrow> valid_edit e"
  by (auto simp: valid_edit_def edit_texts_def result_simps Option.bind_eq_Some_conv
      unwrap_or_def split: option.splits dest: valid_field)

lemma valid_edits:
  assumes "\<And>a. args = Some a \<Longrightarrow> valid_json a" "get_edits_arg args = Inr edits"
  shows "\<forall>e\<in>set edits. valid_edit e"
  using assms
  by (auto simp: get_edits_arg_def arg_def result_simps Option.bind_eq_Some_conv
      intro!: valid_json_edit dest: valid_jget valid_as_array)

lemma edit_file_safe:
  assumes "\<And>a. args = Some a \<Longrightarrow> valid_json a"
  shows "safe_at rt cfg w (edit_file rt cfg args)"
proof -
  have "\<exists>res. edit_loop (detect_indent content) content edits = Some res"
    if "get_edits_arg args = Inr edits" "resolved_read_to_string (cap rt) s r = Inr content"
    for edits s and r :: "'a resolved" and content
  proof -
    have "valid_str content"
      using that(2) by (auto simp: resolved_read_to_string_def result_simps from_utf8_lossy_valid)
    with edit_loop_ok [OF _ valid_edits [OF assms that(1)], of content "detect_indent content"]
    show ?thesis by (auto split: sum.splits)
  qed
  then have "safe_at rt cfg w' (case edit_loop (detect_indent content) content edits of
      None \<Rightarrow> panicked | Some res \<Rightarrow> f res)"
    if "get_edits_arg args = Inr edits" "resolved_read_to_string (cap rt) s r = Inr content"
      "\<And>res. safe_at rt cfg w' (f res)"
    for edits s content w' and r :: "'a resolved" and f :: "_ \<Rightarrow> ('a, json) action"
    using that by fastforce
  note loop = this
  have last: "safe_at rt cfg w' (then_do (if b then give () else update g) (\<lambda>u. give x))"
    if "filled w'" for b g w' and x :: json
    using that by (cases b) (auto intro: safe_then intro!: safe_update)
  show ?thesis
    unfolding edit_file_def Let_def
    by (intro safe_lift safe_resolve safe_query safe_if safe_basic)
      (rule loop, assumption, assumption, intro safe_lift safe_pair last)
qed

text \<open>What \<open>rename\<close> unwraps has been computed before, when both paths were resolved.\<close>

lemma rename_no_panic:
  assumes "resolve c s sb src = Inr r1" "resolve c s sb dst = Inr r2"
  shows "fst (sandbox_rename c sb src dst s) \<noteq> None"
proof -
  have "path_strip_prefix a ra \<noteq> None"
    if "resolve c s sb p = Inr r" "canonicalize_or_parent s (normalize_path (to_abs s p)) = Inr a"
      "longest_prefix (strie sb) a = Some ra" for p r a ra
    using that by (auto simp: resolve_def Let_def result_simps split: if_splits)
  note strip = this [OF assms(1)] this [OF assms(2)]
  show ?thesis
    by (auto simp: sandbox_rename_def two_ends_def rename_same_root_def result_simps
        split: sum.split prod.split option.split) (metis strip)+
qed

lemma two_path_safe:
  assumes "\<And>w sb src dst r1 r2. filled w \<Longrightarrow> resolve (cap rt) (disk w) sb src = Inr r1 \<Longrightarrow>
      resolve (cap rt) (disk w) sb dst = Inr r2 \<Longrightarrow> safe_at rt cfg w (operate sb src dst)"
  shows "safe_at rt cfg w (two_path_tool rt cfg args second_name operate)"
  unfolding two_path_tool_def
  by (intro safe_lift safe_resolve_path safe_sandbox; rule safe_then)
    (auto simp: asked_def intro: assms)

lemma move_file_safe: "safe_at rt cfg w (move_file rt cfg args)"
  unfolding move_file_def
proof (rule two_path_safe)
  fix w :: "'a proc" and sb src dst r1 r2
  assume "filled w" "resolve (cap rt) (disk w) sb src = Inr r1" "resolve (cap rt) (disk w) sb dst = Inr r2"
  with rename_no_panic [of "cap rt" "disk w" sb src r1 dst r2]
  show "safe_at rt cfg w (update_or_panic (sandbox_rename (cap rt) sb src dst))"
    by (auto simp: safe_at_def update_or_panic_def result_simps split: prod.split option.split)
qed

lemma safe_changes:
  assumes "filled w"
  shows "safe_at rt cfg w (update g)"
    and "(\<And>s. fst (h s) \<noteq> None) \<Longrightarrow> safe_at rt cfg w (run_blocking rt' label h)"
  using assms safe_update [of w rt cfg give g] safe_blocking [of w h rt cfg give rt' label]
  by (auto simp: safe_at_def update_def run_blocking_def update_or_panic_def result_simps
      split: prod.split option.split) (metis fst_conv option.distinct(1))+

lemma file_tools_safe [intro, simp]:
  "safe_at rt cfg w (write_file rt cfg args)"
  "safe_at rt cfg w (create_directory rt cfg args)"
  "safe_at rt cfg w (move_file rt cfg args)"
  "safe_at rt cfg w (copy_file rt cfg args)"
  "safe_at rt cfg w (create_symlink rt cfg args)"
  "safe_at rt cfg w (delete_file rt cfg args)"
  "safe_at rt cfg w (delete_directory rt cfg args)"
  "safe_at rt cfg w (set_permissions rt cfg args)"
  by (rule move_file_safe | auto simp: write_file_def create_directory_def copy_file_def
      create_symlink_def delete_file_def delete_directory_def set_permissions_def Let_def
      intro!: safe_steps two_path_safe safe_update safe_changes)+

section \<open>Tables, archives and keys\<close>

lemma safe_edit_table:
  assumes "\<And>d. csv_ok d \<Longrightarrow> good_edit edit d"
  shows "safe_at rt cfg w (csv_edit rt lib cfg args edit)"
proof -
  have "\<exists>x. edit d = Some x" if "read_csv rt lib p n s = Inr d" for p n s d
  proof -
    have "csv_ok d" using that by (auto simp: read_csv_def Let_def result_simps dest: parse_csv_ok split: if_splits)
    from assms [OF this] show ?thesis unfolding good_edit_def by blast
  qed
  then show ?thesis
    unfolding csv_edit_def read_csv_file_def write_csv_file_def write_csv_as_def
    by (intro safe_lift safe_resolve_path safe_read_value safe_lift_opt)
      (auto intro!: safe_blocking split: prod.split)
qed

lemma csv_page_some:
  assumes "offset \<le> u64_max"
  shows "\<exists>page. csv_page d offset n = Some page"
  using assms by (auto simp: csv_page_def slice_of_def sat_add_def min_def)

lemma csv_read_report_some: "\<exists>x. csv_read_report args d = Some x"
proof -
  have "unwrap_or 0 (get_opt_u64 args ''offset'') \<le> u64_max"
    by (cases "get_opt_u64 args ''offset''")
      (auto simp: get_opt_u64_def arg_def u64_max_def Option.bind_eq_Some_conv elim!: as_u64.elims
        split: if_splits)
  from csv_page_some [OF this, of d "read_limit args"] show ?thesis
    by (auto simp: csv_read_report_def Let_def split: option.split sum.split)
qed

lemma csv_tools_safe [intro, simp]:
  "safe_at rt cfg w (csv_create rt lib jt cfg args)"
  "safe_at rt cfg w (csv_read rt lib cfg args)"
  "safe_at rt cfg w (csv_add_row rt lib jt cfg args)"
  "safe_at rt cfg w (csv_update_cell rt lib cfg args)"
  "safe_at rt cfg w (csv_remove_row rt lib cfg args)"
  "safe_at rt cfg w (csv_add_column rt lib cfg args)"
  "safe_at rt cfg w (csv_remove_column rt lib cfg args)"
  "safe_at rt cfg w (csv_rename_column rt lib cfg args)"
  "safe_at rt cfg w (csv_read_column_values_range rt lib cfg args)"
  "safe_at rt cfg w (csv_read_row_range rt lib cfg args)"
  "safe_at rt cfg w (csv_select_column_range rt lib cfg args)"
proof -
  show "safe_at rt cfg w (csv_create rt lib jt cfg args)"
    unfolding csv_create_def write_csv_as_def Let_def
    by (auto intro!: safe_steps safe_blocking split: prod.split)
  show "safe_at rt cfg w (csv_read rt lib cfg args)"
    unfolding csv_read_def read_csv_file_def
    by (auto intro!: safe_steps safe_lift_opt csv_read_report_some split: prod.split)
  show "safe_at rt cfg w (csv_add_row rt lib jt cfg args)"
    "safe_at rt cfg w (csv_update_cell rt lib cfg args)"
    "safe_at rt cfg w (csv_remove_row rt lib cfg args)"
    "safe_at rt cfg w (csv_add_column rt lib cfg args)"
    "safe_at rt cfg w (csv_remove_column rt lib cfg args)"
    "safe_at rt cfg w (csv_rename_column rt lib cfg args)"
    unfolding csv_add_row_def csv_update_cell_def csv_remove_row_def csv_add_column_def
      csv_remove_column_def csv_rename_column_def
    by (rule safe_edit_table, erule add_row_edit_good update_cell_edit_good remove_row_edit_good
        add_column_edit_good remove_column_edit_good rename_column_edit_good)+
  show "safe_at rt cfg w (csv_read_column_values_range rt lib cfg args)"
    "safe_at rt cfg w (csv_read_row_range rt lib cfg args)"
    "safe_at rt cfg w (csv_select_column_range rt lib cfg args)"
    unfolding csv_read_column_values_range_def csv_read_row_range_def csv_select_column_range_def
      read_csv_file_def Let_def
    by (auto intro!: safe_steps)
qed

text \<open>The output of these tools is chosen after the source has been resolved.\<close>

lemma safe_derive_output:
  assumes "filled w" "\<And>p w'. filled w' \<Longrightarrow> safe_at rt cfg w' (f p)"
  shows "safe_at rt cfg w (then_do (derive_output rt cfg src out suf) f)"
proof (cases out)
  case None
  then show ?thesis using assms
    by (simp add: derive_output_def)
next
  case (Some q)
  then show ?thesis using assms(2) by (auto simp: derive_output_def intro!: safe_resolve_path)
qed

lemma safe_key_file:
  assumes "filled w" "\<And>k w'. filled w' \<Longrightarrow> safe_at rt cfg w' (f k)"
  shows "safe_at rt cfg w (then_do (read_key_file rt lib cfg kf) f)"
proof (cases kf)
  case None
  then show ?thesis using assms
    by (simp add: read_key_file_def)
next
  case (Some q)
  then show ?thesis using assms(2)
    by (auto simp: read_key_file_def then_do_assoc intro!: safe_resolve_path safe_query)
qed

lemma codec_tools_safe [intro, simp]:
  "safe_at rt cfg w (compress_gzip rt lib cfg args)"
  "safe_at rt cfg w (decompress_gzip rt lib cfg args)"
  "safe_at rt cfg w (compress_zstd rt lib cfg args)"
  "safe_at rt cfg w (decompress_zstd rt lib cfg args)"
  unfolding compress_gzip_def compress_zstd_def compress_with_def decompress_gzip_def
    decompress_zstd_def decompress_with_def differs_def Let_def
  by (auto intro!: safe_lift safe_resolve_path safe_derive_output safe_blocking safe_update
      split: prod.split)

lemma archive_tools_safe [intro, simp]:
  "safe_at rt cfg w (compress_tar rt lib wlib cfg args)"
  "safe_at rt cfg w (decompress_tar rt lib cfg args)"
  unfolding compress_tar_def decompress_tar_def Let_def
  by (auto intro!: safe_lift safe_resolve_path safe_blocking split: prod.split)

lemma cipher_tools_safe [intro, simp]:
  "safe_at rt cfg w (encrypt_file rt cry r cfg args)"
  "safe_at rt cfg w (decrypt_file rt cry cfg args)"
  unfolding encrypt_file_def decrypt_file_def output_differs_def Let_def
  by (auto intro!: safe_lift safe_query safe_resolve safe_derive_output safe_key_file safe_blocking
      safe_reading safe_update split: prod.split sum.split)

lemma generate_key_safe [intro, simp]: "safe_at rt cfg w (generate_key rt cry r cfg args)"
proof (cases "get_opt_str args ''output''")
  case None
  have same: "generate cry r alg None s = (fst (generate cry r alg None s), s)" for alg s
    by (simp add: generate_def Let_def split: prod.split)
  have "safe_at rt cfg w (run_blocking rt ''Key generation'' (\<lambda>s.
      case generate cry r alg None s of (x, s') \<Rightarrow> (Some x, s')))" for alg
    by (subst same) (simp add: safe_at_def run_blocking_def update_or_panic_def result_simps)
  then show ?thesis using None
    by (auto simp: generate_key_def Let_def intro!: safe_then)
next
  case (Some out)
  then show ?thesis
    by (auto simp: generate_key_def Let_def then_do_assoc intro!: safe_resolve_path safe_blocking split: prod.split)
qed

end
