(* ===== verification/Panic_Properties.thy ===== *)
theory Panic_Properties
  imports Panics Server_Properties Http_Properties
begin

text \<open>
  The server answers every request: no request panics, in a task or out of one, except a tail
  of zero lines. Lines on standard input and requests over HTTP get their responses, also when
  the program was built to abort on panics.
\<close>

section \<open>Requests\<close>

definition arguments_of :: "json_rpc_request \<Rightarrow> json option" where
  "arguments_of req = Option.bind (params req) (\<lambda>p. jget p ''arguments'')"

text \<open>The one request that panics: \<open>read_text_file\<close> with a tail that is not positive.\<close>

definition zero_tail :: "json_rpc_request \<Rightarrow> bool" where
  "zero_tail req =
     (rpc_method req = ''tools/call'' \<and> str_param (params req) ''name'' = Some ''read_text_file'' \<and>
      clamped (get_opt_i64 (arguments_of req) ''tail'') = Some 0)"

lemma handlers_safe:
  assumes "\<And>a. args = Some a \<Longrightarrow> valid_json a"
  shows "\<forall>(n, m)\<in>set (handlers env r cfg args).
    n = ''read_text_file'' \<and> clamped (get_opt_i64 args ''tail'') = Some 0 \<or> safe_at (rt env) cfg w m"
  using edit_file_safe [of args "rt env" cfg w] assms read_text_file_safe [of args "rt env" cfg w]
  by (auto simp: handlers_def)

lemma dispatch_safe:
  assumes "\<And>a. args = Some a \<Longrightarrow> valid_json a"
    and "name = ''read_text_file'' \<Longrightarrow> clamped (get_opt_i64 args ''tail'') \<noteq> Some 0"
  shows "safe_at (rt env) cfg w (dispatch env r cfg name args)"
  using handlers_safe [of args env r cfg w] assms
  by (fastforce simp: dispatch_def split: option.split dest!: map_of_SomeD)

lemma safe_as_tool_result: "safe_at c cfg w m \<Longrightarrow> safe_at c cfg w (as_tool_result env name m)"
  by (auto simp: safe_at_def as_tool_result_def split: prod.split outcome.split)

lemma process_request_safe:
  assumes "\<And>p. params req = Some p \<Longrightarrow> valid_json p" "\<not> zero_tail req"
  shows "safe_at (rt env) cfg w (process_request env r cfg req)"
proof -
  have "safe_at (rt env) cfg w (handle_tools_call env r cfg req)" if "rpc_method req = ''tools/call''"
    unfolding handle_tools_call_def arguments_of_def [symmetric]
    using assms that
    by (intro safe_lift safe_if safe_basic safe_as_tool_result dispatch_safe)
      (auto simp: arguments_of_def zero_tail_def Option.bind_eq_Some_conv result_simps dest: valid_jget)
  then show ?thesis by (auto simp: process_request_def Let_def)
qed

text \<open>A turn whose timeout fires drops the request in a state that can go on.\<close>

definition turn_ready :: "'d env \<Rightarrow> config \<Rightarrow> 'd turn \<Rightarrow> bool" where
  "turn_ready env cfg t = (\<forall>w. late t = Some w \<longrightarrow> ready (rt env) cfg w)"

lemma respond_done:
  assumes "\<And>p. params req = Some p \<Longrightarrow> valid_json p" "\<not> zero_tail req"
    and "turn_ready env cfg t" "ready (rt env) cfg w"
  shows "\<exists>resp w'. respond env t cfg req w = (Done resp, w') \<and> ready (rt env) cfg w'"
  using process_request_safe [OF assms(1,2), of env cfg w "rng t"] assms(3,4)
  by (auto simp: respond_def with_timeout_def turn_ready_def safe_at_def
      split: option.split prod.split outcome.split)

text \<open>What the model asks of the parser: \<open>serde_json\<close> makes strings, which are valid UTF-8.\<close>

definition parses_utf8 :: "'d env \<Rightarrow> bool" where
  "parses_utf8 env = (\<forall>bs v. json_parse env bs = Inr v \<longrightarrow> valid_json v)"

lemma valid_params:
  assumes "from_value v = Inr req" "valid_json v" "params req = Some p"
  shows "valid_json p"
proof -
  obtain m where "v = JObj m" "map_of m ''params'' = Some p"
    using assms(1,3) by (cases v) (auto simp: from_value_def result_simps split: if_splits option.splits)
  with assms(2) show ?thesis by (auto dest: map_of_SomeD)
qed

section \<open>Standard input\<close>

definition answerable :: "'d env \<Rightarrow> string \<Rightarrow> bool" where
  "answerable env line = (\<forall>req. parse_request env line = Inr req \<longrightarrow> \<not> zero_tail req)"

lemma process_line_done:
  assumes "parses_utf8 env" "answerable env line" "turn_ready env cfg t" "ready (rt env) cfg w"
  shows "\<exists>out w'. process_one_line env t cfg line w = (Done out, w') \<and> ready (rt env) cfg w'"
proof (cases "parse_request env line")
  case (Inr req)
  have "valid_json p" if "params req = Some p" for p
    using Inr assms(1) valid_params that
    by (auto simp: parse_request_def parses_utf8_def Let_def result_simps split: if_splits)
  moreover have "\<not> zero_tail req" using Inr assms(2) by (simp add: answerable_def)
  ultimately obtain resp w' where "respond env t cfg req w = (Done resp, w')" "ready (rt env) cfg w'"
    using respond_done assms(3,4) by metis
  then show ?thesis using Inr by (simp add: process_one_line_def then_do_def give_def)
qed (use assms(4) in \<open>simp add: process_one_line_def give_def\<close>)

lemma serve_lines_goes_on:
  assumes "parses_utf8 env" "\<And>i. turn_ready env cfg (turns i)" "ready (rt env) cfg w"
    and "\<And>line. Line line \<in> set ls \<Longrightarrow> answerable env line"
  shows "\<not> fst (snd (serve_lines env cfg turns i ls w))"
  using assms(3,4)
proof (induction ls arbitrary: i w)
  case (Cons l ls)
  show ?case
  proof (cases l)
    case (Line line)
    obtain out w' where step: "process_one_line env (turns i) cfg line w = (Done out, w')"
      "ready (rt env) cfg w'"
      using process_line_done [OF assms(1) _ assms(2) Cons.prems(1)] Cons.prems(2) Line
      by (metis list.set_intros(1))
    have "\<not> fst (snd (serve_lines env cfg turns (i + 1) ls w'))"
      by (rule Cons.IH [OF step(2)]) (simp add: Cons.prems(2))
    then show ?thesis using step(1) Line by (auto split: prod.split)
  qed simp_all
qed simp

text \<open>
  C14: the server on standard input does not panic, however many lines come and however they are
  cut into chunks: when the allowed directories can be opened, a run ends at the end of its
  input or at a line that is too long, unless a line asks for a tail of zero lines.
\<close>

theorem stdio_never_panics:
  assumes "parses_utf8 env" "\<And>i. turn_ready env cfg (turns i)" "ready (rt env) cfg w"
    and "[] \<notin> set chunks"
    and "\<And>line. Line line \<in> set (frames (max_request_bytes (server cfg)) (concat chunks)) \<Longrightarrow>
      answerable env line"
  shows "\<not> fst (snd (run_stdio env cfg turns i (map Inr chunks) w))"
  unfolding run_stdio_lines [OF assms(4)] by (rule serve_lines_goes_on [OF assms(1-3,5)])

section \<open>HTTP\<close>

definition can_go_on :: "'d env \<Rightarrow> 'd world \<Rightarrow> bool" where
  "can_go_on env w = ready (rt env) (http_config (http w)) (tools w)"

lemma run_rpc_answers:
  assumes "\<And>p. params req = Some p \<Longrightarrow> valid_json p" "\<not> zero_tail req"
    and "turn_ready env (http_config (http w)) t" "can_go_on env w"
    and "run_rpc env t req k w = (x, w')"
  shows "(\<exists>resp. x = Done resp) \<and> can_go_on env w'"
  using respond_done [OF assms(1-3), of "tools w"] assms(4,5)
  by (auto simp: run_rpc_def then_do_def give_def can_go_on_def)

lemma parsed_params:
  assumes "parses_utf8 env" "parse_json_rpc env bs = Inr req" "params req = Some p"
  shows "valid_json p"
  using assms valid_params by (auto simp: parse_json_rpc_def parses_utf8_def result_simps)

section \<open>A small run\<close>

definition demo_tail_call :: json where
  "demo_tail_call =
     obj [(''id'', JInt 1), (''jsonrpc'', JStr ''2.0''), (''method'', JStr ''tools/call''),
          (''params'', obj [(''name'', JStr ''read_text_file''),
             (''arguments'', obj [(''path'', JStr ''notes.txt''), (''tail'', JInt 1)])])]"

text \<open>The release build, whose parser reads every text as this call.\<close>

definition release_env :: "loc env" where
  "release_env = demo_env\<lparr>rt := demo_runtime\<lparr>unwinds := False\<rparr>, json_parse := (\<lambda>bs. Inr demo_tail_call)\<rparr>"

definition demo_tail_request :: json_rpc_request where
  "demo_tail_request = the (ok (from_value demo_tail_call))"

lemma demo_tail_facts:
  "valid_json demo_tail_call" "from_value demo_tail_call = Inr demo_tail_request"
  "\<not> zero_tail demo_tail_request"
  by code_simp+

lemma release_env_ok:
  "parses_utf8 release_env" "answerable release_env line" "turn_ready release_env cfg demo_turn"
  "parse_json_rpc release_env bs = Inr req \<Longrightarrow> \<not> zero_tail req"
  using demo_tail_facts
  by (auto simp: parses_utf8_def answerable_def turn_ready_def parse_request_def parse_json_rpc_def
      release_env_def demo_turn_def Let_def result_simps split: if_splits)

lemma demo_proc_ready: "ready c cfg demo_proc"
  by (rule filled_ready) (simp add: filled_def)

theorem stdio_never_panics_witness:
  "\<not> fst (snd (run_stdio release_env demo_config (\<lambda>i. demo_turn) 0 (map Inr [[123, 125, 10], [123]]) demo_proc))"
  using release_env_ok demo_proc_ready by (intro stdio_never_panics) auto

section \<open>When the sandbox cannot be built\<close>

text \<open>
  The directories are opened by the first call that needs them; one that is missing by then
  panics that call.
\<close>

lemma unopened_directory_panics:
  assumes "once w = None" "sandbox_new (cap c) (disk w) cfg = Inl e" "get_str_arg args ''path'' = Inr p"
  shows "get_file_info c cfg args w = (Panicked, w)"
  using assms
  by (simp add: get_file_info_def then_do_def lift_def resolve_now_def the_sandbox_def config_sandbox_def)

end
