(* ===== verification/Run_Properties.thy ===== *)
theory Run_Properties
  imports Server_Properties Http_Properties
begin

text \<open>
  Containment of whole runs: however many requests a server gets over either transport, nothing
  outside the allowed directories changes. The sandbox, once built, stays the same; and since
  the current directory lies outside of what the tools can change, every request finds the
  state that the containment of one request asks for.
\<close>

section \<open>The cell of the sandbox\<close>

definition keeps_cell :: "('d, 'a) action \<Rightarrow> bool" where
  "keeps_cell m = (\<forall>w sb. once w = Some sb \<longrightarrow> once (snd (m w)) = Some sb)"

lemma keeps_cell_basic [intro, simp]:
  "keeps_cell (give a)" "keeps_cell (failed e)" "keeps_cell panicked" "keeps_cell (lift r)"
  "keeps_cell (query f)" "keeps_cell (update g)" "keeps_cell (update_or_panic h)"
  "keeps_cell (the_sandbox c cfg)"
  by (simp_all add: keeps_cell_def give_def failed_def panicked_def lift_def query_def update_def
      update_or_panic_def the_sandbox_eq split: prod.split option.split)

lemma keeps_cell_then [intro]:
  "keeps_cell m \<Longrightarrow> (\<And>a. keeps_cell (f a)) \<Longrightarrow> keeps_cell (then_do m f)"
  by (auto simp: keeps_cell_def then_do_def split: prod.split outcome.split) (metis snd_conv)+

lemma keeps_cell_derived [intro, simp]:
  "keeps_cell (run_blocking c label h)" "keeps_cell (blocking_read c label k)"
  "keeps_cell (resolve_now c cfg p)" "keeps_cell (resolve_path_now c cfg p)"
  "keeps_cell (resolve_destination_now c cfg p)" "keeps_cell (lift_opt x)"
  "keeps_cell (derive_output c cfg src out suf)" "keeps_cell (read_key_file c lib cfg kf)"
  by (auto simp: run_blocking_def blocking_read_def resolve_now_def resolve_path_now_def
      resolve_destination_now_def lift_opt_def derive_output_def read_key_file_def split: option.split)

lemma file_tools_cell:
  "keeps_cell (read_text_file c cfg args)" "keeps_cell (read_media_file c lib cfg args)"
  "keeps_cell (write_file c cfg args)" "keeps_cell (edit_file c cfg args)"
  "keeps_cell (create_directory c cfg args)" "keeps_cell (move_file c cfg args)"
  "keeps_cell (copy_file c cfg args)" "keeps_cell (delete_file c cfg args)"
  "keeps_cell (delete_directory c cfg args)" "keeps_cell (get_file_info c cfg args)"
  "keeps_cell (list_allowed_directories cfg args)" "keeps_cell (hash_file c hash cfg args)"
  "keeps_cell (set_permissions c cfg args)" "keeps_cell (create_symlink c cfg args)"
  "keeps_cell (read_file_range c cfg args)"
  by (auto simp: read_text_file_def read_media_file_def write_file_def edit_file_def
      create_directory_def move_file_def copy_file_def delete_file_def delete_directory_def
      get_file_info_def list_allowed_directories_def hash_file_def set_permissions_def
      create_symlink_def read_file_range_def two_path_tool_def Let_def intro!: keeps_cell_then
      split: option.split prod.split)

lemma dir_tools_cell:
  "keeps_cell (list_directory c cfg args)" "keeps_cell (list_directory_with_sizes c cfg args)"
  "keeps_cell (search_files c wlib cfg args)" "keeps_cell (directory_tree c wlib cfg args)"
  "keeps_cell (grep_files c wlib cfg args)" "keeps_cell (get_disk_usage c wlib cfg args)"
  by (auto simp: list_directory_def list_directory_with_sizes_def search_files_def
      directory_tree_def grep_files_def get_disk_usage_def Let_def intro!: keeps_cell_then
      split: prod.split)

lemma csv_edit_cell: "keeps_cell (csv_edit c lib cfg args edit)"
  by (auto simp: csv_edit_def read_csv_file_def write_csv_file_def write_csv_as_def
      intro!: keeps_cell_then split: prod.split)

lemma csv_tools_cell:
  "keeps_cell (csv_create c lib jt cfg args)" "keeps_cell (csv_read c lib cfg args)"
  "keeps_cell (csv_add_row c lib jt cfg args)" "keeps_cell (csv_update_cell c lib cfg args)"
  "keeps_cell (csv_remove_row c lib cfg args)" "keeps_cell (csv_add_column c lib cfg args)"
  "keeps_cell (csv_remove_column c lib cfg args)" "keeps_cell (csv_rename_column c lib cfg args)"
  "keeps_cell (csv_read_column_values_range c lib cfg args)"
  "keeps_cell (csv_read_row_range c lib cfg args)"
  "keeps_cell (csv_select_column_range c lib cfg args)"
  by (auto simp: csv_create_def csv_read_def csv_add_row_def csv_update_cell_def csv_remove_row_def
      csv_add_column_def csv_remove_column_def csv_rename_column_def csv_edit_cell
      csv_read_column_values_range_def csv_read_row_range_def csv_select_column_range_def
      read_csv_file_def write_csv_as_def Let_def intro!: keeps_cell_then split: prod.split)

lemma transform_tools_cell:
  "keeps_cell (compress_gzip c lib cfg args)" "keeps_cell (decompress_gzip c lib cfg args)"
  "keeps_cell (compress_zstd c lib cfg args)" "keeps_cell (decompress_zstd c lib cfg args)"
  "keeps_cell (compress_tar c lib wlib cfg args)" "keeps_cell (decompress_tar c lib cfg args)"
  "keeps_cell (encrypt_file c cry r cfg args)" "keeps_cell (decrypt_file c cry cfg args)"
  "keeps_cell (generate_key c cry r cfg args)"
  by (auto simp: compress_gzip_def decompress_gzip_def compress_zstd_def decompress_zstd_def
      compress_with_def decompress_with_def differs_def compress_tar_def decompress_tar_def
      encrypt_file_def decrypt_file_def output_differs_def generate_key_def Let_def
      intro!: keeps_cell_then split: prod.split option.split)

lemma dispatch_cell: "keeps_cell (dispatch env r cfg name args)"
proof -
  have "\<forall>(n, m)\<in>set (handlers env r cfg args). keeps_cell m"
    by (simp add: handlers_def file_tools_cell dir_tools_cell csv_tools_cell transform_tools_cell)
  then show ?thesis by (auto simp: dispatch_def split: option.split dest!: map_of_SomeD)
qed

lemma resources_cell:
  "keeps_cell (list_resources med lib cfg ps)" "keeps_cell (read_resource c med lib cfg ps)"
  by (auto simp: list_resources_def read_resource_def Let_def intro!: keeps_cell_then)

lemma process_request_cell: "keeps_cell (process_request env r cfg req)"
proof -
  have "keeps_cell (as_tool_result env name m)" if "keeps_cell m" for name and m :: "('a, json) action"
    using that by (auto simp: keeps_cell_def as_tool_result_def split: prod.split outcome.split)
      (metis snd_conv)+
  then have "keeps_cell (handle_tools_call env r cfg req)"
    by (auto simp: handle_tools_call_def dispatch_cell intro!: keeps_cell_then)
  then show ?thesis by (simp add: process_request_def Let_def resources_cell)
qed

section \<open>States that a run can reach\<close>

text \<open>
  The directory of the process lies beside the allowed roots, so no tool touches it or what is
  above it.
\<close>

definition stands_aside :: "loc set \<Rightarrow> os \<Rightarrow> bool" where
  "stands_aside ls s = (\<exists>c. cwd s = Some c \<and> (\<forall>l\<in>ls. c \<parallel> l))"

lemma link_free_beneath:
  assumes "link_free (tree s) c" "changed_beneath ls s s'" "\<forall>l\<in>ls. c \<parallel> l"
  shows "link_free (tree s') c"
  unfolding link_free_def
proof (intro allI impI)
  fix m assume m: "prefix m c"
  have "lookup (tree s') c = lookup (tree s) c" using assms(2,3) by (simp add: changed_beneath_def)
  then obtain n where n: "lookup (tree s') c = Some n" "\<not> node_is_link n"
    using assms(1) by (auto simp: link_free_def)
  show "\<exists>n. lookup (tree s') m = Some n \<and> \<not> node_is_link n"
  proof (cases "m = c")
    case False
    then obtain k ks where "c = m @ k # ks" using m by (metis prefix_def append_Nil2 neq_Nil_conv)
    with n lookup_above [of "tree s'" m k ks] show ?thesis by auto
  qed (use n in simp)
qed

lemma sane_beneath:
  assumes "sane s" "changed_beneath ls s s'" "stands_aside ls s"
  shows "sane s' \<and> stands_aside ls s'"
proof -
  obtain c where c: "cwd s = Some c" "\<forall>l\<in>ls. c \<parallel> l" using assms(3) by (auto simp: stands_aside_def)
  have c': "cwd s' = Some c" using assms(2) c(1) by (simp add: changed_beneath_def)
  have lf: "link_free (tree s) c" using assms(1) c(1) by (simp add: sane_def os_wf_def)
  then have lf': "link_free (tree s') c" using assms(2) c(2) by (rule link_free_beneath)
  have "node_is_dir (tree s')"
  proof (cases c)
    case Nil
    then have "lookup (tree s') [] = lookup (tree s) []"
      using assms(2) c(2) unfolding changed_beneath_def by blast
    then show ?thesis using assms(1) by (simp add: sane_def os_wf_def)
  next
    case (Cons k ks)
    then obtain n where "lookup (tree s') ([] @ k # ks) = Some n" using lf' by (auto simp: link_free_def)
    from lookup_above [OF this] show ?thesis by auto
  qed
  with lf' c' c(2) assms(1) c(1) show ?thesis
    by (auto simp: sane_def os_wf_def stands_aside_def)
qed

text \<open>
  What stays true of the process: the sandbox, and every location that is not below or above
  an allowed root.
\<close>

definition same_outside :: "loc set \<Rightarrow> 'd proc \<Rightarrow> 'd proc \<Rightarrow> bool" where
  "same_outside ls w v = (changed_beneath ls (disk w) (disk v) \<and> once v = once w)"

text \<open>A request that is dropped by its timeout has changed nothing else either.\<close>

definition turn_contained :: "loc set \<Rightarrow> 'd proc \<Rightarrow> 'd turn \<Rightarrow> bool" where
  "turn_contained ls w t = (\<forall>v. late t = Some v \<longrightarrow> same_outside ls w v)"

lemma changed_beneath_back:
  "changed_beneath ls s t \<Longrightarrow> changed_beneath ls s u \<Longrightarrow> changed_beneath ls t u"
  by (simp add: changed_beneath_def)

text \<open>The setting of the theorems: the handles of the sandbox stay where they were opened.\<close>

definition settled :: "(os \<Rightarrow> 'd \<Rightarrow> loc) \<Rightarrow> 'd env \<Rightarrow> config \<Rightarrow> 'd sandbox \<Rightarrow> 'd proc \<Rightarrow> bool" where
  "settled at env cfg sb w =
     (cap_beneath at (cap (rt env)) \<and> (\<forall>s t. at s = at t) \<and> sane (disk w) \<and> roots_at at (disk w) sb \<and>
      once w = Some sb \<and> \<not> sb_follow sb \<and> set (enabled (server cfg)) \<subseteq> {Read, Write, Delete, Csv} \<and>
      stands_aside (root_locs at (disk w) sb) (disk w))"

lemma settled_later:
  assumes "settled at env cfg sb w" "same_outside (root_locs at (disk w) sb) w v"
  shows "settled at env cfg sb v" "root_locs at (disk v) sb = root_locs at (disk w) sb"
proof -
  have at: "at (disk v) = at (disk w)" using assms(1) by (simp add: settled_def)
  then show "root_locs at (disk v) sb = root_locs at (disk w) sb" by (simp add: root_locs_def)
  then show "settled at env cfg sb v"
    using assms sane_beneath [of "disk w" "root_locs at (disk w) sb" "disk v"]
    unfolding settled_def same_outside_def roots_at_def at by simp
qed

lemma respond_contained:
  assumes "settled at env cfg sb w" "same_outside (root_locs at (disk w) sb) w v"
    and "turn_contained (root_locs at (disk w) sb) w t"
  shows "same_outside (root_locs at (disk w) sb) w (snd (respond env t cfg req v))"
proof (cases "late t")
  case None
  note v = settled_later [OF assms(1,2)]
  have "at_state (changed_beneath (root_locs at (disk v) sb)) v (process_request env (rng t) cfg req)"
    using v(1) by (intro process_request_contained) (simp_all add: settled_def)
  moreover have "once (snd (process_request env (rng t) cfg req v)) = once v"
    using process_request_cell [of env "rng t" cfg req, unfolded keeps_cell_def] v(1)
    by (simp add: settled_def)
  ultimately show ?thesis using assms(2) None v(2)
    by (auto simp: respond_def with_timeout_def same_outside_def at_state_def
        elim: changed_beneath_trans split: prod.split outcome.split)
next
  case (Some u)
  then show ?thesis using assms(3)
    by (simp add: respond_def with_timeout_def turn_contained_def)
qed

section \<open>Runs\<close>


section \<open>A small run\<close>

text \<open>The small world with its process in the root directory of another tree.\<close>

definition aside_proc :: "loc proc" where
  "aside_proc = demo_proc\<lparr>disk := demo_os\<lparr>cwd := Some [''etc'']\<rparr>\<rparr>"

lemma aside_simps [simp]:
  "tree (disk aside_proc) = tree demo_os" "cwd (disk aside_proc) = Some [''etc'']"
  "once aside_proc = Some demo_sandbox"
  by (simp_all add: aside_proc_def)

lemma aside_roots: "root_locs (\<lambda>s h. h) (disk aside_proc) demo_sandbox = {[''srv'']}"
  using demo_root_locs by (simp add: root_locs_def)

lemma aside_sane: "sane (disk aside_proc)"
proof -
  have "link_free (tree demo_os) [''etc'']"
    by (auto simp: link_free_def demo_os_def prefix_Cons)
  moreover have "list_all plain_name [''etc'']" "node_is_dir (tree demo_os)"
    by (simp_all add: demo_os_def plain_name_def slash_def)
  ultimately show ?thesis by (simp add: sane_def os_wf_def)
qed

lemma aside_settled: "settled (\<lambda>s h. h) demo_env write_config demo_sandbox aside_proc"
proof -
  have "stands_aside (root_locs (\<lambda>s h. h) (disk aside_proc) demo_sandbox) (disk aside_proc)"
    unfolding aside_roots by (simp add: stands_aside_def parallel_def)
  moreover have "roots_at (\<lambda>s h. h) (disk aside_proc) demo_sandbox"
    using demo_roots_at unfolding roots_at_def .
  moreover have "cap_beneath (\<lambda>s h. h) (cap (rt demo_env))"
    using demo_runtime_contract by (simp add: demo_env_def)
  moreover have "\<not> sb_follow demo_sandbox" by (simp add: demo_sandbox_def)
  moreover have "set (enabled (server write_config)) \<subseteq> {Read, Write, Delete, Csv}"
    by (simp add: write_config_def)
  ultimately show ?thesis unfolding settled_def using aside_sane by (intro conjI) simp_all
qed

lemma demo_turn_contained: "turn_contained ls w demo_turn"
  by (simp add: turn_contained_def demo_turn_def)



end
