(* ===== verification/Interleaved.thy ===== *)
theory Interleaved
  imports Http
begin

text \<open>
  Requests over HTTP that overlap. A handler of \<open>src/http.rs\<close> that runs a request
  (\<open>handle_rpc\<close>, \<open>handle_mcp_post\<close>) suspends at the \<open>await\<close> of \<open>process_request_http\<close>: what it
  does before, the checks and the look at the sessions, is its entry, and leaves a job behind;
  the job runs when the scheduler comes to it, after any number of other entries and jobs. A
  client that goes away drops the job, which may have changed files by then. The other handlers
  answer at once. The run of one job stays one step.
\<close>

record job =
  job_request :: json_rpc_request
  job_reply :: "json_rpc_response \<Rightarrow> http_response"

section \<open>Entries\<close>

definition rpc_enter :: "'d env \<Rightarrow> headers \<Rightarrow> u8 list \<Rightarrow> 'd world \<Rightarrow> http_response + job" where
  "rpc_enter env hs bytes w =
     (case common_request_rejection env (http w) hs True of
        Some r \<Rightarrow> Inl r
      | None \<Rightarrow>
          map_ok (\<lambda>req. \<lparr>job_request = req,
              job_reply = (\<lambda>r. if rpc_id req = None then respond_with 202 NoBody else json_response r)\<rparr>)
            (parse_json_rpc env bytes))"

definition mcp_enter ::
    "'d env \<Rightarrow> string \<Rightarrow> headers \<Rightarrow> u8 list \<Rightarrow> 'd world \<Rightarrow> (http_response + job) \<times> 'd world" where
  "mcp_enter env uuid hs bytes w =
     (case common_request_rejection env (http w) hs True of
        Some r \<Rightarrow> (Inl r, w)
      | None \<Rightarrow>
     (case reject_protocol_version hs of
        Some r \<Rightarrow> (Inl r, w)
      | None \<Rightarrow>
      if \<not> accepts hs ''application/json'' \<and> \<not> accepts hs ''text/event-stream'' then
        (Inl (plain 406 ''Accept must include application/json or text/event-stream''), w)
      else
     (case parse_json_rpc env bytes of
        Inl r \<Rightarrow> (Inl r, w)
      | Inr req \<Rightarrow>
     (case session_of uuid hs req w of
        (Inl r, w') \<Rightarrow> (Inl r, w')
      | (Inr session_id, w') \<Rightarrow>
          (Inr \<lparr>job_request = req, job_reply = mcp_reply env hs req session_id\<rparr>, w')))))"

definition starts_job :: "http_request \<Rightarrow> bool" where
  "starts_job r = (verb r = ''POST'' \<and> (target r = ''/rpc'' \<or> target r = ''/mcp''))"

text \<open>A request is answered on its entry, or leaves a job; the turn is that of the entry.\<close>

definition enter ::
    "'d env \<Rightarrow> router_lib \<Rightarrow> 'd turn \<Rightarrow> string \<Rightarrow> http_request \<Rightarrow> 'd world \<Rightarrow>
     (http_response outcome + job) \<times> 'd world" where
  "enter env lib t uuid r w =
     (if \<not> starts_job r then (case route env lib t uuid r w of (x, w') \<Rightarrow> (Inl x, w'))
      else if max_http_body_bytes (server (http_config (http w))) < length (req_body r) then
        (Inl (Done (too_large lib)), w)
      else if target r = ''/rpc'' then
        (map_err Done (rpc_enter env (headers r) (req_body r) w), w)
      else
        (case mcp_enter env uuid (headers r) (req_body r) w of (x, w') \<Rightarrow> (map_err Done x, w')))"

definition run_job :: "'d env \<Rightarrow> 'd turn \<Rightarrow> job \<Rightarrow> 'd handler" where
  "run_job env t j = run_rpc env t (job_request j) (job_reply j)"

section \<open>Runs\<close>

datatype 'd happening =
    Arrived http_request string "http_response outcome + job"
  | Finished job "'d turn" "http_response outcome"
  | Dropped job "'d turn"

fun answers_of :: "'d happening \<Rightarrow> http_response outcome list" where
  "answers_of (Arrived r uuid (Inl x)) = [x]"
| "answers_of (Finished j t x) = [x]"
| "answers_of _ = []"

definition goes_on :: "'d env \<Rightarrow> 'd happening list \<Rightarrow> bool" where
  "goes_on env hs = (unwinds (rt env) \<or> (\<forall>h\<in>set hs. Panicked \<notin> set (answers_of h)))"

text \<open>
  A run from a state: what happened, the state it led to, and the jobs that are under way. The
  state after a job that was dropped is part of its turn.
\<close>

inductive overlaps ::
    "'d env \<Rightarrow> router_lib \<Rightarrow> 'd world \<Rightarrow> 'd happening list \<Rightarrow> 'd world \<Rightarrow> job list \<Rightarrow> bool"
  for env lib w where
  begins: "overlaps env lib w [] w []"
| answered: "overlaps env lib w hs v js \<Longrightarrow> goes_on env hs \<Longrightarrow>
    enter env lib t uuid r v = (Inl x, v') \<Longrightarrow> overlaps env lib w (hs @ [Arrived r uuid (Inl x)]) v' js"
| entered: "overlaps env lib w hs v js \<Longrightarrow> goes_on env hs \<Longrightarrow>
    enter env lib t uuid r v = (Inr j, v') \<Longrightarrow> overlaps env lib w (hs @ [Arrived r uuid (Inr j)]) v' (js @ [j])"
| finished: "overlaps env lib w hs v (js @ j # ks) \<Longrightarrow> goes_on env hs \<Longrightarrow>
    run_job env t j v = (x, v') \<Longrightarrow> overlaps env lib w (hs @ [Finished j t x]) v' (js @ ks)"
| dropped: "overlaps env lib w hs v (js @ j # ks) \<Longrightarrow> goes_on env hs \<Longrightarrow>
    late t = Some p \<Longrightarrow> overlaps env lib w (hs @ [Dropped j t]) (v\<lparr>tools := p\<rparr>) (js @ ks)"

inductive_cases overlaps_snoc: "overlaps env lib w (hs @ [h]) v js"

section \<open>The parts of a request\<close>

lemma handle_rpc_enter:
  "handle_rpc env t hs bytes w =
     (case rpc_enter env hs bytes w of Inl r \<Rightarrow> (Done r, w) | Inr j \<Rightarrow> run_job env t j w)"
  by (auto simp: handle_rpc_def rpc_enter_def run_job_def reply_def split: option.split sum.split)

lemma handle_mcp_post_enter:
  "handle_mcp_post env t uuid hs bytes w =
     (case mcp_enter env uuid hs bytes w of (Inl r, w') \<Rightarrow> (Done r, w') | (Inr j, w') \<Rightarrow> run_job env t j w')"
  by (auto simp: handle_mcp_post_def mcp_enter_def run_job_def reply_def
      split: option.split sum.split prod.split)

text \<open>A request whose job runs at once is the request in one step.\<close>

lemma route_enter:
  "route env lib t uuid r w =
     (case enter env lib t uuid r w of (Inl x, w') \<Rightarrow> (x, w') | (Inr j, w') \<Rightarrow> run_job env t j w')"
  by (auto simp: enter_def starts_job_def route_def with_body_def reply_def handle_rpc_enter
      handle_mcp_post_enter split: prod.split sum.split)

end
