(* ===== verification/Interleaved_Properties.thy ===== *)
theory Interleaved_Properties
  imports Interleaved Run_Properties Panic_Properties "HOL-Library.Multiset"
begin

text \<open>
  What holds of the server over HTTP also when requests overlap: the sessions, the access mode,
  the containment, and that every request that is not dropped is answered. Runs in which
  requests do not overlap are runs of \<open>serves\<close>.
\<close>

section \<open>Runs without overlap\<close>

definition answers :: "'d happening list \<Rightarrow> http_response outcome list" where
  "answers hs = concat (map answers_of hs)"

lemma answers_simps [simp]:
  "answers [] = []" "answers (h # hs) = answers_of h @ answers hs" "answers (hs @ ks) = answers hs @ answers ks"
  by (simp_all add: answers_def)

lemma goes_on_answers: "goes_on env hs \<longleftrightarrow> unwinds (rt env) \<or> Panicked \<notin> set (answers hs)"
  by (auto simp: goes_on_def answers_def)


section \<open>The steps\<close>

text \<open>The protocol of the sessions, told from the entries alone.\<close>

fun arrival_step :: "string set \<Rightarrow> 'd happening \<Rightarrow> string set" where
  "arrival_step S (Arrived r uuid (Inr j)) =
     (if target r = ''/mcp'' \<and> rpc_method (job_request j) = ''initialize'' then insert uuid S else S)"
| "arrival_step S (Arrived r uuid (Inl x)) =
     (if target r = ''/mcp'' \<and> verb r = ''DELETE'' \<and>
         (case x of Done resp \<Rightarrow> status resp = 204 | _ \<Rightarrow> False) then
        (case session_header (headers r) of None \<Rightarrow> S | Some s \<Rightarrow> S - {s})
      else S)"
| "arrival_step S _ = S"

lemma mcp_enter_refused: "mcp_enter env uuid hs bytes w = (Inl resp, w') \<Longrightarrow> w' = w"
  by (auto simp: mcp_enter_def session_of_def split: option.splits if_splits sum.splits prod.splits)

lemma enter_answered:
  assumes "enter env lib t uuid r v = (Inl x, v')"
  shows "tools v' = tools v" "http_config (http v') = http_config (http v)"
    and "sessions (http v') = arrival_step (sessions (http v)) (Arrived r uuid (Inl x))"
proof -
  have "tools v' = tools v \<and> http_config (http v') = http_config (http v) \<and>
      sessions (http v') = arrival_step (sessions (http v)) (Arrived r uuid (Inl x))"
  proof (cases "starts_job r")
    case True
    then have "verb r \<noteq> ''DELETE''" "v' = v"
      using assms by (auto simp: enter_def starts_job_def result_simps
          split: if_splits prod.splits dest: mcp_enter_refused)
    then show ?thesis by simp
  next
    case False
    then have "route env lib t uuid r v = (x, v')" using assms by (simp add: enter_def split: prod.splits)
    then show ?thesis
    proof (cases rule: route_cases)
      case delete
      from delete(3) show ?thesis
        by (cases rule: mcp_delete_cases) (use delete in \<open>auto simp: remove_session_def respond_with_def\<close>)
    qed (use False in \<open>auto simp: starts_job_def\<close>)
  qed
  then show "tools v' = tools v" "http_config (http v') = http_config (http v)"
    "sessions (http v') = arrival_step (sessions (http v)) (Arrived r uuid (Inl x))" by simp_all
qed

lemma mcp_enter_job:
  assumes "mcp_enter env uuid hs bytes w = (Inr j, w')"
  shows "parse_json_rpc env bytes = Inr (job_request j)"
    and "w' = (if rpc_method (job_request j) = ''initialize'' then add_session uuid w else w)"
    and "rpc_method (job_request j) \<noteq> ''initialize'' \<Longrightarrow>
      \<exists>s. session_header hs = Some s \<and> s \<in> sessions (http w)"
proof -
  obtain req s where req: "parse_json_rpc env bytes = Inr req" "session_of uuid hs req w = (Inr s, w')"
      "job_request j = req"
    using assms by (auto simp: mcp_enter_def split: option.splits if_splits sum.splits prod.splits)
  then show "parse_json_rpc env bytes = Inr (job_request j)" by simp
  show "w' = (if rpc_method (job_request j) = ''initialize'' then add_session uuid w else w)"
    using req(2,3) by (auto simp: session_of_def split: if_splits)
  show "\<exists>s. session_header hs = Some s \<and> s \<in> sessions (http w)"
    if "rpc_method (job_request j) \<noteq> ''initialize''"
    using that req(2,3) by (auto simp: session_of_def validate_session_ok)
qed

lemma enter_job_cases:
  assumes "enter env lib t uuid r v = (Inr j, v')"
  obtains (rpc) "target r = ''/rpc''" "rpc_enter env (headers r) (req_body r) v = Inr j" "v' = v"
    | (mcp) "target r = ''/mcp''" "mcp_enter env uuid (headers r) (req_body r) v = (Inr j, v')"
proof (cases "target r = ''/rpc''")
  case True
  with assms show thesis
    by (intro rpc) (auto simp: enter_def result_simps split: if_splits prod.splits)
next
  case False
  with assms have "starts_job r" by (auto simp: enter_def split: if_splits prod.splits)
  with assms False show thesis
    by (intro mcp) (auto simp: enter_def starts_job_def result_simps split: if_splits prod.splits)
qed

lemma enter_job:
  assumes "enter env lib t uuid r v = (Inr j, v')"
  shows "tools v' = tools v" "http_config (http v') = http_config (http v)"
    and "sessions (http v') = arrival_step (sessions (http v)) (Arrived r uuid (Inr j))"
    and "parse_json_rpc env (req_body r) = Inr (job_request j)"
    and "target r = ''/mcp'' \<Longrightarrow> rpc_method (job_request j) \<noteq> ''initialize'' \<Longrightarrow>
      \<exists>s. session_header (headers r) = Some s \<and> s \<in> sessions (http v)"
proof -
  consider (rpc) "target r = ''/rpc''" "rpc_enter env (headers r) (req_body r) v = Inr j" "v' = v"
    | (mcp) "target r = ''/mcp''" "mcp_enter env uuid (headers r) (req_body r) v = (Inr j, v')"
    by (rule enter_job_cases [OF assms])
  then have "tools v' = tools v \<and> http_config (http v') = http_config (http v) \<and>
      sessions (http v') = arrival_step (sessions (http v)) (Arrived r uuid (Inr j)) \<and>
      parse_json_rpc env (req_body r) = Inr (job_request j) \<and>
      (target r = ''/mcp'' \<longrightarrow> rpc_method (job_request j) \<noteq> ''initialize'' \<longrightarrow>
        (\<exists>s. session_header (headers r) = Some s \<and> s \<in> sessions (http v)))"
  proof cases
    case rpc
    then show ?thesis by (auto simp: rpc_enter_def result_simps split: option.splits)
  next
    case mcp
    from mcp_enter_job [OF mcp(2)] mcp(1) show ?thesis by (auto simp: add_session_def)
  qed
  then show "tools v' = tools v" "http_config (http v') = http_config (http v)"
    "sessions (http v') = arrival_step (sessions (http v)) (Arrived r uuid (Inr j))"
    "parse_json_rpc env (req_body r) = Inr (job_request j)"
    "target r = ''/mcp'' \<Longrightarrow> rpc_method (job_request j) \<noteq> ''initialize'' \<Longrightarrow>
      \<exists>s. session_header (headers r) = Some s \<and> s \<in> sessions (http v)" by simp_all
qed

lemma run_job_state:
  assumes "run_job env t j v = (x, v')"
  shows "http v' = http v" "tools v' = snd (respond env t (http_config (http v)) (job_request j) (tools v))"
  using assms run_rpc_http [of env t "job_request j" "job_reply j" v]
    run_rpc_tools [of env t "job_request j" "job_reply j" v]
  by (simp_all add: run_job_def)

section \<open>Relations along a run\<close>

text \<open>
  A relation that is kept by the jobs that run and by what drops them is respected by every run.
\<close>

fun kept :: "('d proc \<Rightarrow> 'd proc \<Rightarrow> bool) \<Rightarrow> 'd env \<Rightarrow> config \<Rightarrow> 'd proc \<Rightarrow> 'd happening \<Rightarrow> bool" where
  "kept R env cfg p0 (Finished j t x) = (\<forall>p req. R p0 p \<longrightarrow> R p0 (snd (respond env t cfg req p)))"
| "kept R env cfg p0 (Dropped j t) = (\<forall>p. late t = Some p \<longrightarrow> R p0 p)"
| "kept R env cfg p0 (Arrived r uuid y) = True"

lemma overlaps_relation:
  assumes "overlaps env lib w hs v js" "R (tools w) (tools w)"
    and "\<forall>h\<in>set hs. kept R env (http_config (http w)) (tools w) h"
  shows "http_config (http v) = http_config (http w) \<and> R (tools w) (tools v)"
  using assms
proof (induction rule: overlaps.induct)
  case (answered hs v js t uuid r x v')
  then show ?case using enter_answered(1,2) [OF answered.hyps(3)] by simp
next
  case (entered hs v js t uuid r j v')
  then show ?case using enter_job(1,2) [OF entered.hyps(3)] by simp
next
  case (finished hs v js j ks t x v')
  then show ?case using run_job_state [OF finished.hyps(3)] by simp
qed simp_all

text \<open>The turns of the jobs that finish or are dropped.\<close>

fun turns_of :: "'d happening \<Rightarrow> 'd turn list" where
  "turns_of (Finished j t x) = [t]"
| "turns_of (Dropped j t) = [t]"
| "turns_of (Arrived r uuid y) = []"

text \<open>
  In read-only mode the server never changes the files over HTTP either, in runs of any
  length, with any number of clients and however their requests overlap.
\<close>

lemma overlapping_read_only:
  assumes "overlaps env lib w hs v js"
    and "access_mode (server (http_config (http w))) = ReadOnly"
    and "\<forall>h\<in>set hs. \<forall>t\<in>set (turns_of h). orderly (=) t (disk (tools w))"
  shows "disk (tools v) = disk (tools w)"
proof -
  have "disk (snd (respond env t (http_config (http w)) req p)) = disk p"
    if "orderly (=) t (disk (tools w))" "disk p = disk (tools w)" for t req p
    using respond_at [where R = "(=)", of t p env "http_config (http w)" req]
      same.at_keeps [OF process_request_keeps [OF assms(2)]] that by metis
  then have "kept (\<lambda>a b. disk b = disk a) env (http_config (http w)) (tools w) h" if "h \<in> set hs" for h
    using assms(3) that by (cases h) (auto simp: orderly_def)
  then show ?thesis
    using overlaps_relation [where R = "\<lambda>a b. disk b = disk a", OF assms(1)] by blast
qed


section \<open>The sessions\<close>

lemma overlaps_sessions:
  assumes "overlaps env lib w hs v js"
  shows "sessions (http v) = foldl arrival_step (sessions (http w)) hs"
  using assms
proof (induction rule: overlaps.induct)
  case (answered hs v js t uuid r x v')
  then show ?case using enter_answered(3) [OF answered.hyps(3)] by (simp del: arrival_step.simps)
next
  case (entered hs v js t uuid r j v')
  then show ?case using enter_job(3) [OF entered.hyps(3)] by (simp del: arrival_step.simps)
next
  case (finished hs v js j ks t x v')
  then show ?case using run_job_state [OF finished.hyps(3)] by simp
qed simp_all

lemma overlaps_prefix:
  "overlaps env lib w (hs @ ks) v js \<Longrightarrow> \<exists>u us. overlaps env lib w hs u us"
proof (induction ks arbitrary: v js rule: rev_induct)
  case (snoc k ks)
  have "overlaps env lib w ((hs @ ks) @ [k]) v js" using snoc.prems by simp
  then obtain u us where "overlaps env lib w (hs @ ks) u us" by (rule overlaps_snoc) blast+
  then show ?case by (rule snoc.IH)
qed (metis append_Nil2)

text \<open>
  C16: however requests overlap, one on \<open>/mcp\<close> other than \<open>initialize\<close> is run only if it carried a
  session that was live when it came in: one that an \<open>initialize\<close> before it opened and that no
  \<open>DELETE\<close> before it closed.
\<close>

theorem jobs_enter_live_sessions:
  assumes "overlaps env lib w (hs @ Arrived r uuid (Inr j) # ks) v js" "sessions (http w) = {}"
    and "target r = ''/mcp''" "rpc_method (job_request j) \<noteq> ''initialize''"
  shows "\<exists>s. session_header (headers r) = Some s \<and> s \<in> foldl arrival_step {} hs"
proof -
  have "overlaps env lib w ((hs @ [Arrived r uuid (Inr j)]) @ ks) v js" using assms(1) by simp
  then obtain u us where "overlaps env lib w (hs @ [Arrived r uuid (Inr j)]) u us"
    by (blast dest: overlaps_prefix)
  then obtain u0 us0 t where "overlaps env lib w hs u0 us0" "enter env lib t uuid r u0 = (Inr j, u)"
    by (rule overlaps_snoc) auto
  with overlaps_sessions enter_job(5) assms(2-4) show ?thesis by metis
qed

section \<open>Answers\<close>

definition job_of :: "'d happening \<Rightarrow> job list" where
  "job_of h = (case h of Arrived r uuid (Inr j) \<Rightarrow> [j] | _ \<Rightarrow> [])"

definition over_of :: "'d happening \<Rightarrow> job list" where
  "over_of h = (case h of Finished j t x \<Rightarrow> [j] | Dropped j t \<Rightarrow> [j] | _ \<Rightarrow> [])"

definition answerable_job :: "job \<Rightarrow> bool" where
  "answerable_job j = (\<not> zero_tail (job_request j) \<and> (\<forall>p. params (job_request j) = Some p \<longrightarrow> valid_json p))"

lemma run_job_answers:
  assumes "answerable_job j" "turn_ready env (http_config (http w)) t" "can_go_on env w"
    and "run_job env t j w = (x, w')"
  shows "(\<exists>resp. x = Done resp) \<and> can_go_on env w'"
  using run_rpc_answers [of "job_request j" env w t "job_reply j" x w'] assms
  by (simp add: run_job_def answerable_job_def)

lemma route_now: "\<not> starts_job r \<Longrightarrow> \<exists>resp. fst (route env lib t uuid r w) = Done resp"
  by (auto simp: starts_job_def route_def handler_defs split: option.split sum.split prod.split)

lemma enter_now:
  assumes "enter env lib t uuid r v = (Inl x, v')"
  shows "\<exists>resp. x = Done resp"
proof (cases "starts_job r")
  case True
  then show ?thesis using assms by (auto simp: enter_def result_simps split: if_splits prod.splits)
next
  case False
  then show ?thesis using assms route_now [OF False, of env lib t uuid v]
    by (auto simp: enter_def split: prod.splits)
qed

text \<open>What a run keeps: it can go on, what has been answered is a response, the jobs add up.\<close>

definition going_well :: "'d env \<Rightarrow> config \<Rightarrow> 'd happening list \<Rightarrow> 'd world \<Rightarrow> job list \<Rightarrow> bool" where
  "going_well env cfg hs v js =
     (can_go_on env v \<and> http_config (http v) = cfg \<and> (\<forall>x\<in>set (answers hs). \<exists>resp. x = Done resp) \<and>
      mset (concat (map job_of hs)) = mset (concat (map over_of hs)) + mset js \<and>
      (\<forall>j\<in>set js. answerable_job j))"

lemma overlaps_going_well:
  assumes "overlaps env lib w hs v js" "parses_utf8 env" "can_go_on env w"
    and "\<forall>h\<in>set hs. \<forall>t\<in>set (turns_of h). turn_ready env (http_config (http w)) t"
    and "\<forall>h\<in>set hs. \<forall>j\<in>set (job_of h). \<not> zero_tail (job_request j)"
  shows "going_well env (http_config (http w)) hs v js"
  using assms
proof (induction rule: overlaps.induct)
  case begins
  then show ?case by (simp add: going_well_def)
next
  case (answered hs v js t uuid r x v')
  then have "going_well env (http_config (http w)) hs v js" by simp
  then show ?case using enter_answered(1,2) [OF answered.hyps(3)] enter_now [OF answered.hyps(3)]
    by (auto simp: going_well_def can_go_on_def job_of_def over_of_def)
next
  case (entered hs v js t uuid r j v')
  then have IH: "going_well env (http_config (http w)) hs v js" by simp
  have "answerable_job j"
    using entered.prems parsed_params [OF entered.prems(1) enter_job(4) [OF entered.hyps(3)]]
    by (simp add: answerable_job_def job_of_def)
  then show ?case using IH enter_job(1,2) [OF entered.hyps(3)]
    by (auto simp: going_well_def can_go_on_def job_of_def over_of_def)
next
  case (finished hs v js j ks t x v')
  then have IH: "going_well env (http_config (http w)) hs v (js @ j # ks)" by simp
  have "(\<exists>resp. x = Done resp) \<and> can_go_on env v'"
    using IH finished.prems by (intro run_job_answers [OF _ _ _ finished.hyps(3)]) (simp_all add: going_well_def)
  then show ?case using IH run_job_state(1) [OF finished.hyps(3)]
    by (auto simp: going_well_def job_of_def over_of_def)
next
  case (dropped hs v js j ks t p)
  then have IH: "going_well env (http_config (http w)) hs v (js @ j # ks)" by simp
  have "turn_ready env (http_config (http v)) t" using IH dropped.prems by (simp add: going_well_def)
  then show ?case using IH dropped.hyps(3)
    by (auto simp: going_well_def job_of_def over_of_def turn_ready_def can_go_on_def)
qed

text \<open>
  C17: over HTTP every request is answered: in a run from a state that can go on, a request is
  answered when it comes in or leaves a job, a job that finishes has a response, and what is
  still under way can finish; the number of jobs is that of the entries less those that
  finished or were dropped. The one request that panics is left out.
\<close>

theorem overlapping_requests_answered:
  assumes "overlaps env lib w hs v js" "parses_utf8 env" "can_go_on env w"
    and "\<forall>h\<in>set hs. \<forall>t\<in>set (turns_of h). turn_ready env (http_config (http w)) t"
    and "\<forall>h\<in>set hs. \<forall>j\<in>set (job_of h). \<not> zero_tail (job_request j)"
  shows "(\<forall>x\<in>set (answers hs). \<exists>resp. x = Done resp) \<and>
    mset (concat (map job_of hs)) = mset (concat (map over_of hs)) + mset js \<and>
    (\<forall>j\<in>set js. \<forall>t. turn_ready env (http_config (http w)) t \<longrightarrow>
      (\<exists>resp v'. run_job env t j v = (Done resp, v')))"
proof -
  have well: "going_well env (http_config (http w)) hs v js" by (rule overlaps_going_well [OF assms])
  moreover have "\<exists>resp v'. run_job env t j v = (Done resp, v')"
    if "j \<in> set js" "turn_ready env (http_config (http w)) t" for j t
    using run_job_answers [of j env v t] that well
    by (cases "run_job env t j v") (auto simp: going_well_def)
  ultimately show ?thesis by (simp add: going_well_def)
qed

section \<open>Small runs\<close>


text \<open>One request on \<open>/rpc\<close>, from its entry to its end.\<close>

lemma rpc_overlap:
  assumes "parse_json_rpc env (as_bytes meth) = Inr req"
    and "auth_token (server (http_config (http w))) = None"
    and "length meth \<le> max_http_body_bytes (server (http_config (http w)))"
  obtains j x v where "job_request j = req"
    "overlaps env lib w [Arrived (demo_post ''/rpc'' [] meth) u (Inr j), Finished j demo_turn x] v []"
proof -
  let ?r = "demo_post ''/rpc'' [] meth"
  have "\<exists>j. job_request j = req \<and> rpc_enter env (headers ?r) (as_bytes meth) w = Inr j"
    using assms(1,2) by (simp add: rpc_enter_def common_request_rejection_def)
  then obtain j where j: "job_request j = req" "rpc_enter env (headers ?r) (as_bytes meth) w = Inr j"
    by blast
  have "enter env lib demo_turn u ?r w = (Inr j, w)"
    using j(2) assms(3) by (simp add: enter_def starts_job_def)
  then have one: "overlaps env lib w ([] @ [Arrived ?r u (Inr j)]) w ([] @ [j])"
    by (rule overlaps.entered [OF overlaps.begins, rotated]) (simp add: goes_on_def)
  obtain x v where "run_job env demo_turn j w = (x, v)" by fastforce
  with one have "overlaps env lib w (([] @ [Arrived ?r u (Inr j)]) @ [Finished j demo_turn x]) v ([] @ [])"
    by (intro overlaps.finished) (simp_all add: goes_on_def)
  with j(1) show thesis by (intro that) simp_all
qed

lemma read_only_simps [simp]:
  "auth_token (server read_only_config) = None" "max_http_body_bytes (server read_only_config) = 4096"
  "auth_token (server write_config) = None" "max_http_body_bytes (server write_config) = 4096"
  by (simp_all add: read_only_config_def write_config_def demo_server_def)

lemma overlapping_read_only_demo:
  "\<exists>j x v. overlaps demo_env demo_router (demo_world read_only_config)
      [Arrived (demo_post ''/rpc'' [] ''ping'') ''u'' (Inr j), Finished j demo_turn x] v [] \<and>
    disk (tools v) = demo_os"
proof -
  obtain j x v where run: "overlaps demo_env demo_router (demo_world read_only_config)
      [Arrived (demo_post ''/rpc'' [] ''ping'') ''u'' (Inr j), Finished j demo_turn x] v []"
    by (rule rpc_overlap [of demo_env "''ping''" _ "demo_world read_only_config" demo_router "''u''"])
      (simp_all del: as_bytes_simps(1,2))
  from overlapping_read_only [OF run] have "disk (tools v) = demo_os" by (simp add: demo_orderly)
  with run show ?thesis by blast
qed


theorem overlapping_requests_answered_witness:
  "\<exists>j resp v. overlaps release_env demo_router (demo_world demo_config)
      [Arrived (demo_post ''/rpc'' [] ''x'') ''u'' (Inr j), Finished j demo_turn (Done resp)] v []"
proof -
  have parse: "parse_json_rpc release_env (as_bytes ''x'') = Inr demo_tail_request"
    using demo_tail_facts(2) by (simp add: parse_json_rpc_def release_env_def)
  obtain j x v where j: "job_request j = demo_tail_request" and run:
    "overlaps release_env demo_router (demo_world demo_config)
      [Arrived (demo_post ''/rpc'' [] ''x'') ''u'' (Inr j), Finished j demo_turn x] v []"
    by (rule rpc_overlap [OF parse, of "demo_world demo_config" demo_router "''u''"]) simp_all
  have "can_go_on release_env (demo_world demo_config)"
    using demo_proc_ready by (simp add: can_go_on_def demo_world_def)
  with overlapping_requests_answered [OF run] obtain resp where "x = Done resp"
    using release_env_ok demo_tail_facts(3) j by (auto simp: job_of_def)
  with run show ?thesis by blast
qed

text \<open>A session is opened, and used before the request that opened it is finished.\<close>

lemma demo_enter:
  "\<exists>j. enter demo_env demo_router demo_turn ''s1'' (demo_post ''/mcp'' [] ''initialize'') (demo_world demo_config) =
     (Inr j, add_session ''s1'' (demo_world demo_config)) \<and> rpc_method (job_request j) = ''initialize''"
  "\<exists>j. enter demo_env demo_router demo_turn ''s2'' (demo_post ''/mcp'' in_session ''ping'')
       (add_session ''s1'' (demo_world demo_config)) =
     (Inr j, add_session ''s1'' (demo_world demo_config)) \<and> rpc_method (job_request j) = ''ping''"
  by (simp_all add: enter_def starts_job_def mcp_enter_def common_request_rejection_def
      session_of_def add_session_def validate_session_def del: as_bytes_simps(1,2))

theorem jobs_enter_live_sessions_witness:
  "\<exists>j k v. overlaps demo_env demo_router (demo_world demo_config)
      [Arrived (demo_post ''/mcp'' [] ''initialize'') ''s1'' (Inr j),
       Arrived (demo_post ''/mcp'' in_session ''ping'') ''s2'' (Inr k)] v [j, k] \<and>
    ''s1'' \<in> foldl arrival_step {} [Arrived (demo_post ''/mcp'' [] ''initialize'') ''s1'' (Inr j) :: loc happening]"
proof -
  let ?a = "demo_post ''/mcp'' [] ''initialize''" and ?b = "demo_post ''/mcp'' in_session ''ping''"
  let ?w = "demo_world demo_config"
  obtain j where j: "enter demo_env demo_router demo_turn ''s1'' ?a ?w = (Inr j, add_session ''s1'' ?w)"
    using demo_enter(1) by blast
  obtain k where k: "enter demo_env demo_router demo_turn ''s2'' ?b (add_session ''s1'' ?w) =
      (Inr k, add_session ''s1'' ?w)" "rpc_method (job_request k) = ''ping''"
    using demo_enter(2) by blast
  have "overlaps demo_env demo_router ?w ([] @ [Arrived ?a ''s1'' (Inr j)]) (add_session ''s1'' ?w) ([] @ [j])"
    by (rule overlaps.entered [OF overlaps.begins _ j]) (simp add: goes_on_def)
  from overlaps.entered [OF this _ k(1)] have run: "overlaps demo_env demo_router ?w
      ([Arrived ?a ''s1'' (Inr j)] @ Arrived ?b ''s2'' (Inr k) # []) (add_session ''s1'' ?w) [j, k]"
    by (simp add: goes_on_def)
  from jobs_enter_live_sessions [OF run] k(2)
  have "''s1'' \<in> foldl arrival_step {} [Arrived ?a ''s1'' (Inr j) :: loc happening]"
    by (simp del: foldl_Cons)
  moreover from run have "overlaps demo_env demo_router ?w
      [Arrived ?a ''s1'' (Inr j), Arrived ?b ''s2'' (Inr k)] (add_session ''s1'' ?w) [j, k]" by simp
  ultimately show ?thesis by blast
qed

end
