(* ===== verification/Launch.thy ===== *)
theory Launch
  imports Http
begin

text \<open>
  \<open>src/main.rs\<close>: from the command line to the server that is started, with the warnings given
  on the way. The arguments are those of \<open>src/lib.rs\<close> beside the ones that the configuration
  reads. Then the start of the HTTP server (\<open>src/http.rs\<close>, \<open>src/tls.rs\<close>) up to the socket it
  listens on: name resolution, sockets and the loading of certificates are parameters over types
  of addresses and of TLS configurations. \<open>main_run\<close> is the whole start, with the filter of the
  log; the lines of the log and the installation of the crypto provider are left out.
\<close>

record cli = args +
  arg_stdio :: bool
  arg_health :: bool
  arg_log_level :: string

datatype launch =
    Health json
  | ConfigError string
  | RunStdio config
  | RunHttp config nat

definition is_loopback_host :: "string \<Rightarrow> bool" where
  "is_loopback_host h = (h \<in> {''127.0.0.1'', ''::1'', ''localhost''} \<or> starts_with h ''127.'')"

definition cli_health :: "'d env \<Rightarrow> json" where
  "cli_health env =
     obj [(''status'', JStr ''UP''), (''version'', JStr (package env ''CARGO_PKG_VERSION'')),
          (''transport'', JStr ''cli'')]"

datatype warning = NoTools | NoAuthentication string

definition warnings :: "cli \<Rightarrow> config \<Rightarrow> warning list" where
  "warnings a cfg =
     (if enabled (server cfg) = [] then [NoTools] else [])
     @ (if \<not> is_loopback_host (host (server cfg)) \<and> auth_token (server cfg) = None \<and> \<not> arg_stdio a
        then [NoAuthentication (host (server cfg))] else [])"

definition inner_main ::
    "'d env \<Rightarrow> (string \<Rightarrow> string option) \<Rightarrow> os \<Rightarrow> cli \<Rightarrow> warning list \<times> launch" where
  "inner_main env vars s a =
     (if arg_health a then ([], Health (cli_health env))
      else
        (case config_from_args vars s (args.truncate a) of
           Inl e \<Rightarrow> ([], ConfigError e)
         | Inr cfg \<Rightarrow>
             (warnings a cfg,
              if arg_stdio a then RunStdio cfg else RunHttp cfg (arg_http_port a))))"

section \<open>Before the server\<close>

type_synonym env_vars = "string \<Rightarrow> string option"

definition mimalloc_opts :: "(string \<times> string) list" where
  "mimalloc_opts =
     [(''MIMALLOC_PAGE_RESET'', ''0''), (''MIMALLOC_DECOMMIT_DELAY'', ''1000''),
      (''MIMALLOC_ARENA_EAGER_COMMIT'', ''1''), (''MIMALLOC_LARGE_OS_PAGES'', ''1''),
      (''MIMALLOC_EAGER_REGION_COMMIT'', ''1''), (''MIMALLOC_RESET_DELAY'', ''0'')]"

definition set_mimalloc_opts :: "env_vars \<Rightarrow> env_vars" where
  "set_mimalloc_opts vars = foldl (\<lambda>vs (k, v). vs(k \<mapsto> v)) vars mimalloc_opts"

text \<open>
  What \<open>init_tracing\<close> uses of \<open>EnvFilter\<close>: the filter in the environment, which may be missing or
  wrong, one that is parsed, and one that is made of a text whatever it holds.
\<close>

record 'f filter_lib =
  from_default_env :: "env_vars \<Rightarrow> string + 'f"
  try_new :: "string \<Rightarrow> string + 'f"
  filter_new :: "string \<Rightarrow> 'f"

definition init_tracing :: "'f filter_lib \<Rightarrow> env_vars \<Rightarrow> string \<Rightarrow> 'f" where
  "init_tracing lib vars log_level =
     (case from_default_env lib vars of
        Inr f \<Rightarrow> f
      | Inl e \<Rightarrow> (case try_new lib log_level of Inr f \<Rightarrow> f | Inl e \<Rightarrow> filter_new lib ''info''))"

text \<open>
  \<open>main\<close>: the options of the allocator are set first, then the runtime starts, which may fail;
  the filter of the log is there unless only the health was asked for.
\<close>

definition main_run ::
    "'d env \<Rightarrow> 'f filter_lib \<Rightarrow> string + unit \<Rightarrow> env_vars \<Rightarrow> os \<Rightarrow> cli \<Rightarrow> string + 'f option \<times> warning list \<times> launch" where
  "main_run env lib runtime_new vars s a =
     (let vars' = set_mimalloc_opts vars in
      map_ok (\<lambda>u. (if arg_health a then None else Some (init_tracing lib vars' (arg_log_level a)),
                   inner_main env vars' s a)) runtime_new)"

section \<open>The socket of the HTTP server\<close>

record ('a, 'c) net_lib =
  to_socket_addrs :: "string \<Rightarrow> nat \<Rightarrow> string + 'a list"
  bind_socket :: "'a \<Rightarrow> string + unit"
  from_pem_file :: "path \<Rightarrow> path \<Rightarrow> string + 'c"

datatype ('a, 'c) listener = Plain 'a | Secure 'a 'c

definition resolve_addr :: "('a, 'c) net_lib \<Rightarrow> string \<Rightarrow> nat \<Rightarrow> string + 'a" where
  "resolve_addr net h port =
     and_then (to_socket_addrs net h port) (\<lambda>as.
     case as of
       [] \<Rightarrow> Inl (''could not resolve bind address '' @ quoted (h @ '':'' @ show_nat port))
     | a # _ \<Rightarrow> Inr a)"

definition tls_server_config :: "('a, 'c) net_lib \<Rightarrow> path \<Rightarrow> path \<Rightarrow> string + 'c" where
  "tls_server_config net cert key_path =
     map_err (\<lambda>e. ''failed to load TLS certificate '' @ quoted (path_display cert) @ '' and key ''
                @ quoted (path_display key_path) @ '': '' @ e)
       (from_pem_file net cert key_path)"

text \<open>The state that the handlers share, and the socket; the server then runs on both.\<close>

definition create_http_server ::
    "('a, 'c) net_lib \<Rightarrow> (string \<Rightarrow> string option) \<Rightarrow> config \<Rightarrow> nat \<Rightarrow> string + http_state \<times> ('a, 'c) listener" where
  "create_http_server net vars cfg port =
     and_then (resolve_addr net (host (server cfg)) port) (\<lambda>a.
     case (tls_cert (server cfg), tls_key (server cfg)) of
       (Some cert, Some key_path) \<Rightarrow>
         and_then (tls_server_config net cert key_path) (\<lambda>c.
         map_ok (\<lambda>u. (initial_state vars cfg, Secure a c)) (bind_socket net a))
     | _ \<Rightarrow> map_ok (\<lambda>u. (initial_state vars cfg, Plain a)) (bind_socket net a))"

section \<open>Facts\<close>

lemma inner_main_config:
  assumes "inner_main env vars s a = (ws, l)" "l = RunStdio cfg \<or> l = RunHttp cfg p"
  shows "enabled (server cfg) = enabled_categories (arg_categories a)"
    and "access_mode (server cfg) = arg_access_mode a"
    and "auth_token (server cfg) = arg_auth_token a"
    and "ws = warnings a cfg"
  using assms
  by (auto simp: inner_main_def config_from_args_def args.defs result_simps Let_def
      split: if_splits sum.splits)

text \<open>
  One of certificate and key without the other is refused by the configuration, so a server
  that listens in plaintext was started with neither.
\<close>

lemma inner_main_tls:
  assumes "inner_main env vars s a = (ws, RunHttp cfg p)"
  shows "tls_cert (server cfg) = None \<longleftrightarrow> tls_key (server cfg) = None"
proof -
  have "config_from_args vars s (args.truncate a) = Inr cfg"
    using assms by (auto simp: inner_main_def split: if_splits sum.splits)
  then show ?thesis
    unfolding config_from_args_def Let_def by (auto simp: result_simps split: if_splits)
qed

text \<open>The options of the allocator have no part in what is started.\<close>

lemma set_mimalloc_opts_other: "k \<notin> fst ` set mimalloc_opts \<Longrightarrow> set_mimalloc_opts vars k = vars k"
  by (simp add: set_mimalloc_opts_def mimalloc_opts_def)

lemma config_ignores_mimalloc: "config_from_args (set_mimalloc_opts vars) s a = config_from_args vars s a"
proof -
  have "set_mimalloc_opts vars ''MCP_TLS_CERT'' = vars ''MCP_TLS_CERT''"
    "set_mimalloc_opts vars ''MCP_TLS_KEY'' = vars ''MCP_TLS_KEY''"
    by (rule set_mimalloc_opts_other, simp add: mimalloc_opts_def)+
  then have "tls_path (set_mimalloc_opts vars) f ''MCP_TLS_CERT'' = tls_path vars f ''MCP_TLS_CERT''"
    "tls_path (set_mimalloc_opts vars) f ''MCP_TLS_KEY'' = tls_path vars f ''MCP_TLS_KEY''" for f
    by (simp_all add: tls_path_def cong: option.case_cong)
  then show ?thesis by (simp only: config_from_args_def)
qed

lemma main_starts:
  "main_run env lib (Inr ()) vars s a = Inr (f, r) \<Longrightarrow> r = inner_main env vars s a"
  by (auto simp: main_run_def inner_main_def config_ignores_mimalloc Let_def)

lemma http_server_listens:
  assumes "create_http_server net vars cfg p = Inr (st, l)"
    and "tls_cert (server cfg) = None \<longleftrightarrow> tls_key (server cfg) = None"
  shows "(\<exists>a. l = Plain a) \<longleftrightarrow> tls_cert (server cfg) = None"
    and "sessions st = {}" "http_config st = cfg"
  using assms
  by (cases "tls_cert (server cfg)"; cases "tls_key (server cfg)";
      auto simp: create_http_server_def initial_state_def result_simps)+

end
