(* ===== verification/Launch_Properties.thy ===== *)
theory Launch_Properties
  imports Launch Http_Properties
begin

text \<open>The exposure of tools, from the command line to the requests.\<close>

lemma map_of_add_hints_other: "jget (enhance_tool_descriptor d) ''name'' = jget d ''name''"
  by (cases d)
    (auto simp: enhance_tool_descriptor_def merge_app_meta_def map_of_on_object Let_def
      split: option.split)

definition names_of :: "json list \<Rightarrow> string set" where
  "names_of ds = {n. \<exists>d\<in>set ds. Option.bind (jget d ''name'') as_str = Some n}"

lemma available_names:
  "names_of (available_descriptors defs cats) = {n \<in> names_of defs. is_tool_available n cats}"
  by (auto simp: names_of_def available_descriptors_def map_of_add_hints_other split: option.splits)

definition flagged :: "category_flags \<Rightarrow> string \<Rightarrow> bool" where
  "flagged f name = (\<exists>t\<in>set all_tools. tool_name t = name \<and>
     (enable_all f \<or>
      (case category t of Read \<Rightarrow> enable_read f | Write \<Rightarrow> enable_write f | Delete \<Rightarrow> enable_delete f
       | Compress \<Rightarrow> enable_compress f | Crypto \<Rightarrow> enable_crypto f | Csv \<Rightarrow> enable_csv f)))"

lemma flagged_available: "is_tool_available name (enabled_categories f) \<longleftrightarrow> flagged f name"
  by (simp add: flagged_def is_tool_available_iff enabled_categories_iff)

text \<open>
  C25: what the command line enables is what \<open>tools/list\<close> shows and what \<open>tools/call\<close> accepts. A
  descriptor is listed exactly when a flag enables its category; and a call of a tool is
  answered by \<open>method not found\<close> exactly when no flag enables it, so that nothing is exposed
  without a flag.
\<close>

theorem exposure_follows_flags:
  assumes "inner_main env vars s a = (ws, l)" "l = RunStdio cfg \<or> l = RunHttp cfg p"
    and "str_param (params req) ''name'' = Some name"
  shows "names_of (available_descriptors (tool_defs env) (enabled (server cfg))) =
      {n \<in> names_of (tool_defs env). flagged (arg_categories a) n} \<and>
    (fst (handle_tools_call env r cfg req w) = Failed (MethodNotFound name) \<longleftrightarrow>
      \<not> flagged (arg_categories a) name)"
  using assms(3)
  unfolding available_names inner_main_config(1) [OF assms(1,2)] handle_tools_call_def
    flagged_available
  by (auto simp: then_do_def lift_def failed_def give_def as_tool_result_def
      split: prod.split outcome.split)

definition demo_cli :: cli where
  "demo_cli = \<lparr>arg_directories = [''/srv''], arg_host = ''0.0.0.0'', arg_http_port = 3001,
     arg_max_file_size = 1, arg_max_decompressed_size = 1, arg_access_mode = Unrestricted,
     arg_follow_symlinks = False, arg_request_timeout = 30, arg_max_request_bytes = 4096,
     arg_max_http_body_bytes = 4096, arg_auth_token = None, arg_tls_cert = None, arg_tls_key = None,
     arg_categories = \<lparr>enable_all = False, enable_read = True, enable_write = False,
       enable_delete = False, enable_compress = False, enable_crypto = False, enable_csv = False\<rparr>,
     arg_stdio = False, arg_health = False, arg_log_level = ''info''\<rparr>"

theorem exposure_follows_flags_witness:
  "\<exists>cfg ws. inner_main demo_env (\<lambda>v. None) demo_os demo_cli = (ws, RunHttp cfg 3001) \<and>
     fst (handle_tools_call demo_env demo_draws cfg (demo_call ''write_file'' []) demo_proc) =
       Failed (MethodNotFound ''write_file'')"
proof -
  obtain ws cfg where run: "inner_main demo_env (\<lambda>v. None) demo_os demo_cli = (ws, RunHttp cfg 3001)"
    by (simp add: inner_main_def demo_cli_def config_from_args_def args.defs tls_path_def Let_def)
  have "\<not> flagged (arg_categories demo_cli) ''write_file''"
    by (simp add: flagged_def demo_cli_def all_tools_def)
  with exposure_follows_flags [OF run disjI2 [OF refl] demo_call_name, where w = demo_proc and r = demo_draws] run
  show ?thesis by blast
qed

end
