(* ===== verification/Race_Properties.thy ===== *)
theory Race_Properties
  imports Beneath_Cap
begin

text \<open>
  Other processes may change the files between the check of a path and its use. A tool that
  works through the handle of its resolved path stays inside all the same; one that goes back to
  the path by name (copies, archives, compression, encryption) does not.
\<close>

text \<open>What a handler can do with a resolved path that changes files.\<close>

definition handle_operations ::
    "'d cap_std \<Rightarrow> 'd resolved \<Rightarrow> u8 list \<Rightarrow> nat \<Rightarrow> (os \<Rightarrow> unit result \<times> os) list" where
  "handle_operations cap r content mode =
     [resolved_write cap r content, resolved_create_dir_all cap r, resolved_remove_file cap r,
      resolved_remove_dir cap r, resolved_remove_dir_all cap r, resolved_set_permissions cap r mode]"

lemma resolve_stands:
  assumes "cap_beneath at cap" "resolve cap s sb p = Inr r"
  shows "at s (dir r) \<in> root_locs at s sb"
proof -
  from assms(2) obtain root h where "roots sb root = Some h" "cap_try_clone cap s h = Inr (dir r)"
    by (rule resolve_InrE)
  with assms(1) show ?thesis by (auto simp: cap_beneath_def root_locs_def ran_def)
qed

text \<open>
  A path that was checked is safe to use at any later time. Whatever other processes have
  done to the files since, also when they have put links in its place, an operation through the
  handle of the resolved path changes nothing outside the directories that were allowed.
\<close>

lemma checked_handles_survive_races:
  assumes "cap_beneath at cap" "\<And>s t. at s = at t"
    and "resolve cap checked sb p = Inr r" "operation \<in> set (handle_operations cap r content mode)"
  shows "changed_beneath (root_locs at checked sb) later (snd (operation later))"
proof -
  obtain x s' where op: "operation later = (x, s')" by (cases "operation later")
  with assms(4) have "changed_below (at later (dir r)) later s'"
    by (auto simp: handle_operations_def
        intro: write_changed [OF assms(1)] resolved_ops_changed [OF assms(1)])
  moreover have "at later (dir r) \<in> root_locs at checked sb"
    using resolve_stands [OF assms(1,3)] assms(2) [of later checked] by simp
  ultimately show ?thesis using op by (auto intro: changed_below_beneath)
qed

definition raced_os :: os where
  "raced_os = put_node demo_os [''srv'', ''notes.txt''] (Some (LinkNode (abs_path [''etc'', ''passwd''])))"

lemma raced_write_contained:
  "changed_beneath {[''srv'']} raced_os (snd (resolved_write beneath_cap
     \<lparr>dir = [''srv''], rel = [Normal ''notes.txt''], requested = ''sub/../notes.txt'',
      canonical = abs_path [''srv'', ''notes.txt'']\<rparr> [] raced_os))"
  using checked_handles_survive_races [OF beneath_cap_contract _ demo_resolve,
      of "resolved_write beneath_cap _ []" "[]" 0 raced_os]
  by (simp add: handle_operations_def demo_root_locs)

text \<open>The same write by name goes through the link that has been put there.\<close>

lemma checked_names_lose_races:
  "is_ok (resolve_path beneath_cap demo_os demo_sandbox ''sub/../notes.txt'')"
  "fst (fs_write raced_os (abs_path [''srv'', ''notes.txt'']) []) = Inr ()"
  "lookup (tree (snd (fs_write raced_os (abs_path [''srv'', ''notes.txt'']) []))) [''etc'', ''passwd''] =
     Some (FileNode [])"
  by code_simp+

end
