(* ===== verification/Steps.thy ===== *)
theory Steps
  imports Crypto
begin

text \<open>
  Handlers cut into their steps. The server runs its requests as tasks, and each access to the
  files is a step of its own: between two of them other tasks, and other processes, have their
  turn. A \<open>cut\<close> is a handler that stops after its steps; \<open>run_cut\<close> runs it through. The tools that
  change files through a handle are cut at each of their accesses, the write of a file into its
  three parts; the tools that go by name stay one step, as does what only looks at files on the
  way of \<open>decrypt_file\<close>. Every cut is the handler when nothing comes between its steps.
\<close>

datatype ('d, 'a) cut = Over "'a outcome" | Step "'d proc \<Rightarrow> ('d, 'a) cut \<times> 'd proc"

primrec run_cut :: "('d, 'a) cut \<Rightarrow> ('d, 'a) action" where
  "run_cut (Over x) = (\<lambda>w. (x, w))"
| "run_cut (Step f) = (\<lambda>w. case map_prod run_cut id (f w) of (m, w') \<Rightarrow> m w')"

primrec cut_then :: "('d, 'a) cut \<Rightarrow> ('a \<Rightarrow> ('d, 'b) cut) \<Rightarrow> ('d, 'b) cut" where
  "cut_then (Over x) f =
     (case x of Done a \<Rightarrow> f a | Failed e \<Rightarrow> Over (Failed e) | Panicked \<Rightarrow> Over Panicked)"
| "cut_then (Step g) f = Step (\<lambda>w. map_prod (\<lambda>c. c f) id (map_prod cut_then id (g w)))"

declare run_cut.simps(2) [simp del] cut_then.simps(2) [simp del]

lemma run_Step [simp]: "run_cut (Step f) w = run_cut (fst (f w)) (snd (f w))"
  by (cases "f w") (simp add: run_cut.simps(2))

lemma cut_then_Step [simp]: "cut_then (Step g) f = Step (\<lambda>w. (cut_then (fst (g w)) f, snd (g w)))"
  by (simp add: cut_then.simps(2) map_prod_def case_prod_beta fun_eq_iff)

definition one_step :: "('d, 'a) action \<Rightarrow> ('d, 'a) cut" where
  "one_step m = Step (\<lambda>w. (Over (fst (m w)), snd (m w)))"

definition no_step :: "'a result \<Rightarrow> ('d, 'a) cut" where
  "no_step r = Over (outcome_of r)"

definition return_cut :: "'a \<Rightarrow> ('d, 'a) cut" where
  "return_cut a = Over (Done a)"

named_theorems cut_simps \<open>running cuts\<close>

lemma run_cut_then [cut_simps]: "run_cut (cut_then c f) = then_do (run_cut c) (\<lambda>a. run_cut (f a))"
proof (induction c)
  case (Over x)
  then show ?case by (auto simp: then_do_def fun_eq_iff split: outcome.split)
next
  case (Step g)
  have "run_cut (cut_then (fst (g w)) f) v = then_do (run_cut (fst (g w))) (\<lambda>a. run_cut (f a)) v" for w v
    using Step [of "g w" "fst (g w)"] by (metis fsts.intros rangeI)
  then show ?case by (simp add: then_do_def fun_eq_iff)
qed

lemma run_one_step [cut_simps]: "run_cut (one_step m) = m"
  by (simp add: one_step_def fun_eq_iff)

lemma run_no_step [cut_simps]: "run_cut (no_step r) = lift r"
  by (simp add: no_step_def lift_def)

lemma run_return [cut_simps]: "run_cut (return_cut a) = give a"
  by (simp add: return_cut_def give_def)

lemma lift_Inr [cut_simps]: "then_do (lift (Inr a)) f = f a" "then_do (give a) f = f a"
  by (simp_all add: then_do_def lift_def give_def)

text \<open>What a cut ends with, changed.\<close>

primrec map_cut :: "('a outcome \<Rightarrow> 'b outcome) \<Rightarrow> ('d, 'a) cut \<Rightarrow> ('d, 'b) cut" where
  "map_cut h (Over x) = Over (h x)"
| "map_cut h (Step f) = Step (\<lambda>w. map_prod (map_cut h) id (f w))"

declare map_cut.simps(2) [simp del]

lemma map_cut_Step [simp]: "map_cut h (Step f) = Step (\<lambda>w. (map_cut h (fst (f w)), snd (f w)))"
  by (simp add: map_cut.simps(2) map_prod_def case_prod_beta)

lemma run_map_cut: "run_cut (map_cut h c) w = (h (fst (run_cut c w)), snd (run_cut c w))"
proof (induction c arbitrary: w)
  case (Step g)
  then show ?case by simp (metis fsts.intros rangeI)
qed simp

section \<open>The steps of a resolved path\<close>

definition resolve_cut :: "'d runtime \<Rightarrow> config \<Rightarrow> string \<Rightarrow> ('d, 'd resolved) cut" where
  "resolve_cut rt cfg p =
     cut_then (one_step (the_sandbox rt cfg)) (\<lambda>sb. one_step (query (\<lambda>s. resolve (cap rt) s sb p)))"

lemma run_resolve_cut [cut_simps]: "run_cut (resolve_cut rt cfg p) = resolve_now rt cfg p"
  by (simp add: resolve_cut_def resolve_now_def cut_simps)

text \<open>
  \<open>Resolved::write\<close>: the handle is cloned by the handler; the blocking task then creates the
  file, writes it and flushes it.
\<close>

definition write_cut :: "'d runtime \<Rightarrow> 'd resolved \<Rightarrow> u8 list \<Rightarrow> ('d, unit) cut" where
  "write_cut rt r content =
     cut_then (one_step (query (\<lambda>s. clone_dir (cap rt) s (dir r)))) (\<lambda>d.
     cut_then (one_step (update (\<lambda>s.
       map_fst_err (about ''Cannot create file'' (requested r)) (cap_create (cap rt) s d (rel r))))) (\<lambda>file.
     cut_then (one_step (update (\<lambda>s.
       map_fst_err (fs_error ''Cannot write file'') (cap_write_all (cap rt) s file content)))) (\<lambda>u.
     one_step (update (\<lambda>s.
       map_fst_err (fs_error ''Cannot flush file'') (cap_flush (cap rt) s file))))))"

lemma run_write_cut [cut_simps]: "run_cut (write_cut rt r content) = update (resolved_write (cap rt) r content)"
proof
  fix w
  show "run_cut (write_cut rt r content) w = update (resolved_write (cap rt) r content) w"
    by (auto simp: write_cut_def cut_simps then_do_def query_def update_def resolved_write_def on_clone_def
        map_fst_err_def split: prod.split sum.split outcome.split)
qed

text \<open>The other operations of a resolved path: the clone of the handle, then one call through it.\<close>

definition handle_cut ::
    "'d runtime \<Rightarrow> 'd resolved \<Rightarrow> (os \<Rightarrow> 'd \<Rightarrow> 'a result \<times> os) \<Rightarrow> ('d, 'a) cut" where
  "handle_cut rt r f =
     cut_then (one_step (query (\<lambda>s. clone_dir (cap rt) s (dir r)))) (\<lambda>d.
     one_step (update (\<lambda>s. f s d)))"

lemma run_handle_cut: "run_cut (handle_cut rt r f) = update (on_clone (cap rt) r f)"
  by (auto simp: handle_cut_def cut_simps then_do_def query_def update_def on_clone_def fun_eq_iff
      split: prod.split sum.split)

lemma query_and_then: "query (\<lambda>s. and_then (f s) (g s)) = then_do (query f) (\<lambda>a. query (\<lambda>s. g s a))"
proof
  fix w :: "'d proc"
  show "query (\<lambda>s. and_then (f s) (g s)) w = then_do (query f) (\<lambda>a. query (\<lambda>s. g s a)) w"
    by (cases "f (disk w)") (simp_all add: then_do_def query_def)
qed

lemma query_map_ok: "query (\<lambda>s. map_ok h (f s)) = then_do (query f) (\<lambda>a. give (h a))"
proof
  fix w :: "'d proc"
  show "query (\<lambda>s. map_ok h (f s)) w = then_do (query f) (\<lambda>a. give (h a)) w"
    by (cases "f (disk w)") (simp_all add: then_do_def query_def give_def)
qed

lemma run_cut_cases [cut_simps]:
  "run_cut (if b then c else d) = (if b then run_cut c else run_cut d)"
  "run_cut (case v of None \<Rightarrow> c | Some a \<Rightarrow> f a) = (case v of None \<Rightarrow> run_cut c | Some a \<Rightarrow> run_cut (f a))"
  "run_cut (case x of (a, e) \<Rightarrow> h a e) = (case x of (a, e) \<Rightarrow> run_cut (h a e))"
  "update (if b then k else l) = (if b then update k else update l)"
  by (simp_all split: option.split prod.split)

text \<open>The reads: metadata, and the bytes of a file.\<close>

definition metadata_cut :: "'d runtime \<Rightarrow> 'd resolved \<Rightarrow> ('d, cap_meta) cut" where
  "metadata_cut rt r =
     cut_then (one_step (query (\<lambda>s. clone_dir (cap rt) s (dir r)))) (\<lambda>d.
     one_step (query (\<lambda>s.
       map_err (not_found_or (requested r) ''Cannot read metadata'') (cap_metadata (cap rt) s d (rel r)))))"

definition read_cut :: "'d runtime \<Rightarrow> 'd resolved \<Rightarrow> ('d, u8 list) cut" where
  "read_cut rt r =
     cut_then (one_step (query (\<lambda>s. clone_dir (cap rt) s (dir r)))) (\<lambda>d.
     cut_then (one_step (query (\<lambda>s.
       map_err (not_found_or (requested r) ''Cannot read file'') (cap_open (cap rt) s d (rel r))))) (\<lambda>file.
     one_step (query (\<lambda>s. map_err (fs_error ''Cannot read file'') (cap_read_to_end (cap rt) s file)))))"

lemma run_reads [cut_simps]:
  "run_cut (metadata_cut rt r) = query (\<lambda>s. resolved_metadata (cap rt) s r)"
  "run_cut (read_cut rt r) = query (\<lambda>s. resolved_read (cap rt) s r)"
  by (simp_all add: metadata_cut_def read_cut_def cut_simps query_and_then resolved_metadata_def
      resolved_read_def)

section \<open>The tools\<close>

definition write_file_cut :: "'d runtime \<Rightarrow> config \<Rightarrow> json option \<Rightarrow> ('d, json) cut" where
  "write_file_cut rt cfg args =
     cut_then (no_step (get_str_arg args ''path'')) (\<lambda>p.
     cut_then (no_step (get_str_arg args ''content'')) (\<lambda>content.
     cut_then (resolve_cut rt cfg p) (\<lambda>r.
     cut_then (write_cut rt r (as_bytes content)) (\<lambda>u.
     return_cut (success_at (canonical r))))))"

definition edit_file_cut :: "'d runtime \<Rightarrow> config \<Rightarrow> json option \<Rightarrow> ('d, json) cut" where
  "edit_file_cut rt cfg args =
     cut_then (no_step (get_str_arg args ''path'')) (\<lambda>p.
     cut_then (no_step (get_edits_arg args)) (\<lambda>edits.
     let dry_run = unwrap_or False (get_opt_bool args ''dryRun'') in
     cut_then (resolve_cut rt cfg p) (\<lambda>r.
     cut_then (metadata_cut rt r) (\<lambda>meta.
     if cap_len meta > max_file_size cfg then
       Over (Failed (FilesystemError (too_large (cap_len meta) (max_file_size cfg))))
     else
       cut_then (read_cut rt r) (\<lambda>bs.
       let content = from_utf8_lossy bs in
       case edit_loop (detect_indent content) content edits of
         None \<Rightarrow> Over Panicked
       | Some res \<Rightarrow>
           cut_then (no_step res) (\<lambda>(text, diffs).
           cut_then (if dry_run then return_cut () else write_cut rt r (as_bytes text)) (\<lambda>u.
           return_cut (obj [(''success'', JBool (\<not> dry_run)), (''dryRun'', JBool dry_run),
                    (''edits'', JArr diffs), (''path'', jpath (canonical r))]))))))))"

definition create_directory_cut :: "'d runtime \<Rightarrow> config \<Rightarrow> json option \<Rightarrow> ('d, json) cut" where
  "create_directory_cut rt cfg args =
     cut_then (no_step (get_str_arg args ''path'')) (\<lambda>p.
     cut_then (resolve_cut rt cfg p) (\<lambda>r.
     cut_then (handle_cut rt r (\<lambda>s d. map_fst_err (about ''Cannot create directory'' (requested r))
       (cap_create_dir_all (cap rt) s d (rel r)))) (\<lambda>u.
     return_cut (success_at (canonical r)))))"

definition delete_file_cut :: "'d runtime \<Rightarrow> config \<Rightarrow> json option \<Rightarrow> ('d, json) cut" where
  "delete_file_cut rt cfg args =
     cut_then (no_step (get_str_arg args ''path'')) (\<lambda>p.
     cut_then (resolve_cut rt cfg p) (\<lambda>r.
     cut_then (metadata_cut rt r) (\<lambda>meta.
     if \<not> cap_is_file meta then Over (Failed (not_a_file p))
     else
       cut_then (handle_cut rt r (\<lambda>s d. map_fst_err (about ''Cannot remove file'' (requested r))
         (cap_remove_file (cap rt) s d (rel r)))) (\<lambda>u.
       return_cut (success_at (canonical r))))))"

definition delete_directory_cut :: "'d runtime \<Rightarrow> config \<Rightarrow> json option \<Rightarrow> ('d, json) cut" where
  "delete_directory_cut rt cfg args =
     cut_then (no_step (get_str_arg args ''path'')) (\<lambda>p.
     let recursive = unwrap_or False (get_opt_bool args ''recursive'') in
     cut_then (resolve_cut rt cfg p) (\<lambda>r.
     cut_then
       (if recursive then
          handle_cut rt r (\<lambda>s d. map_fst_err (about ''Cannot remove directory tree'' (requested r))
            (cap_remove_dir_all (cap rt) s d (rel r)))
        else
          handle_cut rt r (\<lambda>s d. map_fst_err (about ''Cannot remove directory'' (requested r))
            (cap_remove_dir (cap rt) s d (rel r)))) (\<lambda>u.
     return_cut (obj [(''success'', JBool True), (''path'', jpath (canonical r)),
                (''recursive'', JBool recursive)]))))"

definition set_permissions_cut :: "'d runtime \<Rightarrow> config \<Rightarrow> json option \<Rightarrow> ('d, json) cut" where
  "set_permissions_cut rt cfg args =
     cut_then (no_step (get_str_arg args ''path'')) (\<lambda>p.
     cut_then (no_step (get_str_arg args ''mode'')) (\<lambda>mode_str.
     cut_then (resolve_cut rt cfg p) (\<lambda>r.
     cut_then (no_step (ok_or
       (InvalidParams (''Invalid mode: '' @ mode_str @ ''. Use octal format (e.g. 644, 755)''))
       (unsigned_from_str_radix 8 (2 ^ 32 - 1) mode_str))) (\<lambda>mode.
     cut_then (handle_cut rt r (\<lambda>s d. map_fst_err (about ''Cannot set permissions on'' (requested r))
       (cap_set_permissions (cap rt) s d (rel r) mode))) (\<lambda>u.
     return_cut (obj [(''success'', JBool True), (''path'', jpath (canonical r)),
                (''mode'', JStr mode_str)]))))))"

definition get_file_info_cut :: "'d runtime \<Rightarrow> config \<Rightarrow> json option \<Rightarrow> ('d, json) cut" where
  "get_file_info_cut rt cfg args =
     cut_then (no_step (get_str_arg args ''path'')) (\<lambda>p.
     cut_then (resolve_cut rt cfg p) (\<lambda>r.
     cut_then (metadata_cut rt r) (\<lambda>meta.
     return_cut (info_report (canonical r) meta))))"

text \<open>Run through, the cuts are the handlers.\<close>

lemma run_tool_cuts:
  "run_cut (write_file_cut rt cfg args) = write_file rt cfg args"
  "run_cut (create_directory_cut rt cfg args) = create_directory rt cfg args"
  "run_cut (delete_file_cut rt cfg args) = delete_file rt cfg args"
  "run_cut (delete_directory_cut rt cfg args) = delete_directory rt cfg args"
  "run_cut (set_permissions_cut rt cfg args) = set_permissions rt cfg args"
  "run_cut (get_file_info_cut rt cfg args) = get_file_info rt cfg args"
  by (simp_all add: write_file_cut_def write_file_def create_directory_cut_def create_directory_def
      delete_file_cut_def delete_file_def delete_directory_cut_def delete_directory_def
      set_permissions_cut_def set_permissions_def get_file_info_cut_def get_file_info_def
      resolved_create_dir_all_def resolved_remove_file_def resolved_remove_dir_def
      resolved_remove_dir_all_def resolved_set_permissions_def cut_simps run_handle_cut Let_def failed_def panicked_def cong: if_cong)

lemma run_edit_file_cut: "run_cut (edit_file_cut rt cfg args) = edit_file rt cfg args"
  by (simp add: edit_file_cut_def edit_file_def cut_simps Let_def resolved_read_to_string_def query_map_ok
      then_do_assoc failed_def panicked_def cong: if_cong option.case_cong)

definition decrypt_file_cut ::
    "'d runtime \<Rightarrow> crypto_lib \<Rightarrow> config \<Rightarrow> json option \<Rightarrow> ('d, json) cut" where
  "decrypt_file_cut rt lib cfg args =
     cut_then (no_step (get_str_arg args ''path'')) (\<lambda>p.
     cut_then (resolve_cut rt cfg p) (\<lambda>r.
     cut_then (read_cut rt r) (\<lambda>file_data.
     cut_then (no_step (map_err (\<lambda>e. InvalidParams (''Invalid encrypted file: '' @ e))
         (parse_encrypted file_data))) (\<lambda>(algo, enc_key, nonce, body).
     cut_then (no_step (id_to_algorithm algo)) (\<lambda>algorithm.
     cut_then (one_step (derive_output rt cfg (canonical r) (get_opt_str args ''output'') (Strip ''.enc''))) (\<lambda>out.
     cut_then (one_step (output_differs out (canonical r))) (\<lambda>u.
     cut_then (one_step (read_key_file rt lib cfg (get_opt_str args ''keyFile''))) (\<lambda>file_key.
     cut_then
       (one_step (blocking_read rt ''Decrypt'' (\<lambda>s.
          decrypt_bytes lib algo enc_key nonce body (get_opt_str args ''key'') file_key
            (get_opt_str args ''privateKey''))))
       (\<lambda>plain.
     cut_then (resolve_cut rt cfg (lossy (path_text out))) (\<lambda>r_out.
     cut_then (write_cut rt r_out plain) (\<lambda>u.
     return_cut (obj [(''success'', JBool True), (''source'', jpath (canonical r)),
                (''output'', jpath out), (''algorithm'', JStr algorithm),
                (''decryptedSize'', jnat (length plain))]))))))))))))"

lemma run_decrypt_file_cut: "run_cut (decrypt_file_cut rt lib cfg args) = decrypt_file rt lib cfg args"
  by (simp add: decrypt_file_cut_def decrypt_file_def cut_simps)

end
