(* ===== verification/Request_Steps.thy ===== *)
theory Request_Steps
  imports Steps Server_Effects
begin

text \<open>
  Requests in steps, and runs in which the steps of many requests, and what other processes do,
  come in any order.
\<close>

section \<open>Calls and requests\<close>

definition cut_handlers :: "'d env \<Rightarrow> config \<Rightarrow> json option \<Rightarrow> (string \<times> ('d, json) cut) list" where
  "cut_handlers env cfg args =
    [(''write_file'', write_file_cut (rt env) cfg args),
     (''edit_file'', edit_file_cut (rt env) cfg args),
     (''create_directory'', create_directory_cut (rt env) cfg args),
     (''delete_file'', delete_file_cut (rt env) cfg args),
     (''delete_directory'', delete_directory_cut (rt env) cfg args),
     (''get_file_info'', get_file_info_cut (rt env) cfg args),
     (''set_permissions'', set_permissions_cut (rt env) cfg args),
     (''decrypt_file'', decrypt_file_cut (rt env) (ciphers env) cfg args)]"

text \<open>A call of a tool, through the gates of \<open>handle_tools_call\<close>.\<close>

definition dispatch_cut ::
    "'d env \<Rightarrow> draws \<Rightarrow> config \<Rightarrow> string \<Rightarrow> json option \<Rightarrow> ('d, json) cut" where
  "dispatch_cut env r cfg name args =
     (case map_of (cut_handlers env cfg args) name of
        Some c \<Rightarrow> c
      | None \<Rightarrow> one_step (dispatch env r cfg name args))"

definition tool_outcome :: "'d env \<Rightarrow> string \<Rightarrow> json outcome \<Rightarrow> json outcome" where
  "tool_outcome env name x =
     (case x of
        Done v \<Rightarrow> Done (tool_success env name v)
      | Failed e \<Rightarrow> Done (tool_error (error_text e))
      | Panicked \<Rightarrow> Panicked)"

definition call_cut :: "'d env \<Rightarrow> draws \<Rightarrow> config \<Rightarrow> json_rpc_request \<Rightarrow> ('d, json) cut" where
  "call_cut env r cfg req =
     cut_then (no_step (ok_or (InvalidParams (''Missing '' @ quoted ''name'' @ '' parameter''))
       (str_param (params req) ''name''))) (\<lambda>name.
     if \<not> is_tool_available name (enabled (server cfg)) then Over (Failed (MethodNotFound name))
     else if access_mode (server cfg) = ReadOnly \<and> is_write_tool name then
       return_cut (tool_error (''Operation '' @ quoted name @ '' is not allowed in read-only mode''))
     else
       map_cut (tool_outcome env name)
         (dispatch_cut env r cfg name (Option.bind (params req) (\<lambda>p. jget p ''arguments''))))"

definition request_cut :: "'d env \<Rightarrow> draws \<Rightarrow> config \<Rightarrow> json_rpc_request \<Rightarrow> ('d, json) cut" where
  "request_cut env r cfg req =
     (if rpc_method req = ''tools/call'' then call_cut env r cfg req
      else one_step (process_request env r cfg req))"

lemma handlers_in_steps:
  "map_of (handlers env r cfg args) ''write_file'' = Some (write_file (rt env) cfg args)"
  "map_of (handlers env r cfg args) ''edit_file'' = Some (edit_file (rt env) cfg args)"
  "map_of (handlers env r cfg args) ''create_directory'' = Some (create_directory (rt env) cfg args)"
  "map_of (handlers env r cfg args) ''delete_file'' = Some (delete_file (rt env) cfg args)"
  "map_of (handlers env r cfg args) ''delete_directory'' = Some (delete_directory (rt env) cfg args)"
  "map_of (handlers env r cfg args) ''get_file_info'' = Some (get_file_info (rt env) cfg args)"
  "map_of (handlers env r cfg args) ''set_permissions'' = Some (set_permissions (rt env) cfg args)"
  "map_of (handlers env r cfg args) ''decrypt_file'' = Some (decrypt_file (rt env) (ciphers env) cfg args)"
  by (simp_all add: handlers_def)

lemma run_dispatch_cut: "run_cut (dispatch_cut env r cfg name args) = dispatch env r cfg name args"
proof (cases "map_of (cut_handlers env cfg args) name")
  case (Some c)
  then have "(name, c) \<in> set (cut_handlers env cfg args)" by (rule map_of_SomeD)
  then have "map_of (handlers env r cfg args) name = Some (run_cut c)"
    by (auto simp: cut_handlers_def handlers_in_steps run_tool_cuts run_edit_file_cut run_decrypt_file_cut)
  with Some show ?thesis by (simp add: dispatch_cut_def dispatch_def)
qed (simp add: dispatch_cut_def run_one_step)

lemma run_call_cut: "run_cut (call_cut env r cfg req) = handle_tools_call env r cfg req"
proof -
  have "run_cut (map_cut (tool_outcome env name) c) = as_tool_result env name (run_cut c)" for name c
    by (auto simp: fun_eq_iff run_map_cut as_tool_result_def tool_outcome_def split: prod.split outcome.split)
  then show ?thesis
    by (simp add: call_cut_def handle_tools_call_def cut_simps run_dispatch_cut failed_def cong: if_cong)
qed

section \<open>Runs of steps\<close>

text \<open>
  The tasks are cuts of the set \<open>T\<close>, and more come in at any time; each step is one of a task or
  a change of the files by others, which are held to \<open>E\<close>. A run tells the files before and after
  each step of a task, and where the tasks stand; a task that was dropped has just no more steps.
\<close>

inductive weaves ::
    "('d, 'a) cut set \<Rightarrow> (os \<Rightarrow> os \<Rightarrow> bool) \<Rightarrow> 'd proc \<Rightarrow> (os \<times> os) list \<Rightarrow> ('d, 'a) cut list \<Rightarrow> 'd proc \<Rightarrow> bool"
  for T E w where
  at_rest: "weaves T E w [] [] w"
| comes: "weaves T E w steps cs v \<Longrightarrow> c \<in> T \<Longrightarrow> weaves T E w steps (cs @ [c]) v"
| moves: "weaves T E w steps cs v \<Longrightarrow> i < length cs \<Longrightarrow> cs ! i = Step f \<Longrightarrow> f v = (c, v') \<Longrightarrow>
    weaves T E w (steps @ [(disk v, disk v')]) (cs[i := c]) v'"
| others: "weaves T E w steps cs v \<Longrightarrow> E (disk v) s \<Longrightarrow> weaves T E w steps cs (v\<lparr>disk := s\<rparr>)"

text \<open>A request that meets nobody is run through: its task can be taken to its end.\<close>

lemma weaves_through:
  assumes "weaves T E w steps (cs @ [c]) v" "run_cut c v = (x, v')"
  shows "\<exists>more. weaves T E w (steps @ more) (cs @ [Over x]) v'"
  using assms
proof (induction c arbitrary: steps v)
  case (Over y)
  then show ?case by (intro exI [of _ "[]"]) simp
next
  case (Step f)
  obtain d u where d: "f v = (d, u)" by (cases "f v")
  have "weaves T E w (steps @ [(disk v, disk u)]) (cs @ [d]) u"
    using weaves.moves [where f = f and v = v and c = d and v' = u, OF Step.prems(1), of "length cs"] d by simp
  moreover have "run_cut d u = (x, v')" using Step.prems(2) d by simp
  moreover have "d \<in> Basic_BNFs.fsts (f v)" using d by (simp add: fsts.simps)
  ultimately obtain more where "weaves T E w ((steps @ [(disk v, disk u)]) @ more) (cs @ [Over x]) v'"
    using Step.IH [of "f v" d "steps @ [(disk v, disk u)]" u] by blast
  then show ?case by (metis append_assoc)
qed

section \<open>What a task may do\<close>

text \<open>
  Every step of the cut, from a state with \<open>I\<close>, is one of \<open>R\<close> and leads to a state with \<open>I\<close>, and
  what the cut gives has \<open>P\<close>.
\<close>

inductive obeys :: "('d proc \<Rightarrow> bool) \<Rightarrow> (os \<Rightarrow> os \<Rightarrow> bool) \<Rightarrow> ('a \<Rightarrow> bool) \<Rightarrow> ('d, 'a) cut \<Rightarrow> bool"
  for I R P where
  ends: "(\<And>a. x = Done a \<Longrightarrow> P a) \<Longrightarrow> obeys I R P (Over x)"
| steps: "(\<And>w. I w \<Longrightarrow> R (disk w) (disk (snd (f w))) \<and> I (snd (f w)) \<and> obeys I R P (fst (f w))) \<Longrightarrow>
    obeys I R P (Step f)"

inductive_cases obeys_Step: "obeys I R P (Step f)"

lemma obeys_then:
  assumes "obeys I R P c" "\<And>a. P a \<Longrightarrow> obeys I R Q (f a)"
  shows "obeys I R Q (cut_then c f)"
  using assms(1)
proof (induction rule: obeys.induct)
  case (ends x)
  then show ?case by (cases x) (auto intro: obeys.ends assms(2))
next
  case (steps g)
  then show ?case by (auto intro!: obeys.steps)
qed

lemma obeys_map: "obeys I R P c \<Longrightarrow> obeys I R (\<lambda>a. True) (map_cut h c)"
  by (induction rule: obeys.induct) (auto intro!: obeys.intros)

lemma obeys_one_step:
  assumes "\<And>w. I w \<Longrightarrow> R (disk w) (disk (snd (m w))) \<and> I (snd (m w))"
    and "\<And>w a. I w \<Longrightarrow> fst (m w) = Done a \<Longrightarrow> P a"
  shows "obeys I R P (one_step m)"
  unfolding one_step_def using assms by (auto intro!: obeys.intros)

lemma obeys_no_step: "obeys I R (\<lambda>a. True) (no_step r)" "obeys I R (\<lambda>a. True) (return_cut a)"
  "obeys I R P (Over (Failed e))" "obeys I R P (Over Panicked)"
  by (auto simp: no_step_def return_cut_def intro: obeys.ends)

text \<open>What the tasks obey holds of a run, when the others keep to it as well.\<close>

lemma weaves_obeys:
  assumes "weaves T E w steps cs v" "I w" "\<And>c. c \<in> T \<Longrightarrow> obeys I R P c"
    and "\<And>v s. I v \<Longrightarrow> E (disk v) s \<Longrightarrow> I (v\<lparr>disk := s\<rparr>)"
  shows "I v \<and> (\<forall>(s, s')\<in>set steps. R s s') \<and> (\<forall>c\<in>set cs. obeys I R P c)"
  using assms(1)
proof (induction rule: weaves.induct)
  case (moves steps cs v i f c v')
  then have "obeys I R P (Step f)" by (metis nth_mem)
  with moves have "R (disk v) (disk v') \<and> I v' \<and> obeys I R P c"
    by (auto elim!: obeys_Step)
  with moves show ?case by (auto dest: set_update_subset_insert [THEN subsetD])
qed (use assms(2-4) in auto)

end
