(* ===== verification/Step_Properties.thy ===== *)
theory Step_Properties
  imports Request_Steps Run_Properties Race_Properties
begin

text \<open>
  What holds of requests whose steps come in any order. A tool that works through handles keeps
  to the allowed directories whatever happens between its steps; the whole server does when
  nobody else changes the files outside of them.
\<close>

section \<open>Steps through a handle\<close>

text \<open>
  The setting: the contract of the handles, which stay where they were opened, and the sandbox
  whose roots they are.
\<close>

definition held :: "(os \<Rightarrow> 'd \<Rightarrow> loc) \<Rightarrow> 'd cap_std \<Rightarrow> loc set \<Rightarrow> 'd sandbox \<Rightarrow> bool" where
  "held at c ls sb = (cap_beneath at c \<and> (\<forall>s t. at s = at t) \<and> (\<forall>s. root_locs at s sb = ls))"

definition within_roots :: "(os \<Rightarrow> 'd \<Rightarrow> loc) \<Rightarrow> loc set \<Rightarrow> 'd \<Rightarrow> bool" where
  "within_roots at ls h = (\<forall>s. \<exists>l\<in>ls. prefix l (at s h))"

lemma within_roots_changed:
  "within_roots at ls h \<Longrightarrow> changed_below (at s h) s s' \<Longrightarrow> changed_beneath ls s s'"
  unfolding within_roots_def by (meson changed_below_beneath)

lemma within_roots_at:
  assumes "held at c ls sb" "within_roots at ls h" "prefix (at s h) (at t d)"
  shows "within_roots at ls d"
  unfolding within_roots_def
proof
  fix u
  obtain l where "l \<in> ls" "prefix l (at s h)" using assms(2) by (auto simp: within_roots_def)
  moreover have "at u = at t" using assms(1) by (simp add: held_def)
  ultimately show "\<exists>l\<in>ls. prefix l (at u d)" using assms(3) by (metis prefix_order.trans)
qed

lemma within_roots_clone:
  assumes "held at c ls sb" "within_roots at ls h" "clone_dir c s h = Inr d"
  shows "within_roots at ls d"
proof -
  have "at s d = at s h" by (rule clone_at [OF _ assms(3)]) (use assms(1) in \<open>simp add: held_def\<close>)
  then show ?thesis using within_roots_at [OF assms(1,2), of s s d] by simp
qed

abbreviation built :: "'d sandbox \<Rightarrow> 'd proc \<Rightarrow> bool" where
  "built sb w \<equiv> once w = Some sb"

lemma obeys_reading:
  assumes "keeps (=) m" "keeps_cell m"
  shows "obeys (built sb) (changed_beneath ls) (\<lambda>a. True) (one_step m)"
proof (rule obeys_one_step)
  fix w assume "built sb w"
  moreover have "disk (snd (m w)) = disk w" using assms(1) by (metis keeps_def)
  ultimately show "changed_beneath ls (disk w) (disk (snd (m w))) \<and> built sb (snd (m w))"
    using assms(2) by (simp add: keeps_cell_def)
qed simp

lemma obeys_query:
  "(\<And>s a. f s = Inr a \<Longrightarrow> P a) \<Longrightarrow> obeys (built sb) (changed_beneath ls) P (one_step (query f))"
  by (rule obeys_one_step) (auto simp: query_def result_simps)

lemma obeys_update:
  assumes "\<And>s. changed_beneath ls s (snd (f s))" "\<And>s a. fst (f s) = Inr a \<Longrightarrow> P a"
  shows "obeys (built sb) (changed_beneath ls) P (one_step (update f))"
proof (rule obeys_one_step)
  fix w a
  assume "fst (update f w) = Done a"
  then show "P a" using assms(2) [of "disk w" a]
    by (cases "f (disk w)") (simp add: update_def result_simps)
next
  fix w assume "built sb w"
  then show "changed_beneath ls (disk w) (disk (snd (update f w))) \<and> built sb (snd (update f w))"
    using assms(1) [of "disk w"] by (cases "f (disk w)") (simp add: update_def)
qed

lemma obeys_weaken: "obeys I R P c \<Longrightarrow> (\<And>a. P a \<Longrightarrow> Q a) \<Longrightarrow> obeys I R Q c"
  by (induction rule: obeys.induct) (auto intro!: obeys.intros)

lemma obeys_resolve:
  assumes "held at (cap c) ls sb"
  shows "obeys (built sb) (changed_beneath ls) (\<lambda>r. within_roots at ls (dir r)) (resolve_cut c cfg p)"
  unfolding resolve_cut_def
proof (rule obeys_then)
  show "obeys (built sb) (changed_beneath ls) (\<lambda>sb'. sb' = sb) (one_step (the_sandbox c cfg))"
    by (rule obeys_one_step) (simp_all add: the_sandbox_eq)
next
  fix sb' assume [simp]: "sb' = sb"
  have "within_roots at ls (dir r)" if "resolve (cap c) s sb p = Inr r" for s r
    unfolding within_roots_def
  proof
    fix t
    have "at s (dir r) \<in> root_locs at s sb"
      by (rule resolve_stands [OF _ that]) (use assms in \<open>simp add: held_def\<close>)
    moreover have "at t = at s" "root_locs at s sb = ls" using assms by (simp_all add: held_def)
    ultimately show "\<exists>l\<in>ls. prefix l (at t (dir r))" by (metis prefix_order.refl)
  qed
  then show "obeys (built sb) (changed_beneath ls) (\<lambda>r. within_roots at ls (dir r))
      (one_step (query (\<lambda>s. resolve (cap c) s sb' p)))"
    by (intro obeys_query) simp
qed

lemma obeys_clone:
  assumes "held at (cap c) ls sb" "within_roots at ls h"
  shows "obeys (built sb) (changed_beneath ls) (within_roots at ls) (one_step (query (\<lambda>s. clone_dir (cap c) s h)))"
  by (rule obeys_query) (rule within_roots_clone [OF assms])

lemma held_create:
  assumes "held at (cap c) ls sb" "within_roots at ls d" "cap_create (cap c) s d q = (x, s')"
  shows "changed_beneath ls s s'" and "x = Inr f \<Longrightarrow> within_roots at ls f"
proof -
  have "cap_beneath at (cap c)" using assms(1) by (simp add: held_def)
  then have "changed_below (at s d) s s' \<and> (\<forall>f. x = Inr f \<longrightarrow> prefix (at s d) (at s' f))"
    using assms(3) by (simp add: cap_beneath_def)
  then have c: "changed_below (at s d) s s'" "\<And>f. x = Inr f \<Longrightarrow> prefix (at s d) (at s' f)" by simp_all
  show "changed_beneath ls s s'" by (rule within_roots_changed [OF assms(2) c(1)])
  show "within_roots at ls f" if "x = Inr f" by (rule within_roots_at [OF assms(1,2) c(2) [OF that]])
qed

lemma held_write:
  assumes "held at (cap c) ls sb" "within_roots at ls d"
  shows "changed_beneath ls s (snd (cap_write_all (cap c) s d bs))"
    and "changed_beneath ls s (snd (cap_flush (cap c) s d))"
proof -
  have cap: "cap_beneath at (cap c)" using assms(1) by (simp add: held_def)
  obtain x s' where "cap_write_all (cap c) s d bs = (x, s')" by (cases "cap_write_all (cap c) s d bs")
  then show "changed_beneath ls s (snd (cap_write_all (cap c) s d bs))"
    using cap within_roots_changed [OF assms(2), of s s'] unfolding cap_beneath_def by force
  have "changed_below (at s d) s (snd (cap_flush (cap c) s d))" using cap by (simp add: cap_beneath_def)
  then show "changed_beneath ls s (snd (cap_flush (cap c) s d))" by (rule within_roots_changed [OF assms(2)])
qed

lemma obeys_write:
  assumes "held at (cap c) ls sb" "within_roots at ls (dir r)"
  shows "obeys (built sb) (changed_beneath ls) (\<lambda>u. True) (write_cut c r content)"
  unfolding write_cut_def
proof (rule obeys_then [OF obeys_clone [OF assms]], rule obeys_then [where P = "within_roots at ls"])
  fix d assume d: "within_roots at ls d"
  show "obeys (built sb) (changed_beneath ls) (within_roots at ls) (one_step (update (\<lambda>s.
      map_fst_err (about ''Cannot create file'' (requested r)) (cap_create (cap c) s d (rel r)))))"
  proof (rule obeys_update)
    fix s
    obtain x s' where x: "cap_create (cap c) s d (rel r) = (x, s')" by (cases "cap_create (cap c) s d (rel r)")
    show "changed_beneath ls s (snd (map_fst_err (about ''Cannot create file'' (requested r))
        (cap_create (cap c) s d (rel r))))"
      using held_create(1) [OF assms(1) d x] x by simp
    fix f
    assume "fst (map_fst_err (about ''Cannot create file'' (requested r)) (cap_create (cap c) s d (rel r))) = Inr f"
    then show "within_roots at ls f"
      using held_create(2) [OF assms(1) d x] x by (simp add: result_simps)
  qed
next
  fix fh assume "within_roots at ls fh"
  then show "obeys (built sb) (changed_beneath ls) (\<lambda>u. True)
     (cut_then (one_step (update (\<lambda>s.
        map_fst_err (fs_error ''Cannot write file'') (cap_write_all (cap c) s fh content)))) (\<lambda>u.
      one_step (update (\<lambda>s. map_fst_err (fs_error ''Cannot flush file'') (cap_flush (cap c) s fh)))))"
    by (intro obeys_then [where P = "\<lambda>u. True"] obeys_update)
      (simp_all add: map_fst_err_def held_write [OF assms(1)])
qed

lemma obeys_handle:
  assumes "held at (cap c) ls sb" "within_roots at ls (dir r)" "\<And>s d. changed_below (at s d) s (snd (f s d))"
  shows "obeys (built sb) (changed_beneath ls) (\<lambda>u. True) (handle_cut c r (\<lambda>s d. map_fst_err g (f s d)))"
  unfolding handle_cut_def
  by (rule obeys_then [OF obeys_clone [OF assms(1,2)]], rule obeys_update)
    (auto simp: map_fst_err_def intro: within_roots_changed assms(3))

lemma obeys_reads:
  "obeys (built sb) (changed_beneath ls) (\<lambda>a. True) (metadata_cut c r)"
  "obeys (built sb) (changed_beneath ls) (\<lambda>a. True) (read_cut c r)"
  unfolding metadata_cut_def read_cut_def
  by (intro obeys_then [where P = "\<lambda>a. True"] obeys_query; simp)+

section \<open>The tools\<close>

lemma obeys_if: "(b \<Longrightarrow> obeys I R P c) \<Longrightarrow> (\<not> b \<Longrightarrow> obeys I R P d) \<Longrightarrow> obeys I R P (if b then c else d)"
  by simp

lemma held_handle_ops:
  assumes "held at (cap c) ls sb"
  shows "changed_below (at s h) s (snd (cap_create_dir_all (cap c) s h p))"
    and "changed_below (at s h) s (snd (cap_remove_file (cap c) s h p))"
    and "changed_below (at s h) s (snd (cap_remove_dir (cap c) s h p))"
    and "changed_below (at s h) s (snd (cap_remove_dir_all (cap c) s h p))"
    and "changed_below (at s h) s (snd (cap_set_permissions (cap c) s h p m))"
  using assms by (simp_all add: held_def cap_beneath_ops)

lemma obeys_written:
  assumes "held at (cap c) ls sb" "within_roots at ls (dir r)"
  shows "obeys (built sb) (changed_beneath ls) (\<lambda>u. True) (if b then return_cut () else write_cut c r bs)"
  using obeys_write [OF assms] by (simp add: obeys_no_step)

lemma tool_cuts_obey:
  assumes "held at (cap c) ls sb"
  shows "obeys (built sb) (changed_beneath ls) (\<lambda>a. True) (write_file_cut c cfg args)"
    and "obeys (built sb) (changed_beneath ls) (\<lambda>a. True) (get_file_info_cut c cfg args)"
    and "obeys (built sb) (changed_beneath ls) (\<lambda>a. True) (create_directory_cut c cfg args)"
    and "obeys (built sb) (changed_beneath ls) (\<lambda>a. True) (delete_file_cut c cfg args)"
    and "obeys (built sb) (changed_beneath ls) (\<lambda>a. True) (delete_directory_cut c cfg args)"
    and "obeys (built sb) (changed_beneath ls) (\<lambda>a. True) (set_permissions_cut c cfg args)"
  unfolding write_file_cut_def get_file_info_cut_def create_directory_cut_def delete_file_cut_def
    delete_directory_cut_def set_permissions_cut_def Let_def
  by (intro obeys_if obeys_then [OF obeys_no_step(1)] obeys_then [OF obeys_resolve [OF assms]]
      obeys_then [OF obeys_write [OF assms]] obeys_then [OF obeys_reads(1)]
      obeys_then [OF obeys_handle [OF assms _ held_handle_ops(1) [OF assms]]]
      obeys_then [OF obeys_handle [OF assms _ held_handle_ops(2) [OF assms]]]
      obeys_then [OF obeys_handle [OF assms _ held_handle_ops(5) [OF assms]]]
      obeys_then [OF obeys_if [OF obeys_handle [OF assms _ held_handle_ops(4) [OF assms]]
         obeys_handle [OF assms _ held_handle_ops(3) [OF assms]]]] obeys_no_step; assumption)+

lemma edit_file_cut_obeys:
  assumes "held at (cap c) ls sb"
  shows "obeys (built sb) (changed_beneath ls) (\<lambda>a. True) (edit_file_cut c cfg args)"
proof -
  have written: "obeys (built sb) (changed_beneath ls) (\<lambda>a. True)
      (cut_then (no_step rs) (\<lambda>(text, diffs).
         cut_then (if b then return_cut () else write_cut c r (as_bytes text)) (\<lambda>u. return_cut (g diffs))))"
    if "within_roots at ls (dir r)" for rs b r and g :: "json list \<Rightarrow> json"
    by (rule obeys_then [OF obeys_no_step(1)]) (auto intro: obeys_then [OF obeys_written [OF assms that]] obeys_no_step)
  have "obeys (built sb) (changed_beneath ls) (\<lambda>a. True)
      (case e of None \<Rightarrow> Over Panicked | Some rs \<Rightarrow>
       cut_then (no_step rs) (\<lambda>(text, diffs).
         cut_then (if b then return_cut () else write_cut c r (as_bytes text)) (\<lambda>u. return_cut (g diffs))))"
    if "within_roots at ls (dir r)" for e b r and g :: "json list \<Rightarrow> json"
    using written [OF that] by (auto intro: obeys_no_step split: option.split)
  then show ?thesis
    unfolding edit_file_cut_def Let_def
    by (intro obeys_if obeys_then [OF obeys_no_step(1)] obeys_then [OF obeys_resolve [OF assms]]
        obeys_then [OF obeys_reads(1)] obeys_then [OF obeys_reads(2)] obeys_no_step)
qed

lemma decrypt_file_cut_obeys:
  assumes "held at (cap c) ls sb"
  shows "obeys (built sb) (changed_beneath ls) (\<lambda>a. True) (decrypt_file_cut c lib cfg args)"
proof -
  have reads: "keeps (=) (derive_output c cfg src out suf)" "keeps_cell (derive_output c cfg src out suf)"
    "keeps (=) (output_differs o1 src)" "keeps_cell (output_differs o1 src :: ('a, unit) action)"
    "keeps (=) (read_key_file c lib cfg kf)" "keeps_cell (read_key_file c lib cfg kf)" for src out suf o1 kf
    by (auto simp: output_differs_def read_key_file_def split: option.split)
  show ?thesis
    unfolding decrypt_file_cut_def
    by (intro obeys_then [OF obeys_no_step(1)] obeys_then [OF obeys_resolve [OF assms]]
        obeys_then [OF obeys_reads(2)] obeys_then [OF obeys_write [OF assms]] obeys_no_step
        | (rule obeys_then [OF obeys_reading], (simp add: reads | auto)+) | (auto split: prod.split))+
qed

section \<open>Calls\<close>

definition handle_tool_names :: "string list" where
  "handle_tool_names = [''write_file'', ''edit_file'', ''create_directory'', ''delete_file'', ''delete_directory'',
     ''get_file_info'', ''set_permissions'', ''decrypt_file'']"

lemma cut_handlers_obey:
  assumes "held at (cap (rt env)) ls sb"
  shows "\<forall>(n, c)\<in>set (cut_handlers env cfg args). obeys (built sb) (changed_beneath ls) (\<lambda>a. True) c"
  by (simp add: cut_handlers_def tool_cuts_obey [OF assms] edit_file_cut_obeys [OF assms]
      decrypt_file_cut_obeys [OF assms])

lemma cut_of_tool:
  assumes "name \<in> set handle_tool_names"
  obtains c where "map_of (cut_handlers env cfg args) name = Some c"
proof -
  have "map fst (cut_handlers env cfg args) = handle_tool_names" by (simp add: cut_handlers_def handle_tool_names_def)
  then have "name \<in> fst ` set (cut_handlers env cfg args)" using assms by (metis list.set_map)
  then show thesis using that by (auto dest: weak_map_of_SomeI)
qed

lemma obeys_call:
  assumes "\<And>name. str_param (params req) ''name'' = Some name \<Longrightarrow> is_tool_available name (enabled (server cfg)) \<Longrightarrow>
      obeys I R P (dispatch_cut env r cfg name (Option.bind (params req) (\<lambda>p. jget p ''arguments'')))"
  shows "obeys I R (\<lambda>a. True) (call_cut env r cfg req)"
proof (cases "str_param (params req) ''name''")
  case (Some name)
  then show ?thesis using assms [OF Some]
    by (auto simp: call_cut_def no_step_def intro: obeys_no_step obeys_map)
qed (simp add: call_cut_def no_step_def obeys_no_step)

text \<open>The requests that call such a tool.\<close>

definition handle_calls :: "'d env \<Rightarrow> config \<Rightarrow> ('d, json) cut set" where
  "handle_calls env cfg =
     {call_cut env r cfg req | r req. str_param (params req) ''name'' \<in> Some ` set handle_tool_names}"



section \<open>Requests\<close>


lemma obeys_same_outside:
  assumes "obeys (built sb) (changed_beneath ls) P c" "once w = Some sb"
  shows "obeys (same_outside ls w) (changed_beneath ls) P c"
  using assms(1)
proof (induction rule: obeys.induct)
  case (steps f)
  show ?case
  proof (rule obeys.steps)
    fix v assume v: "same_outside ls w v"
    then have "built sb v" using assms(2) by (simp add: same_outside_def)
    from steps [OF this] have f: "changed_beneath ls (disk v) (disk (snd (f v)))" "built sb (snd (f v))"
      "same_outside ls w (snd (f v)) \<Longrightarrow> obeys (same_outside ls w) (changed_beneath ls) P (fst (f v))"
      by simp_all
    have "changed_beneath ls (disk w) (disk (snd (f v)))"
      using v f(1) unfolding same_outside_def by (blast intro: changed_beneath_trans)
    then have "same_outside ls w (snd (f v))" using f(2) assms(2) by (simp add: same_outside_def)
    with f show "changed_beneath ls (disk v) (disk (snd (f v))) \<and> same_outside ls w (snd (f v)) \<and>
        obeys (same_outside ls w) (changed_beneath ls) P (fst (f v))" by simp
  qed
qed (auto intro: obeys.ends)

lemma obeys_contained:
  assumes "settled at env cfg sb w"
    and "\<And>v. settled at env cfg sb v \<Longrightarrow> at_state (changed_beneath (root_locs at (disk v) sb)) v m" "keeps_cell m"
  shows "obeys (same_outside (root_locs at (disk w) sb) w) (changed_beneath (root_locs at (disk w) sb))
    (\<lambda>a. True) (one_step m)"
proof (rule obeys_one_step)
  fix v assume v: "same_outside (root_locs at (disk w) sb) w v"
  note later = settled_later [OF assms(1) v]
  have c: "changed_beneath (root_locs at (disk w) sb) (disk v) (disk (snd (m v)))"
    using assms(2) [OF later(1)] later(2) by (simp add: at_state_def)
  have "once (snd (m v)) = once v" using assms(3) later(1) by (simp add: keeps_cell_def settled_def)
  with c v show "changed_beneath (root_locs at (disk w) sb) (disk v) (disk (snd (m v))) \<and>
      same_outside (root_locs at (disk w) sb) w (snd (m v))"
    by (auto simp: same_outside_def elim: changed_beneath_trans)
qed simp

lemma settled_held: "settled at env cfg sb w \<Longrightarrow> held at (cap (rt env)) (root_locs at (disk w) sb) sb"
  unfolding settled_def held_def root_locs_def by metis

lemma dispatch_cut_obeys:
  assumes "settled at env cfg sb w" "is_tool_available name (enabled (server cfg))"
  shows "obeys (same_outside (root_locs at (disk w) sb) w) (changed_beneath (root_locs at (disk w) sb))
    (\<lambda>a. True) (dispatch_cut env r cfg name args)"
proof (cases "map_of (cut_handlers env cfg args) name")
  case None
  have "at_state (changed_beneath (root_locs at (disk v) sb)) v (dispatch env r cfg name args)"
    if "settled at env cfg sb v" for v
    using dispatch_contained [of at env v sb name args r cfg] contained_categories [OF assms(2), of args] that
    by (simp add: settled_def inside_def)
  then show ?thesis using None obeys_contained [OF assms(1) _ dispatch_cell] by (simp add: dispatch_cut_def)
next
  case (Some c)
  then have "obeys (built sb) (changed_beneath (root_locs at (disk w) sb)) (\<lambda>a. True) c"
    using cut_handlers_obey [OF settled_held [OF assms(1)], of cfg args] by (auto dest: map_of_SomeD)
  with Some assms(1) show ?thesis
    by (simp add: dispatch_cut_def obeys_same_outside settled_def)
qed

text \<open>The requests that a server may get, in steps.\<close>

definition all_requests :: "'d env \<Rightarrow> config \<Rightarrow> ('d, json) cut set" where
  "all_requests env cfg = {request_cut env r cfg req | r req. True}"



end
