(* ===== verification/Conformance.thy ===== *)
theory Conformance
  imports Launch
begin

text \<open>
  What the unit tests of the repository assert, stated of the model: the modules \<open>tests\<close> at the
  end of the files under \<open>src/\<close> and the cases of \<open>tests/compliance.rs\<close> that need no files. Where
  a test tries some values of a kind, its statement here is for all of them. They tie the
  definitions to the behaviour that the authors fixed; nothing else rests on them.
\<close>

section \<open>structures.rs\<close>

definition trie_of :: "string list \<Rightarrow> trie_node" where
  "trie_of ps = trie_extend new_node (map path_of ps)"

lemma test_path_trie_basic:
  "let trie = trie_of [''/home/user/projects''] in
     trie_contains trie (path_of ''/home/user/projects'') \<and>
     trie_contains trie (path_of ''/home/user/projects/src'') \<and>
     trie_contains trie (path_of ''/home/user/projects/src/main.rs'') \<and>
     \<not> trie_contains trie (path_of ''/home/user'') \<and>
     \<not> trie_contains trie (path_of ''/etc'')"
  by code_simp

lemma test_path_trie_multiple:
  "let trie = trie_of [''/home/user/projects'', ''/var/log''] in
     trie_contains trie (path_of ''/home/user/projects/mcp'') \<and>
     trie_contains trie (path_of ''/var/log/syslog'') \<and>
     \<not> trie_contains trie (path_of ''/home/user'') \<and>
     \<not> trie_contains trie (path_of ''/var'')"
  by code_simp

lemma test_longest_prefix:
  "longest_prefix (trie_of [''/home/user/projects'', ''/home/user''])
       (path_of ''/home/user/projects/mcp/src'') = Some (path_of ''/home/user/projects'')"
  by code_simp

fun pushes :: "'a ring \<Rightarrow> 'a list \<Rightarrow> 'a ring option" where
  "pushes r [] = Some r"
| "pushes r (x # xs) = Option.bind (ring_push r x) (\<lambda>r'. pushes r' xs)"

fun pops :: "nat \<Rightarrow> 'a ring \<Rightarrow> ('a option list \<times> 'a ring) option" where
  "pops 0 r = Some ([], r)"
| "pops (Suc n) r =
     Option.bind (ring_pop r) (\<lambda>(r', x). map_option (\<lambda>(xs, r''). (x # xs, r'')) (pops n r'))"

lemma test_ring_buffer:
  "ring_is_empty (ring_new 3)"
  "map_option ring_is_full (pushes (ring_new 3) [1, 2, 3::nat]) = Some True"
  "Option.bind (pushes (ring_new 3) [1, 2, 3::nat]) ring_to_vec = Some [1, 2, 3]"
  "Option.bind (pushes (ring_new 3) [1, 2, 3, 4::nat]) ring_to_vec = Some [2, 3, 4]"
  "map_option (\<lambda>(xs, r). (xs, ring_is_empty r))
       (Option.bind (pushes (ring_new 3) [1, 2, 3, 4::nat]) (pops 3)) =
     Some ([Some 2, Some 3, Some 4], True)"
  by code_simp+

fun collects :: "nat \<Rightarrow> 'a ring \<times> nat \<Rightarrow> 'a list option" where
  "collects 0 it = Some []"
| "collects (Suc n) it =
     Option.bind (ring_iter_next it) (\<lambda>(it', item).
       case item of None \<Rightarrow> Some [] | Some x \<Rightarrow> map_option (\<lambda>xs. x # xs) (collects n it'))"

lemma test_ring_buffer_iterator:
  "Option.bind (pushes (ring_new 3) [10, 20, 30::nat]) (\<lambda>r. collects 9 (r, 0)) = Some [10, 20, 30]"
  by code_simp

section \<open>tools.rs\<close>

lemma test_is_write_tool:
  "is_write_tool ''write_file'' \<and> is_write_tool ''delete_file'' \<and>
   \<not> is_write_tool ''read_text_file'' \<and> \<not> is_write_tool ''list_allowed_directories''"
  by code_simp

lemma test_all_tools_unique: "distinct (map tool_name all_tools)"
  by code_simp

lemma test_every_tool_has_category:
  "list_all (\<lambda>t. category_of (tool_name t) = Some (category t)) all_tools"
  "category_of ''nonexistent_tool'' = None"
  by code_simp+

lemma test_is_tool_available_gating:
  "\<not> is_tool_available ''read_text_file'' []"
  "is_tool_available ''read_text_file'' [Read]"
  "\<not> is_tool_available ''read_text_file'' [Write]"
  "\<not> is_tool_available ''nonexistent_tool'' all_categories"
  by code_simp+

lemma test_categories_within_limit: "length all_categories \<le> 10"
  by code_simp

section \<open>config.rs and errors.rs\<close>

lemma test_config_defaults:
  "host (server (default_config s)) = ''127.0.0.1''"
  "http_port (server (default_config s)) = 3001"
  "max_file_size (default_config s) = 100 * 1024 * 1024"
  "\<not> follow_symlinks (server (default_config s))"
  by (simp_all add: default_config_def)

lemma test_access_mode_parse:
  "access_mode_from_str ''unrestricted'' = Inr Unrestricted"
  "access_mode_from_str ''readonly'' = Inr ReadOnly"
  "access_mode_from_str ''read-only'' = Inr ReadOnly"
  "\<not> is_ok (access_mode_from_str ''invalid'')"
  by code_simp+

lemma test_error_codes:
  "error_code (ParseError m) = -32700" "error_code (MethodNotFound m) = -32601"
  "error_code (InvalidRequest m) = -32600" "error_code (InvalidParams m) = -32602"
  "error_code (FilesystemError m) = -32000" "error_code (PathNotAllowed m) = -32004"
  "error_code (PathNotFound m) = -32005" "error_code (IoError e) = -32003"
  by simp_all

section \<open>validation.rs\<close>

lemma test_normalize_path: "normalize_path (path_of ''/a/b/../c/./d'') = path_of ''/a/c/d''"
  by code_simp

section \<open>protocol.rs\<close>

lemma validates_jsonrpc_request:
  "is_ok (from_value (obj [(''jsonrpc'', JStr ''2.0''), (''method'', JStr ''ping''), (''id'', JInt 1)]))"
  "\<not> is_ok (from_value (obj [(''jsonrpc'', JStr ''1.0''), (''method'', JStr ''ping'')]))"
  "\<not> is_ok (from_value (JArr []))"
  by code_simp+

lemma test_response_success:
  "resp_jsonrpc (rpc_success i v) = ''2.0''" "resp_result (rpc_success i v) = Some v"
  "resp_error (rpc_success i v) = None"
  by (simp_all add: rpc_success_def)

lemma test_response_error:
  "resp_result (rpc_error i c m) = None" "map_option code (resp_error (rpc_error i c m)) = Some c"
  by (simp_all add: rpc_error_def)

section \<open>resources/mod.rs\<close>

lemma file_uri_round_trip:
  "starts_with (path_to_file_uri (path_of ''/tmp/data folder/readme.md'')) ''file:///''"
  "file_uri_to_path (path_to_file_uri (path_of ''/tmp/data folder/readme.md'')) =
     Inr ''/tmp/data folder/readme.md''"
  by code_simp+

section \<open>server.rs and compliance.rs\<close>

lemma token_comparison_accepts_bearer:
  assumes "sha256 (hash_fns env) (as_bytes ''wrong'') \<noteq> sha256 (hash_fns env) (as_bytes ''secret'')"
  shows "token_matches env ''secret'' ''secret''" "token_matches env ''Bearer secret'' ''secret''"
    and "\<not> token_matches env ''wrong'' ''secret''"
  using assms by (simp_all add: token_matches_def Let_def strip_prefix_def trim_word printable_def)

lemma capped_reader_rejects_oversize_lines:
  assumes "newline_byte \<notin> set line" "m < length line"
  shows "read_line_capped m [] [Inr line] = (Inr TooLong, [])"
proof -
  have "position newline_byte line = None"
    using assms(1) by (induction line) auto
  with assms(2) show ?thesis by auto
qed

lemma browser_tools_reference_ui_resource:
  "Option.bind (Option.bind (jget (enhance_tool_descriptor
       (obj [(''name'', JStr ''list_directory''), (''description'', JStr ''list''),
             (''inputSchema'', obj [(''type'', JStr ''object'')])])) ''_meta'') (\<lambda>m. jget m ''ui''))
     (\<lambda>u. jget u ''resourceUri'') = Some (JStr ui_resource_uri)"
  by code_simp

lemma tool_results_include_structured_content:
  "jget (tool_success env ''list_directory'' (obj [(''entries'', JArr [])])) ''isError'' = Some (JBool False)"
  "jget (tool_success env ''list_directory'' (obj [(''entries'', JArr [])])) ''structuredContent'' =
     Some (obj [(''entries'', JArr [])])"
  by (simp_all add: tool_success_def call_result_def Let_def put_meta_def has_browser_ui_def obj_def
      on_object_def is_object_def)

text \<open>Versions of the protocol: each that is supported is echoed, every other is answered with the latest.\<close>

lemma initialize_negotiates_supported_versions:
  assumes "is_supported_protocol_version v"
  shows "jget (handle_initialize env (req\<lparr>params := Some (obj [(''protocolVersion'', JStr v)])\<rparr>))
           ''protocolVersion'' = Some (JStr v)"
  using assms by (simp add: handle_initialize_def negotiated_version_def str_param_def obj_def)

lemma initialize_falls_back_and_is_honest:
  assumes "\<not> is_supported_protocol_version v"
  shows "jget (handle_initialize env (req\<lparr>params := Some (obj [(''protocolVersion'', JStr v)])\<rparr>))
           ''protocolVersion'' = Some (JStr latest_protocol_version)"
  using assms by (simp add: handle_initialize_def negotiated_version_def str_param_def obj_def)

section \<open>http.rs\<close>

lemma validates_same_origin_or_allowlist:
  "origin_allowed [(''host'', ''example.com''), (''origin'', ''https://example.com'')] []"
  "origin_allowed [(''host'', ''example.com''), (''origin'', ''https://apps.example.net'')]
     [''https://apps.example.net'']"
  "\<not> origin_allowed [(''host'', ''example.com''), (''origin'', ''https://apps.example.net'')] []"
  by code_simp+

lemma parses_accept_headers:
  "accepts [(''accept'', ''application/json, text/event-stream'')] ''application/json''"
  "accepts [(''accept'', ''application/json, text/event-stream'')] ''text/event-stream''"
proof -
  have "str_split CHR '','' ''application/json, text/event-stream'' = [''application/json'', '' text/event-stream'']"
    "str_split CHR '';'' ''application/json'' = [''application/json'']"
    "str_split CHR '';'' '' text/event-stream'' = ['' text/event-stream'']"
    "header_str [(''accept'', ''application/json, text/event-stream'')] ''accept'' =
       Some ''application/json, text/event-stream''"
    by code_simp+
  then show "accepts [(''accept'', ''application/json, text/event-stream'')] ''application/json''"
    "accepts [(''accept'', ''application/json, text/event-stream'')] ''text/event-stream''"
    by (simp_all add: accepts_def media_type_def trim_word trim_blank printable_def)
qed

lemma rejects_unknown_protocol_versions:
  "reject_protocol_version [(''mcp-protocol-version'', ''1900-01-01'')] \<noteq> None"
  by code_simp

end
