(* ===== verification/Spec2Isabelle.thy ===== *)
theory Spec2Isabelle
  imports Sandbox_Properties File_Properties Dir_Properties Csv_Properties Compress_Properties
    Crypto_Properties Resource_Properties Server_Properties Http_Properties Panic_Properties
    Run_Properties Interleaved_Properties Launch_Properties Race_Properties
    Step_Properties Conformance
begin

text \<open>
  A model of the filesystem server for the Model Context Protocol, \<open>mcp-filesystem\<close>: a program
  that offers tools on files (reading, writing, searching, CSV, compression, encryption) to a
  client that speaks JSON-RPC over standard input or HTTP, and that is to keep every tool inside
  a list of allowed directories.

  \<^bold>\<open>The program.\<close> A request comes in as a line (\<open>src/server.rs\<close>) or as the body of a \<open>POST\<close>
  (\<open>src/http.rs\<close>), is read by \<open>src/protocol.rs\<close>, and goes through \<open>process_request\<close> to the list
  of tools, to the resources (\<open>src/resources/mod.rs\<close>) or to \<open>handle_tools_call\<close>, which checks
  the enabled categories and the access mode against the registry of \<open>src/tools.rs\<close> and calls
  the handler of the tool in \<open>src/actions/\<close>. A handler takes its arguments apart
  (\<open>actions/args.rs\<close>), lets the sandbox of \<open>src/validation.rs\<close> resolve its paths, and works
  through the resolved capability handle or, in a blocking task, through \<open>std::fs\<close> at the
  canonical path. The sandbox finds the allowed root of a path in the trie of
  \<open>src/structures.rs\<close>; \<open>src/config.rs\<close> and \<open>src/lib.rs\<close> make the configuration out of the
  command line, and \<open>src/main.rs\<close> starts the server.

  \<^bold>\<open>The theories\<close>, in the order of their imports:
  \<^item> foundations: \<open>Prelude\<close> (results, machine integers, rendering and parsing of numbers),
    \<open>Utf8\<close>, \<open>Rust_Str\<close> and \<open>Paths\<close> (what is used of \<open>str\<close> and \<open>std::path\<close>), \<open>Json\<close>
    (\<open>serde_json::Value\<close>), \<open>Errors\<close> (\<open>src/errors.rs\<close>), \<open>File_System\<close> (\<open>std::fs\<close> on a tree of
    files, directories and symbolic links);
  \<^item> data structures: \<open>Path_Trie\<close> and \<open>Ring_Buffer\<close> (\<open>src/structures.rs\<close>), each behind a locale
    (\<open>prefix_index\<close>, \<open>bounded_queue\<close>) that states what its client relies on;
  \<^item> configuration: \<open>Tools\<close> (\<open>src/tools.rs\<close>), \<open>Config\<close> (\<open>src/config.rs\<close>, \<open>src/lib.rs\<close>);
  \<^item> sandbox: \<open>Sandbox\<close> (\<open>src/validation.rs\<close>: \<open>normalize_path\<close>, \<open>check_symlinks_in_path\<close>,
    \<open>resolve\<close>, the operations of \<open>Resolved\<close> and those on two paths), \<open>Containment\<close> (the contract
    \<open>cap_beneath\<close> of the handles, and what each operation can change; locale \<open>path_guard\<close>),
    \<open>Beneath_Cap\<close> (handles that meet the contract, and the small world of the witnesses);
  \<^item> tools: \<open>Actions\<close> (the effects of a handler: files, the cell of the sandbox, errors, panics;
    locale \<open>effect_order\<close>), \<open>Args\<close>, \<open>Util\<close>, \<open>Text_Files\<close> and \<open>Files\<close> (\<open>actions/files.rs\<close>), \<open>Dirs\<close>
    (\<open>actions/dirs.rs\<close>), \<open>Csv\<close>, \<open>Compress\<close>, \<open>Crypto\<close>, one handler of the source for each
    definition of its name;
  \<^item> the server: \<open>Protocol\<close>, \<open>Resources\<close>, \<open>Server\<close> (descriptors, the table of handlers, requests,
    lines of bounded length, the loop \<open>run_stdio\<close>), \<open>Http\<close> (handlers, routes, and the relation
    \<open>serves\<close> of runs of one request after the other), \<open>Interleaved\<close> (the relation \<open>overlaps\<close> of
    runs in which requests overlap: what a handler does before it awaits \<open>process_request_http\<close>,
    the jobs under way, and clients that go away), \<open>Launch\<close> (\<open>main\<close>, and \<open>create_http_server\<close>
    up to its socket);
  \<^item> steps: \<open>Steps\<close> (the tools that work through handles, cut where other tasks have their turn),
    \<open>Request_Steps\<close> (requests in steps, and the relation \<open>weaves\<close> of runs in which the steps of
    many requests and of other processes come in any order);
  \<^item> lemmas on effects: \<open>File_Effects\<close>, \<open>Std_Effects\<close>, \<open>Server_Effects\<close> (what a handler, a request
    or a run does to the files), \<open>Panics\<close> (which actions cannot panic), \<open>Calendar\<close>;
  \<^item> the theories \<open>.._Properties\<close> hold the properties, each with its number, and their witnesses;
    \<open>Conformance\<close> states of the model what the unit tests of the repository assert.

  \<^bold>\<open>State and effects.\<close> A handler is an action \<open>'d proc \<Rightarrow> 'a outcome \<times> 'd proc\<close>: \<open>disk\<close> is the tree
  of files with the current directory, \<open>once\<close> the cell that \<open>config.sandbox()\<close> fills, and the
  outcome a value, an error of \<open>MCSError\<close> or a panic. \<open>then_do\<close> is \<open>?\<close>, \<open>query\<close> and \<open>update\<close> look at
  the files and change them, \<open>run_blocking\<close> is \<open>blocking(..).await\<close>, which turns the panic of a
  task into an error when the program unwinds and ends it when the program aborts, as its
  release profile says (\<open>unwinds\<close>). The HTTP server adds the set of sessions. Machine integers
  wrap or saturate where the source does; strings are lists of bytes, and validity of UTF-8
  is the predicate \<open>valid_str\<close>.

  \<^bold>\<open>What the theorems show.\<close>
  \<^item> The sandbox: an accepted path is canonical and below an allowed directory, which is the
    longest one; without \<open>--follow-symlinks\<close> no component of it is a link; every other path is
    rejected (C1 to C4, on the trie's law that a lookup finds the longest stored prefix).
  \<^item> Containment: the tools that write single files, a request with the categories read, write,
    delete and CSV, and the tools that transform files change nothing outside the allowed
    directories (C5, C7, C11), under the contract of the handles and with the exceptions that
    their statements name. Whole runs over either transport keep to them as well, as the state
    that one request leaves is one that the next may start from (C8, C9), and so do requests
    whose steps interleave (C10). What goes through a handle stays inside even when other
    processes change the files between its steps (C12).
  \<^item> Gates: read-only servers never write (C6); a tool runs only when its category is enabled,
    which is what the command line says (C13, C25); without the token nothing happens (C15).
  \<^item> Runs: the server on standard input treats the lines of its input, however it is cut, and
    each request gets its one answer (C20, C21), of the type the protocol asks for (C36). Apart
    from one request nothing panics, so that everything is answered (C14). The sessions over
    HTTP are those of the protocol (C19); requests may overlap there, and each still belongs to
    a session that was alive when it came in and can still be answered (C16, C17). A run of one
    request after the other is one of the overlapping runs (C18), and a request is what its
    steps amount to (C22).
  \<^item> The tools: round trips of encryption and of URIs; edits as repeated replacement; tails,
    ranges and listings exact and bounded; trees, archives and decompressed files limited; CSV
    edits within bounds; dates right (C23, C24, C26 to C35, C37 to C39).
  \<^item> Defects that the modelling showed are theorems as well (C40, and lemmas beside the tools).

  \<^bold>\<open>Bounds and fuel.\<close> Resolving a path follows at most \<open>max_links\<close> = 40 links, as Linux does, which
  makes it total. \<open>build_tree\<close> recurses on the depth left, \<open>max_tree_depth\<close> = 64, as the source
  does with its own counter. \<open>run_stdio\<close> consumes its input: \<open>reader_size\<close> falls with every line.
  No other loop needs a bound: they recurse on lists.

  \<^bold>\<open>Parameters.\<close> Code that is not in the repository is an argument: the handles of \<open>cap-std\<close>
  (\<open>cap_std\<close>), \<open>walkdir\<close>, \<open>globset\<close> and \<open>regex\<close> (\<open>walk_lib\<close>), \<open>csv\<close>, the codecs and \<open>tar\<close>, the
  ciphers, key encapsulation and hashes, \<open>infer\<close>, \<open>content_inspector\<close>, base64, hex, memory maps,
  \<open>serde_json\<close>'s parser and printer, and what \<open>axum\<close> answers by itself. A property that relies on
  one of them says so as a hypothesis (\<open>cap_beneath\<close>, \<open>parses_utf8\<close>, the laws of a cipher), and its
  witness meets it with a concrete one. What the random generator draws and whether a timeout
  fires are inputs of a turn.

  \<^bold>\<open>Not modelled.\<close> What \<open>rustls\<close> does with its certificates, the sockets, the page under
  \<open>app/ui\<close>, the PHP proxy, the tests, the lines of the log, the allocator and the runtime: they
  call libraries and have no logic of their own. The tools that go back to a path by name (moves,
  copies, CSV, compression, encryption, and those that only read) are one step in \<open>Request_Steps\<close>:
  what other tasks do between their accesses is outside the model, and \<open>Race_Properties\<close> shows
  that they would lose such races. Times, owners, permission bits, hard links, failures of the
  storage and of standard output, and the limits of memory are left out. An archive is read before
  its entries are unpacked, so one that overwrites itself is outside too. The containment of runs
  is stated for handles that stay where they were opened; what becomes of the handles of allowed
  directories that are moved themselves is left to \<open>cap-std\<close>.
\<close>

end
